(* ===== verification/Prelude.thy ===== *)
theory Prelude
  imports Main "HOL-Library.Sublist" "HOL-Library.Word" "HOL-Library.Signed_Division"
    "HOL-Library.Char_ord" "HOL-Library.List_Lexorder"
begin

text \<open>
  Shared vocabulary of the development: the pieces of the Go language and of its standard
  library that the modelled packages use, with the lemmas every component needs.

  \<^item> strings are byte strings (\<open>string\<close>, a list of \<open>char\<close>); \<open>Split\<close>, \<open>TrimSuffix\<close>,
    \<open>HasPrefix\<close>, \<open>Contains\<close>, \<open>TrimSpace\<close>, \<open>ToLower\<close>, \<open>EqualFold\<close> are the functions of package \<open>strings\<close>
    (the last three on the ASCII range);
  \<^item> \<open>fmt_d\<close> is the verb \<open>%d\<close> of package \<open>fmt\<close>;
  \<^item> \<open>set_add\<close> is the idiom \<open>if added := s.Add(x); added then out = append(out, x)\<close> that the
    code uses to keep a slice free of duplicates, and \<open>set_adds\<close> its loop;
  \<^item> \<open>uint16\<close> and \<open>uint32\<close> are words, so conversions from wider integers wrap as in Go.
\<close>

type_synonym uint16 = "16 word"
type_synonym uint32 = "32 word"
type_synonym uint64 = "64 word"

named_theorems gostr "facts about the string functions of the model"
named_theorems dedup "facts about duplicate-free appending"

section \<open>Strings\<close>

fun Split :: "char \<Rightarrow> string \<Rightarrow> string list" where
  "Split c [] = [[]]"
| "Split c (x # xs) =
     (if x = c then [] # Split c xs
      else (case Split c xs of [] \<Rightarrow> [[x]] | y # ys \<Rightarrow> (x # y) # ys))"

definition TrimSuffix :: "string \<Rightarrow> string \<Rightarrow> string" where
  "TrimSuffix s suf = (if suffix suf s then take (length s - length suf) s else s)"

definition HasPrefix :: "string \<Rightarrow> string \<Rightarrow> bool" where
  "HasPrefix s p \<longleftrightarrow> take (length p) s = p"

definition Contains :: "string \<Rightarrow> string \<Rightarrow> bool" where
  "Contains s sub \<longleftrightarrow> sublist sub s"

definition lower_char :: "char \<Rightarrow> char" where
  "lower_char c =
     (let n = (of_char c :: nat) in if 65 \<le> n \<and> n \<le> 90 then char_of (n + 32) else c)"

definition ToLower :: "string \<Rightarrow> string" where
  "ToLower s = map lower_char s"

definition EqualFold :: "string \<Rightarrow> string \<Rightarrow> bool" where
  "EqualFold s t \<longleftrightarrow> ToLower s = ToLower t"

definition is_space :: "char \<Rightarrow> bool" where
  "is_space c \<longleftrightarrow> (let n = (of_char c :: nat) in n = 32 \<or> (9 \<le> n \<and> n \<le> 13))"

definition TrimSpace :: "string \<Rightarrow> string" where
  "TrimSpace s = rev (dropWhile is_space (rev (dropWhile is_space s)))"

lemma Split_neq_Nil [simp]: "Split c s \<noteq> []"
  by (induction s) (auto split: list.splits)

lemma Split_no_sep [gostr]: "c \<notin> set s \<Longrightarrow> Split c s = [s]"
  by (induction s) auto

lemma Split_append_sep [gostr]: "c \<notin> set a \<Longrightarrow> Split c (a @ c # b) = a # Split c b"
  by (induction a) auto

lemma Split_append: "Split c (a @ c # b) = Split c a @ Split c b"
  by (induction a) (auto split: list.splits)

lemma Split_length_1_iff: "length (Split c s) = Suc 0 \<longleftrightarrow> c \<notin> set s"
proof (induction s)
  case Nil
  then show ?case by simp
next
  case (Cons x xs)
  then show ?case
    by (cases "Split c xs") (auto simp: length_Suc_conv)
qed

lemma Split_parts_no_sep: "p \<in> set (Split c s) \<Longrightarrow> c \<notin> set p"
proof (induction s arbitrary: p)
  case Nil
  then show ?case by simp
next
  case (Cons x xs)
  then show ?case
    by (cases "Split c xs") (auto split: if_splits)
qed

text \<open>Joining the parts again gives the string back, so \<^const>\<open>Split\<close> loses nothing.\<close>

fun Join :: "char \<Rightarrow> string list \<Rightarrow> string" where
  "Join c [] = []"
| "Join c [x] = x"
| "Join c (x # y # ys) = x @ c # Join c (y # ys)"

lemma Join_cons_char: "Join c ((x # y) # ys) = x # Join c (y # ys)"
  by (cases ys) auto

lemma Join_Split: "Join c (Split c s) = s"
proof (induction s)
  case Nil
  then show ?case by simp
next
  case (Cons x xs)
  then show ?case
    by (cases "Split c xs") (auto simp: Join_cons_char)
qed

lemma Split_inj: "Split c s = Split c t \<Longrightarrow> s = t"
  by (metis Join_Split)

lemma TrimSuffix_append [simp]: "TrimSuffix (s @ suf) suf = s"
  by (auto simp: TrimSuffix_def suffix_def)

lemma HasPrefix_iff_prefix: "HasPrefix s p \<longleftrightarrow> prefix p s"
  unfolding HasPrefix_def
  by (metis append_eq_conv_conj append_take_drop_id prefix_def)

lemma EqualFold_refl [simp]: "EqualFold s s"
  by (simp add: EqualFold_def)

text \<open>Cutting two strings at the first separator, the fact behind every injectivity lemma
  on composed names.\<close>

lemma append_sep_unique:
  assumes "x @ c # y = a @ c # b" "c \<notin> set a" "c \<notin> set b"
  shows "x = a \<and> y = b"
proof -
  obtain us where "(x = a @ us \<and> us @ c # y = c # b) \<or> (x @ us = a \<and> c # y = us @ c # b)"
    using assms(1) by (auto simp: append_eq_append_conv2)
  then show ?thesis
    using assms(2,3) by (cases us) (auto dest!: arg_cong [where f = "\<lambda>z. c \<in> set z"])
qed

lemma append_sep_inj [gostr]:
  fixes c :: char
  assumes "c \<notin> set a" "c \<notin> set a'"
  shows "a @ c # b = a' @ c # b' \<longleftrightarrow> a = a' \<and> b = b'"
proof
  assume eq: "a @ c # b = a' @ c # b'"
  then have "Split c (a @ c # b) = Split c (a' @ c # b')" by simp
  then have "a = a'" using assms by (simp add: Split_append_sep)
  with eq show "a = a' \<and> b = b'" by simp
qed simp

section \<open>Decimal numerals\<close>

definition digit_char :: "nat \<Rightarrow> char" where
  "digit_char d = char_of (48 + d)"

fun fmt_nat :: "nat \<Rightarrow> string" where
  "fmt_nat n = (if n < 10 then [digit_char n] else fmt_nat (n div 10) @ [digit_char (n mod 10)])"

declare fmt_nat.simps [simp del]

definition fmt_d :: "int \<Rightarrow> string" where
  "fmt_d i = (if i < 0 then CHR ''-'' # fmt_nat (nat (- i)) else fmt_nat (nat i))"

definition fmt_u16 :: "uint16 \<Rightarrow> string" where
  "fmt_u16 w = fmt_nat (unat w)"

definition is_digit :: "char \<Rightarrow> bool" where
  "is_digit c \<longleftrightarrow> (let n = (of_char c :: nat) in 48 \<le> n \<and> n \<le> 57)"

definition digit_val :: "char \<Rightarrow> nat" where
  "digit_val c = of_char c - 48"

definition dec_val :: "string \<Rightarrow> nat" where
  "dec_val s = foldl (\<lambda>v c. v * 10 + digit_val c) 0 s"

lemma of_char_digit_char: "d < 10 \<Longrightarrow> of_char (digit_char d) = 48 + d"
  by (simp add: digit_char_def)

lemma digit_val_digit_char [simp]: "d < 10 \<Longrightarrow> digit_val (digit_char d) = d"
  by (simp add: digit_val_def of_char_digit_char)

lemma is_digit_digit_char [simp]: "d < 10 \<Longrightarrow> is_digit (digit_char d)"
  by (simp add: is_digit_def of_char_digit_char Let_def)

lemma fmt_nat_neq_Nil [simp]: "fmt_nat n \<noteq> []"
  by (subst fmt_nat.simps) simp

lemma fmt_nat_digits: "c \<in> set (fmt_nat n) \<Longrightarrow> is_digit c"
proof (induction n rule: fmt_nat.induct)
  case (1 n)
  then show ?case
    by (subst (asm) (2) fmt_nat.simps) (auto split: if_splits)
qed

lemma dec_val_snoc: "dec_val (s @ [c]) = dec_val s * 10 + digit_val c"
  by (simp add: dec_val_def)

lemma dec_val_fmt_nat [simp]: "dec_val (fmt_nat n) = n"
proof (induction n rule: fmt_nat.induct)
  case (1 n)
  show ?case
  proof (cases "n < 10")
    case True
    then show ?thesis by (subst fmt_nat.simps) (simp add: dec_val_def)
  next
    case False
    with 1 have "dec_val (fmt_nat (n div 10)) = n div 10" by simp
    with False show ?thesis
      by (subst fmt_nat.simps) (simp add: dec_val_snoc)
  qed
qed

lemma fmt_nat_inj [simp]: "fmt_nat m = fmt_nat n \<longleftrightarrow> m = n"
  by (metis dec_val_fmt_nat)

lemma fmt_u16_inj [simp]: "fmt_u16 a = fmt_u16 b \<longleftrightarrow> a = b"
  by (simp add: fmt_u16_def word_unat_eq_iff)

lemma not_digit_notin_fmt_nat: "\<not> is_digit c \<Longrightarrow> c \<notin> set (fmt_nat n)"
  using fmt_nat_digits by blast

lemma sep_not_digit [simp]:
  "\<not> is_digit CHR ''.''" "\<not> is_digit CHR ''/''" "\<not> is_digit CHR '':''"
  "\<not> is_digit CHR ''|''" "\<not> is_digit CHR ''_''" "\<not> is_digit CHR ''-''"
  by (simp_all add: is_digit_def)

lemma fmt_u16_no_sep [simp]: "\<not> is_digit c \<Longrightarrow> c \<notin> set (fmt_u16 w)"
  by (simp add: fmt_u16_def not_digit_notin_fmt_nat)

section \<open>Appending without duplicates\<close>

definition set_add :: "'a \<Rightarrow> 'a list \<Rightarrow> 'a list" where
  "set_add x xs = (if x \<in> set xs then xs else xs @ [x])"

definition set_adds :: "'a list \<Rightarrow> 'a list \<Rightarrow> 'a list" where
  "set_adds xs ys = fold set_add ys xs"

lemma set_set_add [simp, dedup]: "set (set_add x xs) = insert x (set xs)"
  by (auto simp: set_add_def)

lemma distinct_set_add [simp, dedup]: "distinct (set_add x xs) \<longleftrightarrow> distinct xs"
  by (auto simp: set_add_def)

lemma set_adds_Nil [simp]: "set_adds xs [] = xs"
  by (simp add: set_adds_def)

lemma set_adds_Cons [simp]: "set_adds xs (y # ys) = set_adds (set_add y xs) ys"
  by (simp add: set_adds_def)

lemma set_set_adds [simp, dedup]: "set (set_adds xs ys) = set xs \<union> set ys"
  by (induction ys arbitrary: xs) auto

lemma distinct_set_adds [simp, dedup]: "distinct (set_adds xs ys) \<longleftrightarrow> distinct xs"
  by (induction ys arbitrary: xs) auto

lemma set_adds_append: "set_adds xs (ys @ zs) = set_adds (set_adds xs ys) zs"
  by (simp add: set_adds_def)

lemma set_adds_prefix: "\<exists>zs. set_adds xs ys = xs @ zs"
proof (induction ys arbitrary: xs)
  case (Cons y ys)
  from Cons.IH [of "set_add y xs"] show ?case
    by (auto simp: set_add_def)
qed simp

lemma set_adds_distinct_self [dedup]:
  "distinct (xs @ ys) \<Longrightarrow> set_adds xs ys = xs @ ys"
  by (induction ys arbitrary: xs) (auto simp: set_add_def)

section \<open>First match\<close>

text \<open>
  \<open>for _, x := range xs do if p x then return f x\<close>: the first element that passes.
\<close>

lemma find_Some_iff_split:
  "find P xs = Some x \<longleftrightarrow> (\<exists>ys zs. xs = ys @ x # zs \<and> P x \<and> (\<forall>y \<in> set ys. \<not> P y))"
proof (induction xs)
  case (Cons a xs)
  show ?case
  proof (cases "P a")
    case True
    then show ?thesis by (auto simp: Cons_eq_append_conv)
  next
    case False
    have "(\<exists>ys zs. a # xs = ys @ x # zs \<and> P x \<and> (\<forall>y \<in> set ys. \<not> P y)) \<longleftrightarrow>
          (\<exists>ys zs. xs = ys @ x # zs \<and> P x \<and> (\<forall>y \<in> set ys. \<not> P y))" (is "?l \<longleftrightarrow> ?r")
    proof
      assume ?l
      with False show ?r by (auto simp: Cons_eq_append_conv)
    next
      assume ?r
      then obtain ys zs where "xs = ys @ x # zs" "P x" "\<forall>y \<in> set ys. \<not> P y" by blast
      with False have "a # xs = (a # ys) @ x # zs" "\<forall>y \<in> set (a # ys). \<not> P y" by auto
      with \<open>P x\<close> show ?l by blast
    qed
    with Cons False show ?thesis by simp
  qed
qed simp

lemma find_SomeD: "find P xs = Some x \<Longrightarrow> x \<in> set xs \<and> P x"
  by (auto simp: find_Some_iff_split)

section \<open>Integer conversion\<close>

text \<open>\<open>uint16(x)\<close> keeps the low sixteen bits.\<close>

definition u16 :: "int \<Rightarrow> uint16" where
  "u16 i = word_of_int i"

definition int16u :: "uint16 \<Rightarrow> int" where
  "int16u w = uint w"

lemma u16_int16u [simp]: "u16 (int16u w) = w"
  by (simp add: u16_def int16u_def)

lemma int16u_u16: "0 \<le> i \<Longrightarrow> i < 65536 \<Longrightarrow> int16u (u16 i) = i"
  by (simp add: u16_def int16u_def uint_word_of_int)

lemma int16u_inj [simp]: "int16u a = int16u b \<longleftrightarrow> a = b"
  by (simp add: int16u_def word_uint_eq_iff)

section \<open>Loops that may panic\<close>

text \<open>A loop over a slice whose body updates the state or panics (\<open>None\<close>), and what such a loop keeps.\<close>

primrec fold_opt :: "('a \<Rightarrow> 's \<Rightarrow> 's option) \<Rightarrow> 'a list \<Rightarrow> 's \<Rightarrow> 's option" where
  "fold_opt f [] s = Some s"
| "fold_opt f (x # xs) s = (case f x s of None \<Rightarrow> None | Some s' \<Rightarrow> fold_opt f xs s')"

lemma fold_opt_append:
  "fold_opt f (xs @ ys) s = (case fold_opt f xs s of None \<Rightarrow> None | Some s' \<Rightarrow> fold_opt f ys s')"
  by (induction xs arbitrary: s) (auto split: option.split)

lemma fold_opt_cong [fundef_cong]:
  "xs = ys \<Longrightarrow> s = t \<Longrightarrow> (\<And>x s. x \<in> set ys \<Longrightarrow> f x s = g x s) \<Longrightarrow> fold_opt f xs s = fold_opt g ys t"
  by (induction ys arbitrary: xs s t) (auto split: option.split)

lemma fold_opt_Some: "(\<And>x s. x \<in> set xs \<Longrightarrow> f x s = Some (g x s)) \<Longrightarrow> fold_opt f xs s = Some (fold g xs s)"
  by (induction xs arbitrary: s) auto

text \<open>An invariant that may mention the elements already visited.\<close>

lemma fold_opt_inv:
  assumes "fold_opt f xs s = Some s'" "I [] s"
    "\<And>ys x zs s s'. xs = ys @ x # zs \<Longrightarrow> I ys s \<Longrightarrow> f x s = Some s' \<Longrightarrow> I (ys @ [x]) s'"
  shows "I xs s'"
proof -
  have "fold_opt f zs s = Some s' \<Longrightarrow> xs = ys @ zs \<Longrightarrow> I ys s \<Longrightarrow> I xs s'" for ys zs s
  proof (induction zs arbitrary: ys s)
    case (Cons z zs)
    then obtain t where t: "f z s = Some t" "fold_opt f zs t = Some s'"
      by (auto split: option.splits)
    with Cons.prems assms(3) have "I (ys @ [z]) t" by blast
    with Cons.IH [of t "ys @ [z]"] t Cons.prems show ?case by simp
  qed simp
  from this [of xs s "[]"] assms(1,2) show ?thesis by simp
qed

lemma fold_opt_total:
  assumes "\<And>x s. x \<in> set xs \<Longrightarrow> J s \<Longrightarrow> \<exists>s'. f x s = Some s' \<and> J s'" "J s"
  shows "\<exists>s'. fold_opt f xs s = Some s' \<and> J s'"
  using assms
proof (induction xs arbitrary: s)
  case (Cons x xs)
  then obtain t where "f x s = Some t" "J t" by fastforce
  moreover from Cons.IH [OF Cons.prems(1)] \<open>J t\<close> have "\<exists>s'. fold_opt f xs t = Some s' \<and> J s'" by auto
  ultimately show ?case by auto
qed simp

text \<open>The order in which Go iterates a map or set is an argument of the model; of it only this is
  known.\<close>

definition lists_elements :: "('a set \<Rightarrow> 'a list) \<Rightarrow> bool" where
  "lists_elements ord \<longleftrightarrow> (\<forall>A. finite A \<longrightarrow> set (ord A) = A \<and> distinct (ord A))"

lemma lists_elementsD: "lists_elements ord \<Longrightarrow> finite A \<Longrightarrow> set (ord A) = A \<and> distinct (ord A)"
  by (simp add: lists_elements_def)

lemma lists_elements_sorted: "lists_elements (sorted_list_of_set :: ('a :: linorder) set \<Rightarrow> 'a list)"
  by (simp add: lists_elements_def)

section \<open>Splitting at several separators\<close>

text \<open>\<open>strings.FieldsFunc\<close> cuts at every separator and drops empty fields; \<open>strconv.ParseUint(s, 10, 16)\<close>
  accepts decimal digits up to 65535.\<close>

function FieldsFunc :: "(char \<Rightarrow> bool) \<Rightarrow> string \<Rightarrow> string list" where
  "FieldsFunc sep [] = []"
| "FieldsFunc sep (c # cs) =
     (if sep c then FieldsFunc sep cs
      else (c # takeWhile (\<lambda>d. \<not> sep d) cs) # FieldsFunc sep (dropWhile (\<lambda>d. \<not> sep d) cs))"
  by pat_completeness auto

termination
  by (relation "measure (\<lambda>(_, s). length s)") (auto simp: less_Suc_eq_le length_dropWhile_le)

definition ParseUint16 :: "string \<Rightarrow> uint16 option" where
  "ParseUint16 s =
     (if s \<noteq> [] \<and> list_all is_digit s \<and> dec_val s < 65536 then Some (of_nat (dec_val s)) else None)"

lemma FieldsFunc_sep [simp]: "sep c \<Longrightarrow> FieldsFunc sep (c # cs) = FieldsFunc sep cs"
  by simp

lemma takeWhile_field: "(\<forall>d \<in> set xs. \<not> sep d) \<Longrightarrow> sep c \<Longrightarrow> takeWhile (\<lambda>d. \<not> sep d) (xs @ c # ys) = xs"
  by (simp add: takeWhile_append)

lemma FieldsFunc_field:
  assumes "a \<noteq> []" "\<forall>c \<in> set a. \<not> sep c" "sep c"
  shows "FieldsFunc sep (a @ c # b) = a # FieldsFunc sep b"
proof -
  obtain x xs where a: "a = x # xs" using assms(1) by (cases a) auto
  have "dropWhile (\<lambda>d. \<not> sep d) (xs @ c # b) = c # b"
    using assms(2,3) a by (simp add: dropWhile_append)
  with a assms show ?thesis by (simp add: takeWhile_field)
qed

lemma FieldsFunc_last:
  assumes "a \<noteq> []" "\<forall>c \<in> set a. \<not> sep c"
  shows "FieldsFunc sep a = [a]"
proof -
  obtain x xs where a: "a = x # xs" using assms(1) by (cases a) auto
  have d: "dropWhile (\<lambda>d. \<not> sep d) xs = []" "takeWhile (\<lambda>d. \<not> sep d) xs = xs"
    using assms(2) a by (auto simp: takeWhile_eq_all_conv)
  have "\<not> sep x" using assms(2) a by simp
  then show ?thesis by (simp add: a d)
qed

lemma ParseUint16_fmt_u16 [simp]: "ParseUint16 (fmt_u16 w) = Some w"
proof -
  have "unat w < 65536" using unsigned_less [of w] by simp
  then show ?thesis
    using fmt_nat_digits by (auto simp: ParseUint16_def fmt_u16_def list_all_iff)
qed

end
