(* ===== verification/Identity.thy ===== *)
theory Identity
  imports Prelude
begin

text \<open>
  Package \<open>identity\<close> (\<open>pkg/identity/types.go\<close>): service identities
  \<open><service-account>.<namespace>\<close>, principals \<open><identity>.<trust-domain>\<close> and the conversions
  between them.  \<open>ToK8sServiceAccount\<close> indexes the second chunk of the split identity without a
  length check; the resulting panic is the value \<open>None\<close>.
\<close>

type_synonym ServiceIdentity = string

record K8sServiceAccount =
  sa_Namespace :: string
  sa_Name :: string

definition namespaceNameSeparator :: string where
  "namespaceNameSeparator = ''/''"

definition New :: "string \<Rightarrow> string \<Rightarrow> ServiceIdentity" where
  "New name namespace =
     (if length name > 0 then name @ ''.'' @ namespace else ''default'' @ ''.'' @ namespace)"

definition FromPrincipal :: "string \<Rightarrow> string \<Rightarrow> ServiceIdentity" where
  "FromPrincipal servicePrincipal trustDomain = TrimSuffix servicePrincipal (''.'' @ trustDomain)"

definition WildcardServiceIdentity :: ServiceIdentity where
  "WildcardServiceIdentity = ''*''"

definition WildcardPrincipal :: string where
  "WildcardPrincipal = ''*''"

definition IsWildcard :: "ServiceIdentity \<Rightarrow> bool" where
  "IsWildcard si \<longleftrightarrow> si = WildcardServiceIdentity"

definition AsPrincipal :: "ServiceIdentity \<Rightarrow> string \<Rightarrow> string" where
  "AsPrincipal si trustDomain = (if IsWildcard si then si else si @ ''.'' @ trustDomain)"

definition ToK8sServiceAccount :: "ServiceIdentity \<Rightarrow> K8sServiceAccount option" where
  "ToK8sServiceAccount si =
     (case Split CHR ''.'' si of
        name # namespace # _ \<Rightarrow> Some \<lparr>sa_Namespace = namespace, sa_Name = name\<rparr>
      | _ \<Rightarrow> None)"

definition sa_String :: "K8sServiceAccount \<Rightarrow> string" where
  "sa_String sa = sa_Namespace sa @ namespaceNameSeparator @ sa_Name sa"

definition ToServiceIdentity :: "K8sServiceAccount \<Rightarrow> ServiceIdentity" where
  "ToServiceIdentity sa = New (sa_Name sa) (sa_Namespace sa)"

definition sa_AsPrincipal :: "K8sServiceAccount \<Rightarrow> string \<Rightarrow> string" where
  "sa_AsPrincipal sa trustDomain = AsPrincipal (ToServiceIdentity sa) trustDomain"

text \<open>Service accounts whose two parts are free of dots: those that identities can name.\<close>

definition dot_free :: "string \<Rightarrow> bool" where
  "dot_free s \<longleftrightarrow> CHR ''.'' \<notin> set s"

definition sa_plain :: "K8sServiceAccount \<Rightarrow> bool" where
  "sa_plain sa \<longleftrightarrow> sa_Name sa \<noteq> [] \<and> dot_free (sa_Name sa) \<and> dot_free (sa_Namespace sa)"

lemma ToK8sServiceAccount_dots:
  assumes "dot_free name"
  shows "ToK8sServiceAccount (name @ CHR ''.'' # rest) =
           Some \<lparr>sa_Namespace = hd (Split CHR ''.'' rest), sa_Name = name\<rparr>"
  using assms
  by (cases "Split CHR ''.'' rest")
    (auto simp: ToK8sServiceAccount_def dot_free_def Split_append_sep)

lemma ToK8sServiceAccount_ToServiceIdentity:
  "sa_plain sa \<Longrightarrow> ToK8sServiceAccount (ToServiceIdentity sa) = Some sa"
  by (simp add: sa_plain_def ToServiceIdentity_def New_def ToK8sServiceAccount_dots Split_no_sep
      dot_free_def)

lemma ToServiceIdentity_inj:
  assumes "sa_plain a" "sa_plain b" "ToServiceIdentity a = ToServiceIdentity b"
  shows "a = b"
  using assms ToK8sServiceAccount_ToServiceIdentity by (metis option.inject)

lemma ToK8sServiceAccount_None_iff:
  "ToK8sServiceAccount si = None \<longleftrightarrow> dot_free si"
proof -
  have "ToK8sServiceAccount si = None \<longleftrightarrow> length (Split CHR ''.'' si) = Suc 0"
    by (cases "Split CHR ''.'' si"; cases "tl (Split CHR ''.'' si)")
      (auto simp: ToK8sServiceAccount_def)
  then show ?thesis by (simp add: Split_length_1_iff dot_free_def)
qed

lemma ToK8sServiceAccount_New: "\<exists>sa. ToK8sServiceAccount (New name ns) = Some sa"
  using ToK8sServiceAccount_None_iff [of "New name ns"]
  by (auto simp: New_def dot_free_def)

lemma New_not_wildcard [simp]: "\<not> IsWildcard (New name ns)"
  by (auto simp: New_def IsWildcard_def WildcardServiceIdentity_def append_eq_Cons_conv)

lemma AsPrincipal_inj [simp]: "AsPrincipal a td = AsPrincipal b td \<longleftrightarrow> a = b"
proof -
  have "s @ CHR ''.'' # td \<noteq> ''*''" for s
    by (auto simp: append_eq_Cons_conv)
  then show ?thesis
    by (auto simp: AsPrincipal_def IsWildcard_def WildcardServiceIdentity_def dest: sym)
qed

text \<open>
  C37.  A service account survives the trip through its service identity: for an account with a
  non-empty name whose name and namespace contain no dot, converting to an identity and back
  gives the account itself, so two such accounts never share an identity.
\<close>

theorem service_account_round_trip:
  assumes "sa_Name sa \<noteq> []" "dot_free (sa_Name sa)" "dot_free (sa_Namespace sa)"
  shows "ToK8sServiceAccount (ToServiceIdentity sa) = Some sa"
  using assms ToK8sServiceAccount_ToServiceIdentity by (simp add: sa_plain_def)

theorem service_account_round_trip_witness:
  "ToK8sServiceAccount (ToServiceIdentity \<lparr>sa_Namespace = ''ns'', sa_Name = ''bookbuyer''\<rparr>)
     = Some \<lparr>sa_Namespace = ''ns'', sa_Name = ''bookbuyer''\<rparr>"
  using service_account_round_trip [of "\<lparr>sa_Namespace = ''ns'', sa_Name = ''bookbuyer''\<rparr>"]
  by (simp add: dot_free_def)

text \<open>
  A service account name may contain dots in Kubernetes.  Its identity is then read back
  as another account: the account \<open>a.b\<close> of namespace \<open>c\<close> becomes the account \<open>a\<close> of the
  namespace named by the first label of \<open>b\<close>, whatever \<open>c\<close> is.
\<close>

theorem dotted_service_account_misread:
  assumes "dot_free a" "dot_free b"
  shows "ToK8sServiceAccount (ToServiceIdentity \<lparr>sa_Namespace = c, sa_Name = a @ ''.'' @ b\<rparr>)
           = Some \<lparr>sa_Namespace = b, sa_Name = a\<rparr>"
  using assms
  by (simp add: ToServiceIdentity_def New_def ToK8sServiceAccount_dots Split_append_sep dot_free_def)

theorem dotted_service_account_misread_witness:
  "ToK8sServiceAccount (ToServiceIdentity \<lparr>sa_Namespace = ''tenant'', sa_Name = ''admin'' @ ''.'' @ ''kube''\<rparr>)
     = Some \<lparr>sa_Namespace = ''kube'', sa_Name = ''admin''\<rparr>"
  by (rule dotted_service_account_misread) (simp_all add: dot_free_def)

text \<open>
  Every identity is recovered from its principal, the wildcard included, for every trust
  domain; so under one trust domain distinct identities have distinct principals.
\<close>

theorem principal_round_trip:
  "FromPrincipal (AsPrincipal si trustDomain) trustDomain = si"
proof (cases "IsWildcard si")
  case True
  then show ?thesis
    by (auto simp: FromPrincipal_def AsPrincipal_def IsWildcard_def WildcardServiceIdentity_def
        TrimSuffix_def suffix_def Cons_eq_append_conv)
next
  case False
  then show ?thesis
    using TrimSuffix_append [of si "CHR ''.'' # trustDomain"]
    by (simp add: FromPrincipal_def AsPrincipal_def)
qed

end
