(* ===== verification/Service.thy ===== *)
theory Service
  imports Identity
begin

text \<open>
  Package \<open>service\<close> (\<open>pkg/service/types.go\<close>, \<open>service.go\<close>) and the endpoint type of
  \<open>pkg/endpoint/types.go\<close>: mesh services, the names derived from them (cluster names, match names,
  policy names) and weighted clusters.  The process-wide trust domain is the argument \<open>td\<close> of the
  operations that read it.
\<close>

datatype Locality = LocalNS | LocalCluster | RemoteCluster

record MeshService =
  ms_Namespace :: string
  ms_Name :: string
  ms_Port :: uint16
  ms_TargetPort :: uint16
  ms_Protocol :: string
  ms_ServiceImportUID :: string
  ms_CloudInheritedFrom :: string
  ms_CloudAttachedNamespace :: string

definition Subdomain :: "MeshService \<Rightarrow> string" where
  "Subdomain ms =
     (let nameComponents = Split CHR ''.'' (ms_Name ms) in
      if length nameComponents = 1 then '''' else nameComponents ! 0)"

definition ProviderKey :: "MeshService \<Rightarrow> string" where
  "ProviderKey ms =
     (let nameComponents = Split CHR ''.'' (ms_Name ms) in
      nameComponents ! (length nameComponents - 1))"

definition NamespacedKey :: "MeshService \<Rightarrow> string" where
  "NamespacedKey ms = ms_Namespace ms @ ''/'' @ ProviderKey ms"

definition IsMultiClusterService :: "MeshService \<Rightarrow> bool" where
  "IsMultiClusterService ms \<longleftrightarrow> length (ms_ServiceImportUID ms) > 0"

definition SiblingTo :: "MeshService \<Rightarrow> MeshService \<Rightarrow> bool" where
  "SiblingTo ms svc \<longleftrightarrow> NamespacedKey ms = NamespacedKey svc"

definition ms_String :: "MeshService \<Rightarrow> string" where
  "ms_String ms = ms_Namespace ms @ ''/'' @ ms_Name ms"

definition ClusterName :: "MeshService \<Rightarrow> string" where
  "ClusterName ms = ms_Namespace ms @ ''/'' @ ms_Name ms @ ''|'' @ fmt_u16 (ms_TargetPort ms)"

definition SidecarClusterName :: "MeshService \<Rightarrow> string" where
  "SidecarClusterName ms =
     (if length (ms_CloudAttachedNamespace ms) > 0
      then ms_CloudAttachedNamespace ms @ ''/'' @ ms_Name ms @ ''|'' @ fmt_u16 (ms_TargetPort ms)
      else ms_Namespace ms @ ''/'' @ ms_Name ms @ ''|'' @ fmt_u16 (ms_TargetPort ms))"

definition SidecarLocalClusterName :: "MeshService \<Rightarrow> string" where
  "SidecarLocalClusterName ms =
     ms_Namespace ms @ ''/'' @ ms_Name ms @ ''|'' @ fmt_u16 (ms_TargetPort ms) @ ''|local''"

definition PolicyName :: "MeshService \<Rightarrow> bool \<Rightarrow> string" where
  "PolicyName ms attachedNamespace =
     (if attachedNamespace \<and> length (ms_CloudAttachedNamespace ms) > 0
      then ms_Name ms @ ''.'' @ ms_CloudAttachedNamespace ms
      else ms_Name ms @ ''.'' @ ms_Namespace ms)"

definition OutboundTrafficMatchName :: "MeshService \<Rightarrow> string" where
  "OutboundTrafficMatchName ms =
     ''outbound_'' @ ms_String ms @ ''_'' @ fmt_u16 (ms_Port ms) @ ''_'' @ ms_Protocol ms @ ''_''
       @ ms_CloudAttachedNamespace ms"

definition InboundTrafficMatchName :: "MeshService \<Rightarrow> string" where
  "InboundTrafficMatchName ms =
     ''inbound_'' @ ms_String ms @ ''_'' @ fmt_u16 (ms_TargetPort ms) @ ''_'' @ ms_Protocol ms @ ''_''
       @ ms_CloudAttachedNamespace ms"

definition IngressTrafficMatchName :: "string \<Rightarrow> string \<Rightarrow> uint16 \<Rightarrow> string \<Rightarrow> string" where
  "IngressTrafficMatchName name namespace targetPort protocol =
     ''ingress_'' @ namespace @ ''/'' @ name @ ''_'' @ fmt_u16 targetPort @ ''_'' @ protocol"

definition ms_IngressTrafficMatchName :: "MeshService \<Rightarrow> string" where
  "ms_IngressTrafficMatchName ms =
     IngressTrafficMatchName (ms_Namespace ms) (ms_Name ms) (ms_TargetPort ms) (ms_Protocol ms)"

definition AccessControlTrafficMatchName :: "string \<Rightarrow> string \<Rightarrow> uint16 \<Rightarrow> string \<Rightarrow> string" where
  "AccessControlTrafficMatchName name namespace targetPort protocol =
     ''acl_'' @ namespace @ ''/'' @ name @ ''_'' @ fmt_u16 targetPort @ ''_'' @ protocol"

definition ms_AccessControlTrafficMatchName :: "MeshService \<Rightarrow> string" where
  "ms_AccessControlTrafficMatchName ms =
     AccessControlTrafficMatchName (ms_Namespace ms) (ms_Name ms) (ms_TargetPort ms) (ms_Protocol ms)"

definition ExportedServiceTrafficMatchName :: "string \<Rightarrow> string \<Rightarrow> uint16 \<Rightarrow> string \<Rightarrow> string" where
  "ExportedServiceTrafficMatchName name namespace targetPort protocol =
     ''exp_'' @ namespace @ ''/'' @ name @ ''_'' @ fmt_u16 targetPort @ ''_'' @ protocol"

record WeightedCluster =
  wc_ClusterName :: string
  wc_Weight :: int

subsection \<open>The trust domain of the process\<close>

definition trustDomain_init :: string where
  "trustDomain_init = ''cluster.local''"

definition SetTrustDomain :: "string \<Rightarrow> string \<Rightarrow> string" where
  "SetTrustDomain domain td = (if length domain > 0 then domain else td)"

definition FQDN :: "string \<Rightarrow> MeshService \<Rightarrow> string" where
  "FQDN td ms = ms_Name ms @ ''.'' @ ms_Namespace ms @ ''.svc.'' @ td"

definition ServerName :: "string \<Rightarrow> MeshService \<Rightarrow> string" where
  "ServerName td ms = FQDN td ms"

subsection \<open>Endpoints\<close>

text \<open>An address is the byte string of \<open>net.IP\<close>.\<close>

type_synonym IP = "8 word list"

record Endpoint =
  ep_IP :: IP
  ep_Port :: uint32
  ep_Weight :: uint32
  ep_Priority :: uint32
  ep_AppProtocol :: string
  ep_Zone :: string
  ep_ClusterKey :: string
  ep_LBType :: string
  ep_Path :: string
  ep_ClusterID :: string
  ep_WithGateway :: bool
  ep_WithMultiGateways :: bool
  ep_ViaGatewayHTTP :: string
  ep_ViaGatewayGRPC :: string
  ep_ViaGatewayMode :: string

section \<open>Properties\<close>

lemma SiblingTo_refl [simp]: "SiblingTo a a"
  by (simp add: SiblingTo_def)

lemma SiblingTo_sym: "SiblingTo a b \<longleftrightarrow> SiblingTo b a"
  by (auto simp: SiblingTo_def)

lemma SiblingTo_trans: "SiblingTo a b \<Longrightarrow> SiblingTo b c \<Longrightarrow> SiblingTo a c"
  by (simp add: SiblingTo_def)

lemma ProviderKey_plain [simp]: "dot_free (ms_Name ms) \<Longrightarrow> ProviderKey ms = ms_Name ms"
  by (simp add: ProviderKey_def dot_free_def Split_no_sep)

lemma Subdomain_plain [simp]: "dot_free (ms_Name ms) \<Longrightarrow> Subdomain ms = ''''"
  by (simp add: Subdomain_def dot_free_def Split_no_sep)

lemma name_of_subdomain_and_key:
  assumes "ms_Name ms = sub @ CHR ''.'' # key" "dot_free sub" "dot_free key"
  shows "Subdomain ms = sub" "ProviderKey ms = key"
  using assms
  by (simp_all add: Subdomain_def ProviderKey_def dot_free_def Split_append_sep Split_no_sep)

definition compose_name :: "string \<Rightarrow> string \<Rightarrow> string" where
  "compose_name sub key = (if sub = '''' then key else sub @ ''.'' @ key)"

lemma compose_name_parts:
  assumes "ms_Name ms = compose_name sub key" "dot_free sub" "dot_free key"
  shows "Subdomain ms = sub" "ProviderKey ms = key"
  using assms name_of_subdomain_and_key [of ms sub key]
  by (auto simp: compose_name_def split: if_splits)

definition slash_free :: "string \<Rightarrow> bool" where
  "slash_free s \<longleftrightarrow> CHR ''/'' \<notin> set s"

lemma NamespacedKey_eq_iff:
  assumes "slash_free (ms_Namespace a)" "slash_free (ms_Namespace b)"
  shows "NamespacedKey a = NamespacedKey b \<longleftrightarrow>
           ms_Namespace a = ms_Namespace b \<and> ProviderKey a = ProviderKey b"
  using assms by (simp add: NamespacedKey_def slash_free_def append_sep_inj)

text \<open>
  Service names have the form \<open>[subdomain.]providerKey\<close>.  Two services named from dot-free
  parts are siblings exactly when their namespaces and provider keys agree, whatever their
  subdomains: the per-pod services of one headless service are siblings, and no others are.
\<close>

theorem siblings_share_provider_key:
  assumes "ms_Name a = compose_name sub key" "ms_Name b = compose_name sub' key'"
    and "dot_free sub" "dot_free sub'" "dot_free key" "dot_free key'"
    and "slash_free (ms_Namespace a)" "slash_free (ms_Namespace b)"
  shows "SiblingTo a b \<longleftrightarrow> ms_Namespace a = ms_Namespace b \<and> key = key'"
  using assms compose_name_parts(2) NamespacedKey_eq_iff by (simp add: SiblingTo_def)

definition mysql0 :: MeshService where
  "mysql0 = \<lparr>ms_Namespace = ''db'', ms_Name = ''mysql-0.mysql'', ms_Port = 3306,
     ms_TargetPort = 3306, ms_Protocol = ''tcp'', ms_ServiceImportUID = '''',
     ms_CloudInheritedFrom = '''', ms_CloudAttachedNamespace = ''''\<rparr>"

theorem siblings_share_provider_key_witness:
  "SiblingTo mysql0 (mysql0\<lparr>ms_Name := ''mysql-1.mysql''\<rparr>)"
  using siblings_share_provider_key [of mysql0 "''mysql-0''" "''mysql''"
      "mysql0\<lparr>ms_Name := ''mysql-1.mysql''\<rparr>" "''mysql-1''" "''mysql''"]
  by (simp add: mysql0_def compose_name_def dot_free_def slash_free_def)

lemma ClusterName_shape:
  "ClusterName ms = ms_Namespace ms @ CHR ''/'' # ms_Name ms @ CHR ''|'' # fmt_u16 (ms_TargetPort ms)"
  by (simp add: ClusterName_def)

definition bar_free :: "string \<Rightarrow> bool" where
  "bar_free s \<longleftrightarrow> CHR ''|'' \<notin> set s"

text \<open>
  C38.  Cluster names identify what they name: for namespaces without slash and names without bar,
  two services have the same cluster name only if namespace, name and target port all agree, and
  the name of a local (upstream) cluster is never the name of a remote one.
\<close>

theorem cluster_names_identify:
  assumes "slash_free (ms_Namespace a)" "slash_free (ms_Namespace b)"
    and "bar_free (ms_Name a)" "bar_free (ms_Name b)"
  shows "(ClusterName a = ClusterName b \<longleftrightarrow>
            ms_Namespace a = ms_Namespace b \<and> ms_Name a = ms_Name b \<and>
            ms_TargetPort a = ms_TargetPort b) \<and>
         (SidecarLocalClusterName a = SidecarLocalClusterName b \<longleftrightarrow> ClusterName a = ClusterName b) \<and>
         ClusterName a \<noteq> SidecarLocalClusterName b"
proof (intro conjI)
  show "ClusterName a = ClusterName b \<longleftrightarrow>
          ms_Namespace a = ms_Namespace b \<and> ms_Name a = ms_Name b \<and> ms_TargetPort a = ms_TargetPort b"
    using assms by (simp add: ClusterName_shape slash_free_def bar_free_def append_sep_inj)
  show "SidecarLocalClusterName a = SidecarLocalClusterName b \<longleftrightarrow> ClusterName a = ClusterName b"
    using assms
    by (simp add: SidecarLocalClusterName_def ClusterName_shape slash_free_def bar_free_def
        append_sep_inj)
  show "ClusterName a \<noteq> SidecarLocalClusterName b"
  proof
    assume "ClusterName a = SidecarLocalClusterName b"
    then have "fmt_u16 (ms_TargetPort a) = fmt_u16 (ms_TargetPort b) @ ''|local''"
      using assms
      by (simp add: SidecarLocalClusterName_def ClusterName_shape slash_free_def bar_free_def
          append_sep_inj)
    moreover have "CHR ''|'' \<notin> set (fmt_u16 (ms_TargetPort a))" by simp
    ultimately show False by (metis in_set_conv_decomp)
  qed
qed

theorem cluster_names_identify_witness:
  "ClusterName mysql0 \<noteq> SidecarLocalClusterName mysql0 \<and>
   ClusterName mysql0 \<noteq> ClusterName (mysql0\<lparr>ms_TargetPort := 3307\<rparr>)"
  using cluster_names_identify [of mysql0 mysql0]
    cluster_names_identify [of mysql0 "mysql0\<lparr>ms_TargetPort := 3307\<rparr>"]
  by (simp add: mysql0_def slash_free_def bar_free_def)

text \<open>
  The method forms of the ingress and access-control match names pass the namespace where
  the function expects the name and the other way round: for services whose namespace and name
  differ (and contain no slash), the method never gives the name under which the catalog
  registers the match of that service.
\<close>

theorem match_name_arguments_swapped:
  assumes "ms_Namespace ms \<noteq> ms_Name ms" "slash_free (ms_Namespace ms)" "slash_free (ms_Name ms)"
  shows "ms_IngressTrafficMatchName ms \<noteq>
           IngressTrafficMatchName (ms_Name ms) (ms_Namespace ms) (ms_TargetPort ms) (ms_Protocol ms) \<and>
         ms_AccessControlTrafficMatchName ms \<noteq>
           AccessControlTrafficMatchName (ms_Name ms) (ms_Namespace ms) (ms_TargetPort ms) (ms_Protocol ms)"
  using assms
  by (auto simp: ms_IngressTrafficMatchName_def IngressTrafficMatchName_def
      ms_AccessControlTrafficMatchName_def AccessControlTrafficMatchName_def slash_free_def
      append_sep_inj)

theorem match_name_arguments_swapped_witness:
  "ms_IngressTrafficMatchName mysql0 \<noteq> IngressTrafficMatchName ''mysql-0.mysql'' ''db'' 3306 ''tcp''"
  using match_name_arguments_swapped [of mysql0]
  by (simp add: mysql0_def slash_free_def)

end
