(* ===== verification/Hostnames.thy ===== *)
theory Hostnames
  imports Service
begin

text \<open>
  Host names of services (\<open>pkg/k8s/util.go\<close>): the names under which a service can be addressed
  and the inverse that reads a service name and subdomain off a host name.  A nil controller is
  \<open>None\<close>; a controller is the predicate telling for which names \<open>GetNamespace\<close> is non-nil.
\<close>

record ServiceAccessNames =
  san_MustWithServicePort :: bool
  san_MustWithNamespace :: bool
  san_WithTrustDomain :: bool
  san_Cloud_WithNamespace :: bool

definition with_port :: "string \<Rightarrow> MeshService \<Rightarrow> string" where
  "with_port h svc = h @ '':'' @ fmt_u16 (ms_Port svc)"

text \<open>One \<open>if !san.MustWithServicePort then append name\<close>, then \<open>append name:port\<close>.\<close>

definition host_pair :: "ServiceAccessNames \<Rightarrow> MeshService \<Rightarrow> string \<Rightarrow> string list" where
  "host_pair san svc h =
     (if \<not> san_MustWithServicePort san then [h] else []) @ [with_port h svc]"

fun td_hostnames :: "ServiceAccessNames \<Rightarrow> MeshService \<Rightarrow> string \<Rightarrow> string list \<Rightarrow> string list" where
  "td_hostnames san svc hostname [] = []"
| "td_hostnames san svc hostname (seg # segs) =
     (if length seg = 0 then td_hostnames san svc hostname segs
      else let hostname' = hostname @ ''.'' @ seg in
           host_pair san svc hostname' @ td_hostnames san svc hostname' segs)"

definition GetHostnamesForService ::
  "string \<Rightarrow> MeshService \<Rightarrow> ServiceAccessNames \<Rightarrow> bool \<Rightarrow> string list" where
  "GetHostnamesForService td svc san localNamespace =
     (let short = (if localNamespace \<or> \<not> san_MustWithNamespace san
                   then host_pair san svc (ms_Name svc) else [])
      in if length (ms_CloudInheritedFrom svc) > 0 \<and> \<not> san_Cloud_WithNamespace san
         then short @ host_pair san svc (ms_Name svc)
         else let ns = host_pair san svc (ms_Name svc @ ''.'' @ ms_Namespace svc);
                  full = (if san_WithTrustDomain san
                    then host_pair san svc (ms_Name svc @ ''.'' @ ms_Namespace svc @ ''.svc'')
                      @ td_hostnames san svc (ms_Name svc @ ''.'' @ ms_Namespace svc @ ''.svc'')
                          (Split CHR ''.'' td)
                    else [])
              in short @ ns @ full)"

text \<open>The pair is (service name, subdomain).\<close>

definition splitHostName :: "(string \<Rightarrow> bool) option \<Rightarrow> string \<Rightarrow> string \<times> string" where
  "splitHostName c host0 =
     (let host = Split CHR '':'' host0 ! 0;
          comps = Split CHR ''.'' host;
          l = length comps
      in if l = 1 then (comps ! 0, '''')
         else if l = 2 then
           (case c of
              None \<Rightarrow> (comps ! 0, '''')
            | Some ns_known \<Rightarrow>
                if \<not> ns_known (comps ! 1) then (comps ! 1, comps ! 0) else (comps ! 0, ''''))
         else if l = 3 then
           (case c of
              None \<Rightarrow> if comps ! 2 = ''svc'' then (comps ! 0, '''') else (comps ! 1, comps ! 0)
            | Some ns_known \<Rightarrow>
                if \<not> ns_known (comps ! 2) then (comps ! 0, '''') else (comps ! 1, comps ! 0))
         else if l = 4 then (comps ! 1, comps ! 0)
         else if l = 5 then (comps ! 0, '''')
         else if l = 6 then (comps ! 1, comps ! 0)
         else (comps ! 0, ''''))"

definition GetServiceFromHostname :: "(string \<Rightarrow> bool) option \<Rightarrow> string \<Rightarrow> string" where
  "GetServiceFromHostname c host = fst (splitHostName c host)"

definition GetSubdomainFromHostname :: "(string \<Rightarrow> bool) option \<Rightarrow> string \<Rightarrow> string" where
  "GetSubdomainFromHostname c host = snd (splitHostName c host)"

record NamespacedName =
  nn_Namespace :: string
  nn_Name :: string

definition NamespacedNameFrom :: "string \<Rightarrow> NamespacedName option" where
  "NamespacedNameFrom name =
     (let chunks = Split CHR ''/'' name in
      if length chunks \<noteq> 2 then None
      else Some \<lparr>nn_Namespace = chunks ! 0, nn_Name = chunks ! 1\<rparr>)"

text \<open>\<open>corev1.ClusterIPNone\<close> is \<open>None\<close>.\<close>

definition IsHeadlessService :: "string \<Rightarrow> bool" where
  "IsHeadlessService clusterIP \<longleftrightarrow> length clusterIP = 0 \<or> clusterIP = ''None''"

section \<open>Lemmas\<close>

definition host_free :: "string \<Rightarrow> bool" where
  "host_free s \<longleftrightarrow> CHR ''.'' \<notin> set s \<and> CHR '':'' \<notin> set s"

lemma Split_colon_with_port:
  "CHR '':'' \<notin> set h \<Longrightarrow> Split CHR '':'' (with_port h svc) ! 0 = h"
  by (simp add: with_port_def Split_append_sep)

lemma host_part_of_pair:
  assumes "CHR '':'' \<notin> set h" "x \<in> set (host_pair san svc h)"
  shows "Split CHR '':'' x ! 0 = Split CHR '':'' h ! 0"
  using assms
  by (auto simp: host_pair_def Split_colon_with_port Split_no_sep split: if_splits)

lemma splitHostName_cong:
  "Split CHR '':'' x ! 0 = Split CHR '':'' h ! 0 \<Longrightarrow> splitHostName c x = splitHostName c h"
  unfolding splitHostName_def by (simp only:)

lemmas splitHostName_host_pair = splitHostName_cong [OF host_part_of_pair]

text \<open>The names without port, in the order the code visits them.\<close>

fun td_bases :: "string \<Rightarrow> string list \<Rightarrow> string list" where
  "td_bases h [] = []"
| "td_bases h (seg # segs) =
     (if seg = '''' then td_bases h segs else (h @ ''.'' @ seg) # td_bases (h @ ''.'' @ seg) segs)"

definition host_bases :: "string \<Rightarrow> MeshService \<Rightarrow> ServiceAccessNames \<Rightarrow> bool \<Rightarrow> string list" where
  "host_bases td svc san loc =
     (if loc \<or> \<not> san_MustWithNamespace san then [ms_Name svc] else [])
     @ (if ms_CloudInheritedFrom svc \<noteq> '''' \<and> \<not> san_Cloud_WithNamespace san then [ms_Name svc]
        else [ms_Name svc @ ''.'' @ ms_Namespace svc]
          @ (if san_WithTrustDomain san
             then (ms_Name svc @ ''.'' @ ms_Namespace svc @ ''.svc'')
               # td_bases (ms_Name svc @ ''.'' @ ms_Namespace svc @ ''.svc'') (Split CHR ''.'' td)
             else []))"

lemma td_hostnames_bases:
  "td_hostnames san svc h segs = concat (map (host_pair san svc) (td_bases h segs))"
  by (induction segs arbitrary: h) (auto simp: Let_def)

lemma GetHostnamesForService_bases:
  "GetHostnamesForService td svc san loc = concat (map (host_pair san svc) (host_bases td svc san loc))"
  by (auto simp: GetHostnamesForService_def host_bases_def td_hostnames_bases Let_def)

lemma GetHostnamesForServiceE:
  assumes "h \<in> set (GetHostnamesForService td svc san loc)"
  obtains b where "b \<in> set (host_bases td svc san loc)" "h \<in> set (host_pair san svc b)"
    "set (host_pair san svc b) \<subseteq> set (GetHostnamesForService td svc san loc)"
  using assms by (auto simp: GetHostnamesForService_bases)

lemma Split_init_td: "Split CHR ''.'' trustDomain_init = [''cluster'', ''local'']"
  by (simp add: trustDomain_init_def)

lemma host_bases_default:
  "b \<in> set (host_bases trustDomain_init svc san loc) \<Longrightarrow>
   b \<in> {ms_Name svc,
        ms_Name svc @ ''.'' @ ms_Namespace svc,
        ms_Name svc @ ''.'' @ ms_Namespace svc @ ''.svc'',
        ms_Name svc @ ''.'' @ ms_Namespace svc @ ''.svc.cluster'',
        ms_Name svc @ ''.'' @ ms_Namespace svc @ ''.svc.cluster.local''}"
  by (auto simp: host_bases_def Split_init_td split: if_splits)

definition label_count :: "string \<Rightarrow> nat" where
  "label_count host = length (Split CHR ''.'' (Split CHR '':'' host ! 0))"

lemma label_count_host_pair:
  "CHR '':'' \<notin> set h \<Longrightarrow> x \<in> set (host_pair san svc h) \<Longrightarrow> label_count x = label_count h"
  by (simp add: label_count_def host_part_of_pair)

section \<open>Properties\<close>

text \<open>
  Every generated host name either carries the service port or, when ports are optional, is
  generated together with its \<open>name:port\<close> form; with mandatory ports only names with the port of
  the service are generated.
\<close>

theorem hostnames_carry_port:
  assumes "h \<in> set (GetHostnamesForService td svc san localNamespace)"
  shows "(\<exists>b. h = with_port b svc) \<or>
         (san_MustWithServicePort san = False \<and>
          with_port h svc \<in> set (GetHostnamesForService td svc san localNamespace))"
  using assms by (rule GetHostnamesForServiceE) (auto simp: host_pair_def split: if_splits)

theorem hostnames_carry_port_witness:
  "with_port ''mysql-0.mysql.db'' mysql0 \<in>
     set (GetHostnamesForService trustDomain_init mysql0
        \<lparr>san_MustWithServicePort = False, san_MustWithNamespace = True, san_WithTrustDomain = True,
         san_Cloud_WithNamespace = True\<rparr> False)"
  using hostnames_carry_port [of "''mysql-0.mysql.db''" trustDomain_init mysql0
      "\<lparr>san_MustWithServicePort = False, san_MustWithNamespace = True, san_WithTrustDomain = True,
        san_Cloud_WithNamespace = True\<rparr>" False]
  by (simp add: GetHostnamesForService_def host_pair_def mysql0_def with_port_def)

text \<open>
  C39.  Reading a generated host name back.  With the default trust domain and no controller, the
  service name is recovered from every host name generated for a service with dot-free name and
  namespace, except from the names of exactly four labels (\<open>name.namespace.svc.cluster\<close>), for
  which the namespace is returned as the service.
\<close>

theorem hostname_round_trip:
  assumes "host_free (ms_Name svc)" "host_free (ms_Namespace svc)"
    and "h \<in> set (GetHostnamesForService trustDomain_init svc san localNamespace)"
  shows "GetServiceFromHostname None h = (if label_count h = 4 then ms_Namespace svc else ms_Name svc)"
proof -
  obtain b where b: "b \<in> set (host_bases trustDomain_init svc san localNamespace)"
      "h \<in> set (host_pair san svc b)"
    using assms(3) by (rule GetHostnamesForServiceE)
  have base: "b \<in> {ms_Name svc,
        ms_Name svc @ ''.'' @ ms_Namespace svc,
        ms_Name svc @ ''.'' @ ms_Namespace svc @ ''.svc'',
        ms_Name svc @ ''.'' @ ms_Namespace svc @ ''.svc.cluster'',
        ms_Name svc @ ''.'' @ ms_Namespace svc @ ''.svc.cluster.local''}"
    using b(1) by (rule host_bases_default)
  have colon: "CHR '':'' \<notin> set b"
    using base assms(1,2) by (auto simp: host_free_def)
  have "GetServiceFromHostname None b = (if label_count b = 4 then ms_Namespace svc else ms_Name svc)"
    using base assms(1,2) colon
    by (auto simp: GetServiceFromHostname_def splitHostName_def label_count_def host_free_def
        Split_no_sep Split_append_sep)
  with b(2) colon show ?thesis
    by (simp add: GetServiceFromHostname_def splitHostName_host_pair label_count_host_pair)
qed

definition bookstore_svc :: MeshService where
  "bookstore_svc = \<lparr>ms_Namespace = ''shop'', ms_Name = ''bookstore'', ms_Port = 80,
     ms_TargetPort = 8080, ms_Protocol = ''http'', ms_ServiceImportUID = '''',
     ms_CloudInheritedFrom = '''', ms_CloudAttachedNamespace = ''''\<rparr>"

theorem hostname_round_trip_witness:
  "GetServiceFromHostname None ''bookstore.shop.svc.cluster.local'' = ''bookstore'' \<and>
   GetServiceFromHostname None ''bookstore.shop.svc.cluster'' = ''shop''"
  using hostname_round_trip [of bookstore_svc "''bookstore.shop.svc.cluster.local''"
      "\<lparr>san_MustWithServicePort = False, san_MustWithNamespace = True, san_WithTrustDomain = True,
        san_Cloud_WithNamespace = True\<rparr>" False]
    hostname_round_trip [of bookstore_svc "''bookstore.shop.svc.cluster''"
      "\<lparr>san_MustWithServicePort = False, san_MustWithNamespace = True, san_WithTrustDomain = True,
        san_Cloud_WithNamespace = True\<rparr>" False]
  by (simp add: GetHostnamesForService_def host_pair_def bookstore_svc_def trustDomain_init_def
      host_free_def label_count_def Let_def)

lemma NamespacedNameFrom_iff:
  "NamespacedNameFrom s = Some n \<longleftrightarrow>
     s = nn_Namespace n @ ''/'' @ nn_Name n \<and> slash_free (nn_Namespace n) \<and> slash_free (nn_Name n)"
proof
  assume "NamespacedNameFrom s = Some n"
  then have len: "length (Split CHR ''/'' s) = 2"
      and n: "n = \<lparr>nn_Namespace = Split CHR ''/'' s ! 0, nn_Name = Split CHR ''/'' s ! 1\<rparr>"
    by (auto simp: NamespacedNameFrom_def Let_def split: if_splits)
  obtain x y where xy: "Split CHR ''/'' s = [x, y]"
    using len by (auto simp: numeral_2_eq_2 length_Suc_conv)
  then have "s = x @ ''/'' @ y"
    using Join_Split [of "CHR ''/''" s] by simp
  moreover have "slash_free x" "slash_free y"
    using Split_parts_no_sep [of _ "CHR ''/''" s] xy by (auto simp: slash_free_def)
  ultimately show "s = nn_Namespace n @ ''/'' @ nn_Name n \<and> slash_free (nn_Namespace n) \<and>
      slash_free (nn_Name n)"
    using n xy by simp
next
  assume "s = nn_Namespace n @ ''/'' @ nn_Name n \<and> slash_free (nn_Namespace n) \<and>
    slash_free (nn_Name n)"
  then show "NamespacedNameFrom s = Some n"
    by (simp add: NamespacedNameFrom_def slash_free_def Split_append_sep Split_no_sep)
qed

lemma NamespacedNameFrom_sa_String:
  "slash_free (sa_Namespace sa) \<Longrightarrow> slash_free (sa_Name sa) \<Longrightarrow>
   NamespacedNameFrom (sa_String sa) = Some \<lparr>nn_Namespace = sa_Namespace sa, nn_Name = sa_Name sa\<rparr>"
  by (simp add: NamespacedNameFrom_iff sa_String_def namespaceNameSeparator_def)

end
