(* ===== verification/PolicyTypes.thy ===== *)
theory PolicyTypes
  imports Prelude
begin

text \<open>
  The custom resources of the policy API group (\<open>pkg/apis/policy/v1alpha1\<close>) that the control
  plane reads, one record per Go struct.  A pointer is an option, a slice a list, a duration its
  number of nanoseconds and a \<open>float32\<close> its bit pattern.  Of the Kubernetes object metadata the
  record \<open>ObjectMeta\<close> keeps the fields the code reads.
\<close>

type_synonym duration = int
type_synonym float32 = "32 word"

record ObjectMeta =
  om_Name :: string
  om_Namespace :: string
  om_UID :: string
  om_Labels :: "string \<rightharpoonup> string"
  om_Annotations :: "string \<rightharpoonup> string"

text \<open>\<open>corev1.TypedLocalObjectReference\<close> and \<open>corev1.SecretReference\<close>.\<close>

record TypedLocalObjectReference =
  tr_APIGroup :: "string option"
  tr_Kind :: string
  tr_Name :: string

record SecretReference =
  sr_Name :: string
  sr_Namespace :: string

subsection \<open>Upstream traffic settings\<close>

record HTTPHeaderValue =
  hv_Name :: string
  hv_Value :: string

record HTTPLocalRateLimitSpec =
  hl_Requests :: uint32
  hl_Unit :: string
  hl_Burst :: uint32
  hl_ResponseStatusCode :: uint32
  hl_ResponseHeadersToAdd :: "HTTPHeaderValue list"

record TCPLocalRateLimitSpec =
  tl_Connections :: uint32
  tl_Unit :: string
  tl_Burst :: uint32

record LocalRateLimitSpec =
  lr_TCP :: "TCPLocalRateLimitSpec option"
  lr_HTTP :: "HTTPLocalRateLimitSpec option"

record RateLimitSpec =
  rl_Local :: "LocalRateLimitSpec option"

record HTTPPerRouteRateLimitSpec =
  hp_Local :: "HTTPLocalRateLimitSpec option"

record HTTPRouteSpec =
  hr_Path :: string
  hr_RateLimit :: "HTTPPerRouteRateLimitSpec option"

record HTTPCircuitBreaking =
  cb_StatTimeWindow :: "duration option"
  cb_MinRequestAmount :: uint32
  cb_DegradedTimeWindow :: "duration option"
  cb_SlowTimeThreshold :: "duration option"
  cb_SlowAmountThreshold :: "uint32 option"
  cb_SlowRatioThreshold :: "float32 option"
  cb_ErrorAmountThreshold :: "uint32 option"
  cb_ErrorRatioThreshold :: "float32 option"
  cb_DegradedStatusCode :: "32 word option"
  cb_DegradedResponseContent :: "string option"

record HTTPConnectionSettings =
  hc_MaxRequests :: "uint32 option"
  hc_MaxRequestsPerConnection :: "uint32 option"
  hc_MaxPendingRequests :: "uint32 option"
  hc_MaxRetries :: "uint32 option"
  hc_CircuitBreaking :: "HTTPCircuitBreaking option"

record TCPConnectionSettings =
  tc_MaxConnections :: "uint32 option"
  tc_ConnectTimeout :: "duration option"

record ConnectionSettingsSpec =
  cs_TCP :: "TCPConnectionSettings option"
  cs_HTTP :: "HTTPConnectionSettings option"

record UpstreamTrafficSettingSpec =
  us_Host :: string
  us_ConnectionSettings :: "ConnectionSettingsSpec option"
  us_RateLimit :: "RateLimitSpec option"
  us_HTTPRoutes :: "HTTPRouteSpec list"

record UpstreamTrafficSetting =
  ut_Meta :: ObjectMeta
  ut_Spec :: UpstreamTrafficSettingSpec

subsection \<open>Egress\<close>

record EgressSourceCertSpec =
  ec_SerialNumber :: int
  ec_SubjectAltNames :: "string list"
  ec_Expiration :: string
  ec_Secret :: SecretReference

record EgressSourceMTLSSpec =
  em_Issuer :: string
  em_Cert :: "EgressSourceCertSpec option"

record EgressSourceSpec =
  es_Kind :: string
  es_Name :: string
  es_Namespace :: string
  es_MTLS :: "EgressSourceMTLSSpec option"

record PortSpec =
  ps_Number :: int
  ps_Protocol :: string

record EgressSpec =
  eg_Sources :: "EgressSourceSpec list"
  eg_Hosts :: "string list"
  eg_IPAddresses :: "string list"
  eg_Ports :: "PortSpec list"
  eg_Matches :: "TypedLocalObjectReference list"

record Egress =
  egr_Meta :: ObjectMeta
  egr_Spec :: EgressSpec

record GatewayBindingSubject =
  gb_Service :: string
  gb_Namespace :: string
  gb_Weight :: "int option"

record EgressGateway =
  egw_Meta :: ObjectMeta
  egw_GlobalEgressGateways :: "GatewayBindingSubject list option"

subsection \<open>Ingress backends and access control\<close>

definition KindService :: string where "KindService = ''Service''"
definition KindAuthenticatedPrincipal :: string where
  "KindAuthenticatedPrincipal = ''AuthenticatedPrincipal''"
definition KindIPRange :: string where "KindIPRange = ''IPRange''"

record TLSSpec =
  tls_SkipClientCertValidation :: bool
  tls_SNIHosts :: "string list"

record BackendSpec =
  be_Name :: string
  be_Port :: PortSpec
  be_TLS :: "TLSSpec option"

record IngressSourceSpec =
  is_Kind :: string
  is_Name :: string
  is_Namespace :: string

record IngressBackendSpec =
  ibs_Backends :: "BackendSpec list"
  ibs_Sources :: "IngressSourceSpec list"
  ibs_Matches :: "TypedLocalObjectReference list"

record PolicyStatus =
  st_CurrentStatus :: string
  st_Reason :: string

record IngressBackend =
  ib_Meta :: ObjectMeta
  ib_Spec :: IngressBackendSpec
  ib_Status :: PolicyStatus

record AccessControlBackendSpec =
  ab_Name :: string
  ab_Port :: PortSpec
  ab_TLS :: "TLSSpec option"

record AccessControlSourceSpec =
  as_Kind :: string
  as_Name :: string
  as_Namespace :: string

record AccessControlSpec =
  acs_Backends :: "AccessControlBackendSpec list"
  acs_Sources :: "AccessControlSourceSpec list"
  acs_Matches :: "TypedLocalObjectReference list"

record AccessControl =
  ac_Meta :: ObjectMeta
  ac_Spec :: AccessControlSpec
  ac_Status :: PolicyStatus

subsection \<open>Isolation, retry and warm-up\<close>

record Isolation =
  iso_Meta :: ObjectMeta
  iso_CIDR :: "string list"

record RetrySrcDstSpec =
  rs_Kind :: string
  rs_Name :: string
  rs_Namespace :: string

record RetryPolicySpec =
  rp_RetryOn :: string
  rp_PerTryTimeout :: "duration option"
  rp_NumRetries :: "uint32 option"
  rp_RetryBackoffBaseInterval :: "duration option"

record RetrySpec =
  re_Source :: RetrySrcDstSpec
  re_Destinations :: "RetrySrcDstSpec list"
  re_RetryPolicy :: RetryPolicySpec

record Retry =
  ret_Meta :: ObjectMeta
  ret_Spec :: RetrySpec

end
