(* ===== verification/TrafficPolicy.thy ===== *)
theory TrafficPolicy
  imports Service PolicyTypes
begin

text \<open>
  Package \<open>trafficpolicy\<close>: the types of the computed traffic policies and the operations that
  build and merge them (\<open>pkg/trafficpolicy/*.go\<close>).  Sets of the code (\<open>mapset.Set\<close>) are sets,
  maps are partial functions; \<open>reflect.DeepEqual\<close> is equality of the modelled values (nil and
  empty slices or maps are one value here).
\<close>

datatype PathMatchType = PathMatchRegex | PathMatchExact | PathMatchPrefix

record HTTPRouteMatch =
  hm_Path :: string
  hm_PathMatchType :: PathMatchType
  hm_Methods :: "string list"
  hm_Headers :: "string \<rightharpoonup> string"

record HTTPRouteMatchWithWeightedClusters =
  hmw_UpstreamClusters :: "WeightedCluster list"
  hmw_RouteMatches :: "HTTPRouteMatch list"
  hmw_HasSplitMatches :: bool

record TCPRouteMatch =
  tcpm_Ports :: "uint16 list"

record RouteWeightedClusters =
  rwc_HTTPRouteMatch :: HTTPRouteMatch
  rwc_WeightedClusters :: "WeightedCluster set"
  rwc_RetryPolicy :: "RetryPolicySpec option"
  rwc_RateLimit :: "HTTPPerRouteRateLimitSpec option"

record Rule =
  rule_Route :: RouteWeightedClusters
  rule_AllowedPrincipals :: "string set"

record InboundTrafficPolicy =
  itp_Name :: string
  itp_Hostnames :: "string list"
  itp_Rules :: "Rule list"
  itp_RateLimit :: "RateLimitSpec option"

record OutboundTrafficPolicy =
  otp_Name :: string
  otp_Hostnames :: "string list"
  otp_Routes :: "RouteWeightedClusters list"

record TrafficTargetWithRoutes =
  ttr_Name :: string
  ttr_Destination :: ServiceIdentity
  ttr_Sources :: "ServiceIdentity list"
  ttr_TCPRouteMatches :: "TCPRouteMatch list"

record MeshClusterConfig =
  mcc_Name :: string
  mcc_Service :: MeshService
  mcc_Address :: string
  mcc_Port :: uint32
  mcc_EnableSidecarActiveHealthChecks :: bool
  mcc_UpstreamTrafficSetting :: "UpstreamTrafficSetting option"

record TrafficMatch =
  tm_DestinationPort :: int
  tm_DestinationProtocol :: string
  tm_DestinationIPRanges :: "string list"
  tm_ServerNames :: "string list"
  tm_Cluster :: string
  tm_Name :: string
  tm_WeightedClusters :: "WeightedCluster list"
  tm_RateLimit :: "RateLimitSpec option"
  tm_EgressGateWay :: "string option"

record OutboundMeshTrafficPolicy =
  omp_TrafficMatches :: "TrafficMatch list"
  omp_HTTPRouteConfigsPerPort :: "int \<rightharpoonup> OutboundTrafficPolicy list"
  omp_ClustersConfigs :: "MeshClusterConfig list"
  omp_ServicesResolvableSet :: "string \<rightharpoonup> string list"

record InboundMeshTrafficPolicy =
  imp_TrafficMatches :: "TrafficMatch list"
  imp_HTTPRouteConfigsPerPort :: "int \<rightharpoonup> InboundTrafficPolicy list"
  imp_ClustersConfigs :: "MeshClusterConfig list"

subsection \<open>Egress, ingress, access control, export\<close>

record EgressClusterConfig =
  ecc_Name :: string
  ecc_Host :: string
  ecc_Port :: int
  ecc_UpstreamTrafficSetting :: "UpstreamTrafficSetting option"
  ecc_SourceMTLS :: "EgressSourceMTLSSpec option"

record EgressHTTPRoutingRule =
  err_Route :: RouteWeightedClusters
  err_AllowedDestinationIPRanges :: "string list"

record EgressHTTPRouteConfig =
  ehc_Name :: string
  ehc_Hostnames :: "string list"
  ehc_RoutingRules :: "EgressHTTPRoutingRule list"

record EgressTrafficPolicy =
  etp_TrafficMatches :: "TrafficMatch list"
  etp_HTTPRouteConfigsPerPort :: "int \<rightharpoonup> EgressHTTPRouteConfig list"
  etp_ClustersConfigs :: "EgressClusterConfig list"

record IngressTrafficMatch =
  itm_Name :: string
  itm_Port :: uint32
  itm_Protocol :: string
  itm_SourceIPRanges :: "string list"
  itm_TLS :: "TLSSpec option"
  itm_ServerNames :: "string list"
  itm_SkipClientCertValidation :: bool
  itm_RateLimit :: "RateLimitSpec option"

record IngressTrafficPolicy =
  igp_TrafficMatches :: "IngressTrafficMatch list"
  igp_HTTPRoutePolicies :: "InboundTrafficPolicy list"

record AccessControlTrafficMatch =
  atm_Name :: string
  atm_Port :: uint32
  atm_Protocol :: string
  atm_SourceIPRanges :: "string list"
  atm_TLS :: "TLSSpec option"
  atm_RateLimit :: "RateLimitSpec option"

text \<open>A route policy of an access control or export policy may be a nil pointer.\<close>

record AccessControlTrafficPolicy =
  acp_TrafficMatches :: "AccessControlTrafficMatch list"
  acp_HTTPRoutePolicies :: "InboundTrafficPolicy option list"

record ServiceExportTrafficMatch =
  xtm_Name :: string
  xtm_Port :: uint32
  xtm_Protocol :: string
  xtm_SourceIPRanges :: "string list"
  xtm_TLS :: "TLSSpec option"

record ServiceExportTrafficPolicy =
  xtp_TrafficMatches :: "ServiceExportTrafficMatch list"
  xtp_HTTPRoutePolicies :: "InboundTrafficPolicy option list"

record EgressGatewayConfig =
  egc_Service :: string
  egc_Namespace :: string
  egc_Mode :: string
  egc_Weight :: "int option"
  egc_Endpoints :: "Endpoint list"

section \<open>Merging by key\<close>

text \<open>
  The inner loop that several operations share: look for the first element with the key of the
  new one, combine the two there, append the new one if there is none.
\<close>

fun merge_by :: "('a \<Rightarrow> 'k) \<Rightarrow> ('a \<Rightarrow> 'a \<Rightarrow> 'a) \<Rightarrow> 'a \<Rightarrow> 'a list \<Rightarrow> 'a list" where
  "merge_by key join new [] = [new]"
| "merge_by key join new (x # xs) =
     (if key new = key x then join x new # xs else x # merge_by key join new xs)"

definition merge_all_by :: "('a \<Rightarrow> 'k) \<Rightarrow> ('a \<Rightarrow> 'a \<Rightarrow> 'a) \<Rightarrow> 'a list \<Rightarrow> 'a list \<Rightarrow> 'a list" where
  "merge_all_by key join orig news = fold (merge_by key join) news orig"

section \<open>Operations\<close>

definition RegexMatchAll :: string where "RegexMatchAll = ''.*''"
definition WildcardHTTPMethod :: string where "WildcardHTTPMethod = ''*''"

definition WildCardRouteMatch :: HTTPRouteMatch where
  "WildCardRouteMatch = \<lparr>hm_Path = RegexMatchAll, hm_PathMatchType = PathMatchRegex,
     hm_Methods = [WildcardHTTPMethod], hm_Headers = Map.empty\<rparr>"

definition NewRouteWeightedCluster ::
  "HTTPRouteMatch \<Rightarrow> WeightedCluster list \<Rightarrow> UpstreamTrafficSetting option \<Rightarrow> RouteWeightedClusters" where
  "NewRouteWeightedCluster route weightedClusters upstreamTrafficSetting =
     \<lparr>rwc_HTTPRouteMatch = route, rwc_WeightedClusters = set weightedClusters,
      rwc_RetryPolicy = None,
      rwc_RateLimit =
        (case upstreamTrafficSetting of
           None \<Rightarrow> None
         | Some uts \<Rightarrow>
             (case find (\<lambda>httpRoute. hr_Path httpRoute = hm_Path route) (us_HTTPRoutes (ut_Spec uts)) of
                None \<Rightarrow> None | Some httpRoute \<Rightarrow> hr_RateLimit httpRoute))\<rparr>"

definition NewInboundTrafficPolicy ::
  "string \<Rightarrow> string list \<Rightarrow> UpstreamTrafficSetting option \<Rightarrow> InboundTrafficPolicy" where
  "NewInboundTrafficPolicy name hostnames upstreamTrafficSetting =
     \<lparr>itp_Name = name, itp_Hostnames = hostnames, itp_Rules = [],
      itp_RateLimit = (case upstreamTrafficSetting of None \<Rightarrow> None | Some uts \<Rightarrow> us_RateLimit (ut_Spec uts))\<rparr>"

definition NewOutboundTrafficPolicy :: "string \<Rightarrow> string list \<Rightarrow> OutboundTrafficPolicy" where
  "NewOutboundTrafficPolicy name hostnames =
     \<lparr>otp_Name = name, otp_Hostnames = hostnames, otp_Routes = []\<rparr>"

definition TotalClustersWeight :: "RouteWeightedClusters \<Rightarrow> int" where
  "TotalClustersWeight rwc = (\<Sum>c\<in>rwc_WeightedClusters rwc. wc_Weight c)"

text \<open>The error of \<open>AddRoute\<close>: another route already has this match.\<close>

datatype route_error = RouteAlreadyExists HTTPRouteMatch string

fun add_route ::
  "string \<Rightarrow> HTTPRouteMatch \<Rightarrow> RetryPolicySpec option \<Rightarrow> WeightedCluster set \<Rightarrow>
   RouteWeightedClusters list \<Rightarrow> RouteWeightedClusters list \<times> route_error option" where
  "add_route pname m rp wc [] =
     ([\<lparr>rwc_HTTPRouteMatch = m, rwc_WeightedClusters = wc, rwc_RetryPolicy = rp, rwc_RateLimit = None\<rparr>], None)"
| "add_route pname m rp wc (existingRoute # routes) =
     (if rwc_HTTPRouteMatch existingRoute = m then
        (if rwc_WeightedClusters existingRoute = wc
         then (existingRoute\<lparr>rwc_RetryPolicy := rp\<rparr> # routes, None)
         else (existingRoute # routes, Some (RouteAlreadyExists (rwc_HTTPRouteMatch existingRoute) pname)))
      else (let (routes', err) = add_route pname m rp wc routes in (existingRoute # routes', err)))"

definition AddRoute ::
  "HTTPRouteMatch \<Rightarrow> RetryPolicySpec option \<Rightarrow> WeightedCluster list \<Rightarrow> OutboundTrafficPolicy \<Rightarrow>
   OutboundTrafficPolicy \<times> route_error option" where
  "AddRoute httpRouteMatch retryPolicy weightedClusters out =
     (let (routes, err) = add_route (otp_Name out) httpRouteMatch retryPolicy (set weightedClusters) (otp_Routes out)
      in (out\<lparr>otp_Routes := routes\<rparr>, err))"

definition join_rules :: "Rule \<Rightarrow> Rule \<Rightarrow> Rule" where
  "join_rules original latest =
     original\<lparr>rule_AllowedPrincipals := rule_AllowedPrincipals original \<union> rule_AllowedPrincipals latest\<rparr>"

definition MergeRules :: "Rule list \<Rightarrow> Rule list \<Rightarrow> Rule list" where
  "MergeRules originalRules latestRules = merge_all_by rule_Route join_rules originalRules latestRules"

definition merge_route_clusters ::
  "RouteWeightedClusters \<Rightarrow> RouteWeightedClusters list \<Rightarrow> RouteWeightedClusters list" where
  "merge_route_clusters latest originals =
     (let same = (\<lambda>original. rwc_HTTPRouteMatch original = rwc_HTTPRouteMatch latest);
          merged = map (\<lambda>original. if same original \<and> rwc_WeightedClusters original \<noteq> rwc_WeightedClusters latest
             then original\<lparr>rwc_WeightedClusters := rwc_WeightedClusters original \<union> rwc_WeightedClusters latest\<rparr>
             else original) originals
      in if list_ex same originals then merged else merged @ [latest])"

definition mergeRoutesWeightedClusters ::
  "RouteWeightedClusters list \<Rightarrow> RouteWeightedClusters list \<Rightarrow> RouteWeightedClusters list" where
  "mergeRoutesWeightedClusters originalRoutes latestRoutes = fold merge_route_clusters latestRoutes originalRoutes"

definition slicesUnionIfSubset :: "string list \<Rightarrow> string list \<Rightarrow> string list" where
  "slicesUnionIfSubset first second =
     (if set first \<subseteq> set second \<or> set second \<subseteq> set first
      then sort (remdups (first @ second)) else [])"

text \<open>
  Deduplication through a hash map: the last element written under a hash is kept.  The hash
  function is that of the package \<open>hashstructure\<close>, a parameter that may fail with an error;
  the entries of the map are listed in the order of their first insertion (Go leaves the order
  open).
\<close>

fun hash_all :: "('a \<Rightarrow> 'e + uint64) \<Rightarrow> 'a list \<Rightarrow> 'e + (uint64 \<times> 'a) list" where
  "hash_all hash [] = Inr []"
| "hash_all hash (x # xs) =
     (case hash x of
        Inl err \<Rightarrow> Inl err
      | Inr h \<Rightarrow> (case hash_all hash xs of Inl err \<Rightarrow> Inl err | Inr rest \<Rightarrow> Inr ((h, x) # rest)))"

definition dedup_by_hash :: "('a \<Rightarrow> 'e + uint64) \<Rightarrow> 'a list \<Rightarrow> 'e + 'a list" where
  "dedup_by_hash hash xs =
     (case hash_all hash xs of
        Inl err \<Rightarrow> Inl err
      | Inr hs \<Rightarrow> Inr (map snd (merge_all_by fst (\<lambda>_ latest. latest) [] hs)))"

definition DeduplicateTrafficMatches ::
  "(TrafficMatch \<Rightarrow> 'e + uint64) \<Rightarrow> TrafficMatch list \<Rightarrow> 'e + TrafficMatch list" where
  "DeduplicateTrafficMatches hash matches = dedup_by_hash hash matches"

definition DeduplicateClusterConfigs ::
  "(EgressClusterConfig \<Rightarrow> 'e + uint64) \<Rightarrow> EgressClusterConfig list \<Rightarrow> 'e + EgressClusterConfig list" where
  "DeduplicateClusterConfigs hash configs = dedup_by_hash hash configs"

definition GetEgressTrafficMatchName :: "int \<Rightarrow> string \<Rightarrow> string" where
  "GetEgressTrafficMatchName port protocol = ''egress-'' @ ToLower protocol @ ''.'' @ fmt_d port"

section \<open>Laws of keyed merging\<close>

text \<open>
  A combination that keeps the key of its first argument.  Merging then keeps keys unique and
  collects exactly the keys of both lists.
\<close>

locale keyed_join =
  fixes key :: "'a \<Rightarrow> 'k" and join :: "'a \<Rightarrow> 'a \<Rightarrow> 'a"
  assumes key_join: "key a = key b \<Longrightarrow> key (join a b) = key a"
begin

lemma keys_merge_by: "set (map key (merge_by key join new xs)) = insert (key new) (key ` set xs)"
  by (induction xs) (auto simp: key_join)

lemma distinct_merge_by:
  "distinct (map key xs) \<Longrightarrow> distinct (map key (merge_by key join new xs))"
proof (induction xs)
  case (Cons x xs)
  then show ?case
    using keys_merge_by [of new xs] by (auto simp: key_join)
qed simp

lemma keys_merge_all: "key ` set (merge_all_by key join xs ys) = key ` set xs \<union> key ` set ys"
proof (induction ys arbitrary: xs)
  case (Cons y ys)
  have "key ` set (merge_by key join y xs) = insert (key y) (key ` set xs)"
    using keys_merge_by [of y xs] by simp
  then show ?case using Cons [of "merge_by key join y xs"] by (simp add: merge_all_by_def)
qed (simp add: merge_all_by_def)

lemma distinct_merge_all:
  "distinct (map key xs) \<Longrightarrow> distinct (map key (merge_all_by key join xs ys))"
  by (induction ys arbitrary: xs) (auto simp: merge_all_by_def distinct_merge_by)

end

text \<open>
  When each element carries a set of grants and combining unites them, merging unites the grants
  recorded under every key and nothing else.
\<close>

definition grants :: "('a \<Rightarrow> 'k) \<Rightarrow> ('a \<Rightarrow> 'v set) \<Rightarrow> 'a list \<Rightarrow> 'k \<Rightarrow> 'v set" where
  "grants key val xs k = (\<Union>x\<in>{x \<in> set xs. key x = k}. val x)"

lemma grants_Nil [simp]: "grants key val [] k = {}"
  by (simp add: grants_def)

lemma grants_Cons: "grants key val (x # xs) k = (if key x = k then val x else {}) \<union> grants key val xs k"
  by (auto simp: grants_def)

lemma grants_append [simp]: "grants key val (xs @ ys) k = grants key val xs k \<union> grants key val ys k"
  by (auto simp: grants_def)

lemma mem_grants: "v \<in> grants key val xs k \<longleftrightarrow> (\<exists>x\<in>set xs. key x = k \<and> v \<in> val x)"
  by (auto simp: grants_def)

locale keyed_union = keyed_join +
  fixes val :: "'a \<Rightarrow> 'v set"
  assumes val_join: "key a = key b \<Longrightarrow> val (join a b) = val a \<union> val b"
begin

lemma grants_merge_by:
  "grants key val (merge_by key join new xs) k = grants key val xs k \<union> grants key val [new] k"
  by (induction xs) (auto simp: grants_Cons key_join val_join split: if_splits)

lemma grants_merge_all:
  "grants key val (merge_all_by key join xs ys) k = grants key val xs k \<union> grants key val ys k"
proof (induction ys arbitrary: xs)
  case (Cons y ys)
  have "grants key val (merge_all_by key join (merge_by key join y xs) ys) k =
          grants key val (merge_by key join y xs) k \<union> grants key val ys k"
    by (rule Cons)
  then show ?case by (auto simp: merge_all_by_def grants_merge_by grants_Cons)
qed (simp add: merge_all_by_def)

end

interpretation rule_merge: keyed_union rule_Route join_rules rule_AllowedPrincipals
  by unfold_locales (auto simp: join_rules_def)

interpretation hash_put: keyed_join "fst :: uint64 \<times> 'a \<Rightarrow> uint64" "\<lambda>_ latest. latest"
  by unfold_locales auto

section \<open>Lemmas on the operations\<close>

definition rules_allow :: "Rule list \<Rightarrow> RouteWeightedClusters \<Rightarrow> string set" where
  "rules_allow rules route = grants rule_Route rule_AllowedPrincipals rules route"

lemma mem_rules_allow:
  "p \<in> rules_allow rules route \<longleftrightarrow>
     (\<exists>r\<in>set rules. rule_Route r = route \<and> p \<in> rule_AllowedPrincipals r)"
  by (simp add: rules_allow_def mem_grants)

lemma rules_allow_MergeRules [simp]:
  "rules_allow (MergeRules a b) route = rules_allow a route \<union> rules_allow b route"
  by (simp add: rules_allow_def MergeRules_def rule_merge.grants_merge_all)

lemma distinct_MergeRules:
  "distinct (map rule_Route a) \<Longrightarrow> distinct (map rule_Route (MergeRules a b))"
  by (simp add: MergeRules_def rule_merge.distinct_merge_all)

lemma routes_MergeRules:
  "rule_Route ` set (MergeRules a b) = rule_Route ` set a \<union> rule_Route ` set b"
  by (simp add: MergeRules_def rule_merge.keys_merge_all)

lemma hash_all_Inr:
  "hash_all hash xs = Inr hs \<Longrightarrow> map snd hs = xs \<and> (\<forall>(h, x) \<in> set hs. hash x = Inr h)"
  by (induction xs arbitrary: hs) (auto split: sum.splits)

lemma hash_all_Inl:
  "hash_all hash xs = Inl e \<Longrightarrow> \<exists>x\<in>set xs. hash x = Inl e"
  by (induction xs) (auto split: sum.splits)

lemma merge_by_latest_subset:
  "set (merge_by fst (\<lambda>_ latest. latest) new xs) \<subseteq> insert new (set xs)"
  by (induction xs) auto

lemma merge_all_latest_subset:
  "set (merge_all_by fst (\<lambda>_ latest. latest) xs ys) \<subseteq> set xs \<union> set ys"
proof (induction ys arbitrary: xs)
  case (Cons y ys)
  then show ?case
    using merge_by_latest_subset [of y xs] by (fastforce simp: merge_all_by_def)
qed (simp add: merge_all_by_def)

lemma dedup_by_hash_correct:
  fixes hash :: "'a \<Rightarrow> 'e + uint64"
  assumes "dedup_by_hash hash xs = Inr ys"
  shows "set ys \<subseteq> set xs" "distinct (map hash ys)" "hash ` set ys = hash ` set xs"
proof -
  obtain hs where hs: "hash_all hash xs = Inr hs"
      and ys: "ys = map snd (merge_all_by fst (\<lambda>_ latest. latest) [] hs)"
    using assms by (auto simp: dedup_by_hash_def split: sum.splits)
  let ?m = "merge_all_by fst (\<lambda>_ latest. latest) [] hs"
  have sub: "set ?m \<subseteq> set hs" using merge_all_latest_subset [of "[]" hs] by simp
  have snd_hs: "map snd hs = xs" and ok: "\<And>p. p \<in> set hs \<Longrightarrow> hash (snd p) = Inr (fst p)"
    using hash_all_Inr [OF hs] by auto
  show "set ys \<subseteq> set xs" 
    unfolding ys snd_hs [symmetric] set_map using sub by (rule image_mono)
  have eq: "map hash ys = map Inr (map fst ?m)"
    using sub ok by (auto simp: ys)
  have "distinct (map fst ?m)" using hash_put.distinct_merge_all [of "[]" hs] by simp
  then show "distinct (map hash ys)" 
    unfolding eq distinct_map [of Inr "map fst ?m"] by simp
  have "hash ` set ys = Inr ` fst ` set ?m"
    using arg_cong [OF eq, of set] by (simp add: image_image)
  also have "fst ` set ?m = fst ` set hs" using hash_put.keys_merge_all [of "[]" hs] by simp
  also have "Inr ` fst ` set hs = hash ` set xs"
    using ok by (force simp: snd_hs [symmetric])
  finally show "hash ` set ys = hash ` set xs" .
qed

lemma add_route_error_iff:
  "distinct (map rwc_HTTPRouteMatch rs) \<Longrightarrow>
   snd (add_route pname m rp wc rs) \<noteq> None \<longleftrightarrow>
     (\<exists>r\<in>set rs. rwc_HTTPRouteMatch r = m \<and> rwc_WeightedClusters r \<noteq> wc)"
  by (induction rs) (auto split: prod.splits)

lemma add_route_error_unchanged:
  "snd (add_route pname m rp wc rs) \<noteq> None \<Longrightarrow> fst (add_route pname m rp wc rs) = rs"
  by (induction rs) (auto split: prod.splits if_splits)

lemma add_route_present:
  "snd (add_route pname m rp wc rs) = None \<Longrightarrow>
   \<exists>r\<in>set (fst (add_route pname m rp wc rs)). rwc_HTTPRouteMatch r = m \<and>
      rwc_WeightedClusters r = wc \<and> rwc_RetryPolicy r = rp"
  by (induction rs) (auto split: prod.splits if_splits)

lemma add_route_others:
  "filter (\<lambda>r. rwc_HTTPRouteMatch r \<noteq> m) (fst (add_route pname m rp wc rs)) =
   filter (\<lambda>r. rwc_HTTPRouteMatch r \<noteq> m) rs"
  by (induction rs) (auto split: prod.splits)

lemma add_route_keys:
  "map rwc_HTTPRouteMatch (fst (add_route pname m rp wc rs)) = set_add m (map rwc_HTTPRouteMatch rs)"
  by (induction rs) (auto simp: set_add_def split: prod.splits)

lemma AddRoute_unfold:
  "AddRoute m rp wcs out = (out', err) \<Longrightarrow>
   out' = out\<lparr>otp_Routes := fst (add_route (otp_Name out) m rp (set wcs) (otp_Routes out))\<rparr> \<and>
   err = snd (add_route (otp_Name out) m rp (set wcs) (otp_Routes out))"
  by (auto simp: AddRoute_def split: prod.splits)

lemma dedup_by_hash_Inl: "dedup_by_hash hash xs = Inl e \<Longrightarrow> \<exists>x\<in>set xs. hash x = Inl e"
  by (auto simp: dedup_by_hash_def hash_all_Inl split: sum.splits)

section \<open>Properties\<close>

text \<open>
  C9.  Merging rules: on every route exactly the principals of the two lists are allowed, the
  routes are exactly those of the two lists, and if the first list has one rule per route, so
  has the result.  No merge can widen or lose access.
\<close>

theorem MergeRules_unites_principals:
  assumes "distinct (map rule_Route originalRules)"
  shows "rules_allow (MergeRules originalRules latestRules) route =
           rules_allow originalRules route \<union> rules_allow latestRules route \<and>
         rule_Route ` set (MergeRules originalRules latestRules) =
           rule_Route ` set originalRules \<union> rule_Route ` set latestRules \<and>
         distinct (map rule_Route (MergeRules originalRules latestRules))"
  using assms by (simp add: routes_MergeRules distinct_MergeRules)

definition wild_rule :: "string set \<Rightarrow> Rule" where
  "wild_rule ps = \<lparr>rule_Route = NewRouteWeightedCluster WildCardRouteMatch
      [\<lparr>wc_ClusterName = ''ns/a|80'', wc_Weight = 100\<rparr>] None, rule_AllowedPrincipals = ps\<rparr>"

theorem MergeRules_unites_principals_witness:
  "distinct (map rule_Route (MergeRules [wild_rule {''a''}] [wild_rule {''b''}, wild_rule {''c''}])) \<and>
   MergeRules [wild_rule {''a''}] [wild_rule {''b''}, wild_rule {''c''}] = [wild_rule {''a'', ''b'', ''c''}]"
  using MergeRules_unites_principals [of "[wild_rule {''a''}]" "[wild_rule {''b''}, wild_rule {''c''}]"]
  by (auto simp: MergeRules_def merge_all_by_def join_rules_def wild_rule_def)



text \<open>
  Deduplication by structural hash: on success the result contains only given matches, no
  two with the same hash, and one for every hash that occurs; it fails only with an error of the
  hash function.  The same holds of egress cluster configurations.
\<close>

theorem deduplication_by_hash:
  "(case DeduplicateTrafficMatches hash matches of
      Inl e \<Rightarrow> (\<exists>m\<in>set matches. hash m = Inl e)
    | Inr ms \<Rightarrow> set ms \<subseteq> set matches \<and> distinct (map hash ms) \<and> hash ` set ms = hash ` set matches) \<and>
   (case DeduplicateClusterConfigs hash' configs of
      Inl e \<Rightarrow> (\<exists>c\<in>set configs. hash' c = Inl e)
    | Inr cs \<Rightarrow> set cs \<subseteq> set configs \<and> distinct (map hash' cs) \<and> hash' ` set cs = hash' ` set configs)"
  using dedup_by_hash_correct [of hash matches] dedup_by_hash_correct [of hash' configs]
  by (auto simp: DeduplicateTrafficMatches_def DeduplicateClusterConfigs_def dedup_by_hash_Inl
      split: sum.splits)

end
