(* ===== verification/KubeClient.thy ===== *)
theory KubeClient
  imports Hostnames TrafficPolicy
begin

text \<open>
  The Kubernetes controller (\<open>pkg/k8s/client.go\<close>, \<open>pkg/k8s/informers\<close>): the informer caches as a
  record of object lists and the queries over them.  Caches are keyed by \<open>namespace/name\<close>; a
  lookup returns the object stored under the key.  Code outside the repository that the queries
  call (label selectors, \<open>IntOrString.IntValue\<close>) and the decoder of the connector's service
  metadata are the fields of the record \<open>ThirdParty\<close>, an argument of the operations.
\<close>

datatype IntOrString = IntVal int | StrVal string

record ServicePort =
  sp_Name :: string
  sp_Protocol :: string
  sp_AppProtocol :: "string option"
  sp_Port :: int
  sp_TargetPort :: IntOrString

record K8sService =
  svc_Meta :: ObjectMeta
  svc_Ports :: "ServicePort list"
  svc_Selector :: "string \<rightharpoonup> string"
  svc_ClusterIP :: string

record EndpointAddress =
  ea_IP :: string
  ea_Hostname :: string

record EndpointPort =
  epp_Name :: string
  epp_Port :: int
  epp_AppProtocol :: "string option"

record EndpointSubset =
  sub_Addresses :: "EndpointAddress list"
  sub_Ports :: "EndpointPort list"

record K8sEndpoints =
  eps_Meta :: ObjectMeta
  eps_Subsets :: "EndpointSubset list"

record Pod =
  pod_Meta :: ObjectMeta
  pod_ServiceAccountName :: string
  pod_PodIPs :: "string list"
  pod_CreationTimestamp :: int

record VirtualMachine =
  vm_Meta :: ObjectMeta
  vm_ServiceAccountName :: string
  vm_MachineIP :: string

text \<open>The connector's metadata of an imported service; maps are lists of entries in iteration
  order.\<close>

record MicroEndpointMeta =
  mem_Ports :: "(int \<times> string) list"
  mem_ClusterSet :: string
  mem_ClusterId :: string
  mem_ViaGatewayHTTP :: string
  mem_ViaGatewayGRPC :: string
  mem_ViaGatewayMode :: string
  mem_InternalService :: bool
  mem_WithGateway :: bool
  mem_WithMultiGateways :: bool

record MicroSvcMeta =
  msm_TargetPorts :: "(int \<times> string) list"
  msm_Endpoints :: "(string \<times> MicroEndpointMeta) list"
  msm_GRPCInterface :: "string option"

record ThirdParty =
  tp_SelectorMatches :: "(string \<rightharpoonup> string) \<Rightarrow> (string \<rightharpoonup> string) \<Rightarrow> bool"
  tp_IntValue :: "IntOrString \<Rightarrow> int"
  tp_Decode :: "K8sService \<Rightarrow> string \<Rightarrow> MicroSvcMeta"

record KubeStore =
  ks_Namespaces :: "ObjectMeta list"
  ks_Services :: "K8sService list"
  ks_ServiceAccounts :: "ObjectMeta list"
  ks_Pods :: "Pod list"
  ks_Vms :: "VirtualMachine list"
  ks_Endpoints :: "K8sEndpoints list"

record LoadBalancer =
  lb_Type :: string
  lb_MasterNamespace :: string
  lb_SlaveNamespaces :: "string list"

definition IsMasterNamespace :: "LoadBalancer \<Rightarrow> string \<Rightarrow> bool" where
  "IsMasterNamespace lb namespace =
     (if lb_Type lb = ''FailOver'' \<and> length (lb_SlaveNamespaces lb) > 0
      then EqualFold (lb_MasterNamespace lb) namespace else False)"

definition IsSlaveNamespace :: "LoadBalancer \<Rightarrow> string \<Rightarrow> bool" where
  "IsSlaveNamespace lb namespace =
     (if lb_Type lb = ''FailOver'' \<and> length (lb_SlaveNamespaces lb) > 0
      then list_ex (\<lambda>ns. EqualFold ns namespace) (lb_SlaveNamespaces lb) else False)"

section \<open>Caches\<close>

definition obj_key :: "ObjectMeta \<Rightarrow> string" where
  "obj_key m = (if om_Namespace m = '''' then om_Name m else om_Namespace m @ ''/'' @ om_Name m)"

definition GetByKey :: "('o \<Rightarrow> ObjectMeta) \<Rightarrow> 'o list \<Rightarrow> string \<Rightarrow> 'o option" where
  "GetByKey meta objs key = find (\<lambda>ob. obj_key (meta ob) = key) objs"

definition GetNamespace :: "KubeStore \<Rightarrow> string \<Rightarrow> ObjectMeta option" where
  "GetNamespace st ns = find (\<lambda>n. om_Name n = ns) (ks_Namespaces st)"

definition IsMonitoredNamespace :: "KubeStore \<Rightarrow> string \<Rightarrow> bool" where
  "IsMonitoredNamespace st ns \<longleftrightarrow> GetNamespace st ns \<noteq> None"

definition ListMonitoredNamespaces :: "KubeStore \<Rightarrow> string list" where
  "ListMonitoredNamespaces st = map om_Name (ks_Namespaces st)"

definition ServiceExclusionAnnotation :: string where
  "ServiceExclusionAnnotation = ''flomesh.io/service-exclusion''"

definition ServiceExclusionListAnnotation :: string where
  "ServiceExclusionListAnnotation = ''flomesh.io/service-exclusion-list''"

definition isExclusionService :: "KubeStore \<Rightarrow> K8sService \<Rightarrow> bool" where
  "isExclusionService st svc =
     (case om_Annotations (svc_Meta svc) ServiceExclusionAnnotation of
        Some exclude \<Rightarrow> ToLower exclude \<in> {''enabled'', ''yes'', ''true''}
      | None \<Rightarrow>
          (case GetNamespace st (om_Namespace (svc_Meta svc)) of
             None \<Rightarrow> False
           | Some ns \<Rightarrow>
               (case om_Annotations ns ServiceExclusionListAnnotation of
                  None \<Rightarrow> False
                | Some svcsToExcludeStr \<Rightarrow>
                    list_ex (\<lambda>svcStr. EqualFold (ToLower (TrimSpace svcStr)) (om_Name (svc_Meta svc)))
                      (Split CHR '','' svcsToExcludeStr))))"

definition GetService :: "KubeStore \<Rightarrow> MeshService \<Rightarrow> K8sService option" where
  "GetService st svc = GetByKey svc_Meta (ks_Services st) (NamespacedKey svc)"

definition kube_ListServices :: "KubeStore \<Rightarrow> bool \<Rightarrow> bool \<Rightarrow> K8sService list" where
  "kube_ListServices st onlyMonitored filterExclusion =
     filter (\<lambda>svc. \<not> (onlyMonitored \<and> \<not> IsMonitoredNamespace st (om_Namespace (svc_Meta svc))) \<and>
                    \<not> (filterExclusion \<and> isExclusionService st svc)) (ks_Services st)"

definition kube_ListServiceAccounts :: "KubeStore \<Rightarrow> bool \<Rightarrow> ObjectMeta list" where
  "kube_ListServiceAccounts st onlyMonitored =
     filter (\<lambda>sa. \<not> (onlyMonitored \<and> \<not> IsMonitoredNamespace st (om_Namespace sa))) (ks_ServiceAccounts st)"

definition ListPods :: "KubeStore \<Rightarrow> Pod list" where
  "ListPods st = filter (\<lambda>pod. IsMonitoredNamespace st (om_Namespace (pod_Meta pod))) (ks_Pods st)"

definition ListVms :: "KubeStore \<Rightarrow> VirtualMachine list" where
  "ListVms st = ks_Vms st"

definition GetEndpoints :: "KubeStore \<Rightarrow> MeshService \<Rightarrow> K8sEndpoints option" where
  "GetEndpoints st svc = GetByKey eps_Meta (ks_Endpoints st) (NamespacedKey svc)"

datatype kube_error =
    ErrServiceNotFound
  | ErrDidNotFindPodForUUID
  | ErrMoreThanOnePodForUUID
  | ErrNamespaceDoesNotMatchProxy
  | ErrServiceAccountDoesNotMatchProxy
  | ErrServiceNotInCache
  | ErrEndpointNotInCache
  | ErrPortNameNotFound

definition kube_ListServiceIdentitiesForService ::
  "ThirdParty \<Rightarrow> KubeStore \<Rightarrow> MeshService \<Rightarrow> kube_error + K8sServiceAccount list" where
  "kube_ListServiceIdentitiesForService tp st svc =
     (case GetService st svc of
        None \<Rightarrow> Inl ErrServiceNotFound
      | Some k8sSvc \<Rightarrow>
          Inr (set_adds []
            (map (\<lambda>pod. \<lparr>sa_Namespace = om_Namespace (pod_Meta pod), sa_Name = pod_ServiceAccountName pod\<rparr>)
               (filter (\<lambda>pod. svc_Selector k8sSvc \<noteq> Map.empty \<and>
                          tp_SelectorMatches tp (svc_Selector k8sSvc) (om_Labels (pod_Meta pod)))
                  (ListPods st)))))"

section \<open>Mesh services of a Kubernetes service\<close>

definition AnnotationCloudServiceInheritedFrom :: string where
  "AnnotationCloudServiceInheritedFrom = ''flomesh.io/cloud-service-inherited-from''"

definition AnnotationCloudServiceAttachedTo :: string where
  "AnnotationCloudServiceAttachedTo = ''flomesh.io/cloud-service-attached-to''"

definition AnnotationMeshEndpointAddr :: string where
  "AnnotationMeshEndpointAddr = ''flomesh.io/cloud-endpoint-addr''"

definition SupportedProtocolsInMesh :: "string list" where
  "SupportedProtocolsInMesh = [''tcp-server-first'', ''http'', ''tcp'', ''grpc'']"

definition GetTargetPortFromEndpoints :: "string \<Rightarrow> K8sEndpoints \<Rightarrow> uint16" where
  "GetTargetPortFromEndpoints endpointName endpoints =
     (case find (\<lambda>(single, port). endpointName = '''' \<or> single \<or> epp_Name port = endpointName)
        (concat (map (\<lambda>sset. map (\<lambda>port. (length (sub_Ports sset) = 1, port)) (sub_Ports sset))
           (eps_Subsets endpoints))) of
        None \<Rightarrow> 0
      | Some (_, port) \<Rightarrow> u16 (epp_Port port))"

text \<open>The subdomained mesh services of a headless service: one for each address with a host
  name.\<close>

definition subdomain_services :: "K8sService \<Rightarrow> MeshService \<Rightarrow> K8sEndpoints \<Rightarrow> MeshService list" where
  "subdomain_services svc meshSvc endpoints =
     [\<lparr>ms_Namespace = om_Namespace (svc_Meta svc),
       ms_Name = ea_Hostname address @ ''.'' @ om_Name (svc_Meta svc),
       ms_Port = ms_Port meshSvc, ms_TargetPort = ms_TargetPort meshSvc,
       ms_Protocol = ms_Protocol meshSvc, ms_ServiceImportUID = '''', ms_CloudInheritedFrom = '''',
       ms_CloudAttachedNamespace = ''''\<rparr>.
      sset \<leftarrow> eps_Subsets endpoints, address \<leftarrow> sub_Addresses sset, ea_Hostname address \<noteq> '''']"

text \<open>One iteration of the loop over the ports of the service.\<close>

definition mesh_services_of_port ::
  "KubeStore \<Rightarrow> K8sService \<Rightarrow> MicroSvcMeta option \<Rightarrow> string \<Rightarrow> string \<Rightarrow> ServicePort \<Rightarrow> MeshService list" where
  "mesh_services_of_port st svc svcMeta cloudInheritedFrom cloudAttachedTo portSpec =
     (let meshSvc = \<lparr>ms_Namespace = om_Namespace (svc_Meta svc), ms_Name = om_Name (svc_Meta svc),
            ms_Port = u16 (sp_Port portSpec), ms_TargetPort = 0,
            ms_Protocol = (case sp_AppProtocol portSpec of Some a \<Rightarrow> a | None \<Rightarrow> sp_Protocol portSpec),
            ms_ServiceImportUID = '''', ms_CloudInheritedFrom = cloudInheritedFrom,
            ms_CloudAttachedNamespace = cloudAttachedTo\<rparr>;
          metaPort = (case svcMeta of None \<Rightarrow> None
            | Some m \<Rightarrow> find (\<lambda>(_, metaProtocol). EqualFold (ms_Protocol meshSvc) metaProtocol) (msm_TargetPorts m))
      in case metaPort of
           Some (p, _) \<Rightarrow> [meshSvc\<lparr>ms_TargetPort := u16 p\<rparr>]
         | None \<Rightarrow>
             (let protocol = (case find (\<lambda>p. HasPrefix (sp_Name portSpec) (p @ ''-'')) SupportedProtocolsInMesh of
                    Some p \<Rightarrow> p | None \<Rightarrow> ''http'');
                  meshSvc = meshSvc\<lparr>ms_Protocol := (case sp_AppProtocol portSpec of Some a \<Rightarrow> a | None \<Rightarrow> protocol)\<rparr>
              in case GetEndpoints st meshSvc of
                   None \<Rightarrow> [meshSvc]
                 | Some endpoints \<Rightarrow>
                     (let meshSvc = meshSvc\<lparr>ms_TargetPort := GetTargetPortFromEndpoints (sp_Name portSpec) endpoints\<rparr>
                      in if \<not> IsHeadlessService (svc_ClusterIP svc) then [meshSvc]
                         else let added = subdomain_services svc meshSvc endpoints
                              in if added = [] then [meshSvc] else added)))"

text \<open>\<open>None\<close> is the nil dereference of the namespace of a cloud service outside the monitored
  namespaces.\<close>

definition ServiceToMeshServices ::
  "ThirdParty \<Rightarrow> KubeStore \<Rightarrow> LoadBalancer \<Rightarrow> K8sService \<Rightarrow> MeshService list option" where
  "ServiceToMeshServices tp st lb svc =
     (case om_Annotations (svc_Meta svc) AnnotationCloudServiceInheritedFrom of
        None \<Rightarrow> Some (concat (map (mesh_services_of_port st svc None '''' '''') (svc_Ports svc)))
      | Some inheritedFrom \<Rightarrow>
          (let svcMeta = map_option (tp_Decode tp svc) (om_Annotations (svc_Meta svc) AnnotationMeshEndpointAddr)
           in if IsSlaveNamespace lb (om_Namespace (svc_Meta svc))
              then Some (concat (map (mesh_services_of_port st svc svcMeta inheritedFrom (lb_MasterNamespace lb))
                     (svc_Ports svc)))
              else case GetNamespace st (om_Namespace (svc_Meta svc)) of
                None \<Rightarrow> None
              | Some ns \<Rightarrow>
                  Some (concat (map (mesh_services_of_port st svc svcMeta inheritedFrom
                     (case om_Annotations ns AnnotationCloudServiceAttachedTo of Some a \<Rightarrow> a | None \<Rightarrow> ''''))
                     (svc_Ports svc)))))"

section \<open>Pods and machines of proxies\<close>

definition SidecarUniqueIDLabelName :: string where
  "SidecarUniqueIDLabelName = ''fsm-proxy-uuid''"

record Proxy =
  px_UUID :: string
  px_Identity :: ServiceIdentity
  px_PodNamespace :: string
  px_PodName :: string

definition has_uuid :: "Proxy \<Rightarrow> ObjectMeta \<Rightarrow> bool" where
  "has_uuid proxy m \<longleftrightarrow> om_Labels m SidecarUniqueIDLabelName = Some (px_UUID proxy)"

text \<open>
  The common body of \<open>GetPodForProxy\<close> and \<open>GetVmForProxy\<close>, over the cache \<open>objs\<close> and the listed
  objects \<open>listed\<close>.  The outer option is the panic of the identity conversion.
\<close>

definition object_for_proxy ::
  "('o \<Rightarrow> ObjectMeta) \<Rightarrow> ('o \<Rightarrow> string) \<Rightarrow> 'o list \<Rightarrow> 'o list \<Rightarrow> Proxy \<Rightarrow> (kube_error + 'o) option" where
  "object_for_proxy meta sa_of objs listed proxy =
     (case ToK8sServiceAccount (px_Identity proxy) of
        None \<Rightarrow> None
      | Some svcAccount \<Rightarrow>
          (let found =
             (if length (px_PodNamespace proxy) > 0 \<and> length (px_PodName proxy) > 0 then
                (case GetByKey meta objs (px_PodNamespace proxy @ ''/'' @ px_PodName proxy) of
                   None \<Rightarrow> Inl ErrDidNotFindPodForUUID
                 | Some ob \<Rightarrow> if has_uuid proxy (meta ob) then Inr ob else Inl ErrDidNotFindPodForUUID)
              else
                (case filter (\<lambda>ob. has_uuid proxy (meta ob)) listed of
                   [] \<Rightarrow> Inl ErrDidNotFindPodForUUID
                 | [ob] \<Rightarrow> Inr ob
                 | _ \<Rightarrow> Inl ErrMoreThanOnePodForUUID))
           in Some (case found of
                Inl e \<Rightarrow> Inl e
              | Inr ob \<Rightarrow>
                  if om_Namespace (meta ob) \<noteq> sa_Namespace svcAccount then Inl ErrNamespaceDoesNotMatchProxy
                  else if sa_of ob \<noteq> sa_Name svcAccount then Inl ErrServiceAccountDoesNotMatchProxy
                  else Inr ob)))"

definition GetPodForProxy :: "KubeStore \<Rightarrow> Proxy \<Rightarrow> (kube_error + Pod) option" where
  "GetPodForProxy st proxy = object_for_proxy pod_Meta pod_ServiceAccountName (ks_Pods st) (ListPods st) proxy"

definition GetVmForProxy :: "KubeStore \<Rightarrow> Proxy \<Rightarrow> (kube_error + VirtualMachine) option" where
  "GetVmForProxy st proxy = object_for_proxy vm_Meta vm_ServiceAccountName (ks_Vms st) (ListVms st) proxy"

section \<open>Target ports\<close>

definition kube_GetTargetPortForServicePort ::
  "ThirdParty \<Rightarrow> KubeStore \<Rightarrow> NamespacedName \<Rightarrow> uint16 \<Rightarrow> kube_error + uint16" where
  "kube_GetTargetPortForServicePort tp st namespacedSvc port =
     (let key = nn_Namespace namespacedSvc @ ''/'' @ nn_Name namespacedSvc in
      case GetByKey svc_Meta (ks_Services st) key of
        None \<Rightarrow> Inl ErrServiceNotInCache
      | Some svc \<Rightarrow>
          (let match = find (\<lambda>portSpec. u16 (sp_Port portSpec) = port) (svc_Ports svc) in
           case (if om_Annotations (svc_Meta svc) AnnotationMeshEndpointAddr \<noteq> None then match else None) of
             Some portSpec \<Rightarrow> Inr (u16 (tp_IntValue tp (sp_TargetPort portSpec)))
           | None \<Rightarrow>
               (let portName = (case match of Some portSpec \<Rightarrow> sp_Name portSpec | None \<Rightarrow> '''') in
                case GetByKey eps_Meta (ks_Endpoints st) key of
                  None \<Rightarrow> Inl ErrEndpointNotInCache
                | Some endpoint \<Rightarrow>
                    (case find (\<lambda>portSpec. epp_Name portSpec = portName)
                       (concat (map sub_Ports (eps_Subsets endpoint))) of
                       None \<Rightarrow> Inl ErrPortNameNotFound
                     | Some portSpec \<Rightarrow> Inr (u16 (epp_Port portSpec))))))"

section \<open>Laws of the caches\<close>

text \<open>
  What every query relies on: a lookup returns a stored object with the key asked for, and finds
  something under the key of every stored object.
\<close>

locale object_cache =
  fixes objs :: "'s \<Rightarrow> 'o list" and key :: "'o \<Rightarrow> string" and lookup :: "'s \<Rightarrow> string \<Rightarrow> 'o option"
  assumes lookup_sound: "lookup s k = Some ob \<Longrightarrow> ob \<in> set (objs s) \<and> key ob = k"
    and lookup_complete: "ob \<in> set (objs s) \<Longrightarrow> lookup s (key ob) \<noteq> None"
begin

lemma lookup_iff:
  assumes "distinct (map key (objs s))"
  shows "lookup s k = Some ob \<longleftrightarrow> ob \<in> set (objs s) \<and> key ob = k"
proof
  assume "ob \<in> set (objs s) \<and> key ob = k"
  then obtain ob' where "lookup s k = Some ob'" using lookup_complete by fastforce
  moreover from this have "ob' \<in> set (objs s) \<and> key ob' = k" by (rule lookup_sound)
  ultimately show "lookup s k = Some ob"
    using assms \<open>ob \<in> set (objs s) \<and> key ob = k\<close> by (metis distinct_map inj_onD)
qed (rule lookup_sound)

lemma lookup_None_iff: "lookup s k = None \<longleftrightarrow> k \<notin> key ` set (objs s)"
  using lookup_sound lookup_complete by (metis image_iff not_Some_eq)

end

interpretation services: object_cache ks_Services "\<lambda>ob. obj_key (svc_Meta ob)"
    "\<lambda>st. GetByKey svc_Meta (ks_Services st)"
  by unfold_locales (auto simp: GetByKey_def find_None_iff dest: find_SomeD)

interpretation endpoints: object_cache ks_Endpoints "\<lambda>ob. obj_key (eps_Meta ob)"
    "\<lambda>st. GetByKey eps_Meta (ks_Endpoints st)"
  by unfold_locales (auto simp: GetByKey_def find_None_iff dest: find_SomeD)

interpretation pods: object_cache ks_Pods "\<lambda>ob. obj_key (pod_Meta ob)"
    "\<lambda>st. GetByKey pod_Meta (ks_Pods st)"
  by unfold_locales (auto simp: GetByKey_def find_None_iff dest: find_SomeD)

interpretation vms: object_cache ks_Vms "\<lambda>ob. obj_key (vm_Meta ob)"
    "\<lambda>st. GetByKey vm_Meta (ks_Vms st)"
  by unfold_locales (auto simp: GetByKey_def find_None_iff dest: find_SomeD)

interpretation namespaces: object_cache ks_Namespaces om_Name GetNamespace
  by unfold_locales (auto simp: GetNamespace_def find_None_iff dest: find_SomeD)

lemma IsMonitoredNamespace_iff: "IsMonitoredNamespace st ns \<longleftrightarrow> ns \<in> om_Name ` set (ks_Namespaces st)"
  by (simp add: IsMonitoredNamespace_def namespaces.lookup_None_iff)

lemma mem_ListPods:
  "pod \<in> set (ListPods st) \<longleftrightarrow> pod \<in> set (ks_Pods st) \<and> IsMonitoredNamespace st (om_Namespace (pod_Meta pod))"
  by (simp add: ListPods_def)

lemma mem_kube_ListServices:
  "svc \<in> set (kube_ListServices st True True) \<longleftrightarrow>
     svc \<in> set (ks_Services st) \<and> IsMonitoredNamespace st (om_Namespace (svc_Meta svc)) \<and>
     \<not> isExclusionService st svc"
  by (auto simp: kube_ListServices_def)

section \<open>Lemmas on mesh services\<close>

lemma subdomain_services_props:
  assumes "m \<in> set (subdomain_services svc meshSvc endpoints)"
  shows "ms_Namespace m = om_Namespace (svc_Meta svc)" "ms_Port m = ms_Port meshSvc"
    "ms_TargetPort m = ms_TargetPort meshSvc"
    "\<exists>h. h \<noteq> '''' \<and> ms_Name m = h @ ''.'' @ om_Name (svc_Meta svc)"
  using assms by (auto simp: subdomain_services_def)

text \<open>Every mesh service made for a port carries the namespace of the service, the port number
  and the name of the service, possibly behind a host name.\<close>

definition names_service :: "K8sService \<Rightarrow> MeshService \<Rightarrow> bool" where
  "names_service svc m \<longleftrightarrow> ms_Namespace m = om_Namespace (svc_Meta svc) \<and>
     (ms_Name m = om_Name (svc_Meta svc) \<or> (\<exists>h. ms_Name m = h @ ''.'' @ om_Name (svc_Meta svc)))"

lemma mesh_services_of_port_nonempty: "mesh_services_of_port st svc sm ci ca p \<noteq> []"
  by (auto simp: mesh_services_of_port_def Let_def split: option.splits)

lemma mesh_services_of_port_names:
  "m \<in> set (mesh_services_of_port st svc sm ci ca p) \<Longrightarrow>
   names_service svc m \<and> ms_Port m = u16 (sp_Port p)"
  by (auto simp: mesh_services_of_port_def names_service_def Let_def subdomain_services_def
      split: option.splits if_splits)

lemma ServiceToMeshServices_ports:
  assumes "ServiceToMeshServices tp st lb svc = Some mss"
  obtains sm ci ca where "mss = concat (map (mesh_services_of_port st svc sm ci ca) (svc_Ports svc))"
  using assms by (auto simp: ServiceToMeshServices_def Let_def split: option.splits if_splits)

lemma ProviderKey_last: "ProviderKey ms = last (Split CHR ''.'' (ms_Name ms))"
  by (simp add: ProviderKey_def Let_def last_conv_nth)

lemma names_service_key:
  assumes "names_service svc m" "dot_free (om_Name (svc_Meta svc))" "om_Namespace (svc_Meta svc) \<noteq> ''''"
  shows "ProviderKey m = om_Name (svc_Meta svc)" "NamespacedKey m = obj_key (svc_Meta svc)"
proof -
  have last: "last (Split CHR ''.'' (h @ CHR ''.'' # n)) = n" if "dot_free n" for h n
    using that by (simp add: Split_append Split_no_sep dot_free_def)
  show key: "ProviderKey m = om_Name (svc_Meta svc)"
    using assms last by (auto simp: names_service_def ProviderKey_last Split_no_sep dot_free_def)
  show "NamespacedKey m = obj_key (svc_Meta svc)"
    using assms(1,3) key by (simp add: NamespacedKey_def obj_key_def names_service_def)
qed

lemma object_for_proxy_sound:
  assumes "object_for_proxy meta sa_of objs listed proxy = Some (Inr ob)"
  shows "has_uuid proxy (meta ob)"
    "ToK8sServiceAccount (px_Identity proxy) =
       Some \<lparr>sa_Namespace = om_Namespace (meta ob), sa_Name = sa_of ob\<rparr>"
    "if px_PodNamespace proxy \<noteq> '''' \<and> px_PodName proxy \<noteq> ''''
     then ob \<in> set objs \<and> obj_key (meta ob) = px_PodNamespace proxy @ ''/'' @ px_PodName proxy
     else {x \<in> set listed. has_uuid proxy (meta x)} = {ob}"
proof -
  obtain svcAccount where sa: "ToK8sServiceAccount (px_Identity proxy) = Some svcAccount"
    using assms by (auto simp: object_for_proxy_def split: option.splits)
  let ?named = "px_PodNamespace proxy \<noteq> '''' \<and> px_PodName proxy \<noteq> ''''"
  have ident: "om_Namespace (meta ob) = sa_Namespace svcAccount" "sa_of ob = sa_Name svcAccount"
    using assms sa by (auto simp: object_for_proxy_def Let_def split: sum.splits if_splits)
  then show "ToK8sServiceAccount (px_Identity proxy) =
       Some \<lparr>sa_Namespace = om_Namespace (meta ob), sa_Name = sa_of ob\<rparr>"
    using sa by simp
  have named: "GetByKey meta objs (px_PodNamespace proxy @ ''/'' @ px_PodName proxy) = Some ob \<and>
      has_uuid proxy (meta ob)" if ?named
    using assms sa that
    by (auto simp: object_for_proxy_def Let_def split: sum.splits if_splits option.splits)
  have listed: "filter (\<lambda>ob. has_uuid proxy (meta ob)) listed = [ob]" if "\<not> ?named"
    using assms sa that
    by (auto simp: object_for_proxy_def Let_def split: sum.splits if_splits list.splits)
  have single: "{x \<in> set listed. has_uuid proxy (meta x)} = {ob}" if "\<not> ?named"
    using arg_cong [OF listed [OF that], of set] by simp
  show "has_uuid proxy (meta ob)" using named single by blast
  show "if ?named then ob \<in> set objs \<and> obj_key (meta ob) = px_PodNamespace proxy @ ''/'' @ px_PodName proxy
     else {x \<in> set listed. has_uuid proxy (meta x)} = {ob}"
    using named single by (auto simp: GetByKey_def dest: find_SomeD)
qed

section \<open>Properties\<close>

text \<open>
  C29.  A pod is handed to a proxy only if the credentials match: the pod carries the proxy's unique
  label, and the service account in the proxy's certificate identity is exactly the pod's.  When
  the proxy names its pod, it is the cached pod of that name; otherwise it is the only monitored
  pod with the label.
\<close>

theorem pod_for_proxy_authentic:
  assumes "GetPodForProxy st proxy = Some (Inr pod)"
  shows "om_Labels (pod_Meta pod) SidecarUniqueIDLabelName = Some (px_UUID proxy) \<and>
         ToK8sServiceAccount (px_Identity proxy) =
           Some \<lparr>sa_Namespace = om_Namespace (pod_Meta pod), sa_Name = pod_ServiceAccountName pod\<rparr> \<and>
         (if px_PodNamespace proxy \<noteq> '''' \<and> px_PodName proxy \<noteq> ''''
          then pod \<in> set (ks_Pods st) \<and>
               obj_key (pod_Meta pod) = px_PodNamespace proxy @ ''/'' @ px_PodName proxy
          else {p \<in> set (ListPods st). om_Labels (pod_Meta p) SidecarUniqueIDLabelName = Some (px_UUID proxy)} = {pod})"
  using object_for_proxy_sound [OF assms [unfolded GetPodForProxy_def], unfolded has_uuid_def] by blast

definition meta0 :: "string \<Rightarrow> string \<Rightarrow> ObjectMeta" where
  "meta0 ns name = \<lparr>om_Name = name, om_Namespace = ns, om_UID = '''', om_Labels = Map.empty,
     om_Annotations = Map.empty\<rparr>"

definition pod0 :: Pod where
  "pod0 = \<lparr>pod_Meta = (meta0 ''shop'' ''buyer-1'')\<lparr>om_Labels := [SidecarUniqueIDLabelName \<mapsto> ''u-1'']\<rparr>,
     pod_ServiceAccountName = ''buyer'', pod_PodIPs = [''10.0.0.1''], pod_CreationTimestamp = 0\<rparr>"

definition store0 :: KubeStore where
  "store0 = \<lparr>ks_Namespaces = [meta0 '''' ''shop''], ks_Services = [], ks_ServiceAccounts = [],
     ks_Pods = [pod0], ks_Vms = [], ks_Endpoints = []\<rparr>"

definition proxy0 :: Proxy where
  "proxy0 = \<lparr>px_UUID = ''u-1'', px_Identity = ''buyer.shop'', px_PodNamespace = '''', px_PodName = ''''\<rparr>"

lemma proxy0_pod: "GetPodForProxy store0 proxy0 = Some (Inr pod0)"
  by (simp add: GetPodForProxy_def object_for_proxy_def proxy0_def store0_def pod0_def meta0_def
      has_uuid_def ToK8sServiceAccount_def ListPods_def IsMonitoredNamespace_def GetNamespace_def)

theorem pod_for_proxy_authentic_witness:
  "GetPodForProxy store0 proxy0 = Some (Inr pod0) \<and>
   om_Labels (pod_Meta pod0) SidecarUniqueIDLabelName = Some ''u-1''"
  using pod_for_proxy_authentic [OF proxy0_pod] proxy0_pod by (simp add: proxy0_def)

text \<open>
  C33.  The mesh services of a Kubernetes service cover its ports and lead back to it: the ports of
  the mesh services are exactly the (16-bit) ports of the service, and if the service is cached
  under a unique key with a dot-free name, looking any of its mesh services up gives the service
  itself, subdomained services of a headless service included.
\<close>

theorem mesh_services_lead_back:
  assumes "ServiceToMeshServices tp st lb svc = Some mss"
    and "svc \<in> set (ks_Services st)" "distinct (map (\<lambda>s. obj_key (svc_Meta s)) (ks_Services st))"
    and "dot_free (om_Name (svc_Meta svc))" "om_Namespace (svc_Meta svc) \<noteq> ''''"
  shows "ms_Port ` set mss = (\<lambda>p. u16 (sp_Port p)) ` set (svc_Ports svc) \<and>
         (\<forall>m\<in>set mss. GetService st m = Some svc)"
proof (intro conjI ballI)
  obtain sm ci ca where mss: "mss = concat (map (mesh_services_of_port st svc sm ci ca) (svc_Ports svc))"
    using assms(1) by (rule ServiceToMeshServices_ports)
  have "u16 (sp_Port p) \<in> ms_Port ` set mss" if "p \<in> set (svc_Ports svc)" for p
  proof -
    obtain m where "m \<in> set (mesh_services_of_port st svc sm ci ca p)"
      using mesh_services_of_port_nonempty [of st svc sm ci ca p] by (meson last_in_set)
    then show ?thesis
      using that mss mesh_services_of_port_names [of m st svc sm ci ca p]
      by (auto intro!: image_eqI [of _ _ m])
  qed
  then show "ms_Port ` set mss = (\<lambda>p. u16 (sp_Port p)) ` set (svc_Ports svc)"
    using mss mesh_services_of_port_names by fastforce
  fix m assume "m \<in> set mss"
  then have "names_service svc m" using mss mesh_services_of_port_names by fastforce
  then have "NamespacedKey m = obj_key (svc_Meta svc)" using assms(4,5) by (rule names_service_key)
  then show "GetService st m = Some svc"
    using assms(2,3) services.lookup_iff [of st] by (simp add: GetService_def)
qed

definition headless0 :: K8sService where
  "headless0 = \<lparr>svc_Meta = meta0 ''shop'' ''db'', svc_Ports =
     [\<lparr>sp_Name = ''tcp-db'', sp_Protocol = ''TCP'', sp_AppProtocol = None, sp_Port = 3306,
       sp_TargetPort = IntVal 3306\<rparr>], svc_Selector = Map.empty, svc_ClusterIP = ''None''\<rparr>"

definition store1 :: KubeStore where
  "store1 = store0\<lparr>ks_Services := [headless0], ks_Endpoints := [\<lparr>eps_Meta = meta0 ''shop'' ''db'',
     eps_Subsets = [\<lparr>sub_Addresses = [\<lparr>ea_IP = ''10.0.0.7'', ea_Hostname = ''db-0''\<rparr>],
       sub_Ports = [\<lparr>epp_Name = ''tcp-db'', epp_Port = 3306, epp_AppProtocol = None\<rparr>]\<rparr>]\<rparr>]\<rparr>"

definition db0 :: MeshService where
  "db0 = \<lparr>ms_Namespace = ''shop'', ms_Name = ''db-0.db'', ms_Port = 3306, ms_TargetPort = 3306,
     ms_Protocol = ''tcp'', ms_ServiceImportUID = '''', ms_CloudInheritedFrom = '''',
     ms_CloudAttachedNamespace = ''''\<rparr>"

lemma headless0_services:
  "ServiceToMeshServices tp store1 lb headless0 = Some [db0]"
  by (simp add: ServiceToMeshServices_def headless0_def meta0_def mesh_services_of_port_def
      SupportedProtocolsInMesh_def HasPrefix_def GetEndpoints_def GetByKey_def obj_key_def
      NamespacedKey_def ProviderKey_def store1_def IsHeadlessService_def subdomain_services_def
      GetTargetPortFromEndpoints_def db0_def u16_def)

theorem mesh_services_lead_back_witness:
  "GetService store1 db0 = Some headless0"
  using mesh_services_lead_back [OF headless0_services]
  by (simp add: store1_def headless0_def meta0_def dot_free_def)

text \<open>
  Which service accounts are said to back a service: exactly those of the monitored pods whose
  labels satisfy the (non-empty) selector.  The namespace of the service plays no role, so a pod of
  another monitored namespace with the same labels contributes its account.
\<close>

theorem service_identities_by_labels_only:
  "case GetService st svc of
     None \<Rightarrow> kube_ListServiceIdentitiesForService tp st svc = Inl ErrServiceNotFound
   | Some k8sSvc \<Rightarrow>
       (\<exists>accounts. kube_ListServiceIdentitiesForService tp st svc = Inr accounts \<and> distinct accounts \<and>
         set accounts =
           {\<lparr>sa_Namespace = om_Namespace (pod_Meta pod), sa_Name = pod_ServiceAccountName pod\<rparr> |pod.
              pod \<in> set (ks_Pods st) \<and> IsMonitoredNamespace st (om_Namespace (pod_Meta pod)) \<and>
              svc_Selector k8sSvc \<noteq> Map.empty \<and>
              tp_SelectorMatches tp (svc_Selector k8sSvc) (om_Labels (pod_Meta pod))})"
  by (auto simp: kube_ListServiceIdentitiesForService_def mem_ListPods split: option.splits)

end
