(* ===== verification/Smi.thy ===== *)
theory Smi
  imports KubeClient
begin

text \<open>
  The SMI client (\<open>pkg/smi/client.go\<close>, \<open>types.go\<close>): traffic targets, traffic specs and traffic
  splits in monitored namespaces, with the validity checks and list filters.  The resource types
  are those of the SMI SDK, reduced to the fields the code reads.
\<close>

definition ServiceAccountKind :: string where "ServiceAccountKind = ''ServiceAccount''"
definition HTTPRouteGroupKind :: string where "HTTPRouteGroupKind = ''HTTPRouteGroup''"
definition TCPRouteKind :: string where "TCPRouteKind = ''TCPRoute''"

record IdentityBindingSubject =
  ids_Kind :: string
  ids_Name :: string
  ids_Namespace :: string

record TrafficTargetRule =
  ttu_Kind :: string
  ttu_Name :: string
  ttu_Matches :: "string list"

record TrafficTarget =
  tt_Meta :: ObjectMeta
  tt_Destination :: IdentityBindingSubject
  tt_Sources :: "IdentityBindingSubject list"
  tt_Rules :: "TrafficTargetRule list"

record HTTPMatch =
  hma_Name :: string
  hma_Methods :: "string list"
  hma_PathRegex :: string
  hma_Headers :: "string \<rightharpoonup> string"

record HTTPRouteGroup =
  hrg_Meta :: ObjectMeta
  hrg_Matches :: "HTTPMatch list"

record TCPRoute =
  tcr_Meta :: ObjectMeta
  tcr_Ports :: "int list"

record TrafficSplitBackend =
  tsb_Service :: string
  tsb_Weight :: int

record TrafficSplit =
  ts_Meta :: ObjectMeta
  ts_Service :: string
  ts_Backends :: "TrafficSplitBackend list"
  ts_Matches :: "TypedLocalObjectReference list"

record SmiStore =
  smi_TrafficSplits :: "TrafficSplit list"
  smi_HTTPRouteGroups :: "HTTPRouteGroup list"
  smi_TCPRoutes :: "TCPRoute list"
  smi_TrafficTargets :: "TrafficTarget list"

section \<open>Traffic targets\<close>

definition hasValidRules :: "TrafficTargetRule list \<Rightarrow> bool" where
  "hasValidRules rules =
     (if length rules = 0 then False
      else list_all (\<lambda>rule. ttu_Kind rule \<in> {HTTPRouteGroupKind, TCPRouteKind}) rules)"

definition isValidTrafficTarget :: "TrafficTarget \<Rightarrow> bool" where
  "isValidTrafficTarget trafficTarget =
     (if om_Namespace (tt_Meta trafficTarget) \<noteq> ids_Namespace (tt_Destination trafficTarget) then False
      else if \<not> hasValidRules (tt_Rules trafficTarget) then False
      else True)"

text \<open>The filter option is the destination account; the empty name stands for no filter.\<close>

definition FilterTrafficTarget :: "K8sServiceAccount \<Rightarrow> TrafficTarget \<Rightarrow> bool" where
  "FilterTrafficTarget destination trafficTarget \<longleftrightarrow>
     \<not> (sa_Name destination \<noteq> '''' \<and>
        (sa_Namespace destination \<noteq> ids_Namespace (tt_Destination trafficTarget) \<or>
         sa_Name destination \<noteq> ids_Name (tt_Destination trafficTarget)))"

definition no_destination :: K8sServiceAccount where
  "no_destination = \<lparr>sa_Namespace = '''', sa_Name = ''''\<rparr>"

definition ListTrafficTargets :: "KubeStore \<Rightarrow> SmiStore \<Rightarrow> K8sServiceAccount \<Rightarrow> TrafficTarget list" where
  "ListTrafficTargets st smi destination =
     filter (\<lambda>t. IsMonitoredNamespace st (om_Namespace (tt_Meta t)) \<and> isValidTrafficTarget t \<and>
                  FilterTrafficTarget destination t) (smi_TrafficTargets smi)"

definition smi_ListServiceAccounts :: "KubeStore \<Rightarrow> SmiStore \<Rightarrow> K8sServiceAccount list" where
  "smi_ListServiceAccounts st smi =
     concat (map (\<lambda>t.
       map (\<lambda>s. \<lparr>sa_Namespace = ids_Namespace s, sa_Name = ids_Name s\<rparr>)
         (filter (\<lambda>s. IsMonitoredNamespace st (ids_Namespace s)) (tt_Sources t))
       @ [\<lparr>sa_Namespace = ids_Namespace (tt_Destination t), sa_Name = ids_Name (tt_Destination t)\<rparr>])
       (filter (\<lambda>t. IsMonitoredNamespace st (om_Namespace (tt_Meta t)) \<and> isValidTrafficTarget t)
          (smi_TrafficTargets smi)))"

section \<open>Traffic specs\<close>

definition ListHTTPTrafficSpecs :: "KubeStore \<Rightarrow> SmiStore \<Rightarrow> HTTPRouteGroup list" where
  "ListHTTPTrafficSpecs st smi =
     filter (\<lambda>g. IsMonitoredNamespace st (om_Namespace (hrg_Meta g))) (smi_HTTPRouteGroups smi)"

definition GetHTTPRouteGroup :: "KubeStore \<Rightarrow> SmiStore \<Rightarrow> string \<Rightarrow> HTTPRouteGroup option" where
  "GetHTTPRouteGroup st smi namespacedName =
     (case GetByKey hrg_Meta (smi_HTTPRouteGroups smi) namespacedName of
        None \<Rightarrow> None
      | Some route \<Rightarrow> if \<not> IsMonitoredNamespace st (om_Namespace (hrg_Meta route)) then None else Some route)"

definition ListTCPTrafficSpecs :: "KubeStore \<Rightarrow> SmiStore \<Rightarrow> TCPRoute list" where
  "ListTCPTrafficSpecs st smi =
     filter (\<lambda>r. IsMonitoredNamespace st (om_Namespace (tcr_Meta r))) (smi_TCPRoutes smi)"

definition GetTCPRoute :: "KubeStore \<Rightarrow> SmiStore \<Rightarrow> string \<Rightarrow> TCPRoute option" where
  "GetTCPRoute st smi namespacedName =
     (case GetByKey tcr_Meta (smi_TCPRoutes smi) namespacedName of
        None \<Rightarrow> None
      | Some route \<Rightarrow> if \<not> IsMonitoredNamespace st (om_Namespace (tcr_Meta route)) then None else Some route)"

section \<open>Traffic splits\<close>

text \<open>The options of the lister; an unset service is \<open>None\<close>, a nil controller likewise.\<close>

record TrafficSplitListOpt =
  tso_ApexService :: "MeshService option"
  tso_BackendService :: "MeshService option"
  tso_KubeController :: "(string \<Rightarrow> bool) option"

definition no_split_options :: TrafficSplitListOpt where
  "no_split_options = \<lparr>tso_ApexService = None, tso_BackendService = None, tso_KubeController = None\<rparr>"

definition WithTrafficSplitApexService :: "MeshService \<Rightarrow> TrafficSplitListOpt \<Rightarrow> TrafficSplitListOpt" where
  "WithTrafficSplitApexService s opt = opt\<lparr>tso_ApexService := Some s\<rparr>"

definition WithTrafficSplitBackendService :: "MeshService \<Rightarrow> TrafficSplitListOpt \<Rightarrow> TrafficSplitListOpt" where
  "WithTrafficSplitBackendService s opt = opt\<lparr>tso_BackendService := Some s\<rparr>"

definition WithKubeController :: "KubeStore \<Rightarrow> TrafficSplitListOpt \<Rightarrow> TrafficSplitListOpt" where
  "WithKubeController st opt = opt\<lparr>tso_KubeController := Some (\<lambda>ns. GetNamespace st ns \<noteq> None)\<rparr>"

definition FilterTrafficSplit :: "TrafficSplitListOpt \<Rightarrow> TrafficSplit \<Rightarrow> bool" where
  "FilterTrafficSplit opt trafficSplit \<longleftrightarrow>
     (case tso_ApexService opt of
        None \<Rightarrow> True
      | Some apex \<Rightarrow>
          length (ms_Name apex) > 0 \<longrightarrow>
            ms_Namespace apex = om_Namespace (ts_Meta trafficSplit) \<and>
            (let serviceName = GetServiceFromHostname (tso_KubeController opt) (ts_Service trafficSplit) in
             ms_Name apex = serviceName \<or> NamespacedKey apex = serviceName)) \<and>
     (case tso_BackendService opt of
        None \<Rightarrow> True
      | Some backend \<Rightarrow>
          ms_Name backend \<noteq> '''' \<longrightarrow>
            om_Namespace (ts_Meta trafficSplit) = ms_Namespace backend \<and>
            list_ex (\<lambda>b. tsb_Service b = ms_Name backend) (ts_Backends trafficSplit))"

definition ListTrafficSplits :: "KubeStore \<Rightarrow> SmiStore \<Rightarrow> TrafficSplitListOpt \<Rightarrow> TrafficSplit list" where
  "ListTrafficSplits st smi opt =
     filter (\<lambda>t. IsMonitoredNamespace st (om_Namespace (ts_Meta t)) \<and>
                  FilterTrafficSplit (WithKubeController st opt) t) (smi_TrafficSplits smi)"

section \<open>Lemmas\<close>

lemma mem_ListTrafficTargets:
  "t \<in> set (ListTrafficTargets st smi d) \<longleftrightarrow>
     t \<in> set (smi_TrafficTargets smi) \<and> IsMonitoredNamespace st (om_Namespace (tt_Meta t)) \<and>
     isValidTrafficTarget t \<and> FilterTrafficTarget d t"
  by (auto simp: ListTrafficTargets_def)

lemma FilterTrafficTarget_none [simp]: "FilterTrafficTarget no_destination t"
  by (simp add: FilterTrafficTarget_def no_destination_def)

lemma FilterTrafficTarget_some:
  "sa_Name d \<noteq> '''' \<Longrightarrow> FilterTrafficTarget d t \<longleftrightarrow>
     d = \<lparr>sa_Namespace = ids_Namespace (tt_Destination t), sa_Name = ids_Name (tt_Destination t)\<rparr>"
  by (cases d) (auto simp: FilterTrafficTarget_def)

lemma isValidTrafficTarget_iff:
  "isValidTrafficTarget t \<longleftrightarrow>
     om_Namespace (tt_Meta t) = ids_Namespace (tt_Destination t) \<and> tt_Rules t \<noteq> [] \<and>
     (\<forall>r\<in>set (tt_Rules t). ttu_Kind r = HTTPRouteGroupKind \<or> ttu_Kind r = TCPRouteKind)"
  by (auto simp: isValidTrafficTarget_def hasValidRules_def list_all_iff)

interpretation http_groups: object_cache smi_HTTPRouteGroups "\<lambda>g. obj_key (hrg_Meta g)"
    "\<lambda>smi. GetByKey hrg_Meta (smi_HTTPRouteGroups smi)"
  by unfold_locales (auto simp: GetByKey_def find_None_iff dest: find_SomeD)

interpretation tcp_routes: object_cache smi_TCPRoutes "\<lambda>r. obj_key (tcr_Meta r)"
    "\<lambda>smi. GetByKey tcr_Meta (smi_TCPRoutes smi)"
  by unfold_locales (auto simp: GetByKey_def find_None_iff dest: find_SomeD)

lemma GetHTTPRouteGroup_SomeD:
  "GetHTTPRouteGroup st smi k = Some g \<Longrightarrow>
   g \<in> set (smi_HTTPRouteGroups smi) \<and> obj_key (hrg_Meta g) = k \<and>
   IsMonitoredNamespace st (om_Namespace (hrg_Meta g))"
  by (auto simp: GetHTTPRouteGroup_def dest: http_groups.lookup_sound split: option.splits if_splits)

lemma GetTCPRoute_SomeD:
  "GetTCPRoute st smi k = Some g \<Longrightarrow>
   g \<in> set (smi_TCPRoutes smi) \<and> obj_key (tcr_Meta g) = k \<and>
   IsMonitoredNamespace st (om_Namespace (tcr_Meta g))"
  by (auto simp: GetTCPRoute_def dest: tcp_routes.lookup_sound split: option.splits if_splits)

end
