(* ===== verification/PolicyClient.thy ===== *)
theory PolicyClient
  imports Complex_Main Smi
begin

text \<open>
  The client of the policy API group (\<open>pkg/policy/client.go\<close>, \<open>conflicts.go\<close>): lookups of the
  policies that apply to an identity or a service, and the detection of conflicting backends.
  A nil dereference is the value \<open>None\<close> of an outer option.
\<close>

record TrafficWarmupSpec =
  tw_Enable :: bool
  tw_Duration :: duration
  tw_MinWeight :: "uint64 option"
  tw_MaxWeight :: "uint64 option"
  tw_Aggression :: "real option"

record TrafficWarmup =
  two_Meta :: ObjectMeta
  two_Spec :: TrafficWarmupSpec

record PolicyStore =
  pol_Isolations :: "Isolation list"
  pol_EgressGateways :: "EgressGateway list"
  pol_Egresses :: "Egress list"
  pol_IngressBackends :: "IngressBackend list"
  pol_Retries :: "Retry list"
  pol_AccessControls :: "AccessControl list"
  pol_TrafficWarmups :: "TrafficWarmup list"
  pol_UpstreamTrafficSettings :: "UpstreamTrafficSetting list"

definition kindSvcAccount :: string where "kindSvcAccount = ''ServiceAccount''"

definition ListIsolationPolicies :: "PolicyStore \<Rightarrow> Isolation list" where
  "ListIsolationPolicies pol = pol_Isolations pol"

definition ListEgressGateways :: "PolicyStore \<Rightarrow> EgressGateway list" where
  "ListEgressGateways pol = pol_EgressGateways pol"

definition ListEgressPoliciesForSourceIdentity ::
  "KubeStore \<Rightarrow> PolicyStore \<Rightarrow> K8sServiceAccount \<Rightarrow> Egress list" where
  "ListEgressPoliciesForSourceIdentity st pol source =
     [egressPolicy. egressPolicy \<leftarrow> pol_Egresses pol,
        IsMonitoredNamespace st (om_Namespace (egr_Meta egressPolicy)),
        sourceSpec \<leftarrow> eg_Sources (egr_Spec egressPolicy),
        es_Kind sourceSpec = kindSvcAccount \<and> es_Name sourceSpec = sa_Name source \<and>
        es_Namespace sourceSpec = sa_Namespace source]"

definition GetIngressBackendPolicy :: "PolicyStore \<Rightarrow> MeshService \<Rightarrow> IngressBackend option" where
  "GetIngressBackendPolicy pol svc =
     find (\<lambda>ingressBackend. om_Namespace (ib_Meta ingressBackend) = ms_Namespace svc \<and>
        list_ex (\<lambda>backend. be_Name backend = ms_Name svc \<and>
                   ps_Number (be_Port backend) = int16u (ms_TargetPort svc))
          (ibs_Backends (ib_Spec ingressBackend)))
       (pol_IngressBackends pol)"

definition ListRetryPolicies :: "PolicyStore \<Rightarrow> K8sServiceAccount \<Rightarrow> Retry list" where
  "ListRetryPolicies pol source =
     filter (\<lambda>retry. rs_Kind (re_Source (ret_Spec retry)) = kindSvcAccount \<and>
        rs_Name (re_Source (ret_Spec retry)) = sa_Name source \<and>
        rs_Namespace (re_Source (ret_Spec retry)) = sa_Namespace source) (pol_Retries pol)"

definition GetAccessControlPolicy :: "PolicyStore \<Rightarrow> MeshService \<Rightarrow> AccessControl option" where
  "GetAccessControlPolicy pol svc =
     (case find (\<lambda>acl. om_Namespace (ac_Meta acl) = ms_Namespace svc \<and>
        list_ex (\<lambda>backend. ab_Name backend = ms_Name svc \<and>
                   ps_Number (ab_Port backend) = int16u (ms_TargetPort svc))
          (acs_Backends (ac_Spec acl))) (pol_AccessControls pol) of
        Some acl \<Rightarrow> Some acl
      | None \<Rightarrow> find (\<lambda>acl. length (acs_Backends (ac_Spec acl)) = 0) (pol_AccessControls pol))"

definition policy_GetTrafficWarmupPolicy ::
  "KubeStore \<Rightarrow> PolicyStore \<Rightarrow> MeshService \<Rightarrow> TrafficWarmupSpec option" where
  "policy_GetTrafficWarmupPolicy st pol svc =
     (case GetByKey two_Meta (pol_TrafficWarmups pol) (NamespacedKey svc) of
        None \<Rightarrow> None
      | Some warmup \<Rightarrow>
          if \<not> IsMonitoredNamespace st (om_Namespace (two_Meta warmup)) then None
          else Some (two_Spec warmup))"

record UpstreamTrafficSettingGetOpt =
  uto_MeshService :: "MeshService option"
  uto_NamespacedName :: "NamespacedName option"
  uto_Host :: string

text \<open>The loop over the settings; \<open>None\<close> is the dereference of a nil mesh service.\<close>

fun upstream_setting_loop ::
  "string \<Rightarrow> UpstreamTrafficSettingGetOpt \<Rightarrow> UpstreamTrafficSetting list \<Rightarrow> UpstreamTrafficSetting option option" where
  "upstream_setting_loop td opt [] = Some None"
| "upstream_setting_loop td opt (uts # rest) =
     (if us_Host (ut_Spec uts) = uto_Host opt then Some (Some uts)
      else case uto_MeshService opt of
        None \<Rightarrow> None
      | Some ms \<Rightarrow>
          if om_Namespace (ut_Meta uts) = ms_Namespace ms \<and>
             (us_Host (ut_Spec uts) = PolicyName ms True \<or> us_Host (ut_Spec uts) = PolicyName ms False \<or>
              us_Host (ut_Spec uts) = FQDN td ms)
          then Some (Some uts)
          else upstream_setting_loop td opt rest)"

definition GetUpstreamTrafficSetting ::
  "string \<Rightarrow> PolicyStore \<Rightarrow> UpstreamTrafficSettingGetOpt \<Rightarrow> UpstreamTrafficSetting option option" where
  "GetUpstreamTrafficSetting td pol opt =
     (if uto_MeshService opt = None \<and> uto_NamespacedName opt = None \<and> uto_Host opt = '''' then Some None
      else case uto_NamespacedName opt of
        Some nn \<Rightarrow> Some (GetByKey ut_Meta (pol_UpstreamTrafficSettings pol) (nn_Namespace nn @ ''/'' @ nn_Name nn))
      | None \<Rightarrow> upstream_setting_loop td opt (pol_UpstreamTrafficSettings pol))"

definition for_service :: "MeshService \<Rightarrow> UpstreamTrafficSettingGetOpt" where
  "for_service ms = \<lparr>uto_MeshService = Some ms, uto_NamespacedName = None, uto_Host = ''''\<rparr>"

definition for_host :: "string \<Rightarrow> UpstreamTrafficSettingGetOpt" where
  "for_host h = \<lparr>uto_MeshService = None, uto_NamespacedName = None, uto_Host = h\<rparr>"

section \<open>Conflicts\<close>

datatype conflict_error = BackendConflict string string string

definition backend_conflicts ::
  "(string \<times> int) list \<Rightarrow> (string \<times> int) list \<Rightarrow> string \<Rightarrow> string \<Rightarrow> conflict_error list" where
  "backend_conflicts xs ys xname yname =
     map (\<lambda>b. BackendConflict (fst b) xname yname) (filter (\<lambda>b. b \<in> set ys) (set_adds [] xs))"

definition DetectIngressBackendConflicts :: "IngressBackend \<Rightarrow> IngressBackend \<Rightarrow> conflict_error list" where
  "DetectIngressBackendConflicts x y =
     backend_conflicts
       (map (\<lambda>b. (be_Name b, ps_Number (be_Port b))) (ibs_Backends (ib_Spec x)))
       (map (\<lambda>b. (be_Name b, ps_Number (be_Port b))) (ibs_Backends (ib_Spec y)))
       (om_Name (ib_Meta x)) (om_Name (ib_Meta y))"

definition DetectAccessControlConflicts :: "AccessControl \<Rightarrow> AccessControl \<Rightarrow> conflict_error list" where
  "DetectAccessControlConflicts x y =
     backend_conflicts
       (map (\<lambda>b. (ab_Name b, ps_Number (ab_Port b))) (acs_Backends (ac_Spec x)))
       (map (\<lambda>b. (ab_Name b, ps_Number (ab_Port b))) (acs_Backends (ac_Spec y)))
       (om_Name (ac_Meta x)) (om_Name (ac_Meta y))"

section \<open>Lemmas\<close>

lemma backend_conflicts_Nil: "backend_conflicts xs ys xn yn = [] \<longleftrightarrow> set xs \<inter> set ys = {}"
  by (auto simp: backend_conflicts_def filter_empty_conv)

lemma upstream_setting_loop_service:
  assumes "uto_MeshService opt = Some ms" "\<forall>uts\<in>set settings. us_Host (ut_Spec uts) \<noteq> uto_Host opt"
  shows "upstream_setting_loop td opt settings =
    Some (find (\<lambda>uts. om_Namespace (ut_Meta uts) = ms_Namespace ms \<and>
       us_Host (ut_Spec uts) \<in> {PolicyName ms True, PolicyName ms False, FQDN td ms}) settings)"
  using assms by (induction settings) auto

lemma mem_ListEgressPolicies:
  "p \<in> set (ListEgressPoliciesForSourceIdentity st pol source) \<longleftrightarrow>
     p \<in> set (pol_Egresses pol) \<and> IsMonitoredNamespace st (om_Namespace (egr_Meta p)) \<and>
     (\<exists>s\<in>set (eg_Sources (egr_Spec p)). es_Kind s = kindSvcAccount \<and> es_Name s = sa_Name source \<and>
        es_Namespace s = sa_Namespace source)"
  by (auto simp: ListEgressPoliciesForSourceIdentity_def)

section \<open>Properties\<close>

text \<open>
  Finding the traffic setting of a service: if no setting has an empty host, the lookup by
  service never fails and returns the first setting of the service's namespace whose host is the
  service's policy name (with or without its attached namespace) or its fully qualified name.
\<close>

theorem upstream_setting_of_service:
  assumes "\<forall>uts\<in>set (pol_UpstreamTrafficSettings pol). us_Host (ut_Spec uts) \<noteq> ''''"
  shows "GetUpstreamTrafficSetting td pol (for_service ms) =
    Some (find (\<lambda>uts. om_Namespace (ut_Meta uts) = ms_Namespace ms \<and>
       us_Host (ut_Spec uts) \<in> {PolicyName ms True, PolicyName ms False, FQDN td ms})
       (pol_UpstreamTrafficSettings pol))"
  using assms upstream_setting_loop_service [of "for_service ms" ms]
  by (simp add: GetUpstreamTrafficSetting_def for_service_def)

definition uts0 :: UpstreamTrafficSetting where
  "uts0 = \<lparr>ut_Meta = meta0 ''shop'' ''limits'', ut_Spec = \<lparr>us_Host = ''db-0.db.shop'',
     us_ConnectionSettings = None, us_RateLimit = None, us_HTTPRoutes = []\<rparr>\<rparr>"

definition pol0 :: PolicyStore where
  "pol0 = \<lparr>pol_Isolations = [], pol_EgressGateways = [], pol_Egresses = [], pol_IngressBackends = [],
     pol_Retries = [], pol_AccessControls = [], pol_TrafficWarmups = [],
     pol_UpstreamTrafficSettings = [uts0]\<rparr>"

theorem upstream_setting_of_service_witness:
  "GetUpstreamTrafficSetting ''cluster.local'' pol0 (for_service db0) = Some (Some uts0)"
  using upstream_setting_of_service [of pol0 "''cluster.local''" db0]
  by (simp add: pol0_def uts0_def meta0_def db0_def PolicyName_def)

text \<open>
  C36.  Finding a setting by host alone, as the validating webhook does to refuse duplicates, only
  ever looks at the first cached setting: if its host differs, the code dereferences the mesh
  service it was not given and panics, whether or not another setting has that host.
\<close>

theorem upstream_setting_by_host_panics:
  assumes "h \<noteq> ''''"
  shows "GetUpstreamTrafficSetting td pol (for_host h) =
    (case pol_UpstreamTrafficSettings pol of
       [] \<Rightarrow> Some None
     | uts # _ \<Rightarrow> if us_Host (ut_Spec uts) = h then Some (Some uts) else None)"
  using assms by (simp add: GetUpstreamTrafficSetting_def for_host_def split: list.split)

theorem upstream_setting_by_host_panics_witness:
  "GetUpstreamTrafficSetting ''cluster.local'' pol0 (for_host ''web.shop'') = None"
  using upstream_setting_by_host_panics [of "''web.shop''" "''cluster.local''" pol0]
  by (simp add: pol0_def uts0_def)

text \<open>
  C35.  Conflict detection makes the lookup of a service's ingress policy unambiguous: if no two
  ingress backends of one namespace are reported as conflicting, then whichever cached ingress
  backend of the service's namespace lists the service with its target port is the one the lookup
  returns, independent of the order of the cache.
\<close>

theorem conflict_free_lookup_unique:
  assumes "\<forall>x\<in>set (pol_IngressBackends pol). \<forall>y\<in>set (pol_IngressBackends pol).
      x \<noteq> y \<and> om_Namespace (ib_Meta x) = om_Namespace (ib_Meta y) \<longrightarrow> DetectIngressBackendConflicts x y = []"
    and "ib \<in> set (pol_IngressBackends pol)" "om_Namespace (ib_Meta ib) = ms_Namespace svc"
    and "b \<in> set (ibs_Backends (ib_Spec ib))" "be_Name b = ms_Name svc"
      "ps_Number (be_Port b) = int16u (ms_TargetPort svc)"
  shows "GetIngressBackendPolicy pol svc = Some ib"
proof -
  let ?hit = "\<lambda>x. om_Namespace (ib_Meta x) = ms_Namespace svc \<and>
        list_ex (\<lambda>backend. be_Name backend = ms_Name svc \<and>
                   ps_Number (be_Port backend) = int16u (ms_TargetPort svc)) (ibs_Backends (ib_Spec x))"
  have hit: "?hit ib" using assms(3-6) by (auto simp: list_ex_iff)
  then obtain ib' where ib': "GetIngressBackendPolicy pol svc = Some ib'"
    using assms(2) by (cases "GetIngressBackendPolicy pol svc")
      (auto simp: GetIngressBackendPolicy_def find_None_iff)
  then have in': "ib' \<in> set (pol_IngressBackends pol)" and hit': "?hit ib'"
    using find_SomeD [OF ib' [unfolded GetIngressBackendPolicy_def]] by blast+
  let ?keys = "\<lambda>x. (\<lambda>b. (be_Name b, ps_Number (be_Port b))) ` set (ibs_Backends (ib_Spec x))"
  let ?k = "(ms_Name svc, int16u (ms_TargetPort svc))"
  have "?k \<in> ?keys ib" using assms(4-6) by force
  moreover have "?k \<in> ?keys ib'" using hit' by (force simp: list_ex_iff)
  ultimately have "DetectIngressBackendConflicts ib' ib \<noteq> []"
    unfolding DetectIngressBackendConflicts_def backend_conflicts_Nil set_map by blast
  then have "ib' = ib" using assms(1,2) in' hit hit' by metis
  with ib' show ?thesis by simp
qed

definition ib0 :: IngressBackend where
  "ib0 = \<lparr>ib_Meta = meta0 ''shop'' ''in'', ib_Spec = \<lparr>ibs_Backends = [\<lparr>be_Name = ''db-0.db'',
       be_Port = \<lparr>ps_Number = 3306, ps_Protocol = ''http''\<rparr>, be_TLS = None\<rparr>], ibs_Sources = [],
     ibs_Matches = []\<rparr>, ib_Status = \<lparr>st_CurrentStatus = '''', st_Reason = ''''\<rparr>\<rparr>"

theorem conflict_free_lookup_unique_witness:
  "GetIngressBackendPolicy (pol0\<lparr>pol_IngressBackends := [ib0]\<rparr>) db0 = Some ib0"
  using conflict_free_lookup_unique [of "pol0\<lparr>pol_IngressBackends := [ib0]\<rparr>" ib0 db0
      "\<lparr>be_Name = ''db-0.db'', be_Port = \<lparr>ps_Number = 3306, ps_Protocol = ''http''\<rparr>, be_TLS = None\<rparr>"]
  by (simp add: ib0_def meta0_def db0_def int16u_def)

end
