(* ===== verification/Multicluster.thy ===== *)
theory Multicluster
  imports PolicyClient
begin

text \<open>
  The multicluster client (\<open>pkg/multicluster\<close>): services imported from other clusters presented
  as Kubernetes services, pods and endpoints, the global traffic policies that weigh clusters, and
  the rules of exported services.
\<close>

record ImportTarget =
  it_Host :: string
  it_IP :: string
  it_Port :: int
  it_Path :: string

record ImportEndpoint =
  ie_Target :: ImportTarget
  ie_ClusterKey :: string

record ImportPort =
  ip_Name :: string
  ip_Protocol :: string
  ip_AppProtocol :: "string option"
  ip_Port :: int
  ip_Endpoints :: "ImportEndpoint list"

record ServiceImport =
  si_Meta :: ObjectMeta
  si_Ports :: "ImportPort list"
  si_ServiceAccountName :: string

record ClusterTarget =
  ct_ClusterKey :: string
  ct_Weight :: "int option"

record GlobalTrafficPolicy =
  gtp_Meta :: ObjectMeta
  gtp_LbType :: string
  gtp_Targets :: "ClusterTarget list"

record ServiceExportRule =
  ser_PortNumber :: int
  ser_Path :: string
  ser_PathType :: "string option"

record Condition =
  cond_Type :: string
  cond_Status :: string

record ServiceExport =
  sx_Meta :: ObjectMeta
  sx_Rules :: "ServiceExportRule list"
  sx_Conditions :: "Condition list"

record MultiStore =
  mcs_ServiceImports :: "ServiceImport list"
  mcs_ServiceExports :: "ServiceExport list"
  mcs_GlobalTrafficPolicies :: "GlobalTrafficPolicy list"
  mcs_IngressClasses :: "ObjectMeta list"

definition ActiveActiveLbType :: string where "ActiveActiveLbType = ''ActiveActive''"
definition LocalityLbType :: string where "LocalityLbType = ''Locality''"
definition FailOverLbType :: string where "FailOverLbType = ''FailOver''"
definition AnyServiceAccount :: string where "AnyServiceAccount = ''*''"
definition ClusterWeightAcceptAll :: int where "ClusterWeightAcceptAll = 100"
definition ClusterWeightFailOver :: int where "ClusterWeightFailOver = 0"

section \<open>Traffic policies\<close>

definition getGlobalTrafficPolicy :: "MultiStore \<Rightarrow> MeshService \<Rightarrow> GlobalTrafficPolicy option" where
  "getGlobalTrafficPolicy mcs svc = GetByKey gtp_Meta (mcs_GlobalTrafficPolicies mcs) (NamespacedKey svc)"

definition isLocality :: "MultiStore \<Rightarrow> MeshService \<Rightarrow> bool" where
  "isLocality mcs svc =
     (case getGlobalTrafficPolicy mcs svc of
        Some p \<Rightarrow> gtp_LbType p = LocalityLbType
      | None \<Rightarrow> True)"

definition target_weight :: "ClusterTarget \<Rightarrow> int" where
  "target_weight t = (case ct_Weight t of Some w \<Rightarrow> w | None \<Rightarrow> 0)"

text \<open>The cluster keys are the map written by the loop over the targets.\<close>

definition getServiceTrafficPolicy :: "MultiStore \<Rightarrow> MeshService \<Rightarrow> string \<times> (string \<rightharpoonup> int)" where
  "getServiceTrafficPolicy mcs svc =
     (case getGlobalTrafficPolicy mcs svc of
        Some p \<Rightarrow> (gtp_LbType p,
          fold (\<lambda>t m. m(ct_ClusterKey t \<mapsto> target_weight t)) (gtp_Targets p) Map.empty)
      | None \<Rightarrow> (LocalityLbType, Map.empty))"

record LbWeight =
  lw_aa :: bool
  lw_fo :: bool
  lw_lc :: bool
  lw_weight :: int
  lw_clusterKeys :: "string \<rightharpoonup> int"

definition GetLbWeightForService :: "MultiStore \<Rightarrow> MeshService \<Rightarrow> LbWeight" where
  "GetLbWeightForService mcs svc =
     (let lc = \<lparr>lw_aa = False, lw_fo = False, lw_lc = True, lw_weight = 0, lw_clusterKeys = Map.empty\<rparr> in
      case getGlobalTrafficPolicy mcs svc of
        None \<Rightarrow> lc
      | Some p \<Rightarrow>
          if gtp_LbType p = ActiveActiveLbType then
            (if length (gtp_Targets p) = 0
             then \<lparr>lw_aa = True, lw_fo = False, lw_lc = False, lw_weight = ClusterWeightAcceptAll,
                   lw_clusterKeys = Map.empty\<rparr>
             else case find (\<lambda>lbt. ms_ServiceImportUID svc = ct_ClusterKey lbt) (gtp_Targets p) of
               None \<Rightarrow> \<lparr>lw_aa = True, lw_fo = False, lw_lc = False, lw_weight = 0, lw_clusterKeys = Map.empty\<rparr>
             | Some lbt \<Rightarrow> \<lparr>lw_aa = True, lw_fo = False, lw_lc = False, lw_weight = target_weight lbt,
                           lw_clusterKeys = [ct_ClusterKey lbt \<mapsto> target_weight lbt]\<rparr>)
          else if gtp_LbType p = FailOverLbType then
            \<lparr>lw_aa = False, lw_fo = True, lw_lc = False, lw_weight = ClusterWeightFailOver,
             lw_clusterKeys = fold (\<lambda>lbt m. m(ct_ClusterKey lbt \<mapsto> ClusterWeightFailOver)) (gtp_Targets p) Map.empty\<rparr>
          else lc)"

section \<open>Imported services\<close>

definition GetServiceImport :: "MultiStore \<Rightarrow> MeshService \<Rightarrow> ServiceImport option" where
  "GetServiceImport mcs svc = GetByKey si_Meta (mcs_ServiceImports mcs) (NamespacedKey svc)"

definition import_meta :: "ServiceImport \<Rightarrow> string \<Rightarrow> ObjectMeta" where
  "import_meta si uid = \<lparr>om_Name = om_Name (si_Meta si), om_Namespace = om_Namespace (si_Meta si),
     om_UID = uid, om_Labels = Map.empty, om_Annotations = Map.empty\<rparr>"

definition import_port :: "ImportPort \<Rightarrow> ImportEndpoint \<Rightarrow> ServicePort" where
  "import_port p e = \<lparr>sp_Name = ip_Name p, sp_Protocol = ip_Protocol p, sp_AppProtocol = ip_AppProtocol p,
     sp_Port = ip_Port p, sp_TargetPort = IntVal (it_Port (ie_Target e))\<rparr>"

text \<open>
  The first port of the import that has the service's port number and at least one endpoint
  decides.  The inner loop writes cluster address and port once, for the first endpoint of the
  target port, and leaves.
\<close>

fun import_pick :: "MeshService \<Rightarrow> ImportPort \<Rightarrow> ImportEndpoint list \<Rightarrow> string \<times> ServicePort list" where
  "import_pick svc p [] = ('''', [])"
| "import_pick svc p (e # es) =
     (if ms_TargetPort svc = u16 (it_Port (ie_Target e))
      then (it_IP (ie_Target e), [import_port p e])
      else import_pick svc p es)"

definition mcs_GetService :: "MultiStore \<Rightarrow> MeshService \<Rightarrow> K8sService option" where
  "mcs_GetService mcs svc =
     (if isLocality mcs svc then None
      else case GetServiceImport mcs svc of
        None \<Rightarrow> None
      | Some si \<Rightarrow>
          (case find (\<lambda>p. EqualFold (om_Name (si_Meta si)) (ms_Name svc) \<and> u16 (ip_Port p) = ms_Port svc \<and>
                 length (ip_Endpoints p) > 0) (si_Ports si) of
             None \<Rightarrow> None
           | Some p \<Rightarrow>
               (let (ip, ports) = import_pick svc p (ip_Endpoints p) in
                Some \<lparr>svc_Meta = import_meta si (om_UID (si_Meta si)), svc_Ports = ports,
                      svc_Selector = [''app'' \<mapsto> om_Name (si_Meta si)], svc_ClusterIP = ip\<rparr>)))"

definition plain_service :: "string \<Rightarrow> string \<Rightarrow> MeshService" where
  "plain_service ns name = \<lparr>ms_Namespace = ns, ms_Name = name, ms_Port = 0, ms_TargetPort = 0,
     ms_Protocol = '''', ms_ServiceImportUID = '''', ms_CloudInheritedFrom = '''',
     ms_CloudAttachedNamespace = ''''\<rparr>"

definition mcs_ListServices :: "MultiStore \<Rightarrow> K8sService list" where
  "mcs_ListServices mcs =
     [\<lparr>svc_Meta = import_meta si (ie_ClusterKey e), svc_Ports = [import_port p e],
       svc_Selector = [''app'' \<mapsto> om_Name (si_Meta si)], svc_ClusterIP = it_IP (ie_Target e)\<rparr>.
      si \<leftarrow> mcs_ServiceImports mcs,
      \<not> isLocality mcs (plain_service (om_Namespace (si_Meta si)) (om_Name (si_Meta si))),
      p \<leftarrow> si_Ports si, e \<leftarrow> ip_Endpoints p]"

text \<open>The Unix time of the zero value of Go's \<open>time.Time\<close>.\<close>

definition zero_time_Unix :: int where
  "zero_time_Unix = -62135596800"

definition mcs_ListPods :: "MultiStore \<Rightarrow> Pod list" where
  "mcs_ListPods mcs =
     [\<lparr>pod_Meta = \<lparr>om_Name = it_Host (ie_Target e), om_Namespace = om_Namespace (si_Meta si), om_UID = '''',
         om_Labels = [''app'' \<mapsto> om_Name (si_Meta si)], om_Annotations = Map.empty\<rparr>,
       pod_ServiceAccountName = si_ServiceAccountName si, pod_PodIPs = [it_IP (ie_Target e)],
       pod_CreationTimestamp = zero_time_Unix\<rparr>.
      si \<leftarrow> mcs_ServiceImports mcs, p \<leftarrow> si_Ports si, e \<leftarrow> ip_Endpoints p]"

definition mcs_GetNamespace :: "MultiStore \<Rightarrow> string \<Rightarrow> string option" where
  "mcs_GetNamespace mcs ns =
     map_option (\<lambda>si. om_Namespace (si_Meta si))
       (find (\<lambda>si. EqualFold (om_Namespace (si_Meta si)) ns) (mcs_ServiceImports mcs))"

text \<open>Annotation keys \<open>prefix/ip/port\<close> that carry what an endpoint address cannot.\<close>

definition import_key :: "string \<Rightarrow> string \<Rightarrow> int \<Rightarrow> string" where
  "import_key kind ip port = ''flomesh.io/ServiceImport/'' @ kind @ ''/'' @ ip @ ''/'' @ fmt_d port"

definition import_annotations :: "string \<Rightarrow> int \<Rightarrow> ImportEndpoint \<Rightarrow> (string \<rightharpoonup> string) \<Rightarrow> (string \<rightharpoonup> string)" where
  "import_annotations lbType w e m =
     (let ip = it_IP (ie_Target e); port = it_Port (ie_Target e) in
      m(import_key ''ClusterKey'' ip port \<mapsto> ie_ClusterKey e,
        import_key ''ContextPath'' ip port \<mapsto> it_Path (ie_Target e),
        import_key ''LBType'' ip port \<mapsto> lbType,
        import_key ''LBWeight'' ip port \<mapsto> fmt_d w))"

text \<open>The endpoints of the selected clusters: all of them if the policy names no cluster.\<close>

definition endpoint_selected :: "MeshService \<Rightarrow> (string \<rightharpoonup> int) \<Rightarrow> ImportEndpoint \<Rightarrow> bool" where
  "endpoint_selected svc clusterKeys e \<longleftrightarrow>
     \<not> (ms_TargetPort svc > 0 \<and> ms_TargetPort svc \<noteq> u16 (it_Port (ie_Target e))) \<and>
     (clusterKeys = Map.empty \<or> clusterKeys (ie_ClusterKey e) \<noteq> None)"

definition endpoint_weight :: "(string \<rightharpoonup> int) \<Rightarrow> ImportEndpoint \<Rightarrow> int" where
  "endpoint_weight clusterKeys e = (case clusterKeys (ie_ClusterKey e) of Some w \<Rightarrow> w | None \<Rightarrow> 0)"

definition import_subset :: "ImportPort \<Rightarrow> ImportEndpoint \<Rightarrow> EndpointSubset" where
  "import_subset p e =
     \<lparr>sub_Addresses = [\<lparr>ea_IP = it_IP (ie_Target e), ea_Hostname = it_Host (ie_Target e)\<rparr>],
      sub_Ports = [\<lparr>epp_Name = ip_Name p, epp_Port = it_Port (ie_Target e), epp_AppProtocol = ip_AppProtocol p\<rparr>]\<rparr>"

definition mcs_GetEndpoints :: "MultiStore \<Rightarrow> MeshService \<Rightarrow> K8sEndpoints option" where
  "mcs_GetEndpoints mcs svc =
     (let (lbType, clusterKeys) = getServiceTrafficPolicy mcs svc in
      if lbType = LocalityLbType then None
      else case GetServiceImport mcs svc of
        None \<Rightarrow> None
      | Some si \<Rightarrow>
          (case find (\<lambda>p. EqualFold (om_Name (si_Meta si)) (ms_Name svc) \<and>
                 (ms_Port svc = 0 \<or> ms_Port svc = u16 (ip_Port p)) \<and> length (ip_Endpoints p) > 0) (si_Ports si) of
             None \<Rightarrow> None
           | Some p \<Rightarrow>
               (let sel = filter (endpoint_selected svc clusterKeys) (ip_Endpoints p) in
                Some \<lparr>eps_Meta = (import_meta si '''')\<lparr>om_Annotations :=
                        fold (\<lambda>e m. import_annotations lbType (endpoint_weight clusterKeys e) e m) sel Map.empty\<rparr>,
                      eps_Subsets = map (import_subset p) sel\<rparr>)))"

definition mcs_ListServiceIdentitiesForService ::
  "ThirdParty \<Rightarrow> MultiStore \<Rightarrow> MeshService \<Rightarrow> kube_error + K8sServiceAccount list" where
  "mcs_ListServiceIdentitiesForService tp mcs svc =
     (case mcs_GetService mcs svc of
        None \<Rightarrow> Inl ErrServiceNotFound
      | Some k8sSvc \<Rightarrow>
          Inr (set_adds []
            (map (\<lambda>pod. \<lparr>sa_Namespace = om_Namespace (pod_Meta pod), sa_Name = pod_ServiceAccountName pod\<rparr>)
               (filter (\<lambda>pod. svc_Selector k8sSvc \<noteq> Map.empty \<and>
                          tp_SelectorMatches tp (svc_Selector k8sSvc) (om_Labels (pod_Meta pod)))
                  (mcs_ListPods mcs)))))"

text \<open>The target ports reachable for a service port, each with the active-active flag; \<open>None\<close> is
  the nil map.\<close>

definition mcs_GetTargetPortForServicePort ::
  "MultiStore \<Rightarrow> NamespacedName \<Rightarrow> uint16 \<Rightarrow> (uint16 \<rightharpoonup> bool) option" where
  "mcs_GetTargetPortForServicePort mcs namespacedSvc port =
     (let svc = plain_service (nn_Namespace namespacedSvc) (nn_Name namespacedSvc);
          lw = GetLbWeightForService mcs svc
      in if lw_lc lw then None
         else case GetServiceImport mcs svc of
           None \<Rightarrow> None
         | Some si \<Rightarrow>
             if length (si_Ports si) = 0 then None
             else Some (fold (\<lambda>e m. if lw_clusterKeys lw = Map.empty \<or> lw_clusterKeys lw (ie_ClusterKey e) \<noteq> None
                                   then m(u16 (it_Port (ie_Target e)) \<mapsto> lw_aa lw) else m)
                    [e. svcPort \<leftarrow> si_Ports si,
                        EqualFold (om_Name (si_Meta si)) (nn_Name namespacedSvc) \<and> u16 (ip_Port svcPort) = port,
                        e \<leftarrow> ip_Endpoints svcPort]
                    Map.empty))"

section \<open>Exports and ingress classes\<close>

definition GetExportedRule :: "MultiStore \<Rightarrow> MeshService \<Rightarrow> ServiceExportRule option" where
  "GetExportedRule mcs svc =
     (case GetByKey sx_Meta (mcs_ServiceExports mcs) (NamespacedKey svc) of
        None \<Rightarrow> None
      | Some sx \<Rightarrow>
          if list_ex (\<lambda>c. (cond_Type c = ''Valid'' \<and> cond_Status c \<noteq> ''True'') \<or>
                           (cond_Type c = ''Conflict'' \<and> cond_Status c \<noteq> ''False'')) (sx_Conditions sx)
          then None
          else find (\<lambda>rule. u16 (ser_PortNumber rule) = ms_Port svc) (sx_Rules sx))"

definition ingress_class_ns :: "ObjectMeta \<Rightarrow> string option" where
  "ingress_class_ns m =
     (let get = (\<lambda>k. case om_Annotations m k of Some v \<Rightarrow> if length v > 0 then Some v else None | None \<Rightarrow> None) in
      case get ''meta.flomesh.io/fsm-namespace'' of
        Some ns \<Rightarrow> Some ns
      | None \<Rightarrow> (case get ''meta.flomesh.io/erie-canal-namespace'' of
          Some ns \<Rightarrow> Some ns
        | None \<Rightarrow> get ''meta.flomesh.io/namespace''))"

definition GetIngressControllerServices :: "MultiStore \<Rightarrow> MeshService list" where
  "GetIngressControllerServices mcs =
     List.map_filter (\<lambda>m. case ingress_class_ns m of
         None \<Rightarrow> None
       | Some ns \<Rightarrow> (case om_Annotations m ''meta.flomesh.io/ingress-pipy-svc'' of
           Some svc \<Rightarrow> if length svc > 0 then Some (plain_service ns svc) else None
         | None \<Rightarrow> None))
       (mcs_IngressClasses mcs)"

section \<open>Lemmas\<close>

lemma dom_fold_guarded_upd:
  "dom (fold (\<lambda>e m. if P e then m(f e \<mapsto> v) else m) es m0) = dom m0 \<union> f ` {e \<in> set es. P e}"
proof (induction es arbitrary: m0)
  case (Cons e es)
  then show ?case by (simp only: fold_simps comp_def) auto
qed simp

lemma ran_fold_guarded_upd:
  "fold (\<lambda>e m. if P e then m(f e \<mapsto> v) else m) es Map.empty k = Some w \<Longrightarrow> w = v"
proof -
  have "fold (\<lambda>e m. if P e then m(f e \<mapsto> v) else m) es m0 k = Some w \<Longrightarrow>
      \<forall>w. m0 k = Some w \<longrightarrow> w = v \<Longrightarrow> w = v" for m0
    by (induction es arbitrary: m0) (auto split: if_splits)
  from this [of Map.empty] show "fold (\<lambda>e m. if P e then m(f e \<mapsto> v) else m) es Map.empty k = Some w \<Longrightarrow> w = v"
    by simp
qed

lemma dom_fold_upd: "dom (fold (\<lambda>t m. m(f t \<mapsto> g t)) ts m0) = dom m0 \<union> f ` set ts"
  by (induction ts arbitrary: m0) auto

lemma getServiceTrafficPolicy_keys:
  assumes "getGlobalTrafficPolicy mcs svc = Some p" "getServiceTrafficPolicy mcs svc = (lbType, keys)"
  shows "lbType = gtp_LbType p" "dom keys = ct_ClusterKey ` set (gtp_Targets p)"
  using assms dom_fold_upd [of ct_ClusterKey target_weight "gtp_Targets p" Map.empty]
  by (simp_all add: getServiceTrafficPolicy_def)

text \<open>The endpoints of an import that are reachable on a service port.\<close>

definition port_endpoints :: "ServiceImport \<Rightarrow> string \<Rightarrow> uint16 \<Rightarrow> ImportEndpoint set" where
  "port_endpoints si name port =
     {e. \<exists>p\<in>set (si_Ports si). EqualFold (om_Name (si_Meta si)) name \<and> u16 (ip_Port p) = port \<and>
        e \<in> set (ip_Endpoints p)}"

lemma mcs_GetTargetPort_dom:
  assumes "mcs_GetTargetPortForServicePort mcs nn port = Some ports"
    and "GetServiceImport mcs (plain_service (nn_Namespace nn) (nn_Name nn)) = Some si"
  shows "dom ports = (\<lambda>e. u16 (it_Port (ie_Target e))) `
     {e \<in> port_endpoints si (nn_Name nn) port.
        lw_clusterKeys (GetLbWeightForService mcs (plain_service (nn_Namespace nn) (nn_Name nn))) = Map.empty \<or>
        lw_clusterKeys (GetLbWeightForService mcs (plain_service (nn_Namespace nn) (nn_Name nn))) (ie_ClusterKey e) \<noteq> None}"
proof -
  let ?lw = "GetLbWeightForService mcs (plain_service (nn_Namespace nn) (nn_Name nn))"
  let ?es = "[e. svcPort \<leftarrow> si_Ports si,
                 EqualFold (om_Name (si_Meta si)) (nn_Name nn) \<and> u16 (ip_Port svcPort) = port,
                 e \<leftarrow> ip_Endpoints svcPort]"
  have ports: "ports = fold (\<lambda>e m. if lw_clusterKeys ?lw = Map.empty \<or> lw_clusterKeys ?lw (ie_ClusterKey e) \<noteq> None
      then m(u16 (it_Port (ie_Target e)) \<mapsto> lw_aa ?lw) else m) ?es Map.empty"
    using assms by (auto simp: mcs_GetTargetPortForServicePort_def Let_def split: if_splits)
  have "set ?es = port_endpoints si (nn_Name nn) port" by (auto simp: port_endpoints_def)
  then show ?thesis unfolding ports dom_fold_guarded_upd by simp
qed

section \<open>Properties\<close>

text \<open>
  C34.  The endpoints of an imported service respect the global traffic policy: every address
  returned for a service belongs to an endpoint of the import whose cluster is named by the policy,
  or the policy names no cluster at all; and nothing is returned without a policy or under the
  locality policy.
\<close>

theorem imported_endpoints_respect_policy:
  assumes "mcs_GetEndpoints mcs svc = Some eps" "sub \<in> set (eps_Subsets eps)"
  shows "\<exists>p si port e. getGlobalTrafficPolicy mcs svc = Some p \<and> gtp_LbType p \<noteq> LocalityLbType \<and>
     GetServiceImport mcs svc = Some si \<and> port \<in> set (si_Ports si) \<and> e \<in> set (ip_Endpoints port) \<and>
     sub = import_subset port e \<and>
     (gtp_Targets p = [] \<or> ie_ClusterKey e \<in> ct_ClusterKey ` set (gtp_Targets p)) \<and>
     (ms_TargetPort svc = 0 \<or> ms_TargetPort svc = u16 (it_Port (ie_Target e)))"
proof -
  obtain lbType keys where sp: "getServiceTrafficPolicy mcs svc = (lbType, keys)" by fastforce
  with assms(1) have lb: "lbType \<noteq> LocalityLbType" by (auto simp: mcs_GetEndpoints_def)
  then obtain p where p: "getGlobalTrafficPolicy mcs svc = Some p"
    using sp by (auto simp: getServiceTrafficPolicy_def split: option.splits)
  have keys: "lbType = gtp_LbType p" "dom keys = ct_ClusterKey ` set (gtp_Targets p)"
    using getServiceTrafficPolicy_keys [OF p sp] by auto
  obtain si where si: "GetServiceImport mcs svc = Some si"
    using assms(1) sp lb by (auto simp: mcs_GetEndpoints_def split: option.splits)
  obtain port where port: "port \<in> set (si_Ports si)"
      and subs: "eps_Subsets eps = map (import_subset port) (filter (endpoint_selected svc keys) (ip_Endpoints port))"
    using assms(1) sp lb si by (auto simp: mcs_GetEndpoints_def Let_def dest: find_SomeD split: option.splits)
  then obtain e where e: "e \<in> set (ip_Endpoints port)" "endpoint_selected svc keys e" "sub = import_subset port e"
    using assms(2) by auto
  have "gtp_Targets p = [] \<or> ie_ClusterKey e \<in> ct_ClusterKey ` set (gtp_Targets p)"
    using e(2) keys(2) by (auto simp: endpoint_selected_def)
  moreover have "ms_TargetPort svc = 0 \<or> ms_TargetPort svc = u16 (it_Port (ie_Target e))"
    using e(2) by (auto simp: endpoint_selected_def word_gt_0)
  ultimately show ?thesis using p lb keys(1) si port e by blast
qed

definition si0 :: ServiceImport where
  "si0 = \<lparr>si_Meta = meta0 ''shop'' ''web'', si_Ports = [\<lparr>ip_Name = ''http'', ip_Protocol = ''TCP'',
      ip_AppProtocol = None, ip_Port = 80, ip_Endpoints =
       [\<lparr>ie_Target = \<lparr>it_Host = ''h1'', it_IP = ''10.1.0.1'', it_Port = 8080, it_Path = ''/''\<rparr>, ie_ClusterKey = ''c1''\<rparr>,
        \<lparr>ie_Target = \<lparr>it_Host = ''h2'', it_IP = ''10.2.0.1'', it_Port = 9090, it_Path = ''/''\<rparr>, ie_ClusterKey = ''c2''\<rparr>]\<rparr>],
     si_ServiceAccountName = ''*''\<rparr>"

definition mcs0 :: MultiStore where
  "mcs0 = \<lparr>mcs_ServiceImports = [si0], mcs_ServiceExports = [], mcs_GlobalTrafficPolicies =
      [\<lparr>gtp_Meta = meta0 ''shop'' ''web'', gtp_LbType = ActiveActiveLbType,
        gtp_Targets = [\<lparr>ct_ClusterKey = ''c1'', ct_Weight = Some 100\<rparr>]\<rparr>], mcs_IngressClasses = []\<rparr>"

lemmas mcs0_simps = mcs0_def si0_def meta0_def plain_service_def GetServiceImport_def
  getGlobalTrafficPolicy_def GetByKey_def obj_key_def NamespacedKey_def ProviderKey_def
  ActiveActiveLbType_def LocalityLbType_def FailOverLbType_def

theorem imported_endpoints_respect_policy_witness:
  "\<exists>eps. mcs_GetEndpoints mcs0 (plain_service ''shop'' ''web'') = Some eps \<and>
     map (\<lambda>s. map ea_IP (sub_Addresses s)) (eps_Subsets eps) = [[''10.1.0.1'']] \<and>
     (\<forall>s\<in>set (eps_Subsets eps). \<exists>p. getGlobalTrafficPolicy mcs0 (plain_service ''shop'' ''web'') = Some p)"
proof -
  obtain eps where eps: "mcs_GetEndpoints mcs0 (plain_service ''shop'' ''web'') = Some eps"
      and ips: "map (\<lambda>s. map ea_IP (sub_Addresses s)) (eps_Subsets eps) = [[''10.1.0.1'']]"
    by (simp add: mcs_GetEndpoints_def getServiceTrafficPolicy_def mcs0_simps endpoint_selected_def
        import_subset_def)
  have "\<exists>p. getGlobalTrafficPolicy mcs0 (plain_service ''shop'' ''web'') = Some p"
    if "s \<in> set (eps_Subsets eps)" for s
    using imported_endpoints_respect_policy [OF eps that] by blast
  with eps ips show ?thesis by (intro exI [of _ eps]) auto
qed

text \<open>
  The target ports of an imported service under an active-active policy do not respect the
  clusters the policy names: the lookup is made without an import identifier, so no named cluster
  matches, and the target port of every endpoint on the service port is accepted, whatever its
  cluster.
\<close>

theorem active_active_targets_ignored:
  assumes "getGlobalTrafficPolicy mcs (plain_service ns name) = Some p"
    and "gtp_LbType p = ActiveActiveLbType" "'''' \<notin> ct_ClusterKey ` set (gtp_Targets p)"
    and "GetServiceImport mcs (plain_service ns name) = Some si" "si_Ports si \<noteq> []"
  shows "\<exists>ports. mcs_GetTargetPortForServicePort mcs \<lparr>nn_Namespace = ns, nn_Name = name\<rparr> port = Some ports \<and>
     dom ports = (\<lambda>e. u16 (it_Port (ie_Target e))) ` port_endpoints si name port"
proof -
  let ?nn = "\<lparr>nn_Namespace = ns, nn_Name = name\<rparr>"
  have none: "find (\<lambda>lbt. '''' = ct_ClusterKey lbt) (gtp_Targets p) = None"
    using assms(3) by (auto simp: find_None_iff image_iff)
  have lw: "lw_clusterKeys (GetLbWeightForService mcs (plain_service ns name)) = Map.empty"
      "\<not> lw_lc (GetLbWeightForService mcs (plain_service ns name))"
    using assms(1,2) none by (auto simp: GetLbWeightForService_def plain_service_def)
  then obtain ports where ports: "mcs_GetTargetPortForServicePort mcs ?nn port = Some ports"
    using assms(4,5) by (simp add: mcs_GetTargetPortForServicePort_def)
  then show ?thesis using mcs_GetTargetPort_dom [OF ports, of si] assms(4) lw by simp
qed

theorem active_active_targets_ignored_witness:
  "\<exists>ports. mcs_GetTargetPortForServicePort mcs0 \<lparr>nn_Namespace = ''shop'', nn_Name = ''web''\<rparr> 80 = Some ports \<and>
     9090 \<in> dom ports"
  using active_active_targets_ignored [of mcs0 "''shop''" "''web''" _ si0 80]
  by (force simp: mcs0_simps port_endpoints_def u16_def)

end
