(* ===== verification/GoNet.thy ===== *)
theory GoNet
  imports Service
begin

unbundle bit_operations_syntax

text \<open>
  The part of Go's package \<open>net\<close> (and of \<open>net/netip\<close> below it) the control plane uses: parsing
  and printing of addresses, CIDR notation, masks and membership.  An address is its byte slice,
  4 or 16 bytes long; the nil slice is the empty list.  Results with an error are options.
\<close>

type_synonym byte = "8 word"

definition v4InV6Prefix :: IP where
  "v4InV6Prefix = replicate 10 0 @ [0xff, 0xff]"

definition To4 :: "IP \<Rightarrow> IP" where
  "To4 ip =
     (if length ip = 4 then ip
      else if length ip = 16 \<and> take 12 ip = v4InV6Prefix then drop 12 ip
      else [])"

definition To16 :: "IP \<Rightarrow> IP" where
  "To16 ip = (if length ip = 4 then v4InV6Prefix @ ip else if length ip = 16 then ip else [])"

definition IP_Equal :: "IP \<Rightarrow> IP \<Rightarrow> bool" where
  "IP_Equal ip x =
     (if length ip = length x then ip = x
      else if length ip = 4 \<and> length x = 16 then take 12 x = v4InV6Prefix \<and> ip = drop 12 x
      else if length ip = 16 \<and> length x = 4 then take 12 ip = v4InV6Prefix \<and> drop 12 ip = x
      else False)"

section \<open>Parsing\<close>

text \<open>\<open>netip.parseIPv4Fields\<close>; the state is the value and the digit count of the current field
  and the finished fields.\<close>

fun parse4 :: "string \<Rightarrow> nat \<Rightarrow> nat \<Rightarrow> byte list \<Rightarrow> byte list option" where
  "parse4 [] val digLen fs =
     (if digLen = 0 \<or> length fs < 3 then None else Some (fs @ [of_nat val]))"
| "parse4 (c # s) val digLen fs =
     (if is_digit c then
        (if digLen = 1 \<and> val = 0 then None
         else let val' = val * 10 + digit_val c in
           if val' > 255 then None else parse4 s val' (digLen + 1) fs)
      else if c = CHR ''.'' then
        (if digLen = 0 \<or> length fs = 3 then None else parse4 s 0 0 (fs @ [of_nat val]))
      else None)"

definition parseIPv4Fields :: "string \<Rightarrow> byte list option" where
  "parseIPv4Fields s = parse4 s 0 0 []"

definition hex_val :: "char \<Rightarrow> nat option" where
  "hex_val c =
     (let n = (of_char c :: nat) in
      if 48 \<le> n \<and> n \<le> 57 then Some (n - 48)
      else if 97 \<le> n \<and> n \<le> 102 then Some (n - 87)
      else if 65 \<le> n \<and> n \<le> 70 then Some (n - 55)
      else None)"

text \<open>One group of an IPv6 address: the hex digits at the front (at most four), their value and
  the rest; \<open>None\<close> for a fifth digit or no digit at all.\<close>

fun hex_group :: "nat \<Rightarrow> nat \<Rightarrow> string \<Rightarrow> (nat \<times> nat \<times> string) option" where
  "hex_group off acc [] = (if off = 0 then None else Some (off, acc, []))"
| "hex_group off acc (c # s) =
     (case hex_val c of
        Some d \<Rightarrow> if off > 3 then None else hex_group (off + 1) (acc * 16 + d) s
      | None \<Rightarrow> if off = 0 then None else Some (off, acc, c # s))"

text \<open>
  The loop of \<open>netip.parseIPv6\<close>: \<open>ip\<close> holds the bytes written so far (\<open>i = length ip\<close>), the
  ellipsis is its position.  The result is the bytes, the ellipsis and the unread rest; at most
  eight iterations run, counted by the first argument.
\<close>

fun parse6 :: "nat \<Rightarrow> string \<Rightarrow> byte list \<Rightarrow> nat option \<Rightarrow> (byte list \<times> nat option \<times> string) option" where
  "parse6 0 s ip ell = Some (ip, ell, s)"
| "parse6 (Suc n) s ip ell =
     (case hex_group 0 0 s of
        None \<Rightarrow> None
      | Some (off, acc, rest) \<Rightarrow>
          if rest \<noteq> [] \<and> hd rest = CHR ''.'' then
            (if ell = None \<and> length ip \<noteq> 12 then None
             else if length ip + 4 > 16 then None
             else (case parseIPv4Fields s of None \<Rightarrow> None | Some f \<Rightarrow> Some (ip @ f, ell, [])))
          else
            (let ip' = ip @ [of_nat (acc div 256), of_nat acc] in
             case rest of
               [] \<Rightarrow> Some (ip', ell, [])
             | c # rest' \<Rightarrow>
                 if c \<noteq> CHR '':'' \<or> rest' = [] then None
                 else if hd rest' = CHR '':'' then
                   (if ell \<noteq> None then None
                    else if tl rest' = [] then Some (ip', Some (length ip'), [])
                    else parse6 n (tl rest') ip' (Some (length ip')))
                 else parse6 n rest' ip' ell))"

definition parseIPv6 :: "string \<Rightarrow> IP option" where
  "parseIPv6 s0 =
     (let lead = (length s0 \<ge> 2 \<and> take 2 s0 = ''::'');
          s = (if lead then drop 2 s0 else s0)
      in if lead \<and> s = [] then Some (replicate 16 0)
         else case parse6 8 s [] (if lead then Some 0 else None) of
           None \<Rightarrow> None
         | Some (ip, ell, rest) \<Rightarrow>
             if rest \<noteq> [] then None
             else if length ip < 16 then
               (case ell of
                  None \<Rightarrow> None
                | Some e \<Rightarrow> Some (take e ip @ replicate (16 - length ip) 0 @ drop e ip))
             else if ell \<noteq> None then None
             else Some ip)"

text \<open>
  \<open>netip.ParseAddr\<close> without zones: the first of dot, colon or percent sign decides.  The
  callers refuse addresses with a zone, so a percent sign always means failure.  The boolean tells
  an IPv4 address, which is returned in its 16-byte form.
\<close>

definition ParseAddr :: "string \<Rightarrow> (bool \<times> IP) option" where
  "ParseAddr s =
     (if CHR ''%'' \<in> set s then None
      else case find (\<lambda>c. c = CHR ''.'' \<or> c = CHR '':'') s of
        None \<Rightarrow> None
      | Some c \<Rightarrow>
          if c = CHR ''.'' then map_option (\<lambda>f. (True, v4InV6Prefix @ f)) (parseIPv4Fields s)
          else map_option (\<lambda>ip. (False, ip)) (parseIPv6 s))"

definition ParseIP :: "string \<Rightarrow> IP" where
  "ParseIP s = (case ParseAddr s of None \<Rightarrow> [] | Some (_, ip) \<Rightarrow> ip)"

section \<open>Masks and networks\<close>

record IPNet =
  net_IP :: IP
  net_Mask :: IP

definition mask_byte :: "nat \<Rightarrow> byte" where
  "mask_byte n = (if n \<ge> 8 then 0xff else NOT (drop_bit n 0xff))"

fun CIDRMask_bytes :: "nat \<Rightarrow> nat \<Rightarrow> IP" where
  "CIDRMask_bytes n 0 = []"
| "CIDRMask_bytes n (Suc l) = mask_byte n # CIDRMask_bytes (n - 8) l"

definition CIDRMask :: "nat \<Rightarrow> nat \<Rightarrow> IP" where
  "CIDRMask ones bits =
     (if (bits = 32 \<or> bits = 128) \<and> ones \<le> bits then CIDRMask_bytes ones (bits div 8) else [])"

definition IP_Mask :: "IP \<Rightarrow> IP \<Rightarrow> IP" where
  "IP_Mask ip m =
     (let m' = (if length m = 16 \<and> length ip = 4 \<and> take 12 m = replicate 12 0xff then drop 12 m else m);
          ip' = (if length m' = 4 \<and> length ip = 16 \<and> take 12 ip = v4InV6Prefix then drop 12 ip else ip)
      in if length ip' \<noteq> length m' then [] else map2 (AND) ip' m')"

text \<open>\<open>dtoi\<close>: the decimal number at the front of the mask, all of which must be digits and below
  \<open>0xFFFFFF\<close>.\<close>

definition parse_bits :: "string \<Rightarrow> nat option" where
  "parse_bits s = (if s \<noteq> [] \<and> list_all is_digit s \<and> dec_val s < 0xFFFFFF then Some (dec_val s) else None)"

definition cut_slash :: "string \<Rightarrow> (string \<times> string) option" where
  "cut_slash s = (if CHR ''/'' \<in> set s
     then Some (takeWhile (\<lambda>c. c \<noteq> CHR ''/'') s, tl (dropWhile (\<lambda>c. c \<noteq> CHR ''/'') s)) else None)"

definition net_ParseCIDR :: "string \<Rightarrow> (IP \<times> IPNet) option" where
  "net_ParseCIDR s =
     (case cut_slash s of
        None \<Rightarrow> None
      | Some (addr, m) \<Rightarrow>
          (case ParseAddr addr of
             None \<Rightarrow> None
           | Some (is4, ip) \<Rightarrow>
               let bitLen = (if is4 then 32 else 128) in
               (case parse_bits m of
                  None \<Rightarrow> None
                | Some n \<Rightarrow>
                    if n > bitLen then None
                    else Some (ip, \<lparr>net_IP = IP_Mask ip (CIDRMask n bitLen), net_Mask = CIDRMask n bitLen\<rparr>))))"

definition networkNumberAndMask :: "IPNet \<Rightarrow> IP \<times> IP" where
  "networkNumberAndMask n =
     (let ip = (if To4 (net_IP n) \<noteq> [] then To4 (net_IP n) else net_IP n);
          m = net_Mask n
      in if length ip \<noteq> 4 \<and> length ip \<noteq> 16 then ([], [])
         else if length m = 4 then (if length ip \<noteq> 4 then ([], []) else (ip, m))
         else if length m = 16 then (if length ip = 4 then (ip, drop 12 m) else (ip, m))
         else ([], []))"

definition IPNet_Contains :: "IPNet \<Rightarrow> IP \<Rightarrow> bool" where
  "IPNet_Contains n ip0 =
     (let (nn, m) = networkNumberAndMask n;
          ip = (if To4 ip0 \<noteq> [] then To4 ip0 else ip0)
      in length ip = length nn \<and> map2 (AND) nn m = map2 (AND) ip m)"

section \<open>Printing\<close>

definition dotted :: "IP \<Rightarrow> string" where
  "dotted ip = Join CHR ''.'' (map (\<lambda>b. fmt_nat (unat b)) ip)"

definition hex_char :: "nat \<Rightarrow> char" where
  "hex_char d = (if d < 10 then char_of (48 + d) else char_of (87 + d))"

fun fmt_hex :: "nat \<Rightarrow> string" where
  "fmt_hex n = (if n < 16 then [hex_char n] else fmt_hex (n div 16) @ [hex_char (n mod 16)])"

declare fmt_hex.simps [simp del]

fun groups16 :: "IP \<Rightarrow> nat list" where
  "groups16 (a # b # bs) = (unat a * 256 + unat b) # groups16 bs"
| "groups16 _ = []"

text \<open>The leftmost longest run of at least two zero groups, as start and length.\<close>

definition zero_run :: "nat list \<Rightarrow> nat \<Rightarrow> nat" where
  "zero_run gs i = length (takeWhile (\<lambda>g. g = 0) (drop i gs))"

definition best_run :: "nat list \<Rightarrow> nat \<times> nat" where
  "best_run gs = fold (\<lambda>i (st, len). let l = zero_run gs i in
      if l \<ge> 2 \<and> l > len then (i, l) else (st, len)) [0..<length gs] (0, 0)"

definition string6 :: "IP \<Rightarrow> string" where
  "string6 ip =
     (let gs = groups16 ip; (st, len) = best_run gs in
      if len = 0 then Join CHR '':'' (map fmt_hex gs)
      else Join CHR '':'' (map fmt_hex (take st gs)) @ ''::''
           @ Join CHR '':'' (map fmt_hex (drop (st + len) gs)))"

definition hex2 :: "byte \<Rightarrow> string" where
  "hex2 b = [hex_char (unat b div 16), hex_char (unat b mod 16)]"

definition IP_String :: "IP \<Rightarrow> string" where
  "IP_String ip =
     (if ip = [] then ''<nil>''
      else if To4 ip \<noteq> [] then dotted (To4 ip)
      else if length ip = 16 then string6 ip
      else ''?'' @ concat (map hex2 ip))"

section \<open>Addresses as numbers\<close>

text \<open>The big-endian value of a byte string, and membership in a network as a statement about it.\<close>

fun be_val :: "IP \<Rightarrow> nat" where
  "be_val [] = 0"
| "be_val (b # bs) = unat b * 256 ^ length bs + be_val bs"

lemma unat_byte_less [simp]: "unat (b :: byte) < 256"
  using unsigned_less [of b, where 'a = nat] by simp

lemma be_val_less: "be_val ip < 256 ^ length ip"
proof (induction ip)
  case (Cons b bs)
  have "unat b * 256 ^ length bs + be_val bs < unat b * 256 ^ length bs + 256 ^ length bs"
    using Cons by simp
  also have "\<dots> = (unat b + 1) * 256 ^ length bs" by simp
  also have "\<dots> \<le> 256 * 256 ^ length bs"
    using unat_byte_less [of b] by (intro mult_right_mono) (simp_all add: Suc_le_eq del: unat_byte_less)
  finally show ?case by simp
qed simp

lemma be_val_append: "be_val (xs @ ys) = be_val xs * 256 ^ length ys + be_val ys"
  by (induction xs) (auto simp: power_add algebra_simps)

lemma digit_unique:
  fixes a :: nat
  assumes "r < B" "s < B" "a * B + r = b * B + s"
  shows "a = b \<and> r = s"
proof -
  have "a = (a * B + r) div B" "b = (b * B + s) div B" using assms(1,2) by auto
  with assms(3) show ?thesis by simp
qed

lemma be_val_inj: "length a = length b \<Longrightarrow> be_val a = be_val b \<longleftrightarrow> a = b"
proof (induction a b rule: list_induct2)
  case (Cons x xs y ys)
  have "be_val (x # xs) = be_val (y # ys) \<longleftrightarrow> unat x = unat y \<and> be_val xs = be_val ys"
    using Cons(1) be_val_less [of xs] be_val_less [of ys]
      digit_unique [of "be_val xs" "256 ^ length xs" "be_val ys" "unat x" "unat y"]
    by auto
  then show ?case using Cons by (simp add: word_unat_eq_iff)
qed simp

lemma mask_byte_and_eq_iff:
  assumes "n < 8"
  shows "(a AND mask_byte n) = (b AND mask_byte n) \<longleftrightarrow> unat a div 2 ^ (8 - n) = unat b div 2 ^ (8 - n)"
proof -
  have m: "bit (mask_byte n) i \<longleftrightarrow> i < 8 \<and> 8 - n \<le> i" for i
  proof -
    have ff: "(0xff :: byte) = mask 8" by (simp add: mask_eq_exp_minus_1)
    show ?thesis
      using assms by (auto simp: mask_byte_def bit_simps ff simp del: mask_numeral)
  qed
  have "(a AND mask_byte n) = (b AND mask_byte n) \<longleftrightarrow> drop_bit (8 - n) a = drop_bit (8 - n) b"
  proof
    assume eq: "(a AND mask_byte n) = (b AND mask_byte n)"
    show "drop_bit (8 - n) a = drop_bit (8 - n) b"
    proof (rule bit_word_eqI)
      fix i assume i: "i < LENGTH(8)"
      have "bit (a AND mask_byte n) (8 - n + i) = bit (b AND mask_byte n) (8 - n + i)"
        using eq by simp
      then show "bit (drop_bit (8 - n) a) i = bit (drop_bit (8 - n) b) i"
        using bit_imp_le_length [of a "8 - n + i"] bit_imp_le_length [of b "8 - n + i"]
        by (auto simp: bit_and_iff m bit_drop_bit_eq)
    qed
  next
    assume eq: "drop_bit (8 - n) a = drop_bit (8 - n) b"
    show "(a AND mask_byte n) = (b AND mask_byte n)"
    proof (rule bit_word_eqI)
      fix i assume i: "i < LENGTH(8)"
      have "bit (drop_bit (8 - n) a) (i - (8 - n)) = bit (drop_bit (8 - n) b) (i - (8 - n))"
        using eq by simp
      then show "bit (a AND mask_byte n) i = bit (b AND mask_byte n) i"
        by (auto simp: bit_and_iff m bit_drop_bit_eq)
    qed
  qed
  also have "\<dots> \<longleftrightarrow> unat (drop_bit (8 - n) a) = unat (drop_bit (8 - n) b)"
    by (simp add: word_unat_eq_iff)
  also have "\<dots> \<longleftrightarrow> drop_bit (8 - n) (unat a) = drop_bit (8 - n) (unat b)"
    by (simp only: unat_drop_bit_eq)
  finally show ?thesis by (simp only: drop_bit_eq_div)
qed

lemma mask_byte_full: "8 \<le> n \<Longrightarrow> (a AND mask_byte n) = a"
proof -
  assume "8 \<le> n"
  then have "mask_byte n = - 1" by (simp add: mask_byte_def)
  then show ?thesis by (simp only: and.right_neutral)
qed

lemma length_CIDRMask_bytes [simp]: "length (CIDRMask_bytes n l) = l"
  by (induction l arbitrary: n) auto

lemma mask_byte_0 [simp]: "mask_byte 0 = 0"
proof -
  have ff: "(0xff :: byte) = - 1" by simp
  show ?thesis unfolding mask_byte_def ff by simp
qed

lemma and_CIDRMask_0: "map2 (AND) ip (CIDRMask_bytes 0 (length ip)) = replicate (length ip) 0"
  by (induction ip) auto

text \<open>Two addresses agree under the mask of \<open>ones\<close> bits iff they agree after division by the
  size of the network.\<close>

lemma masked_eq_iff:
  assumes "length a = length b" "ones \<le> 8 * length a"
  shows "map2 (AND) a (CIDRMask_bytes ones (length a)) = map2 (AND) b (CIDRMask_bytes ones (length a))
     \<longleftrightarrow> be_val a div 2 ^ (8 * length a - ones) = be_val b div 2 ^ (8 * length a - ones)"
  using assms
proof (induction a b arbitrary: ones rule: list_induct2)
  case (Cons x xs y ys)
  let ?n = "length xs"
  have pow256: "(256 :: nat) ^ ?n = 2 ^ (8 * ?n)" by (simp add: power_mult)
  show ?case
  proof (cases "8 \<le> ones")
    case True
    let ?k = "8 * ?n - (ones - 8)"
    have split: "8 * ?n = ?k + (ones - 8)" using Cons.prems True by simp
    have div_split: "be_val (z # zs) div 2 ^ ?k = unat z * 2 ^ (ones - 8) + be_val zs div 2 ^ ?k"
      if "length zs = ?n" for z zs
    proof -
      have e: "(256 :: nat) ^ ?n = 2 ^ (ones - 8) * 2 ^ ?k"
        using pow256 split by (metis mult.commute power_add)
      have "be_val (z # zs) = unat z * 2 ^ (ones - 8) * 2 ^ ?k + be_val zs"
        by (simp only: be_val.simps that e mult.assoc)
      then show ?thesis by (simp only: div_mult_self3 power_not_zero zero_neq_numeral [symmetric] simp_thms)
    qed
    have small: "be_val zs div 2 ^ ?k < 2 ^ (ones - 8)" if "length zs = ?n" for zs
    proof -
      have "be_val zs < 2 ^ (ones - 8) * 2 ^ ?k"
        using be_val_less [of zs] that split pow256 by (metis mult.commute power_add)
      then show ?thesis by (rule less_mult_imp_div_less)
    qed
    have exp: "8 * length (x # xs) - ones = ?k" using True by simp
    have "be_val (x # xs) div 2 ^ ?k = be_val (y # ys) div 2 ^ ?k \<longleftrightarrow>
            unat x = unat y \<and> be_val xs div 2 ^ ?k = be_val ys div 2 ^ ?k"
      using div_split [of xs x] div_split [of ys y] small [of xs] small [of ys] Cons.hyps
        digit_unique [of "be_val xs div 2 ^ ?k" "2 ^ (ones - 8)" "be_val ys div 2 ^ ?k" "unat x" "unat y"]
      by auto
    moreover have "map2 (AND) xs (CIDRMask_bytes (ones - 8) ?n) = map2 (AND) ys (CIDRMask_bytes (ones - 8) ?n)
        \<longleftrightarrow> be_val xs div 2 ^ ?k = be_val ys div 2 ^ ?k"
      using Cons.IH [of "ones - 8"] Cons.prems by simp
    ultimately show ?thesis
      unfolding exp using True by (simp add: mask_byte_full word_unat_eq_iff)
  next
    case False
    have exp: "8 * length (x # xs) - ones = 8 * ?n + (8 - ones)" using False by simp
    have top: "be_val (z # zs) div 2 ^ (8 * ?n + (8 - ones)) = unat z div 2 ^ (8 - ones)"
      if "length zs = ?n" for z zs
    proof -
      have "be_val (z # zs) div 2 ^ (8 * ?n) = unat z"
        using be_val_less [of zs] that pow256 by simp
      then show ?thesis by (simp add: power_add div_mult2_eq)
    qed
    have rest: "map2 (AND) xs (CIDRMask_bytes (ones - 8) ?n) = map2 (AND) ys (CIDRMask_bytes (ones - 8) ?n)"
      using False and_CIDRMask_0 [of xs] and_CIDRMask_0 [of ys] Cons.hyps by simp
    show ?thesis
      unfolding exp top [of xs x, OF refl] top [of ys y, OF Cons.hyps [symmetric]]
      using False rest mask_byte_and_eq_iff [of ones x y] by simp
  qed
qed simp

end
