(* ===== verification/Providers.thy ===== *)
theory Providers
  imports Multicluster GoNet
begin

text \<open>
  The two implementations of the service and endpoint provider interfaces: the Kubernetes provider
  (\<open>pkg/providers/kube\<close>) and the multicluster provider (\<open>pkg/providers/fsm\<close>).  A provider is a
  record of the interface's operations; those that convert an identity or translate Kubernetes
  services can panic, which is the value \<open>None\<close>.
\<close>

record Provider =
  pr_ListEndpointsForService :: "MeshService \<Rightarrow> Endpoint list"
  pr_ListEndpointsForIdentity :: "ServiceIdentity \<Rightarrow> Endpoint list option"
  pr_GetResolvableEndpointsForService :: "MeshService \<Rightarrow> Endpoint list"
  pr_GetServicesForServiceIdentity :: "ServiceIdentity \<Rightarrow> MeshService list option"
  pr_ListServices :: "MeshService list option"
  pr_ListServiceIdentitiesForService :: "MeshService \<Rightarrow> ServiceIdentity list"

definition zero_endpoint :: Endpoint where
  "zero_endpoint = \<lparr>ep_IP = [], ep_Port = 0, ep_Weight = 0, ep_Priority = 0, ep_AppProtocol = '''',
     ep_Zone = '''', ep_ClusterKey = '''', ep_LBType = '''', ep_Path = '''', ep_ClusterID = '''',
     ep_WithGateway = False, ep_WithMultiGateways = False, ep_ViaGatewayHTTP = '''',
     ep_ViaGatewayGRPC = '''', ep_ViaGatewayMode = ''''\<rparr>"

section \<open>The Kubernetes provider\<close>

text \<open>What the provider reads from the mesh configuration.\<close>

record KubeConfig =
  kc_Lb :: LoadBalancer
  kc_ServiceAccessMode :: string

definition micro_endpoints :: "string \<Rightarrow> MicroSvcMeta \<Rightarrow> Endpoint list" where
  "micro_endpoints lbType svcMeta =
     [zero_endpoint\<lparr>ep_IP := ParseIP addr, ep_Port := word_of_int port, ep_AppProtocol := protocol,
        ep_ClusterID := mem_ClusterId m, ep_ViaGatewayHTTP := mem_ViaGatewayHTTP m,
        ep_ViaGatewayGRPC := mem_ViaGatewayGRPC m, ep_ViaGatewayMode := mem_ViaGatewayMode m,
        ep_WithGateway := mem_WithGateway m, ep_WithMultiGateways := mem_WithMultiGateways m,
        ep_ClusterKey := (if mem_InternalService m then '''' else mem_ClusterSet m),
        ep_LBType := (if mem_InternalService m then '''' else lbType)\<rparr>.
      (addr, m) \<leftarrow> msm_Endpoints svcMeta, (port, protocol) \<leftarrow> mem_Ports m]"

definition endpoint_app_protocol :: "EndpointPort \<Rightarrow> string" where
  "endpoint_app_protocol port =
     (case epp_AppProtocol port of
        Some a \<Rightarrow> a
      | None \<Rightarrow>
          if length (epp_Name port) > 0 then
            (if Contains (epp_Name port) ''http'' then ''http''
             else if Contains (epp_Name port) ''grpc'' then ''grpc'' else '''')
          else '''')"

text \<open>The addresses of a port that a service may use: its target port if it has one, its own host
  name if it has a subdomain, and only addresses that parse.\<close>

definition usable_addresses :: "MeshService \<Rightarrow> K8sEndpoints \<Rightarrow> (EndpointPort \<times> EndpointAddress) list" where
  "usable_addresses svc eps =
     [(port, address). sset \<leftarrow> eps_Subsets eps, port \<leftarrow> sub_Ports sset,
        \<not> (ms_TargetPort svc \<noteq> 0 \<and> epp_Port port \<noteq> int16u (ms_TargetPort svc)),
        address \<leftarrow> sub_Addresses sset,
        \<not> (Subdomain svc \<noteq> '''' \<and> Subdomain svc \<noteq> ea_Hostname address),
        ParseIP (ea_IP address) \<noteq> []]"

definition kube_ListEndpointsForService :: "ThirdParty \<Rightarrow> KubeStore \<Rightarrow> KubeConfig \<Rightarrow> MeshService \<Rightarrow> Endpoint list" where
  "kube_ListEndpointsForService tp st cfg svc =
     (let k8sSvc = GetService st svc;
          addr = (case k8sSvc of None \<Rightarrow> None | Some k \<Rightarrow> om_Annotations (svc_Meta k) AnnotationMeshEndpointAddr)
      in case addr of
           Some v \<Rightarrow> micro_endpoints (lb_Type (kc_Lb cfg)) (tp_Decode tp (the k8sSvc) v)
         | None \<Rightarrow>
             (case GetEndpoints st svc of
                None \<Rightarrow> []
              | Some eps \<Rightarrow>
                  map (\<lambda>(port, address). zero_endpoint\<lparr>ep_IP := ParseIP (ea_IP address),
                         ep_Port := word_of_int (epp_Port port), ep_AppProtocol := endpoint_app_protocol port\<rparr>)
                    (usable_addresses svc eps)))"

text \<open>The addresses of one pod up to the first that does not parse.\<close>

definition pod_endpoints :: "Pod \<Rightarrow> Endpoint list" where
  "pod_endpoints pod =
     map (\<lambda>ip. zero_endpoint\<lparr>ep_IP := ParseIP ip\<rparr>) (takeWhile (\<lambda>ip. ParseIP ip \<noteq> []) (pod_PodIPs pod))"

definition owned_by :: "K8sServiceAccount \<Rightarrow> ObjectMeta \<Rightarrow> string \<Rightarrow> bool" where
  "owned_by sa m saName \<longleftrightarrow> om_Namespace m = sa_Namespace sa \<and> saName = sa_Name sa"

definition kube_ListEndpointsForIdentity :: "KubeStore \<Rightarrow> ServiceIdentity \<Rightarrow> Endpoint list option" where
  "kube_ListEndpointsForIdentity st serviceIdentity =
     (case ToK8sServiceAccount serviceIdentity of
        None \<Rightarrow> None
      | Some sa \<Rightarrow>
          Some (concat (map pod_endpoints
              (filter (\<lambda>pod. owned_by sa (pod_Meta pod) (pod_ServiceAccountName pod)) (ListPods st)))
            @ map (\<lambda>vm. zero_endpoint\<lparr>ep_IP := ParseIP (vm_MachineIP vm)\<rparr>)
                (takeWhile (\<lambda>vm. ParseIP (vm_MachineIP vm) \<noteq> [])
                   (filter (\<lambda>vm. owned_by sa (vm_Meta vm) (vm_ServiceAccountName vm)) (ListVms st)))))"

definition kube_getServicesByLabels ::
  "ThirdParty \<Rightarrow> KubeStore \<Rightarrow> KubeConfig \<Rightarrow> (string \<rightharpoonup> string) \<Rightarrow> string \<Rightarrow> MeshService list option" where
  "kube_getServicesByLabels tp st cfg podLabels targetNamespace =
     map_option concat (those (map (ServiceToMeshServices tp st (kc_Lb cfg))
       (filter (\<lambda>svc. om_Namespace (svc_Meta svc) = targetNamespace \<and> svc_Selector svc \<noteq> Map.empty \<and>
                      tp_SelectorMatches tp (svc_Selector svc) podLabels)
          (kube_ListServices st True True))))"

definition kube_GetServicesForServiceIdentity ::
  "ThirdParty \<Rightarrow> KubeStore \<Rightarrow> KubeConfig \<Rightarrow> ServiceIdentity \<Rightarrow> MeshService list option" where
  "kube_GetServicesForServiceIdentity tp st cfg svcIdentity =
     (case ToK8sServiceAccount svcIdentity of
        None \<Rightarrow> None
      | Some svcAccount \<Rightarrow>
          map_option (\<lambda>found. set_adds [] (concat found))
            (those (map (\<lambda>m. kube_getServicesByLabels tp st cfg (om_Labels m) (om_Namespace m))
               (map pod_Meta (filter (\<lambda>pod. owned_by svcAccount (pod_Meta pod) (pod_ServiceAccountName pod)) (ListPods st))
                @ map vm_Meta (filter (\<lambda>vm. owned_by svcAccount (vm_Meta vm) (vm_ServiceAccountName vm)) (ListVms st))))))"

definition kube_GetResolvableEndpointsForService ::
  "ThirdParty \<Rightarrow> KubeStore \<Rightarrow> KubeConfig \<Rightarrow> MeshService \<Rightarrow> Endpoint list" where
  "kube_GetResolvableEndpointsForService tp st cfg svc =
     (case GetService st svc of
        None \<Rightarrow> []
      | Some kubeService \<Rightarrow>
          if length (svc_ClusterIP kubeService) = 0 \<or> svc_ClusterIP kubeService = ''None''
          then kube_ListEndpointsForService tp st cfg svc
          else if ParseIP (svc_ClusterIP kubeService) = [] then []
          else (let sam = kc_ServiceAccessMode cfg;
                    ips = ParseIP (svc_ClusterIP kubeService) #
                      (if sam = ''ip'' \<or> sam = ''mixed'' then
                         (case GetEndpoints st svc of
                            None \<Rightarrow> []
                          | Some eps \<Rightarrow> [ParseIP (ea_IP a). sset \<leftarrow> eps_Subsets eps, a \<leftarrow> sub_Addresses sset])
                       else [])
                in [zero_endpoint\<lparr>ep_IP := ip, ep_Port := word_of_int (sp_Port svcPort)\<rparr>.
                    svcPort \<leftarrow> svc_Ports kubeService, ip \<leftarrow> ips]))"

definition AnnotationCloudHealthCheckService :: string where
  "AnnotationCloudHealthCheckService = ''flomesh.io/cloud-health-check-service''"

definition kube_pr_ListServices :: "ThirdParty \<Rightarrow> KubeStore \<Rightarrow> KubeConfig \<Rightarrow> MeshService list option" where
  "kube_pr_ListServices tp st cfg =
     map_option concat (those (map (ServiceToMeshServices tp st (kc_Lb cfg))
       (filter (\<lambda>svc. om_Annotations (svc_Meta svc) AnnotationCloudHealthCheckService = None)
          (kube_ListServices st True True))))"

definition kube_pr_ListServiceIdentitiesForService ::
  "ThirdParty \<Rightarrow> KubeStore \<Rightarrow> MeshService \<Rightarrow> ServiceIdentity list" where
  "kube_pr_ListServiceIdentitiesForService tp st svc =
     (case kube_ListServiceIdentitiesForService tp st svc of
        Inl _ \<Rightarrow> []
      | Inr accounts \<Rightarrow> map ToServiceIdentity accounts)"

definition kube_provider :: "ThirdParty \<Rightarrow> KubeStore \<Rightarrow> KubeConfig \<Rightarrow> Provider" where
  "kube_provider tp st cfg =
     \<lparr>pr_ListEndpointsForService = kube_ListEndpointsForService tp st cfg,
      pr_ListEndpointsForIdentity = kube_ListEndpointsForIdentity st,
      pr_GetResolvableEndpointsForService = kube_GetResolvableEndpointsForService tp st cfg,
      pr_GetServicesForServiceIdentity = kube_GetServicesForServiceIdentity tp st cfg,
      pr_ListServices = kube_pr_ListServices tp st cfg,
      pr_ListServiceIdentitiesForService = kube_pr_ListServiceIdentitiesForService tp st\<rparr>"

section \<open>The multicluster provider\<close>

text \<open>\<open>strconv.ParseUint(s, 10, 32)\<close> with its error ignored: 0 on a syntax error, the maximum on
  overflow.\<close>

fun parse_uint32 :: "nat \<Rightarrow> string \<Rightarrow> nat" where
  "parse_uint32 n [] = n"
| "parse_uint32 n (c # s) =
     (if \<not> is_digit c then 0
      else let n' = n * 10 + digit_val c in if n' > 4294967295 then 4294967295 else parse_uint32 n' s)"

definition annotation :: "K8sEndpoints \<Rightarrow> string \<Rightarrow> string" where
  "annotation eps k = (case om_Annotations (eps_Meta eps) k of Some v \<Rightarrow> v | None \<Rightarrow> '''')"

definition fsm_ListEndpointsForService :: "MultiStore \<Rightarrow> MeshService \<Rightarrow> Endpoint list" where
  "fsm_ListEndpointsForService mcs svc =
     (case mcs_GetEndpoints mcs svc of
        None \<Rightarrow> []
      | Some eps \<Rightarrow>
          map (\<lambda>(port, address).
             let k = (\<lambda>kind. annotation eps (import_key kind (ea_IP address) (epp_Port port))) in
             zero_endpoint\<lparr>ep_IP := ParseIP (ea_IP address), ep_Port := word_of_int (epp_Port port),
               ep_ClusterKey := k ''ClusterKey'', ep_LBType := k ''LBType'',
               ep_Weight := of_nat (parse_uint32 0 (k ''LBWeight'')), ep_Path := k ''ContextPath''\<rparr>)
            (usable_addresses svc eps))"

definition owned_or_any :: "K8sServiceAccount \<Rightarrow> Pod \<Rightarrow> bool" where
  "owned_or_any sa pod \<longleftrightarrow> om_Namespace (pod_Meta pod) = sa_Namespace sa \<and>
     (pod_ServiceAccountName pod = sa_Name sa \<or> pod_ServiceAccountName pod = AnyServiceAccount)"

definition fsm_ListEndpointsForIdentity :: "MultiStore \<Rightarrow> ServiceIdentity \<Rightarrow> Endpoint list option" where
  "fsm_ListEndpointsForIdentity mcs serviceIdentity =
     (case ToK8sServiceAccount serviceIdentity of
        None \<Rightarrow> None
      | Some sa \<Rightarrow> Some (concat (map pod_endpoints (filter (owned_or_any sa) (mcs_ListPods mcs)))))"

definition port_protocol :: "ServicePort \<Rightarrow> string" where
  "port_protocol portSpec =
     (case sp_AppProtocol portSpec of
        Some a \<Rightarrow> a
      | None \<Rightarrow> (case find (\<lambda>p. HasPrefix (sp_Name portSpec) (p @ ''-'')) SupportedProtocolsInMesh of
          Some p \<Rightarrow> p | None \<Rightarrow> ''http''))"

definition fsm_ServiceToMeshServices :: "MultiStore \<Rightarrow> K8sService \<Rightarrow> MeshService list" where
  "fsm_ServiceToMeshServices mcs svc =
     concat (map (\<lambda>portSpec.
       let meshSvc = (plain_service (om_Namespace (svc_Meta svc)) (om_Name (svc_Meta svc)))
             \<lparr>ms_Port := u16 (sp_Port portSpec), ms_ServiceImportUID := om_UID (svc_Meta svc),
              ms_Protocol := port_protocol portSpec\<rparr>
       in case mcs_GetEndpoints mcs meshSvc of
            None \<Rightarrow> []
          | Some eps \<Rightarrow> [meshSvc\<lparr>ms_TargetPort := u16 (epp_Port port)\<rparr>.
               sset \<leftarrow> eps_Subsets eps, port \<leftarrow> sub_Ports sset])
       (svc_Ports svc))"

definition fsm_getServicesByLabels ::
  "ThirdParty \<Rightarrow> MultiStore \<Rightarrow> (string \<rightharpoonup> string) \<Rightarrow> string \<Rightarrow> MeshService list" where
  "fsm_getServicesByLabels tp mcs podLabels targetNamespace =
     concat (map (fsm_ServiceToMeshServices mcs)
       (filter (\<lambda>svc. om_Namespace (svc_Meta svc) = targetNamespace \<and> svc_Selector svc \<noteq> Map.empty \<and>
                      tp_SelectorMatches tp (svc_Selector svc) podLabels) (mcs_ListServices mcs)))"

definition fsm_GetServicesForServiceIdentity ::
  "ThirdParty \<Rightarrow> MultiStore \<Rightarrow> ServiceIdentity \<Rightarrow> MeshService list option" where
  "fsm_GetServicesForServiceIdentity tp mcs svcIdentity =
     (case ToK8sServiceAccount svcIdentity of
        None \<Rightarrow> None
      | Some svcAccount \<Rightarrow>
          Some (set_adds [] (concat (map
            (\<lambda>pod. fsm_getServicesByLabels tp mcs (om_Labels (pod_Meta pod)) (om_Namespace (pod_Meta pod)))
            (filter (owned_or_any svcAccount) (mcs_ListPods mcs))))))"

definition fsm_GetResolvableEndpointsForService :: "MultiStore \<Rightarrow> MeshService \<Rightarrow> Endpoint list" where
  "fsm_GetResolvableEndpointsForService mcs svc =
     (case mcs_GetService mcs svc of
        None \<Rightarrow> []
      | Some kubeService \<Rightarrow>
          if length (svc_ClusterIP kubeService) = 0 \<or> svc_ClusterIP kubeService = ''None''
          then fsm_ListEndpointsForService mcs svc
          else if ParseIP (svc_ClusterIP kubeService) = [] then []
          else map (\<lambda>svcPort. zero_endpoint\<lparr>ep_IP := ParseIP (svc_ClusterIP kubeService),
                  ep_Port := word_of_int (sp_Port svcPort), ep_ClusterKey := ''flomesh''\<rparr>)
                (svc_Ports kubeService))"

definition fsm_ListServices :: "MultiStore \<Rightarrow> MeshService list" where
  "fsm_ListServices mcs = concat (map (fsm_ServiceToMeshServices mcs) (mcs_ListServices mcs))"

definition fsm_ListServiceIdentitiesForService ::
  "ThirdParty \<Rightarrow> MultiStore \<Rightarrow> MeshService \<Rightarrow> ServiceIdentity list" where
  "fsm_ListServiceIdentitiesForService tp mcs svc =
     (case mcs_ListServiceIdentitiesForService tp mcs svc of
        Inl _ \<Rightarrow> []
      | Inr accounts \<Rightarrow> map ToServiceIdentity accounts)"

definition fsm_provider :: "ThirdParty \<Rightarrow> MultiStore \<Rightarrow> Provider" where
  "fsm_provider tp mcs =
     \<lparr>pr_ListEndpointsForService = fsm_ListEndpointsForService mcs,
      pr_ListEndpointsForIdentity = fsm_ListEndpointsForIdentity mcs,
      pr_GetResolvableEndpointsForService = fsm_GetResolvableEndpointsForService mcs,
      pr_GetServicesForServiceIdentity = fsm_GetServicesForServiceIdentity tp mcs,
      pr_ListServices = Some (fsm_ListServices mcs),
      pr_ListServiceIdentitiesForService = fsm_ListServiceIdentitiesForService tp mcs\<rparr>"

section \<open>The contract of a provider\<close>

text \<open>
  What the catalog relies on, whichever provider it asks: no panic on an identity that contains a
  dot, services of an identity listed without repetition, and a total service list.
\<close>

locale provider_contract =
  fixes p :: Provider
  assumes identity_endpoints_total: "\<not> dot_free si \<Longrightarrow> pr_ListEndpointsForIdentity p si \<noteq> None"
    and identity_services_total: "\<not> dot_free si \<Longrightarrow> pr_GetServicesForServiceIdentity p si \<noteq> None"
    and identity_services_distinct: "pr_GetServicesForServiceIdentity p si = Some ss \<Longrightarrow> distinct ss"
    and services_total: "pr_ListServices p \<noteq> None"
begin

lemma account_services_total: "pr_GetServicesForServiceIdentity p (ToServiceIdentity sa) \<noteq> None"
  by (rule identity_services_total) (auto simp: ToServiceIdentity_def New_def dot_free_def)

lemma account_endpoints_total: "pr_ListEndpointsForIdentity p (ToServiceIdentity sa) \<noteq> None"
  by (rule identity_endpoints_total) (auto simp: ToServiceIdentity_def New_def dot_free_def)

end

lemma those_total: "\<forall>x\<in>set xs. f x \<noteq> None \<Longrightarrow> those (map f xs) \<noteq> None"
  by (induction xs) auto

lemma those_SomeD: "those (map f xs) = Some ys \<Longrightarrow> length ys = length xs \<and> (\<forall>i<length xs. f (xs ! i) = Some (ys ! i))"
proof (induction xs arbitrary: ys)
  case (Cons x xs)
  then show ?case by (auto simp: nth_Cons split: option.splits nat.splits)
qed simp

lemma those_mem:
  assumes "those (map f xs) = Some ys"
  shows "y \<in> set ys \<longleftrightarrow> (\<exists>x\<in>set xs. f x = Some y)"
proof -
  have "length ys = length xs" "\<forall>i<length xs. f (xs ! i) = Some (ys ! i)"
    using those_SomeD [OF assms] by auto
  then show ?thesis by (metis in_set_conv_nth option.inject)
qed

lemma ServiceToMeshServices_monitored:
  "svc \<in> set (kube_ListServices st True True) \<Longrightarrow> ServiceToMeshServices tp st lb svc \<noteq> None"
  by (auto simp: mem_kube_ListServices ServiceToMeshServices_def IsMonitoredNamespace_def Let_def
      split: option.splits if_splits)

lemma kube_getServicesByLabels_total: "kube_getServicesByLabels tp st cfg ls ns \<noteq> None"
  unfolding kube_getServicesByLabels_def option.map_disc_iff
  by (rule those_total) (simp add: ServiceToMeshServices_monitored del: not_None_eq)

interpretation kube: provider_contract "kube_provider tp st cfg" for tp st cfg
proof unfold_locales
  fix si assume "\<not> dot_free si"
  then obtain sa where sa: "ToK8sServiceAccount si = Some sa"
    using ToK8sServiceAccount_None_iff by blast
  show "pr_ListEndpointsForIdentity (kube_provider tp st cfg) si \<noteq> None"
    using sa by (simp add: kube_provider_def kube_ListEndpointsForIdentity_def)
  show "pr_GetServicesForServiceIdentity (kube_provider tp st cfg) si \<noteq> None"
    using sa those_total [of _ "\<lambda>m. kube_getServicesByLabels tp st cfg (om_Labels m) (om_Namespace m)"]
      kube_getServicesByLabels_total
    by (simp add: kube_provider_def kube_GetServicesForServiceIdentity_def del: map_append not_None_eq)
next
  fix si ss
  show "pr_GetServicesForServiceIdentity (kube_provider tp st cfg) si = Some ss \<Longrightarrow> distinct ss"
    by (auto simp: kube_provider_def kube_GetServicesForServiceIdentity_def split: option.splits)
next
  show "pr_ListServices (kube_provider tp st cfg) \<noteq> None"
    unfolding kube_provider_def kube_pr_ListServices_def Provider.simps option.map_disc_iff
    by (rule those_total) (simp add: ServiceToMeshServices_monitored del: not_None_eq)
qed

interpretation fsm: provider_contract "fsm_provider tp mcs" for tp mcs
proof unfold_locales
  fix si assume "\<not> dot_free si"
  then obtain sa where sa: "ToK8sServiceAccount si = Some sa"
    using ToK8sServiceAccount_None_iff by blast
  show "pr_ListEndpointsForIdentity (fsm_provider tp mcs) si \<noteq> None"
    using sa by (simp add: fsm_provider_def fsm_ListEndpointsForIdentity_def)
  show "pr_GetServicesForServiceIdentity (fsm_provider tp mcs) si \<noteq> None"
    using sa by (simp add: fsm_provider_def fsm_GetServicesForServiceIdentity_def)
next
  fix si ss
  show "pr_GetServicesForServiceIdentity (fsm_provider tp mcs) si = Some ss \<Longrightarrow> distinct ss"
    by (auto simp: fsm_provider_def fsm_GetServicesForServiceIdentity_def split: option.splits)
next
  show "pr_ListServices (fsm_provider tp mcs) \<noteq> None" by (simp add: fsm_provider_def)
qed

section \<open>Properties\<close>

text \<open>
  C30.  The Kubernetes provider attributes to an identity only addresses of its own workloads: every
  endpoint listed for an identity is the parsed address of a monitored pod or of a machine whose
  namespace and service account are those of the identity; and if all addresses of these pods
  parse, every one of them is listed.
\<close>

theorem kube_identity_endpoints_owned:
  assumes "ToK8sServiceAccount si = Some sa" "kube_ListEndpointsForIdentity st si = Some eps"
  shows "(\<forall>ep\<in>set eps.
            (\<exists>pod\<in>set (ListPods st). owned_by sa (pod_Meta pod) (pod_ServiceAccountName pod) \<and>
               ep_IP ep \<in> ParseIP ` set (pod_PodIPs pod)) \<or>
            (\<exists>vm\<in>set (ListVms st). owned_by sa (vm_Meta vm) (vm_ServiceAccountName vm) \<and>
               ep_IP ep = ParseIP (vm_MachineIP vm))) \<and>
         (\<forall>pod\<in>set (ListPods st). owned_by sa (pod_Meta pod) (pod_ServiceAccountName pod) \<and>
            [] \<notin> ParseIP ` set (pod_PodIPs pod) \<longrightarrow>
            ParseIP ` set (pod_PodIPs pod) \<subseteq> ep_IP ` set eps)"
proof -
  have eps: "eps = concat (map pod_endpoints
              (filter (\<lambda>pod. owned_by sa (pod_Meta pod) (pod_ServiceAccountName pod)) (ListPods st)))
            @ map (\<lambda>vm. zero_endpoint\<lparr>ep_IP := ParseIP (vm_MachineIP vm)\<rparr>)
                (takeWhile (\<lambda>vm. ParseIP (vm_MachineIP vm) \<noteq> [])
                   (filter (\<lambda>vm. owned_by sa (vm_Meta vm) (vm_ServiceAccountName vm)) (ListVms st)))"
    using assms by (simp add: kube_ListEndpointsForIdentity_def)
  have all: "takeWhile (\<lambda>ip. ParseIP ip \<noteq> []) ips = ips" if "[] \<notin> ParseIP ` set ips" for ips
    using that by (auto simp: takeWhile_eq_all_conv image_iff)
  have ips: "ep_IP ` set (pod_endpoints pod) = ParseIP ` set (pod_PodIPs pod)"
    if "[] \<notin> ParseIP ` set (pod_PodIPs pod)" for pod
  proof -
    have "pod_endpoints pod = map (\<lambda>ip. zero_endpoint\<lparr>ep_IP := ParseIP ip\<rparr>) (pod_PodIPs pod)"
      unfolding pod_endpoints_def all [OF that] ..
    then show ?thesis by (simp add: image_image)
  qed
  show ?thesis
  proof (intro conjI ballI impI)
    fix ep assume "ep \<in> set eps"
    then show "(\<exists>pod\<in>set (ListPods st). owned_by sa (pod_Meta pod) (pod_ServiceAccountName pod) \<and>
               ep_IP ep \<in> ParseIP ` set (pod_PodIPs pod)) \<or>
            (\<exists>vm\<in>set (ListVms st). owned_by sa (vm_Meta vm) (vm_ServiceAccountName vm) \<and>
               ep_IP ep = ParseIP (vm_MachineIP vm))"
      by (auto simp: eps pod_endpoints_def dest!: set_takeWhileD)
  next
    fix pod assume pod: "pod \<in> set (ListPods st)"
      "owned_by sa (pod_Meta pod) (pod_ServiceAccountName pod) \<and> [] \<notin> ParseIP ` set (pod_PodIPs pod)"
    then have "set (pod_endpoints pod) \<subseteq> set eps" by (auto simp: eps)
    then show "ParseIP ` set (pod_PodIPs pod) \<subseteq> ep_IP ` set eps"
      using ips [of pod] pod(2) by blast
  qed
qed

lemma parse_10_0_0_1: "ParseIP ''10.0.0.1'' = replicate 10 0 @ [0xff, 0xff, 10, 0, 0, 1]"
  by code_simp

theorem kube_identity_endpoints_owned_witness:
  "\<exists>eps. kube_ListEndpointsForIdentity store0 ''buyer.shop'' = Some eps \<and>
     ParseIP ''10.0.0.1'' \<in> ep_IP ` set eps"
proof -
  have sa: "ToK8sServiceAccount ''buyer.shop'' = Some \<lparr>sa_Namespace = ''shop'', sa_Name = ''buyer''\<rparr>"
    by (simp add: ToK8sServiceAccount_def)
  obtain eps where eps: "kube_ListEndpointsForIdentity store0 ''buyer.shop'' = Some eps"
    using sa by (simp add: kube_ListEndpointsForIdentity_def)
  have "pod0 \<in> set (ListPods store0)"
    by (simp add: store0_def pod0_def meta0_def ListPods_def IsMonitoredNamespace_def GetNamespace_def)
  moreover have "owned_by \<lparr>sa_Namespace = ''shop'', sa_Name = ''buyer''\<rparr> (pod_Meta pod0) (pod_ServiceAccountName pod0)"
      "pod_PodIPs pod0 = [''10.0.0.1'']"
    by (simp_all add: pod0_def meta0_def owned_by_def)
  moreover have "[] \<notin> ParseIP ` set [''10.0.0.1'']" by (simp add: parse_10_0_0_1)
  ultimately have "ParseIP ''10.0.0.1'' \<in> ep_IP ` set eps"
    using kube_identity_endpoints_owned [OF sa eps] by fastforce
  with eps show ?thesis by blast
qed

end
