(* ===== verification/Cidr.thy ===== *)
theory Cidr
  imports GoNet
begin

unbundle bit_operations_syntax

text \<open>
  Package \<open>cidr\<close> (\<open>pkg/utils/cidr/cidr.go\<close>, \<open>helper.go\<close>): networks in CIDR notation, their
  bounds, comparison and the iteration over their addresses.  An iteration may run forever (a
  network of prefix length 0 contains every address of its family), so the loops are partial
  functions whose value \<open>None\<close> is divergence.
\<close>

record CIDR =
  c_ip :: IP
  c_ipnet :: IPNet

definition ParseCIDR :: "string \<Rightarrow> CIDR option" where
  "ParseCIDR s = (case net_ParseCIDR s of None \<Rightarrow> None | Some (i, n) \<Rightarrow> Some \<lparr>c_ip = i, c_ipnet = n\<rparr>)"

text \<open>\<open>net.IPMask.Size\<close>: leading ones and total bits, \<open>(0, 0)\<close> for a mask that is not ones
  followed by zeros.\<close>

definition Mask_Size :: "IP \<Rightarrow> nat \<times> nat" where
  "Mask_Size m =
     (case find (\<lambda>k. CIDRMask_bytes k (length m) = m) [0..<Suc (8 * length m)] of
        None \<Rightarrow> (0, 0) | Some k \<Rightarrow> (k, 8 * length m))"

definition CIDR_String :: "CIDR \<Rightarrow> string" where
  "CIDR_String c =
     (let (nn, m) = networkNumberAndMask (c_ipnet c) in
      if nn = [] \<or> m = [] then ''<nil>''
      else if Mask_Size m = (0, 0) then IP_String nn @ ''/'' @ concat (map hex2 m)
      else IP_String nn @ ''/'' @ fmt_nat (fst (Mask_Size m)))"

definition CIDR_Equal :: "CIDR \<Rightarrow> string \<Rightarrow> bool" where
  "CIDR_Equal c ns =
     (case ParseCIDR ns of
        None \<Rightarrow> False
      | Some c2 \<Rightarrow> IP_Equal (net_IP (c_ipnet c)) (net_IP (c_ipnet c2)))"

definition IsIPv4 :: "CIDR \<Rightarrow> bool" where
  "IsIPv4 c \<longleftrightarrow> snd (Mask_Size (net_Mask (c_ipnet c))) div 8 = 4"

definition IsIPv6 :: "CIDR \<Rightarrow> bool" where
  "IsIPv6 c \<longleftrightarrow> snd (Mask_Size (net_Mask (c_ipnet c))) div 8 = 16"

definition CIDR_Contains :: "CIDR \<Rightarrow> string \<Rightarrow> bool" where
  "CIDR_Contains c ip \<longleftrightarrow> IPNet_Contains (c_ipnet c) (ParseIP ip)"

definition Has :: "CIDR \<Rightarrow> IP \<Rightarrow> bool" where
  "Has c ip \<longleftrightarrow> IPNet_Contains (c_ipnet c) ip"

definition CIDR_IP :: "CIDR \<Rightarrow> string" where
  "CIDR_IP c = IP_String (c_ip c)"

definition Network :: "CIDR \<Rightarrow> string" where
  "Network c = IP_String (net_IP (c_ipnet c))"

definition MaskSize :: "CIDR \<Rightarrow> nat \<times> nat" where
  "MaskSize c = Mask_Size (net_Mask (c_ipnet c))"

definition CIDR_Mask :: "CIDR \<Rightarrow> string" where
  "CIDR_Mask c = IP_String (net_Mask (c_ipnet c))"

text \<open>The highest address: set every bit outside the mask.  A mask longer than the address would
  index below zero (\<open>None\<close>).\<close>

definition broadcast_ip :: "IPNet \<Rightarrow> IP option" where
  "broadcast_ip n =
     (let ip = net_IP n; m = net_Mask n; d = length ip - length m in
      if length m > length ip then None
      else Some (take d ip @ map2 (\<lambda>a b. a OR NOT b) (drop d ip) m))"

definition Broadcast :: "CIDR \<Rightarrow> string option" where
  "Broadcast c = map_option IP_String (broadcast_ip (c_ipnet c))"

definition IPRange :: "CIDR \<Rightarrow> (string \<times> string) option" where
  "IPRange c = map_option (\<lambda>b. (Network c, b)) (Broadcast c)"

definition IPCount :: "CIDR \<Rightarrow> nat" where
  "IPCount c = (let (ones, bits) = Mask_Size (net_Mask (c_ipnet c)) in 2 ^ (bits - ones))"

subsection \<open>Successor and predecessor\<close>

fun incr_le :: "byte list \<Rightarrow> byte list" where
  "incr_le [] = []"
| "incr_le (b # bs) = (if b + 1 > 0 then (b + 1) # bs else (b + 1) # incr_le bs)"

definition IncrIP :: "IP \<Rightarrow> IP" where
  "IncrIP ip = rev (incr_le (rev ip))"

text \<open>
  \<open>DecrIP\<close>, on the reversed bytes.  The inner loop (\<open>j = 1 .. length - 1\<close>) returns from the
  function at the first byte that stays below \<open>0xff\<close>; the boolean says whether it did.  If it runs
  to the end, the outer loop goes on with the last byte again.
\<close>

fun decr_inner :: "byte list \<Rightarrow> byte list \<times> bool" where
  "decr_inner [] = ([], False)"
| "decr_inner (b # bs) =
     (if b - 1 < 0xff then ((b - 1) # bs, True)
      else (let (bs', done) = decr_inner bs in ((b - 1) # bs', done)))"

fun decr_outer :: "nat \<Rightarrow> byte list \<Rightarrow> byte list" where
  "decr_outer 0 bs = bs"
| "decr_outer (Suc i) [] = []"
| "decr_outer (Suc i) (b # bs) =
     (if b - 1 < 0xff then (b - 1) # bs
      else (let (bs', done) = decr_inner bs in
        if done then (b - 1) # bs' else decr_outer i ((b - 1) # bs')))"

definition DecrIP :: "IP \<Rightarrow> IP" where
  "DecrIP ip = rev (decr_outer (length ip) (rev ip))"

subsection \<open>Comparison and sorting\<close>

text \<open>\<open>bytes.Compare\<close>\<close>

fun Compare :: "IP \<Rightarrow> IP \<Rightarrow> int" where
  "Compare [] [] = 0"
| "Compare [] (b # bs) = -1"
| "Compare (a # as) [] = 1"
| "Compare (a # as) (b # bs) = (if a < b then -1 else if b < a then 1 else Compare as bs)"

definition CompareCIDR :: "CIDR \<Rightarrow> CIDR \<Rightarrow> int" where
  "CompareCIDR a b =
     (let i1 = fst (Mask_Size (net_Mask (c_ipnet a))); j1 = fst (Mask_Size (net_Mask (c_ipnet b)))
      in if i1 = j1 then Compare (net_IP (c_ipnet a)) (net_IP (c_ipnet b))
         else if i1 > j1 then 1 else -1)"

text \<open>The ascending order by prefix length, then network; \<open>sort.Slice\<close> as insertion sort.\<close>

definition asc_less :: "CIDR \<Rightarrow> CIDR \<Rightarrow> bool" where
  "asc_less a b =
     (let i1 = fst (Mask_Size (net_Mask (c_ipnet a))); j1 = fst (Mask_Size (net_Mask (c_ipnet b)))
      in if i1 = j1 then Compare (net_IP (c_ipnet a)) (net_IP (c_ipnet b)) < 0 else i1 < j1)"

fun insert_asc :: "CIDR \<Rightarrow> CIDR list \<Rightarrow> CIDR list" where
  "insert_asc c [] = [c]"
| "insert_asc c (d # ds) = (if asc_less d c then d # insert_asc c ds else c # d # ds)"

definition AscSortCIDRs :: "CIDR list \<Rightarrow> CIDR list" where
  "AscSortCIDRs cs = foldr insert_asc cs []"

subsection \<open>Iteration\<close>

text \<open>The iterator is a state transformer that may stop the loop with an error.\<close>

partial_function (option) for_each ::
  "IPNet \<Rightarrow> (string \<Rightarrow> 's \<Rightarrow> 's \<times> 'e option) \<Rightarrow> IP \<Rightarrow> 's \<Rightarrow> ('s \<times> 'e option) option" where
  "for_each n it nxt s =
     (if IPNet_Contains n nxt then
        (case it (IP_String nxt) s of
           (s', Some err) \<Rightarrow> Some (s', Some err)
         | (s', None) \<Rightarrow> for_each n it (IncrIP nxt) s')
      else Some (s, None))"

definition ForEachIP ::
  "CIDR \<Rightarrow> (string \<Rightarrow> 's \<Rightarrow> 's \<times> 'e option) \<Rightarrow> 's \<Rightarrow> ('s \<times> 'e option) option" where
  "ForEachIP c it s = for_each (c_ipnet c) it (net_IP (c_ipnet c)) s"

definition ForEachIPBeginWith ::
  "CIDR \<Rightarrow> string \<Rightarrow> (string \<Rightarrow> 's \<Rightarrow> 's \<times> 'e option) \<Rightarrow> 's \<Rightarrow> ('s \<times> 'e option) option" where
  "ForEachIPBeginWith c beginIP it s = for_each (c_ipnet c) it (ParseIP beginIP) s"

section \<open>Successor and predecessor\<close>

fun le_val :: "byte list \<Rightarrow> nat" where
  "le_val [] = 0"
| "le_val (b # bs) = unat b + 256 * le_val bs"

lemma le_val_append: "le_val (xs @ ys) = le_val xs + 256 ^ length xs * le_val ys"
  by (induction xs) (auto simp: algebra_simps)

lemma be_val_rev: "be_val (rev bs) = le_val bs"
  by (induction bs) (auto simp: be_val_append)

lemma be_val_le: "be_val ip = le_val (rev ip)"
  using be_val_rev [of "rev ip"] by simp

lemma byte_inc: "b + 1 > (0 :: byte) \<Longrightarrow> unat (b + 1) = unat b + 1"
  by (unat_arith; simp; presburger)

lemma byte_inc_0: "\<not> b + 1 > (0 :: byte) \<Longrightarrow> unat b = 255"
  by (unat_arith; simp; presburger)

lemma byte_dec_iff: "b - 1 < (0xff :: byte) \<longleftrightarrow> b \<noteq> 0"
  by (unat_arith; simp; presburger)

lemma byte_dec: "b \<noteq> (0 :: byte) \<Longrightarrow> unat (b - 1) = unat b - 1 \<and> unat b > 0"
  by (unat_arith; simp; presburger)

lemma unat_byte_m1 [simp]: "unat (- 1 :: byte) = 255"
  using byte_inc_0 [of "- 1"] by simp

lemma length_incr_le [simp]: "length (incr_le bs) = length bs"
  by (induction bs) auto

lemma le_val_less: "le_val bs < 256 ^ length bs"
  using be_val_less [of "rev bs"] by (simp add: be_val_rev)

lemma le_val_incr: "le_val (incr_le bs) = (le_val bs + 1) mod 256 ^ length bs"
proof (induction bs)
  case (Cons b bs)
  show ?case
  proof (cases "b + 1 > 0")
    case True
    have "le_val ((b + 1) # bs) = le_val (b # bs) + 1" using True by (simp add: byte_inc)
    moreover have "le_val ((b + 1) # bs) < 256 ^ length (b # bs)"
      using le_val_less [of "(b + 1) # bs"] by simp
    ultimately show ?thesis using True by simp
  next
    case False
    then have b: "unat b = 255" and b1: "b + 1 = 0" using byte_inc_0 by (auto simp: word_gt_0)
    have "le_val (incr_le (b # bs)) = 256 * ((le_val bs + 1) mod 256 ^ length bs)"
      using False b1 Cons by simp
    also have "\<dots> = (256 * (le_val bs + 1)) mod (256 * 256 ^ length bs)"
      by (simp only: mult_mod_right)
    also have "256 * (le_val bs + 1) = le_val (b # bs) + 1" using b by simp
    finally show ?thesis by simp
  qed
qed simp

lemma length_IncrIP [simp]: "length (IncrIP ip) = length ip"
  by (simp add: IncrIP_def)

lemma be_val_IncrIP: "be_val (IncrIP ip) = (be_val ip + 1) mod 256 ^ length ip"
  by (simp add: be_val_le IncrIP_def le_val_incr)

lemma le_val_0_iff: "le_val bs = 0 \<longleftrightarrow> bs = replicate (length bs) 0"
  by (induction bs) (auto simp: unat_eq_zero)

lemma decr_inner_zero: "decr_inner (replicate n 0) = (replicate n 0xff, False)"
  by (induction n) auto

lemma decr_inner_pos:
  "le_val bs > 0 \<Longrightarrow> \<exists>bs'. decr_inner bs = (bs', True) \<and> le_val bs' + 1 = le_val bs \<and> length bs' = length bs"
proof (induction bs)
  case (Cons b bs)
  show ?case
  proof (cases "b = 0")
    case True
    with Cons obtain bs' where
      "decr_inner bs = (bs', True)" "le_val bs' + 1 = le_val bs" "length bs' = length bs"
      by auto
    with True show ?thesis by (simp add: byte_dec_iff)
  next
    case False
    then show ?thesis using byte_dec [OF False] by (simp add: byte_dec_iff)
  qed
qed simp

lemma le_val_decr_outer:
  assumes "le_val bs > 0" "i > 0"
  shows "le_val (decr_outer i bs) + 1 = le_val bs \<and> length (decr_outer i bs) = length bs"
proof -
  obtain k where k: "i = Suc k" using assms(2) by (cases i) auto
  obtain b cs where bs: "bs = b # cs" using assms(1) by (cases bs) auto
  show ?thesis
  proof (cases "b = 0")
    case True
    with assms(1) bs have "le_val cs > 0" by simp
    then obtain cs' where
      "decr_inner cs = (cs', True)" "le_val cs' + 1 = le_val cs" "length cs' = length cs"
      using decr_inner_pos by blast
    with True bs k show ?thesis by (simp add: byte_dec_iff)
  next
    case False
    then show ?thesis using byte_dec [OF False] bs k by (simp add: byte_dec_iff)
  qed
qed

lemma be_val_DecrIP:
  assumes "be_val ip > 0"
  shows "be_val (DecrIP ip) + 1 = be_val ip" "length (DecrIP ip) = length ip"
proof -
  have "length ip > 0" using assms by (cases ip) auto
  then show "be_val (DecrIP ip) + 1 = be_val ip" "length (DecrIP ip) = length ip"
    using assms le_val_decr_outer [of "rev ip" "length ip"] by (simp_all add: be_val_le DecrIP_def)
qed

lemma DecrIP_zero: "n \<ge> 2 \<Longrightarrow> DecrIP (replicate n 0) = replicate (n - 1) 0xff @ [0xfe]"
proof -
  assume "n \<ge> 2"
  then obtain m where n: "n = Suc (Suc m)" by (metis add_2_eq_Suc le_Suc_ex)
  show ?thesis
    using decr_inner_zero [of "Suc m"]
    by (simp add: DecrIP_def n del: replicate_Suc) (simp add: replicate_Suc [of "Suc m"] byte_dec_iff del: replicate_Suc)
qed

section \<open>Membership as an interval\<close>

text \<open>A parsed address has 16 bytes, with the IPv4 prefix when it was in dotted form.\<close>

lemma parse4_length: "parse4 s v d fs = Some r \<Longrightarrow> length fs \<le> 3 \<Longrightarrow> length r = 4"
  by (induction s v d fs rule: parse4.induct) (auto split: if_splits simp: Let_def)

lemma parseIPv4Fields_length: "parseIPv4Fields s = Some r \<Longrightarrow> length r = 4"
  using parse4_length [of s 0 0 "[]"] by (simp add: parseIPv4Fields_def)

lemma parse6_length:
  "parse6 n s ip ell = Some (ip', ell', rest) \<Longrightarrow> length ip + 2 * n \<le> 16 \<Longrightarrow> length ip' \<le> 16"
proof (induction n s ip ell arbitrary: ip' ell' rest rule: parse6.induct)
  case (2 n s ip ell)
  then show ?case
    by (fastforce split: option.splits if_splits list.splits simp: Let_def
        dest: parseIPv4Fields_length)
qed simp

lemma parseIPv6_length: "parseIPv6 s = Some ip \<Longrightarrow> length ip = 16"
proof -
  assume ok: "parseIPv6 s = Some ip"
  have "length ip' \<le> 16" if "parse6 8 t [] e = Some (ip', ell, rest)" for t e ip' ell rest
    using parse6_length [OF that] by simp
  with ok show ?thesis
    by (force simp: parseIPv6_def Let_def split: if_splits option.splits)
qed

lemma ParseAddr_length:
  "ParseAddr s = Some (is4, ip) \<Longrightarrow> length ip = 16 \<and> (is4 \<longrightarrow> take 12 ip = v4InV6Prefix)"
  by (auto simp: ParseAddr_def v4InV6Prefix_def parseIPv6_length dest: parseIPv4Fields_length
      split: if_splits option.splits)

text \<open>Masking rounds the value down to a multiple of the size of the network.\<close>

lemma unat_and_mask_byte:
  assumes "n < 8"
  shows "unat (a AND mask_byte n) = unat a div 2 ^ (8 - n) * 2 ^ (8 - n)"
proof -
  let ?k = "8 - n"
  have "a AND mask_byte n = push_bit ?k (drop_bit ?k a)"
  proof (rule bit_word_eqI)
    fix i assume i: "i < LENGTH(8)"
    have ff: "(0xff :: byte) = mask 8" by (simp add: mask_eq_exp_minus_1)
    have "bit (mask_byte n) i \<longleftrightarrow> 8 - n \<le> i"
      using assms i by (auto simp: mask_byte_def bit_simps ff simp del: mask_numeral)
    then show "bit (a AND mask_byte n) i = bit (push_bit ?k (drop_bit ?k a)) i"
      using i by (auto simp: bit_and_iff bit_push_bit_iff bit_drop_bit_eq)
  qed
  also have "unat \<dots> = take_bit 8 (push_bit ?k (drop_bit ?k (unat a)))"
    by (simp only: unsigned_push_bit_eq unat_drop_bit_eq) simp
  also have "\<dots> = take_bit 8 (unat a div 2 ^ ?k * 2 ^ ?k)"
    by (simp only: push_bit_eq_mult drop_bit_eq_div)
  also have "\<dots> = unat a div 2 ^ ?k * 2 ^ ?k"
  proof -
    have "unat a div 2 ^ ?k * 2 ^ ?k \<le> unat a" by simp
    also have "unat a < 2 ^ 8" by simp
    finally have "unat a div 2 ^ ?k * 2 ^ ?k < 2 ^ 8" .
    then show ?thesis by (simp only: take_bit_nat_eq_self)
  qed
  finally show ?thesis .
qed

lemma be_val_replicate_0 [simp]: "be_val (replicate n 0) = 0"
  by (induction n) auto

lemma be_val_masked:
  "ones \<le> 8 * length a \<Longrightarrow>
   be_val (map2 (AND) a (CIDRMask_bytes ones (length a))) =
     be_val a div 2 ^ (8 * length a - ones) * 2 ^ (8 * length a - ones)"
proof (induction a arbitrary: ones)
  case (Cons x xs)
  let ?n = "length xs"
  have pow256: "(256 :: nat) ^ ?n = 2 ^ (8 * ?n)" by (simp add: power_mult)
  show ?case
  proof (cases "8 \<le> ones")
    case True
    let ?k = "8 * ?n - (ones - 8)"
    have e: "(256 :: nat) ^ ?n = 2 ^ (ones - 8) * 2 ^ ?k"
    proof -
      have "8 * ?n = (ones - 8) + ?k" using Cons.prems True by simp
      then show ?thesis using pow256 by (metis power_add)
    qed
    have exp: "8 * length (x # xs) - ones = ?k" using True by simp
    have IH: "be_val (map2 (AND) xs (CIDRMask_bytes (ones - 8) ?n)) = be_val xs div 2 ^ ?k * 2 ^ ?k"
      using Cons.IH [of "ones - 8"] Cons.prems by simp
    have "be_val (x # xs) = unat x * 2 ^ (ones - 8) * 2 ^ ?k + be_val xs"
      by (simp only: be_val.simps e mult.assoc)
    then have "be_val (x # xs) div 2 ^ ?k = unat x * 2 ^ (ones - 8) + be_val xs div 2 ^ ?k"
      by (simp only: div_mult_self3 power_not_zero zero_neq_numeral [symmetric] simp_thms)
    then show ?thesis
      unfolding exp using True IH by (simp add: mask_byte_full e algebra_simps)
  next
    case False
    have exp: "8 * length (x # xs) - ones = 8 * ?n + (8 - ones)" using False by simp
    have "be_val (x # xs) div 2 ^ (8 * ?n) = unat x"
      using be_val_less [of xs] pow256 by simp
    then have top: "be_val (x # xs) div 2 ^ (8 * ?n + (8 - ones)) = unat x div 2 ^ (8 - ones)"
      by (simp only: power_add div_mult2_eq)
    have rest: "map2 (AND) xs (CIDRMask_bytes (ones - 8) ?n) = replicate ?n 0"
      using False and_CIDRMask_0 [of xs] by simp
    have "be_val (map2 (AND) (x # xs) (CIDRMask_bytes ones (length (x # xs)))) =
            unat x div 2 ^ (8 - ones) * 2 ^ (8 - ones) * 2 ^ (8 * ?n)"
      using False rest pow256 unat_and_mask_byte [of ones x] by simp
    then show ?thesis unfolding exp top by (simp add: power_add mult.commute mult.left_commute)
  qed
qed simp

text \<open>A network of the 4-byte family with prefix length \<open>ones\<close>, its address rounded down.\<close>

definition net4 :: "IPNet \<Rightarrow> nat \<Rightarrow> bool" where
  "net4 n ones \<longleftrightarrow> length (net_IP n) = 4 \<and> ones \<le> 32 \<and> net_Mask n = CIDRMask_bytes ones 4 \<and>
     2 ^ (32 - ones) dvd be_val (net_IP n)"

lemma ParseCIDR_net4:
  assumes "ParseCIDR s = Some c" "MaskSize c = (ones, 32)"
  shows "net4 (c_ipnet c) ones"
proof -
  obtain is4 ip n where ip: "ParseAddr (fst (the (cut_slash s))) = Some (is4, ip)"
      and n: "n \<le> (if is4 then 32 else 128)"
      and c: "c_ipnet c = \<lparr>net_IP = IP_Mask ip (CIDRMask n (if is4 then 32 else 128)),
                net_Mask = CIDRMask n (if is4 then 32 else 128)\<rparr>"
    using assms(1)
    by (auto simp: ParseCIDR_def net_ParseCIDR_def Let_def not_less split: option.splits if_splits
        intro: that [of True] that [of False])
  have m: "net_Mask (c_ipnet c) = CIDRMask_bytes ones 4" "ones \<le> 32" "length (net_Mask (c_ipnet c)) = 4"
    using assms(2) find_SomeD
    by (fastforce simp: MaskSize_def Mask_Size_def split: option.splits)+
  have is4: is4
  proof (rule ccontr)
    assume "\<not> is4"
    then have "length (net_Mask (c_ipnet c)) = 16" using c n by (simp add: CIDRMask_def)
    with m(3) show False by simp
  qed
  have len: "length ip = 16" "take 12 ip = v4InV6Prefix" using ParseAddr_length [OF ip] is4 by auto
  have net: "net_IP (c_ipnet c) = map2 (AND) (drop 12 ip) (CIDRMask_bytes ones 4)"
    using c is4 m(1) len by (simp add: IP_Mask_def CIDRMask_def split: if_splits)
  have "be_val (net_IP (c_ipnet c)) =
      be_val (drop 12 ip) div 2 ^ (8 * 4 - ones) * 2 ^ (8 * 4 - ones)"
    using be_val_masked [of ones "drop 12 ip"] len m(2) by (simp add: net)
  then show ?thesis using net m len by (simp add: net4_def)
qed

lemma div_eq_interval:
  fixes b :: nat
  assumes "K > 0" "K dvd b"
  shows "b div K = v div K \<longleftrightarrow> b \<le> v \<and> v < b + K"
proof -
  obtain q where b: "b = K * q" using assms(2) by (rule dvdE)
  have "v div K = q \<longleftrightarrow> K * q \<le> v \<and> v < K * q + K"
    using assms(1) by (metis div_nat_eqI dividend_less_times_div mult.commute mult_Suc_right
        add.commute times_div_less_eq_dividend)
  then show ?thesis using b assms(1) by auto
qed

lemma net4_contains:
  assumes "net4 n ones"
  shows "IPNet_Contains n ip \<longleftrightarrow>
     length (To4 ip) = 4 \<and> be_val (net_IP n) \<le> be_val (To4 ip) \<and>
     be_val (To4 ip) < be_val (net_IP n) + 2 ^ (32 - ones)"
proof -
  have n: "length (net_IP n) = 4" "ones \<le> 32" "net_Mask n = CIDRMask_bytes ones 4"
      "2 ^ (32 - ones) dvd be_val (net_IP n)"
    using assms by (auto simp: net4_def)
  have nm: "networkNumberAndMask n = (net_IP n, CIDRMask_bytes ones 4)"
    using n by (auto simp: networkNumberAndMask_def To4_def)
  have To4_len: "To4 ip \<noteq> [] \<longleftrightarrow> length (To4 ip) = 4" by (auto simp: To4_def)
  let ?ip = "if To4 ip \<noteq> [] then To4 ip else ip"
  have len: "length ?ip = 4 \<longleftrightarrow> length (To4 ip) = 4" by (auto simp: To4_def)
  show ?thesis
  proof (cases "length (To4 ip) = 4")
    case True
    then have "IPNet_Contains n ip \<longleftrightarrow>
        map2 (AND) (net_IP n) (CIDRMask_bytes ones 4) = map2 (AND) (To4 ip) (CIDRMask_bytes ones 4)"
      using nm n(1) To4_len by (simp add: IPNet_Contains_def)
    also have "\<dots> \<longleftrightarrow> be_val (net_IP n) div 2 ^ (32 - ones) = be_val (To4 ip) div 2 ^ (32 - ones)"
      using masked_eq_iff [of "net_IP n" "To4 ip" ones] True n by simp
    also have "\<dots> \<longleftrightarrow> be_val (net_IP n) \<le> be_val (To4 ip) \<and>
        be_val (To4 ip) < be_val (net_IP n) + 2 ^ (32 - ones)"
      using n(4) by (intro div_eq_interval) auto
    finally show ?thesis using True by simp
  next
    case False
    then show ?thesis using nm n(1) len by (auto simp: IPNet_Contains_def)
  qed
qed

section \<open>Iteration\<close>

fun be_bytes :: "nat \<Rightarrow> nat \<Rightarrow> IP" where
  "be_bytes 0 v = []"
| "be_bytes (Suc l) v = of_nat (v div 256 ^ l) # be_bytes l (v mod 256 ^ l)"

lemma length_be_bytes [simp]: "length (be_bytes l v) = l"
  by (induction l arbitrary: v) auto

lemma be_val_be_bytes: "v < 256 ^ l \<Longrightarrow> be_val (be_bytes l v) = v"
proof (induction l arbitrary: v)
  case (Suc l)
  have "v div 256 ^ l < 256" using Suc.prems by (simp add: less_mult_imp_div_less)
  then have "unat (of_nat (v div 256 ^ l) :: byte) = v div 256 ^ l"
    by (simp add: unat_of_nat take_bit_nat_eq_self)
  then show ?case using Suc.IH [of "v mod 256 ^ l"] by (simp add: div_mult_mod_eq)
qed simp

lemma be_bytes_be_val: "length ip = l \<Longrightarrow> be_bytes l (be_val ip) = ip"
  using be_val_inj [of "be_bytes l (be_val ip)" ip] be_val_be_bytes [of "be_val ip" l]
    be_val_less [of ip] by simp

lemma net4_range:
  assumes "net4 n ones"
  shows "be_val (net_IP n) + 2 ^ (32 - ones) \<le> 2 ^ 32"
proof -
  let ?K = "2 ^ (32 - ones) :: nat"
  obtain q where q: "be_val (net_IP n) = ?K * q" using assms by (auto simp: net4_def elim: dvdE)
  have "ones \<le> 32" using assms by (simp add: net4_def)
  then have split: "(2 :: nat) ^ 32 = ?K * 2 ^ ones" by (simp flip: power_add)
  have "be_val (net_IP n) < 2 ^ 32" using be_val_less [of "net_IP n"] assms by (simp add: net4_def)
  then have "q < 2 ^ ones" using q split by (metis mult_less_cancel1)
  then have "?K * (q + 1) \<le> ?K * 2 ^ ones" by (intro mult_le_mono2) simp
  then show ?thesis using q split by simp
qed

lemma To4_4 [simp]: "length ip = 4 \<Longrightarrow> To4 ip = ip"
  by (simp add: To4_def)

text \<open>From the \<open>i\<close>-th address on, the loop visits the remaining ones in order and stops.\<close>

lemma for_each_enumerates:
  assumes n: "net4 n ones" "ones > 0"
    and it: "\<And>ip s. it ip s = (f ip s, None)"
    and i: "i \<le> 2 ^ (32 - ones)" "length nxt = 4" "be_val nxt = (be_val (net_IP n) + i) mod 2 ^ 32"
  shows "for_each n it nxt s =
           Some (fold f (map (\<lambda>j. IP_String (be_bytes 4 (be_val (net_IP n) + j))) [i..<2 ^ (32 - ones)]) s, None)"
  using i
proof (induction "2 ^ (32 - ones) - i" arbitrary: i nxt s)
  case 0
  let ?b = "be_val (net_IP n)"
  have i: "i = 2 ^ (32 - ones)" using 0 by simp
  have "\<not> IPNet_Contains n nxt"
  proof (cases "?b + i < 2 ^ 32")
    case True
    then show ?thesis using 0 i by (simp add: net4_contains [OF n(1)])
  next
    case False
    then have top: "?b + i = 2 ^ 32" using net4_range [OF n(1)] i by simp
    then have "be_val nxt = 0" using 0 by simp
    moreover have "(2::nat) ^ (32 - ones) < 2 ^ 32"
      using n by (intro power_strict_increasing) (auto simp: net4_def)
    then have "?b > 0" using top i by simp
    ultimately show ?thesis using 0 by (simp add: net4_contains [OF n(1)])
  qed
  then show ?case using i by (subst for_each.simps) simp
next
  case (Suc m)
  let ?b = "be_val (net_IP n)"
  have less: "i < 2 ^ (32 - ones)" using Suc.hyps(2) by simp
  then have small: "?b + i < 2 ^ 32" using net4_range [OF n(1)] by simp
  then have v: "be_val nxt = ?b + i" using Suc.prems by simp
  then have nxt: "nxt = be_bytes 4 (?b + i)" using be_bytes_be_val [of nxt 4] Suc.prems by simp
  have "IPNet_Contains n nxt" using v less Suc.prems by (simp add: net4_contains [OF n(1)])
  then have step: "for_each n it nxt s = for_each n it (IncrIP nxt) (f (IP_String nxt) s)"
    by (subst for_each.simps) (simp add: it)
  have "be_val (IncrIP nxt) = (?b + Suc i) mod 2 ^ 32"
    using v Suc.prems by (simp add: be_val_IncrIP)
  then have "for_each n it (IncrIP nxt) (f (IP_String nxt) s) =
      Some (fold f (map (\<lambda>j. IP_String (be_bytes 4 (?b + j))) [Suc i..<2 ^ (32 - ones)]) (f (IP_String nxt) s), None)"
    using Suc.hyps less Suc.prems by simp
  then show ?case
    unfolding step using less nxt by (simp add: upt_conv_Cons [of i])
qed

lemma for_each_whole_family:
  fixes it :: "string \<Rightarrow> 's \<Rightarrow> 's \<times> 'e option"
  shows "for_each n it nxt s = Some r \<Longrightarrow>
   net4 n 0 \<Longrightarrow> length nxt = 4 \<Longrightarrow> (\<forall>ip s. it ip s = (f ip s, None)) \<Longrightarrow> False"
proof -
  have "net4 n 0 \<longrightarrow> length nxt = 4 \<longrightarrow> (\<forall>ip s. it ip s = (f ip s, None)) \<longrightarrow> False"
    if "for_each n it nxt s = Some r" for n and it :: "string \<Rightarrow> 's \<Rightarrow> 's \<times> 'e option" and nxt s r
  proof (rule for_each.raw_induct [where P = "\<lambda>n it nxt s r. net4 n 0 \<longrightarrow> length nxt = 4 \<longrightarrow>
      (\<forall>ip s. it ip s = (f ip s, None)) \<longrightarrow> False", OF _ that], intro impI)
    fix fe :: "IPNet \<Rightarrow> (string \<Rightarrow> 's \<Rightarrow> 's \<times> 'e option) \<Rightarrow> IP \<Rightarrow> 's \<Rightarrow> ('s \<times> 'e option) option"
      and n it nxt s y
    assume IH: "\<And>n it nxt s y. fe n it nxt s = Some y \<Longrightarrow>
        net4 n 0 \<longrightarrow> length nxt = 4 \<longrightarrow> (\<forall>ip s. it ip s = (f ip s, None)) \<longrightarrow> False"
      and body: "(if IPNet_Contains n nxt then
        (case it (IP_String nxt) s of
           (s', Some err) \<Rightarrow> Some (s', Some err)
         | (s', None) \<Rightarrow> fe n it (IncrIP nxt) s')
        else Some (s, None)) = Some y"
      and n: "net4 n 0" and len: "length nxt = 4" and it: "\<forall>ip s. it ip s = (f ip s, None)"
    have "be_val nxt < 2 ^ 32" using be_val_less [of nxt] len by simp
    moreover have "be_val (net_IP n) = 0" using net4_range [OF n] by simp
    ultimately have "IPNet_Contains n nxt" using n len by (simp add: net4_contains)
    then have "fe n it (IncrIP nxt) (f (IP_String nxt) s) = Some y" using body it by simp
    then show False using IH n len it by (metis length_IncrIP)
  qed
  then show "for_each n it nxt s = Some r \<Longrightarrow> net4 n 0 \<Longrightarrow> length nxt = 4 \<Longrightarrow>
      (\<forall>ip s. it ip s = (f ip s, None)) \<Longrightarrow> False" by blast
qed

section \<open>Properties\<close>


lemma parse_10_8: "ParseCIDR ''10.1.2.3/8'' =
  Some \<lparr>c_ip = replicate 10 0 @ [0xff, 0xff, 10, 1, 2, 3],
        c_ipnet = \<lparr>net_IP = [10, 0, 0, 0], net_Mask = [0xff, 0, 0, 0]\<rparr>\<rparr>"
proof -
  have "ParseAddr ''10.1.2.3'' = Some (True, replicate 10 0 @ [0xff, 0xff, 10, 1, 2, 3])"
    by code_simp
  moreover have "IP_Mask (replicate 10 0 @ [0xff, 0xff, 10, 1, 2, 3]) (CIDRMask 8 32) = [10, 0, 0, 0]"
    by code_simp
  moreover have "CIDRMask 8 32 = [0xff, 0, 0, 0]" by code_simp
  moreover have "parse_bits ''8'' = Some 8"
    by (simp add: parse_bits_def dec_val_def digit_val_def is_digit_def)
  ultimately show ?thesis by (simp add: ParseCIDR_def net_ParseCIDR_def cut_slash_def Let_def)
qed

lemma Mask_Size_8: "Mask_Size [0xff, 0, 0, 0] = (8, 32)"
  by code_simp


text \<open>
  Successor and predecessor of an address of any length: \<open>IncrIP\<close> adds one modulo the size of
  the address space; \<open>DecrIP\<close> subtracts one from every non-zero address, and on the zero address of at
  least two bytes it gives the second highest address (\<open>255.255.255.254\<close>), not the highest.
\<close>

theorem IncrIP_DecrIP_arithmetic:
  "be_val (IncrIP ip) = (be_val ip + 1) mod 256 ^ length ip \<and>
   (if be_val ip > 0 then be_val (DecrIP ip) = be_val ip - 1
    else if length ip \<ge> 2 then DecrIP ip = replicate (length ip - 1) 0xff @ [0xfe] else True)"
proof -
  have "ip = replicate (length ip) 0" if "be_val ip = 0"
    using that le_val_0_iff [of "rev ip"] by (metis be_val_le length_rev rev_replicate rev_swap)
  then show ?thesis
    using be_val_IncrIP [of ip] be_val_DecrIP(1) [of ip] DecrIP_zero [of "length ip"] by fastforce
qed


lemma parse_30: "ParseCIDR ''10.0.0.7/30'' =
  Some \<lparr>c_ip = replicate 10 0 @ [0xff, 0xff, 10, 0, 0, 7],
        c_ipnet = \<lparr>net_IP = [10, 0, 0, 4], net_Mask = [0xff, 0xff, 0xff, 0xfc]\<rparr>\<rparr>"
proof -
  have "ParseAddr ''10.0.0.7'' = Some (True, replicate 10 0 @ [0xff, 0xff, 10, 0, 0, 7])"
    by code_simp
  moreover have "IP_Mask (replicate 10 0 @ [0xff, 0xff, 10, 0, 0, 7]) (CIDRMask 30 32) = [10, 0, 0, 4]"
    by code_simp
  moreover have "CIDRMask 30 32 = [0xff, 0xff, 0xff, 0xfc]" by code_simp
  moreover have "parse_bits ''30'' = Some 30"
    by (simp add: parse_bits_def dec_val_def digit_val_def is_digit_def)
  ultimately show ?thesis by (simp add: ParseCIDR_def net_ParseCIDR_def cut_slash_def Let_def)
qed

lemma Mask_Size_30: "Mask_Size [0xff, 0xff, 0xff, 0xfc] = (30, 32)"
  by code_simp

lemma print_30:
  "IP_String [10, 0, 0, 4] = ''10.0.0.4''" "IP_String [10, 0, 0, 5] = ''10.0.0.5''"
  "IP_String [10, 0, 0, 6] = ''10.0.0.6''" "IP_String [10, 0, 0, 7] = ''10.0.0.7''"
  by code_simp+


end
