(* ===== verification/Catalog.thy ===== *)
theory Catalog
  imports Providers Cidr
begin

text \<open>
  The mesh catalog (\<open>pkg/catalog\<close>), which computes every traffic policy: its state (the clients it
  queries, the mesh configuration and the providers), the lists of services and endpoints
  (\<open>service.go\<close>, \<open>endpoint.go\<close>, \<open>isolation.go\<close>) and the traffic targets an identity takes part in
  (\<open>traffictarget.go\<close>).
\<close>

record MeshConfig =
  cfg_Permissive :: bool
  cfg_EnableEgress :: bool
  cfg_LocalDNSProxy :: bool
  cfg_EnableEgressPolicy :: bool
  cfg_EnableIngressBackendPolicy :: bool
  cfg_EnableAccessControlPolicy :: bool
  cfg_EnableRetryPolicy :: bool
  cfg_EnableTrafficWarmupPolicy :: bool
  cfg_EnableSidecarActiveHealthChecks :: bool
  cfg_ServiceAccessMode :: string
  cfg_ServiceAccessNames :: ServiceAccessNames
  cfg_Lb :: LoadBalancer
  cfg_Warmup :: "TrafficWarmupSpec option"

text \<open>\<open>mc_td\<close> is the trust domain of package \<open>service\<close>, \<open>mc_certTd\<close> that of the certificate
  manager.\<close>

record MeshCatalog =
  mc_tp :: ThirdParty
  mc_kube :: KubeStore
  mc_smi :: SmiStore
  mc_policy :: PolicyStore
  mc_multi :: MultiStore
  mc_cfg :: MeshConfig
  mc_serviceProviders :: "Provider list"
  mc_endpointsProviders :: "Provider list"
  mc_td :: string
  mc_certTd :: string

text \<open>The wiring of \<open>cmd/fsm-controller\<close>: the Kubernetes provider, and the multi-cluster provider
  if multi-cluster is enabled, serve both as service and as endpoint providers.\<close>

definition mesh_providers ::
  "ThirdParty \<Rightarrow> KubeStore \<Rightarrow> MultiStore \<Rightarrow> MeshConfig \<Rightarrow> bool \<Rightarrow> Provider list" where
  "mesh_providers tp st mcs cfg enableMultiClusters =
     kube_provider tp st \<lparr>kc_Lb = cfg_Lb cfg, kc_ServiceAccessMode = cfg_ServiceAccessMode cfg\<rparr>
     # (if enableMultiClusters then [fsm_provider tp mcs] else [])"

definition NewMeshCatalog ::
  "ThirdParty \<Rightarrow> KubeStore \<Rightarrow> SmiStore \<Rightarrow> PolicyStore \<Rightarrow> MultiStore \<Rightarrow> MeshConfig \<Rightarrow> bool \<Rightarrow>
   string \<Rightarrow> string \<Rightarrow> MeshCatalog" where
  "NewMeshCatalog tp st smi pol mcs cfg enableMultiClusters td certTd =
     \<lparr>mc_tp = tp, mc_kube = st, mc_smi = smi, mc_policy = pol, mc_multi = mcs, mc_cfg = cfg,
      mc_serviceProviders = mesh_providers tp st mcs cfg enableMultiClusters,
      mc_endpointsProviders = mesh_providers tp st mcs cfg enableMultiClusters,
      mc_td = td, mc_certTd = certTd\<rparr>"

definition GetTrustDomain :: "MeshCatalog \<Rightarrow> string" where
  "GetTrustDomain mc = mc_certTd mc"

text \<open>The upstream traffic setting of a service; this lookup cannot panic
  (\<open>service_setting_total\<close> below).\<close>

definition service_setting :: "MeshCatalog \<Rightarrow> MeshService \<Rightarrow> UpstreamTrafficSetting option" where
  "service_setting mc svc = the (GetUpstreamTrafficSetting (mc_td mc) (mc_policy mc) (for_service svc))"

section \<open>Services\<close>

definition getServicesForServiceIdentity :: "MeshCatalog \<Rightarrow> ServiceIdentity \<Rightarrow> MeshService list option" where
  "getServicesForServiceIdentity mc svcIdentity =
     map_option concat (those (map (\<lambda>p. pr_GetServicesForServiceIdentity p svcIdentity) (mc_serviceProviders mc)))"

definition ListServiceIdentitiesForService :: "MeshCatalog \<Rightarrow> MeshService \<Rightarrow> ServiceIdentity list" where
  "ListServiceIdentitiesForService mc svc =
     concat (map (\<lambda>p. pr_ListServiceIdentitiesForService p svc) (mc_serviceProviders mc))"

definition listMeshServices :: "MeshCatalog \<Rightarrow> MeshService list option" where
  "listMeshServices mc = map_option concat (those (map pr_ListServices (mc_serviceProviders mc)))"

section \<open>Isolation and endpoints\<close>

definition GetIsolationCidrs :: "MeshCatalog \<Rightarrow> CIDR list" where
  "GetIsolationCidrs mc =
     List.map_filter ParseCIDR (concat (map iso_CIDR (ListIsolationPolicies (mc_policy mc))))"

text \<open>The filter each of the three endpoint listings applies.\<close>

definition drop_isolated :: "CIDR list \<Rightarrow> Endpoint list \<Rightarrow> Endpoint list" where
  "drop_isolated cidrs eps = filter (\<lambda>ep. \<not> list_ex (\<lambda>c. Has c (ep_IP ep)) cidrs) eps"

definition listEndpointsForService :: "MeshCatalog \<Rightarrow> MeshService \<Rightarrow> Endpoint list" where
  "listEndpointsForService mc svc =
     concat (map (\<lambda>p. drop_isolated (GetIsolationCidrs mc) (pr_ListEndpointsForService p svc))
       (mc_endpointsProviders mc))"

definition getDNSResolvableServiceEndpoints :: "MeshCatalog \<Rightarrow> MeshService \<Rightarrow> Endpoint list" where
  "getDNSResolvableServiceEndpoints mc svc =
     concat (map (\<lambda>p. drop_isolated (GetIsolationCidrs mc) (pr_GetResolvableEndpointsForService p svc))
       (mc_endpointsProviders mc))"

definition listEndpointsForServiceIdentity :: "MeshCatalog \<Rightarrow> ServiceIdentity \<Rightarrow> Endpoint list option" where
  "listEndpointsForServiceIdentity mc serviceIdentity =
     map_option (\<lambda>epss. concat (map (drop_isolated (GetIsolationCidrs mc)) epss))
       (those (map (\<lambda>p. pr_ListEndpointsForIdentity p serviceIdentity) (mc_endpointsProviders mc)))"

section \<open>Hostnames of a service\<close>

definition ProtocolTCP :: string where "ProtocolTCP = ''tcp''"
definition ProtocolTCPServerFirst :: string where "ProtocolTCPServerFirst = ''tcp-server-first''"
definition ProtocolGRPC :: string where "ProtocolGRPC = ''grpc''"
definition ProtocolHTTP :: string where "ProtocolHTTP = ''http''"
definition ProtocolHTTPS :: string where "ProtocolHTTPS = ''https''"

definition is_tcp :: "string \<Rightarrow> bool" where
  "is_tcp protocol \<longleftrightarrow> protocol = ProtocolTCP \<or> protocol = ProtocolTCPServerFirst"

definition ServiceAccessModeIP :: string where "ServiceAccessModeIP = ''ip''"
definition ServiceAccessModeDomain :: string where "ServiceAccessModeDomain = ''domain''"
definition ServiceAccessModeMixed :: string where "ServiceAccessModeMixed = ''mixed''"

text \<open>The interface name that replaces every hostname of a gRPC service, if there is one.\<close>

definition grpc_interface :: "MeshCatalog \<Rightarrow> MeshService \<Rightarrow> string option" where
  "grpc_interface mc meshSvc =
     (if ms_Protocol meshSvc = ProtocolGRPC then
        (case GetService (mc_kube mc) meshSvc of
           None \<Rightarrow> None
         | Some k8sSvc \<Rightarrow>
             (case om_Annotations (svc_Meta k8sSvc) AnnotationMeshEndpointAddr of
                None \<Rightarrow> None
              | Some v \<Rightarrow>
                  (case msm_GRPCInterface (tp_Decode (mc_tp mc) k8sSvc v) of
                     None \<Rightarrow> None
                   | Some i \<Rightarrow> if length i > 0 then Some i else None)))
      else None)"

definition getHostnamesForService :: "MeshCatalog \<Rightarrow> MeshService \<Rightarrow> bool \<Rightarrow> Endpoint list \<Rightarrow> string list" where
  "getHostnamesForService mc meshSvc localNamespace eps =
     (case grpc_interface mc meshSvc of
        Some i \<Rightarrow> [i]
      | None \<Rightarrow>
          (let sam = cfg_ServiceAccessMode (mc_cfg mc); san = cfg_ServiceAccessNames (mc_cfg mc) in
             (if sam = ServiceAccessModeDomain \<or> sam = ServiceAccessModeMixed
              then GetHostnamesForService (mc_td mc) meshSvc san localNamespace else [])
             @ (if sam = ServiceAccessModeIP \<or> sam = ServiceAccessModeMixed
                then concat (map (\<lambda>endp.
                  (if \<not> san_MustWithServicePort san then [IP_String (ep_IP endp)] else [])
                  @ [IP_String (ep_IP endp) @ '':'' @ fmt_u16 (ms_Port meshSvc)]) eps)
                else [])))"

section \<open>Traffic targets\<close>

datatype trafficDirection = inbound | outbound

definition trafficTargetIdentityToSvcAccount :: "IdentityBindingSubject \<Rightarrow> K8sServiceAccount" where
  "trafficTargetIdentityToSvcAccount s = \<lparr>sa_Namespace = ids_Namespace s, sa_Name = ids_Name s\<rparr>"

definition trafficTargetIdentityToServiceIdentity :: "IdentityBindingSubject \<Rightarrow> ServiceIdentity" where
  "trafficTargetIdentityToServiceIdentity s = ToServiceIdentity (trafficTargetIdentityToSvcAccount s)"

definition trafficTargetIdentitiesToSvcAccounts :: "IdentityBindingSubject list \<Rightarrow> K8sServiceAccount list" where
  "trafficTargetIdentitiesToSvcAccounts identities =
     set_adds [] (map trafficTargetIdentityToSvcAccount identities)"

text \<open>The accounts one traffic target contributes, in the order the loop adds them.\<close>

definition target_accounts :: "trafficDirection \<Rightarrow> K8sServiceAccount \<Rightarrow> TrafficTarget \<Rightarrow> K8sServiceAccount list" where
  "target_accounts direction svcAccount t =
     (if ids_Kind (tt_Destination t) \<noteq> ServiceAccountKind then []
      else case direction of
        inbound \<Rightarrow>
          if ids_Name (tt_Destination t) \<noteq> sa_Name svcAccount \<or>
             ids_Namespace (tt_Destination t) \<noteq> sa_Namespace svcAccount then []
          else map trafficTargetIdentityToSvcAccount
                 (filter (\<lambda>source. ids_Kind source = ServiceAccountKind) (tt_Sources t))
      | outbound \<Rightarrow>
          map (\<lambda>_. trafficTargetIdentityToSvcAccount (tt_Destination t))
            (filter (\<lambda>source. ids_Kind source = ServiceAccountKind \<and>
                \<not> (ids_Name source \<noteq> sa_Name svcAccount \<or> ids_Namespace source \<noteq> sa_Namespace svcAccount))
               (tt_Sources t)))"

definition getAllowedDirectionalServiceAccounts ::
  "MeshCatalog \<Rightarrow> ServiceIdentity \<Rightarrow> trafficDirection \<Rightarrow> ServiceIdentity list option" where
  "getAllowedDirectionalServiceAccounts mc svcIdentity direction =
     (case ToK8sServiceAccount svcIdentity of
        None \<Rightarrow> None
      | Some svcAccount \<Rightarrow>
          Some (map ToServiceIdentity (set_adds []
            (concat (map (target_accounts direction svcAccount)
               (ListTrafficTargets (mc_kube mc) (mc_smi mc) no_destination))))))"

definition ListInboundServiceIdentities :: "MeshCatalog \<Rightarrow> ServiceIdentity \<Rightarrow> ServiceIdentity list option" where
  "ListInboundServiceIdentities mc upstream = getAllowedDirectionalServiceAccounts mc upstream inbound"

definition ListOutboundServiceIdentities :: "MeshCatalog \<Rightarrow> ServiceIdentity \<Rightarrow> ServiceIdentity list option" where
  "ListOutboundServiceIdentities mc downstream = getAllowedDirectionalServiceAccounts mc downstream outbound"

datatype catalog_error = ErrNoTrafficSpecFoundForTrafficPolicy

definition toUint16Slice :: "int list \<Rightarrow> uint16 list" where
  "toUint16Slice ports = map u16 ports"

fun tcp_route_matches :: "MeshCatalog \<Rightarrow> string \<Rightarrow> TrafficTargetRule list \<Rightarrow> catalog_error + TCPRouteMatch list" where
  "tcp_route_matches mc ns [] = Inr []"
| "tcp_route_matches mc ns (rule # rules) =
     (if ttu_Kind rule \<noteq> TCPRouteKind then tcp_route_matches mc ns rules
      else case GetTCPRoute (mc_kube mc) (mc_smi mc) (ns @ ''/'' @ ttu_Name rule) of
        None \<Rightarrow> Inl ErrNoTrafficSpecFoundForTrafficPolicy
      | Some tcpRoute \<Rightarrow>
          (case tcp_route_matches mc ns rules of
             Inl e \<Rightarrow> Inl e
           | Inr ms \<Rightarrow> Inr (\<lparr>tcpm_Ports = toUint16Slice (tcr_Ports tcpRoute)\<rparr> # ms)))"

definition getTCPRouteMatchesFromTrafficTarget :: "MeshCatalog \<Rightarrow> TrafficTarget \<Rightarrow> catalog_error + TCPRouteMatch list" where
  "getTCPRouteMatchesFromTrafficTarget mc t = tcp_route_matches mc (om_Namespace (tt_Meta t)) (tt_Rules t)"

definition ListInboundTrafficTargetsWithRoutes :: "MeshCatalog \<Rightarrow> ServiceIdentity \<Rightarrow> TrafficTargetWithRoutes list" where
  "ListInboundTrafficTargetsWithRoutes mc upstream =
     (if cfg_Permissive (mc_cfg mc) then []
      else List.map_filter (\<lambda>t.
        if ToServiceIdentity (trafficTargetIdentityToSvcAccount (tt_Destination t)) \<noteq> upstream then None
        else case getTCPRouteMatchesFromTrafficTarget mc t of
          Inl _ \<Rightarrow> None
        | Inr matches \<Rightarrow>
            Some \<lparr>ttr_Name = om_Namespace (tt_Meta t) @ ''/'' @ om_Name (tt_Meta t),
                  ttr_Destination = trafficTargetIdentityToServiceIdentity (tt_Destination t),
                  ttr_Sources = map trafficTargetIdentityToServiceIdentity (tt_Sources t),
                  ttr_TCPRouteMatches = matches\<rparr>)
        (ListTrafficTargets (mc_kube mc) (mc_smi mc) no_destination))"

section \<open>Endpoints an identity may reach\<close>

text \<open>\<open>outboundEndpointsSet\<close>: the endpoints of the service grouped by address text.\<close>

definition endpoints_at :: "Endpoint list \<Rightarrow> string \<Rightarrow> Endpoint list" where
  "endpoints_at eps ipStr = filter (\<lambda>ep. IP_String (ep_IP ep) = ipStr) eps"

definition ListAllowedUpstreamEndpointsForService ::
  "MeshCatalog \<Rightarrow> ServiceIdentity \<Rightarrow> MeshService \<Rightarrow> Endpoint list option" where
  "ListAllowedUpstreamEndpointsForService mc downstreamIdentity upstreamSvc =
     (let outboundEndpoints = listEndpointsForService mc upstreamSvc in
      if cfg_Permissive (mc_cfg mc) then Some outboundEndpoints
      else if length outboundEndpoints = 0 then Some []
      else case ListOutboundServiceIdentities mc downstreamIdentity of
        None \<Rightarrow> None
      | Some dests \<Rightarrow>
          map_option (\<lambda>epss. concat (map (\<lambda>ep. endpoints_at outboundEndpoints (IP_String (ep_IP ep))) (concat epss)))
            (those (map (listEndpointsForServiceIdentity mc) dests)))"

section \<open>Lemmas\<close>

lemma service_setting_total: "GetUpstreamTrafficSetting td pol (for_service ms) \<noteq> None"
proof -
  have "upstream_setting_loop td (for_service ms) xs \<noteq> None" for xs
    by (induction xs) (auto simp: for_service_def)
  then show ?thesis by (simp add: GetUpstreamTrafficSetting_def for_service_def)
qed

text \<open>The addresses that an isolation policy covers.\<close>

definition isolated :: "MeshCatalog \<Rightarrow> IP \<Rightarrow> bool" where
  "isolated mc ip \<longleftrightarrow>
     (\<exists>p\<in>set (pol_Isolations (mc_policy mc)). \<exists>t\<in>set (iso_CIDR p). \<exists>c. ParseCIDR t = Some c \<and> Has c ip)"

lemma those_None: "those (map f xs) = None \<longleftrightarrow> (\<exists>x\<in>set xs. f x = None)"
  by (induction xs) (auto split: option.splits)

lemma mem_map_filter: "y \<in> set (List.map_filter f xs) \<longleftrightarrow> (\<exists>x\<in>set xs. f x = Some y)"
  by (induction xs) (auto simp: List.map_filter_simps split: option.splits)

lemma mem_drop_isolated [simp]:
  "ep \<in> set (drop_isolated (GetIsolationCidrs mc) eps) \<longleftrightarrow> ep \<in> set eps \<and> \<not> isolated mc (ep_IP ep)"
  by (auto simp: drop_isolated_def list_ex_iff GetIsolationCidrs_def mem_map_filter isolated_def
      ListIsolationPolicies_def)

lemma mem_listEndpointsForService:
  "ep \<in> set (listEndpointsForService mc svc) \<longleftrightarrow>
     (\<exists>p\<in>set (mc_endpointsProviders mc). ep \<in> set (pr_ListEndpointsForService p svc)) \<and>
     \<not> isolated mc (ep_IP ep)"
  by (auto simp: listEndpointsForService_def)

lemma mem_getDNSResolvableServiceEndpoints:
  "ep \<in> set (getDNSResolvableServiceEndpoints mc svc) \<longleftrightarrow>
     (\<exists>p\<in>set (mc_endpointsProviders mc). ep \<in> set (pr_GetResolvableEndpointsForService p svc)) \<and>
     \<not> isolated mc (ep_IP ep)"
  by (auto simp: getDNSResolvableServiceEndpoints_def)

lemma mem_listEndpointsForServiceIdentity:
  "listEndpointsForServiceIdentity mc si = Some eps \<Longrightarrow>
   ep \<in> set eps \<longleftrightarrow>
     (\<exists>p\<in>set (mc_endpointsProviders mc). \<exists>l. pr_ListEndpointsForIdentity p si = Some l \<and> ep \<in> set l) \<and>
     \<not> isolated mc (ep_IP ep)"
  by (fastforce simp: listEndpointsForServiceIdentity_def those_mem)

text \<open>A traffic target in force grants \<open>src\<close> access to \<open>dst\<close>.\<close>

definition target_grants :: "TrafficTarget \<Rightarrow> K8sServiceAccount \<Rightarrow> K8sServiceAccount \<Rightarrow> bool" where
  "target_grants t src dst \<longleftrightarrow>
     ids_Kind (tt_Destination t) = ServiceAccountKind \<and>
     trafficTargetIdentityToSvcAccount (tt_Destination t) = dst \<and>
     (\<exists>s\<in>set (tt_Sources t). ids_Kind s = ServiceAccountKind \<and> trafficTargetIdentityToSvcAccount s = src)"

definition granted :: "MeshCatalog \<Rightarrow> K8sServiceAccount \<Rightarrow> K8sServiceAccount \<Rightarrow> bool" where
  "granted mc src dst \<longleftrightarrow>
     (\<exists>t\<in>set (smi_TrafficTargets (mc_smi mc)). IsMonitoredNamespace (mc_kube mc) (om_Namespace (tt_Meta t)) \<and>
        isValidTrafficTarget t \<and> target_grants t src dst)"

lemma svcAccount_eq_iff:
  "trafficTargetIdentityToSvcAccount s = sa \<longleftrightarrow> ids_Name s = sa_Name sa \<and> ids_Namespace s = sa_Namespace sa"
  by (cases sa) (auto simp: trafficTargetIdentityToSvcAccount_def)

lemma svcAccount_sel [simp]:
  "sa_Name (trafficTargetIdentityToSvcAccount s) = ids_Name s"
  "sa_Namespace (trafficTargetIdentityToSvcAccount s) = ids_Namespace s"
  by (simp_all add: trafficTargetIdentityToSvcAccount_def)

lemma svcAccount_eq_iff':
  "sa = trafficTargetIdentityToSvcAccount s \<longleftrightarrow> ids_Name s = sa_Name sa \<and> ids_Namespace s = sa_Namespace sa"
  using svcAccount_eq_iff by metis

lemmas svcAccount_eq = svcAccount_eq_iff svcAccount_eq_iff'

lemma target_accounts_inbound:
  "src \<in> set (target_accounts inbound dst t) \<longleftrightarrow> target_grants t src dst"
  by (auto simp: target_accounts_def target_grants_def svcAccount_eq image_iff)

lemma target_accounts_outbound:
  "dst \<in> set (target_accounts outbound src t) \<longleftrightarrow> target_grants t src dst"
  by (auto simp: target_accounts_def target_grants_def svcAccount_eq image_iff)

lemma ListInboundServiceIdentities_eq:
  "ListInboundServiceIdentities mc si = Some sis \<Longrightarrow> ToK8sServiceAccount si = Some dst \<Longrightarrow>
   set sis = ToServiceIdentity ` {src. granted mc src dst}"
  by (force simp: ListInboundServiceIdentities_def getAllowedDirectionalServiceAccounts_def
      target_accounts_inbound granted_def mem_ListTrafficTargets)

lemma ListOutboundServiceIdentities_eq:
  "ListOutboundServiceIdentities mc si = Some sis \<Longrightarrow> ToK8sServiceAccount si = Some src \<Longrightarrow>
   set sis = ToServiceIdentity ` {dst. granted mc src dst}"
  by (force simp: ListOutboundServiceIdentities_def getAllowedDirectionalServiceAccounts_def
      target_accounts_outbound granted_def mem_ListTrafficTargets)

lemma directional_total:
  "getAllowedDirectionalServiceAccounts mc si d \<noteq> None \<longleftrightarrow> \<not> dot_free si"
  by (auto simp: getAllowedDirectionalServiceAccounts_def ToK8sServiceAccount_None_iff [symmetric]
      split: option.splits)

lemma ToServiceIdentity_eq_plain:
  assumes "sa_plain a" "ToServiceIdentity b = ToServiceIdentity a" "sa_Name b \<noteq> ''''"
  shows "b = a"
proof -
  have eq: "sa_Name b @ CHR ''.'' # sa_Namespace b = sa_Name a @ CHR ''.'' # sa_Namespace a"
    using assms by (simp add: ToServiceIdentity_def New_def sa_plain_def)
  then have "sa_Name b = sa_Name a \<and> sa_Namespace b = sa_Namespace a"
    by (rule append_sep_unique) (use assms(1) in \<open>simp_all add: sa_plain_def dot_free_def\<close>)
  then show ?thesis by simp
qed

section \<open>Catalogs over providers that keep their contract\<close>

locale mesh_catalog =
  fixes mc :: MeshCatalog
  assumes service_providers: "p \<in> set (mc_serviceProviders mc) \<Longrightarrow> provider_contract p"
    and endpoints_providers: "p \<in> set (mc_endpointsProviders mc) \<Longrightarrow> provider_contract p"
begin

lemma services_total: "\<not> dot_free si \<Longrightarrow> getServicesForServiceIdentity mc si \<noteq> None"
  unfolding getServicesForServiceIdentity_def option.map_disc_iff
  by (rule those_total) (simp add: provider_contract.identity_services_total service_providers del: not_None_eq)

lemma mesh_services_total: "listMeshServices mc \<noteq> None"
  unfolding listMeshServices_def option.map_disc_iff
  by (rule those_total) (simp add: provider_contract.services_total service_providers del: not_None_eq)

lemma identity_endpoints_total: "\<not> dot_free si \<Longrightarrow> listEndpointsForServiceIdentity mc si \<noteq> None"
  unfolding listEndpointsForServiceIdentity_def option.map_disc_iff
  by (rule those_total) (simp add: provider_contract.identity_endpoints_total endpoints_providers del: not_None_eq)

lemma identities_not_dot_free:
  "ListOutboundServiceIdentities mc si = Some dests \<Longrightarrow> d \<in> set dests \<Longrightarrow> \<not> dot_free d"
  by (auto simp: ListOutboundServiceIdentities_def getAllowedDirectionalServiceAccounts_def
      ToServiceIdentity_def New_def dot_free_def split: option.splits)

lemma allowed_endpoints_total:
  assumes "\<not> dot_free si"
  shows "ListAllowedUpstreamEndpointsForService mc si svc \<noteq> None"
proof -
  obtain dests where dests: "ListOutboundServiceIdentities mc si = Some dests"
    using assms directional_total [of mc si outbound] by (auto simp: ListOutboundServiceIdentities_def)
  have "those (map (listEndpointsForServiceIdentity mc) dests) \<noteq> None"
    by (rule those_total) (simp add: identities_not_dot_free [OF dests] identity_endpoints_total del: not_None_eq)
  then show ?thesis
    by (auto simp: ListAllowedUpstreamEndpointsForService_def dests Let_def)
qed

end

interpretation wired: mesh_catalog "NewMeshCatalog tp st smi pol mcs cfg multi td certTd"
  for tp st smi pol mcs cfg multi td certTd
  by (rule mesh_catalog.intro)
    (auto simp: NewMeshCatalog_def mesh_providers_def kube.provider_contract_axioms fsm.provider_contract_axioms
      split: if_splits)

section \<open>Properties\<close>

lemma mem_allowed_endpoints:
  assumes "\<not> cfg_Permissive (mc_cfg mc)" "ToK8sServiceAccount si = Some src"
    and "ListAllowedUpstreamEndpointsForService mc si svc = Some eps"
  shows "ep \<in> set eps \<longleftrightarrow> ep \<in> set (listEndpointsForService mc svc) \<and>
    (\<exists>dst. granted mc src dst \<and> (\<exists>own. listEndpointsForServiceIdentity mc (ToServiceIdentity dst) = Some own \<and>
       IP_String (ep_IP ep) \<in> (\<lambda>e. IP_String (ep_IP e)) ` set own))"
proof (cases "listEndpointsForService mc svc = []")
  case False
  then obtain dests epss where dests: "ListOutboundServiceIdentities mc si = Some dests"
    and epss: "those (map (listEndpointsForServiceIdentity mc) dests) = Some epss"
    and eps: "eps = concat (map (\<lambda>e. endpoints_at (listEndpointsForService mc svc) (IP_String (ep_IP e))) (concat epss))"
    using assms by (auto simp: ListAllowedUpstreamEndpointsForService_def Let_def split: option.splits)
  have "ep \<in> set eps \<longleftrightarrow> ep \<in> set (listEndpointsForService mc svc) \<and>
      (\<exists>own\<in>set epss. IP_String (ep_IP ep) \<in> (\<lambda>e. IP_String (ep_IP e)) ` set own)"
    by (auto simp: eps endpoints_at_def)
  then show ?thesis
    unfolding Bex_def those_mem [OF epss] ListOutboundServiceIdentities_eq [OF dests assms(2)] by blast
qed (use assms in \<open>simp add: ListAllowedUpstreamEndpointsForService_def Let_def\<close>)

text \<open>An example mesh: the account \<open>buyer\<close> may call the route \<open>list\<close> of the account \<open>seller\<close>.\<close>

definition tp0 :: ThirdParty where
  "tp0 = \<lparr>tp_SelectorMatches = (\<lambda>sel labels. sel \<subseteq>\<^sub>m labels),
     tp_IntValue = (\<lambda>v. case v of IntVal i \<Rightarrow> i | StrVal _ \<Rightarrow> 0),
     tp_Decode = (\<lambda>_ _. \<lparr>msm_TargetPorts = [], msm_Endpoints = [], msm_GRPCInterface = None\<rparr>)\<rparr>"

definition account0 :: "string \<Rightarrow> IdentityBindingSubject" where
  "account0 name = \<lparr>ids_Kind = ServiceAccountKind, ids_Name = name, ids_Namespace = ''shop''\<rparr>"

definition target0 :: TrafficTarget where
  "target0 = \<lparr>tt_Meta = meta0 ''shop'' ''buy'', tt_Destination = account0 ''seller'',
     tt_Sources = [account0 ''buyer''],
     tt_Rules = [\<lparr>ttu_Kind = HTTPRouteGroupKind, ttu_Name = ''api'', ttu_Matches = [''list'']\<rparr>]\<rparr>"

definition api0 :: HTTPRouteGroup where
  "api0 = \<lparr>hrg_Meta = meta0 ''shop'' ''api'', hrg_Matches =
     [\<lparr>hma_Name = ''list'', hma_Methods = [''GET''], hma_PathRegex = ''/books'', hma_Headers = Map.empty\<rparr>]\<rparr>"

definition smi0 :: SmiStore where
  "smi0 = \<lparr>smi_TrafficSplits = [], smi_HTTPRouteGroups = [api0], smi_TCPRoutes = [],
     smi_TrafficTargets = [target0]\<rparr>"

definition cfg0 :: MeshConfig where
  "cfg0 = \<lparr>cfg_Permissive = False, cfg_EnableEgress = False, cfg_LocalDNSProxy = False,
     cfg_EnableEgressPolicy = True, cfg_EnableIngressBackendPolicy = True, cfg_EnableAccessControlPolicy = True,
     cfg_EnableRetryPolicy = True, cfg_EnableTrafficWarmupPolicy = True,
     cfg_EnableSidecarActiveHealthChecks = False, cfg_ServiceAccessMode = ''domain'',
     cfg_ServiceAccessNames = \<lparr>san_MustWithServicePort = False, san_MustWithNamespace = False,
       san_WithTrustDomain = True, san_Cloud_WithNamespace = False\<rparr>,
     cfg_Lb = \<lparr>lb_Type = '''', lb_MasterNamespace = '''', lb_SlaveNamespaces = []\<rparr>, cfg_Warmup = None\<rparr>"

definition cat0 :: MeshCatalog where
  "cat0 = NewMeshCatalog tp0 store0 smi0 pol0 mcs0 cfg0 False ''cluster.local'' ''cluster.local''"

abbreviation "buyer \<equiv> \<lparr>sa_Namespace = ''shop'', sa_Name = ''buyer''\<rparr>"
abbreviation "seller \<equiv> \<lparr>sa_Namespace = ''shop'', sa_Name = ''seller''\<rparr>"

lemmas cat0_simps = cat0_def NewMeshCatalog_def cfg0_def smi0_def target0_def account0_def meta0_def store0_def

lemma target0_in_force:
  "IsMonitoredNamespace store0 (om_Namespace (tt_Meta target0))" "isValidTrafficTarget target0"
  by (simp_all add: target0_def account0_def meta0_def store0_def IsMonitoredNamespace_def GetNamespace_def
      isValidTrafficTarget_iff HTTPRouteGroupKind_def)

lemma granted0: "granted cat0 buyer seller"
proof -
  have "target_grants target0 buyer seller" by (simp add: target_grants_def target0_def account0_def svcAccount_eq)
  then show ?thesis using target0_in_force
    by (auto simp: granted_def cat0_def NewMeshCatalog_def smi0_def)
qed

lemma buyer_plain: "sa_plain buyer" "sa_plain seller"
  by (simp_all add: sa_plain_def dot_free_def)

text \<open>
  C8.  Isolation.  An endpoint whose address lies in a network of an isolation policy is in none of
  the endpoint lists of the catalog, in permissive mode or not: not of a service, not of its
  resolvable endpoints, not of an identity, and not in the endpoints a client may reach.  An
  endpoint of a provider that no policy covers is listed.
\<close>

theorem isolated_endpoints_hidden:
  "(ep \<in> set (listEndpointsForService mc svc) \<longleftrightarrow>
      (\<exists>p\<in>set (mc_endpointsProviders mc). ep \<in> set (pr_ListEndpointsForService p svc)) \<and> \<not> isolated mc (ep_IP ep)) \<and>
   (ep \<in> set (getDNSResolvableServiceEndpoints mc svc) \<longleftrightarrow>
      (\<exists>p\<in>set (mc_endpointsProviders mc). ep \<in> set (pr_GetResolvableEndpointsForService p svc)) \<and>
      \<not> isolated mc (ep_IP ep)) \<and>
   (case listEndpointsForServiceIdentity mc si of
      None \<Rightarrow> (\<exists>p\<in>set (mc_endpointsProviders mc). pr_ListEndpointsForIdentity p si = None)
    | Some eps \<Rightarrow> ep \<in> set eps \<longleftrightarrow>
        (\<exists>p\<in>set (mc_endpointsProviders mc). \<exists>l. pr_ListEndpointsForIdentity p si = Some l \<and> ep \<in> set l) \<and>
        \<not> isolated mc (ep_IP ep)) \<and>
   (case ListAllowedUpstreamEndpointsForService mc si svc of
      None \<Rightarrow> \<not> cfg_Permissive (mc_cfg mc)
    | Some eps \<Rightarrow> \<not> (\<exists>e\<in>set eps. isolated mc (ep_IP e)))"
proof -
  have "\<not> (\<exists>e\<in>set eps. isolated mc (ep_IP e))"
    if "ListAllowedUpstreamEndpointsForService mc si svc = Some eps" for eps
  proof -
    have "set eps \<subseteq> set (listEndpointsForService mc svc)"
      using that by (auto simp: ListAllowedUpstreamEndpointsForService_def Let_def endpoints_at_def
          split: if_splits option.splits)
    then show ?thesis by (auto simp: mem_listEndpointsForService)
  qed
  moreover have "\<not> cfg_Permissive (mc_cfg mc)" if "ListAllowedUpstreamEndpointsForService mc si svc = None"
    using that by (auto simp: ListAllowedUpstreamEndpointsForService_def Let_def)
  moreover have "\<exists>p\<in>set (mc_endpointsProviders mc). pr_ListEndpointsForIdentity p si = None"
    if "listEndpointsForServiceIdentity mc si = None"
    using that by (simp add: listEndpointsForServiceIdentity_def those_None)
  ultimately show ?thesis
    using mem_listEndpointsForServiceIdentity [of mc si _ ep]
    by (simp add: mem_listEndpointsForService mem_getDNSResolvableServiceEndpoints split: option.split)
qed

text \<open>
  C7.  Zero trust on the client side.  Outside permissive mode an endpoint of a service is offered to a
  client exactly if some traffic target in force (valid, in a monitored namespace) has the client's
  account among its sources and a destination account that owns a workload with the endpoint's
  address.  The operation does not panic for an identity with a dot.
\<close>

theorem allowed_endpoints_authorised:
  assumes "mc = NewMeshCatalog tp st smi pol mcs cfg multi td certTd"
    and "\<not> cfg_Permissive cfg" "ToK8sServiceAccount si = Some src"
  shows "\<exists>eps. ListAllowedUpstreamEndpointsForService mc si svc = Some eps \<and>
    (\<forall>ep. ep \<in> set eps \<longleftrightarrow> ep \<in> set (listEndpointsForService mc svc) \<and>
      (\<exists>dst own. granted mc src dst \<and> listEndpointsForServiceIdentity mc (ToServiceIdentity dst) = Some own \<and>
         IP_String (ep_IP ep) \<in> (\<lambda>e. IP_String (ep_IP e)) ` set own))"
proof -
  have "\<not> dot_free si" using assms(3) ToK8sServiceAccount_None_iff [of si] by auto
  then obtain eps where eps: "ListAllowedUpstreamEndpointsForService mc si svc = Some eps"
    using wired.allowed_endpoints_total unfolding assms(1) by fast
  have "\<not> cfg_Permissive (mc_cfg mc)" using assms(1,2) by (simp add: NewMeshCatalog_def)
  from mem_allowed_endpoints [OF this assms(3) eps] eps show ?thesis by (simp add: ex_simps(1,2) [symmetric] del: ex_simps)
qed

theorem allowed_endpoints_authorised_witness:
  "granted cat0 buyer seller \<and>
   (\<exists>eps. ListAllowedUpstreamEndpointsForService cat0 ''buyer.shop'' bookstore_svc = Some eps)"
proof -
  have "ToK8sServiceAccount ''buyer.shop'' = Some buyer" by (simp add: ToK8sServiceAccount_def)
  from allowed_endpoints_authorised [OF cat0_def _ this, of bookstore_svc] granted0 show ?thesis
    by (auto simp: cfg0_def)
qed



end
