(* ===== verification/CatalogInbound.thy ===== *)
theory CatalogInbound
  imports Catalog
begin

text \<open>
  Inbound mesh traffic policies (\<open>pkg/catalog/inbound_traffic_policies.go\<close>): who may call which
  HTTP route of the services behind an identity.  The traffic-spec table of the code is a partial
  function from spec names to partial functions from match names; the error it is paired with is
  always nil in the code and is left out, and with it the branch on an empty table, which yields no
  routes either way.
\<close>

definition LocalhostIPAddress :: string where "LocalhostIPAddress = ''127.0.0.1''"

definition zero_match :: TrafficMatch where
  "zero_match = \<lparr>tm_DestinationPort = 0, tm_DestinationProtocol = '''', tm_DestinationIPRanges = [],
     tm_ServerNames = [], tm_Cluster = '''', tm_Name = '''', tm_WeightedClusters = [],
     tm_RateLimit = None, tm_EgressGateWay = None\<rparr>"

text \<open>\<open>m[port] = append(m[port], x)\<close> on a map of slices.\<close>

definition port_append :: "(int \<rightharpoonup> 'a list) \<Rightarrow> int \<Rightarrow> 'a \<Rightarrow> (int \<rightharpoonup> 'a list)" where
  "port_append m port x = m(port \<mapsto> (case m port of None \<Rightarrow> [] | Some xs \<Rightarrow> xs) @ [x])"

section \<open>Traffic specs\<close>

definition getTrafficSpecName :: "string \<Rightarrow> string \<Rightarrow> string \<Rightarrow> string" where
  "getTrafficSpecName kind ns name = kind @ ''/'' @ ns @ ''/'' @ name"

text \<open>The route match of a match of an HTTP route group, with wildcards for what is not given.\<close>

definition http_route_match :: "HTTPMatch \<Rightarrow> HTTPRouteMatch" where
  "http_route_match m =
     \<lparr>hm_Path = (if hma_PathRegex m = '''' then RegexMatchAll else hma_PathRegex m),
      hm_PathMatchType = PathMatchRegex,
      hm_Methods = (if length (hma_Methods m) = 0 then [WildcardHTTPMethod] else hma_Methods m),
      hm_Headers = hma_Headers m\<rparr>"

definition getHTTPPathsPerRoute :: "MeshCatalog \<Rightarrow> string \<rightharpoonup> (string \<rightharpoonup> HTTPRouteMatch)" where
  "getHTTPPathsPerRoute mc =
     fold (\<lambda>trafficSpecs routePolicies.
        if hrg_Matches trafficSpecs = [] then routePolicies
        else routePolicies(getTrafficSpecName HTTPRouteGroupKind (om_Namespace (hrg_Meta trafficSpecs))
               (om_Name (hrg_Meta trafficSpecs)) \<mapsto>
             fold (\<lambda>m routes. routes(hma_Name m \<mapsto> http_route_match m)) (hrg_Matches trafficSpecs) Map.empty))
       (ListHTTPTrafficSpecs (mc_kube mc) (mc_smi mc)) Map.empty"

definition lookup_route :: "(string \<rightharpoonup> (string \<rightharpoonup> HTTPRouteMatch)) \<Rightarrow> string \<Rightarrow> string \<Rightarrow> HTTPRouteMatch option" where
  "lookup_route specs name match = (case specs name of None \<Rightarrow> None | Some routes \<Rightarrow> routes match)"

definition routesFromRules :: "MeshCatalog \<Rightarrow> TrafficTargetRule list \<Rightarrow> string \<Rightarrow> HTTPRouteMatch list" where
  "routesFromRules mc rules ns =
     concat (map (\<lambda>rule.
        List.map_filter (lookup_route (getHTTPPathsPerRoute mc) (getTrafficSpecName HTTPRouteGroupKind ns (ttu_Name rule)))
          (ttu_Matches rule)) rules)"

section \<open>Routing rules\<close>

definition getRoutingRulesFromTrafficTarget ::
  "MeshCatalog \<Rightarrow> TrafficTarget \<Rightarrow> WeightedCluster \<Rightarrow> UpstreamTrafficSetting option \<Rightarrow> Rule list" where
  "getRoutingRulesFromTrafficTarget mc t routingCluster upstreamTrafficSetting =
     (let httpRouteMatches = routesFromRules mc (tt_Rules t) (om_Namespace (tt_Meta t));
          allowedDownstreamPrincipals =
            (\<lambda>source. sa_AsPrincipal (trafficTargetIdentityToSvcAccount source) (GetTrustDomain mc)) ` set (tt_Sources t)
      in map (\<lambda>m. \<lparr>rule_Route = NewRouteWeightedCluster m [routingCluster] upstreamTrafficSetting,
                    rule_AllowedPrincipals = allowedDownstreamPrincipals\<rparr>) httpRouteMatches)"

definition local_cluster :: "MeshService \<Rightarrow> WeightedCluster" where
  "local_cluster svc = \<lparr>wc_ClusterName = SidecarLocalClusterName svc, wc_Weight = ClusterWeightAcceptAll\<rparr>"

definition buildInboundHTTPPolicyFromTrafficTarget ::
  "MeshCatalog \<Rightarrow> MeshService \<Rightarrow> TrafficTarget list \<Rightarrow> UpstreamTrafficSetting option \<Rightarrow> InboundTrafficPolicy" where
  "buildInboundHTTPPolicyFromTrafficTarget mc svc trafficTargets upstreamTrafficSetting =
     (let hostnames = GetHostnamesForService (mc_td mc) svc (cfg_ServiceAccessNames (mc_cfg mc)) True
      in (NewInboundTrafficPolicy (PolicyName svc False) hostnames upstreamTrafficSetting)
           \<lparr>itp_Rules := fold (\<lambda>t routingRules.
              MergeRules routingRules (getRoutingRulesFromTrafficTarget mc t (local_cluster svc) upstreamTrafficSetting))
              trafficTargets []\<rparr>)"

definition getInboundTrafficPoliciesForUpstream ::
  "MeshCatalog \<Rightarrow> MeshService \<Rightarrow> bool \<Rightarrow> TrafficTarget list \<Rightarrow> UpstreamTrafficSetting option \<Rightarrow> InboundTrafficPolicy" where
  "getInboundTrafficPoliciesForUpstream mc svc permissiveMode trafficTargets upstreamTrafficSetting =
     (if permissiveMode then
        (let hostnames = getHostnamesForService mc svc True (getDNSResolvableServiceEndpoints mc svc)
         in (NewInboundTrafficPolicy (PolicyName svc False) hostnames upstreamTrafficSetting)
              \<lparr>itp_Rules := [\<lparr>rule_Route = NewRouteWeightedCluster WildCardRouteMatch [local_cluster svc] upstreamTrafficSetting,
                               rule_AllowedPrincipals = {WildcardPrincipal}\<rparr>]\<rparr>)
      else buildInboundHTTPPolicyFromTrafficTarget mc svc trafficTargets upstreamTrafficSetting)"

section \<open>The policy of an identity\<close>

definition apex_service :: "MeshCatalog \<Rightarrow> MeshService \<Rightarrow> TrafficSplit \<Rightarrow> MeshService" where
  "apex_service mc svc split =
     (let c = Some (\<lambda>ns. GetNamespace (mc_kube mc) ns \<noteq> None);
          svcName = GetServiceFromHostname c (ts_Service split);
          subdomain = GetSubdomainFromHostname c (ts_Service split)
      in (plain_service (ms_Namespace svc) (if subdomain \<noteq> '''' then subdomain @ ''.'' @ svcName else svcName))
           \<lparr>ms_Port := ms_Port svc, ms_TargetPort := ms_TargetPort svc, ms_Protocol := ms_Protocol svc\<rparr>)"

definition getUpstreamServicesIncludeApex :: "MeshCatalog \<Rightarrow> MeshService list \<Rightarrow> MeshService list" where
  "getUpstreamServicesIncludeApex mc upstreamServices =
     set_adds [] (concat (map (\<lambda>svc. svc # map (apex_service mc svc)
        (ListTrafficSplits (mc_kube mc) (mc_smi mc) (WithTrafficSplitBackendService svc no_split_options)))
        upstreamServices))"

definition inbound_cluster :: "MeshService \<Rightarrow> MeshClusterConfig" where
  "inbound_cluster svc =
     \<lparr>mcc_Name = SidecarLocalClusterName svc, mcc_Service = svc, mcc_Address = LocalhostIPAddress,
      mcc_Port = ucast (ms_TargetPort svc), mcc_EnableSidecarActiveHealthChecks = False,
      mcc_UpstreamTrafficSetting = None\<rparr>"

definition inbound_match :: "MeshCatalog \<Rightarrow> MeshService \<Rightarrow> TrafficMatch" where
  "inbound_match mc svc =
     zero_match\<lparr>tm_Name := InboundTrafficMatchName svc, tm_DestinationPort := int (unat (ms_TargetPort svc)),
       tm_DestinationProtocol := ms_Protocol svc, tm_ServerNames := [ServerName (mc_td mc) svc],
       tm_Cluster := SidecarLocalClusterName svc,
       tm_RateLimit := (case service_setting mc svc of None \<Rightarrow> None | Some uts \<Rightarrow> us_RateLimit (ut_Spec uts))\<rparr>"

text \<open>The body of the loop over all upstream services.\<close>

definition inbound_step ::
  "MeshCatalog \<Rightarrow> bool \<Rightarrow> TrafficTarget list \<Rightarrow> MeshService list \<Rightarrow> MeshService \<Rightarrow>
   InboundMeshTrafficPolicy \<Rightarrow> InboundMeshTrafficPolicy" where
  "inbound_step mc permissiveMode trafficTargets upstreamServices svc pol =
     (let pol = pol\<lparr>imp_ClustersConfigs := imp_ClustersConfigs pol @ [inbound_cluster svc]\<rparr>;
          upstreamTrafficSetting = service_setting mc svc;
          pol = (if svc \<in> set upstreamServices
                 then pol\<lparr>imp_TrafficMatches := imp_TrafficMatches pol @ [inbound_match mc svc]\<rparr> else pol)
      in if is_tcp (ms_Protocol svc) then pol
         else pol\<lparr>imp_HTTPRouteConfigsPerPort := port_append (imp_HTTPRouteConfigsPerPort pol)
                (int (unat (ms_TargetPort svc)))
                (getInboundTrafficPoliciesForUpstream mc svc permissiveMode trafficTargets upstreamTrafficSetting)\<rparr>)"

definition GetInboundMeshTrafficPolicy ::
  "MeshCatalog \<Rightarrow> ServiceIdentity \<Rightarrow> MeshService list \<Rightarrow> InboundMeshTrafficPolicy option" where
  "GetInboundMeshTrafficPolicy mc upstreamIdentity upstreamServices =
     (let permissiveMode = cfg_Permissive (mc_cfg mc);
          run = (\<lambda>trafficTargets. fold (inbound_step mc permissiveMode trafficTargets upstreamServices)
             (getUpstreamServicesIncludeApex mc upstreamServices)
             \<lparr>imp_TrafficMatches = [], imp_HTTPRouteConfigsPerPort = Map.empty, imp_ClustersConfigs = []\<rparr>)
      in if permissiveMode then Some (run [])
         else case ToK8sServiceAccount upstreamIdentity of
           None \<Rightarrow> None
         | Some account \<Rightarrow> Some (run (ListTrafficTargets (mc_kube mc) (mc_smi mc) account)))"

section \<open>Lemmas\<close>

lemma fold_upd_lookup:
  assumes "distinct (map key (filter P xs))"
  shows "fold (\<lambda>x m. if P x then m(key x \<mapsto> v x) else m) xs Map.empty k = Some y \<longleftrightarrow>
    (\<exists>x\<in>set xs. P x \<and> key x = k \<and> v x = y)"
  using assms by (induction xs rule: rev_induct) (auto simp: image_iff split: if_splits)

lemma fold_port_append:
  "fold (\<lambda>x m. port_append m (k x) (v x)) xs m p =
     (if \<exists>x\<in>set xs. k x = p
      then Some ((case m p of None \<Rightarrow> [] | Some l \<Rightarrow> l) @ map v (filter (\<lambda>x. k x = p) xs)) else m p)"
  by (induction xs arbitrary: m) (auto simp: port_append_def split: option.splits)

text \<open>What Kubernetes guarantees of the route groups: unique keys, no slash in names, unique match
  names in a group.\<close>

definition specs_ok :: "MeshCatalog \<Rightarrow> bool" where
  "specs_ok mc \<longleftrightarrow>
     distinct (map (\<lambda>g. obj_key (hrg_Meta g)) (ListHTTPTrafficSpecs (mc_kube mc) (mc_smi mc))) \<and>
     (\<forall>g\<in>set (ListHTTPTrafficSpecs (mc_kube mc) (mc_smi mc)).
        slash_free (om_Namespace (hrg_Meta g)) \<and> slash_free (om_Name (hrg_Meta g)) \<and>
        om_Namespace (hrg_Meta g) \<noteq> '''' \<and> distinct (map hma_Name (hrg_Matches g)))"

lemma getTrafficSpecName_eq:
  "slash_free ns \<Longrightarrow> slash_free name \<Longrightarrow>
   getTrafficSpecName kind ns' name' = getTrafficSpecName kind ns name \<longleftrightarrow> ns' = ns \<and> name' = name"
  using append_sep_unique [of ns' "CHR ''/''" name' ns name]
  by (auto simp: getTrafficSpecName_def slash_free_def)

lemma lookup_route_iff:
  assumes "specs_ok mc"
  shows "lookup_route (getHTTPPathsPerRoute mc) (getTrafficSpecName HTTPRouteGroupKind ns name) match = Some r \<longleftrightarrow>
    (\<exists>g\<in>set (ListHTTPTrafficSpecs (mc_kube mc) (mc_smi mc)). om_Namespace (hrg_Meta g) = ns \<and>
       om_Name (hrg_Meta g) = name \<and> (\<exists>m\<in>set (hrg_Matches g). hma_Name m = match \<and> http_route_match m = r))"
proof -
  let ?gs = "ListHTTPTrafficSpecs (mc_kube mc) (mc_smi mc)"
  let ?key = "\<lambda>g. getTrafficSpecName HTTPRouteGroupKind (om_Namespace (hrg_Meta g)) (om_Name (hrg_Meta g))"
  let ?routes = "\<lambda>g. fold (\<lambda>m routes. routes(hma_Name m \<mapsto> http_route_match m)) (hrg_Matches g) Map.empty"
  have table: "getHTTPPathsPerRoute mc = fold (\<lambda>g m. if hrg_Matches g \<noteq> [] then m(?key g \<mapsto> ?routes g) else m) ?gs Map.empty"
    unfolding getHTTPPathsPerRoute_def by (rule fold_cong) (auto intro!: ext)
  have slash: "slash_free (om_Namespace (hrg_Meta g))" "slash_free (om_Name (hrg_Meta g))"
      "om_Namespace (hrg_Meta g) \<noteq> ''''" if "g \<in> set ?gs" for g
    using assms that by (auto simp: specs_ok_def)
  have "inj_on ?key (set ?gs)"
  proof (rule inj_onI)
    fix g h assume gh: "g \<in> set ?gs" "h \<in> set ?gs" "?key g = ?key h"
    then have "obj_key (hrg_Meta g) = obj_key (hrg_Meta h)"
      using slash [of h] by (simp add: getTrafficSpecName_eq obj_key_def)
    then show "g = h" using assms gh by (auto simp: specs_ok_def distinct_map dest: inj_onD)
  qed
  moreover have "distinct ?gs" using assms by (auto simp: specs_ok_def distinct_map)
  ultimately have dk: "distinct (map ?key (filter (\<lambda>g. hrg_Matches g \<noteq> []) ?gs))"
    by (auto simp: distinct_map intro: inj_on_subset)
  have routes: "?routes g match = Some r \<longleftrightarrow> (\<exists>m\<in>set (hrg_Matches g). hma_Name m = match \<and> http_route_match m = r)"
    if "g \<in> set ?gs" for g
    using fold_upd_lookup [of hma_Name "\<lambda>_. True" "hrg_Matches g" http_route_match match r] assms that
    by (auto simp: specs_ok_def)
  have "lookup_route (getHTTPPathsPerRoute mc) n match = Some r \<longleftrightarrow>
     (\<exists>g\<in>set ?gs. hrg_Matches g \<noteq> [] \<and> ?key g = n \<and> ?routes g match = Some r)" for n
  proof -
    have "lookup_route (getHTTPPathsPerRoute mc) n match = Some r \<longleftrightarrow>
        (\<exists>h. getHTTPPathsPerRoute mc n = Some h \<and> h match = Some r)"
      by (auto simp: lookup_route_def split: option.splits)
    then show ?thesis unfolding table fold_upd_lookup [OF dk, of ?routes n] by blast
  qed
  moreover have "?key g = getTrafficSpecName HTTPRouteGroupKind ns name \<longleftrightarrow>
      om_Namespace (hrg_Meta g) = ns \<and> om_Name (hrg_Meta g) = name" if "g \<in> set ?gs" for g
    using getTrafficSpecName_eq [OF slash(1,2) [OF that], of _ ns name] by metis
  ultimately show ?thesis using routes by (simp cong: bex_cong) (auto intro!: bex_cong)
qed

text \<open>The traffic target names a match of a route group of its own namespace.\<close>

definition target_route :: "MeshCatalog \<Rightarrow> TrafficTarget \<Rightarrow> HTTPRouteMatch \<Rightarrow> bool" where
  "target_route mc t r \<longleftrightarrow>
     (\<exists>rule\<in>set (tt_Rules t). \<exists>g\<in>set (ListHTTPTrafficSpecs (mc_kube mc) (mc_smi mc)).
        om_Namespace (hrg_Meta g) = om_Namespace (tt_Meta t) \<and> om_Name (hrg_Meta g) = ttu_Name rule \<and>
        (\<exists>m\<in>set (hrg_Matches g). hma_Name m \<in> set (ttu_Matches rule) \<and> r = http_route_match m))"

lemma mem_routesFromRules:
  assumes "specs_ok mc"
  shows "r \<in> set (routesFromRules mc (tt_Rules t) (om_Namespace (tt_Meta t))) \<longleftrightarrow> target_route mc t r"
  unfolding routesFromRules_def set_concat set_map mem_map_filter UN_iff lookup_route_iff [OF assms] image_image
    target_route_def by blast

lemma rules_allow_getRoutingRules:
  assumes "specs_ok mc"
  shows "p \<in> rules_allow (getRoutingRulesFromTrafficTarget mc t c uts) route \<longleftrightarrow>
    (\<exists>s\<in>set (tt_Sources t). p = sa_AsPrincipal (trafficTargetIdentityToSvcAccount s) (GetTrustDomain mc)) \<and>
    (\<exists>r. target_route mc t r \<and> route = NewRouteWeightedCluster r [c] uts)"
  by (auto simp: mem_rules_allow getRoutingRulesFromTrafficTarget_def Let_def mem_routesFromRules [OF assms, symmetric])

lemma rules_allow_fold_merge:
  "rules_allow (fold (\<lambda>t rules. MergeRules rules (f t)) ts rules) route =
     rules_allow rules route \<union> (\<Union>t\<in>set ts. rules_allow (f t) route)"
  by (induction ts arbitrary: rules) auto

lemma distinct_fold_merge:
  "distinct (map rule_Route rules) \<Longrightarrow>
   distinct (map rule_Route (fold (\<lambda>t rules. MergeRules rules (f t)) ts rules))"
  by (induction ts arbitrary: rules) (auto simp: distinct_MergeRules)

lemma inbound_run:
  "fold (inbound_step mc perm ts us) svcs pol =
     \<lparr>imp_TrafficMatches = imp_TrafficMatches pol @ map (inbound_match mc) (filter (\<lambda>s. s \<in> set us) svcs),
      imp_HTTPRouteConfigsPerPort =
        fold (\<lambda>s m. port_append m (int (unat (ms_TargetPort s)))
            (getInboundTrafficPoliciesForUpstream mc s perm ts (service_setting mc s)))
          (filter (\<lambda>s. \<not> is_tcp (ms_Protocol s)) svcs) (imp_HTTPRouteConfigsPerPort pol),
      imp_ClustersConfigs = imp_ClustersConfigs pol @ map inbound_cluster svcs\<rparr>"
  by (induction svcs arbitrary: pol) (simp_all add: inbound_step_def Let_def)

definition inbound_targets :: "MeshCatalog \<Rightarrow> K8sServiceAccount \<Rightarrow> TrafficTarget list" where
  "inbound_targets mc dst =
     (if cfg_Permissive (mc_cfg mc) then [] else ListTrafficTargets (mc_kube mc) (mc_smi mc) dst)"

lemma GetInboundMeshTrafficPolicy_Some:
  assumes "GetInboundMeshTrafficPolicy mc si svcs = Some pol"
    and "\<not> cfg_Permissive (mc_cfg mc) \<longrightarrow> ToK8sServiceAccount si = Some dst"
  shows "imp_TrafficMatches pol = map (inbound_match mc) (filter (\<lambda>s. s \<in> set svcs) (getUpstreamServicesIncludeApex mc svcs))"
    and "imp_ClustersConfigs pol = map inbound_cluster (getUpstreamServicesIncludeApex mc svcs)"
    and "imp_HTTPRouteConfigsPerPort pol port =
      (let ss = filter (\<lambda>s. \<not> is_tcp (ms_Protocol s) \<and> int (unat (ms_TargetPort s)) = port)
           (getUpstreamServicesIncludeApex mc svcs)
       in if ss = [] then None
          else Some (map (\<lambda>s. getInboundTrafficPoliciesForUpstream mc s (cfg_Permissive (mc_cfg mc))
                 (inbound_targets mc dst) (service_setting mc s)) ss))"
proof -
  have pol: "pol = fold (inbound_step mc (cfg_Permissive (mc_cfg mc)) (inbound_targets mc dst) svcs)
             (getUpstreamServicesIncludeApex mc svcs)
             \<lparr>imp_TrafficMatches = [], imp_HTTPRouteConfigsPerPort = Map.empty, imp_ClustersConfigs = []\<rparr>"
    using assms by (auto simp: GetInboundMeshTrafficPolicy_def Let_def inbound_targets_def split: if_splits)
  show "imp_TrafficMatches pol = map (inbound_match mc) (filter (\<lambda>s. s \<in> set svcs) (getUpstreamServicesIncludeApex mc svcs))"
    and "imp_ClustersConfigs pol = map inbound_cluster (getUpstreamServicesIncludeApex mc svcs)"
    by (simp_all add: pol inbound_run)
  show "imp_HTTPRouteConfigsPerPort pol port =
      (let ss = filter (\<lambda>s. \<not> is_tcp (ms_Protocol s) \<and> int (unat (ms_TargetPort s)) = port)
           (getUpstreamServicesIncludeApex mc svcs)
       in if ss = [] then None
          else Some (map (\<lambda>s. getInboundTrafficPoliciesForUpstream mc s (cfg_Permissive (mc_cfg mc))
                 (inbound_targets mc dst) (service_setting mc s)) ss))"
    by (auto simp: pol inbound_run fold_port_append filter_empty_conv Let_def)
qed

lemma inbound_policy_access:
  assumes "specs_ok mc" "sa_Name dst \<noteq> ''''"
  shows "p \<in> rules_allow (itp_Rules (buildInboundHTTPPolicyFromTrafficTarget mc svc
        (ListTrafficTargets (mc_kube mc) (mc_smi mc) dst) (service_setting mc svc))) route \<longleftrightarrow>
      (\<exists>t\<in>set (smi_TrafficTargets (mc_smi mc)).
         IsMonitoredNamespace (mc_kube mc) (om_Namespace (tt_Meta t)) \<and> isValidTrafficTarget t \<and>
         trafficTargetIdentityToSvcAccount (tt_Destination t) = dst \<and>
         (\<exists>s\<in>set (tt_Sources t). p = sa_AsPrincipal (trafficTargetIdentityToSvcAccount s) (GetTrustDomain mc)) \<and>
         (\<exists>r. target_route mc t r \<and> route = NewRouteWeightedCluster r [local_cluster svc] (service_setting mc svc)))"
proof -
  have force: "t \<in> set (ListTrafficTargets (mc_kube mc) (mc_smi mc) dst) \<longleftrightarrow>
      t \<in> set (smi_TrafficTargets (mc_smi mc)) \<and> IsMonitoredNamespace (mc_kube mc) (om_Namespace (tt_Meta t)) \<and>
      isValidTrafficTarget t \<and> trafficTargetIdentityToSvcAccount (tt_Destination t) = dst" for t
    using FilterTrafficTarget_some [OF assms(2), of t]
    by (auto simp: mem_ListTrafficTargets trafficTargetIdentityToSvcAccount_def)
  have "p \<in> rules_allow (itp_Rules (buildInboundHTTPPolicyFromTrafficTarget mc svc
        (ListTrafficTargets (mc_kube mc) (mc_smi mc) dst) (service_setting mc svc))) route \<longleftrightarrow>
      (\<exists>t\<in>set (ListTrafficTargets (mc_kube mc) (mc_smi mc) dst).
         p \<in> rules_allow (getRoutingRulesFromTrafficTarget mc t (local_cluster svc) (service_setting mc svc)) route)"
    by (simp add: buildInboundHTTPPolicyFromTrafficTarget_def Let_def rules_allow_fold_merge)
      (simp add: mem_rules_allow)
  then show ?thesis by (simp add: Bex_def force rules_allow_getRoutingRules [OF assms(1)] conj_assoc)
qed

lemma inbound_policy_of_service:
  assumes "\<not> cfg_Permissive (mc_cfg mc)" "ToK8sServiceAccount si = Some dst"
    and "GetInboundMeshTrafficPolicy mc si svcs = Some pol"
    and "imp_HTTPRouteConfigsPerPort pol port = Some itps" "itp \<in> set itps"
  obtains svc where "svc \<in> set (getUpstreamServicesIncludeApex mc svcs)"
      "int (unat (ms_TargetPort svc)) = port" "\<not> is_tcp (ms_Protocol svc)"
      "itp = buildInboundHTTPPolicyFromTrafficTarget mc svc
        (ListTrafficTargets (mc_kube mc) (mc_smi mc) dst) (service_setting mc svc)"
  using assms(1,4,5) GetInboundMeshTrafficPolicy_Some(3) [OF assms(3) impI [OF assms(2)], of port]
  by (auto simp: Let_def getInboundTrafficPoliciesForUpstream_def inbound_targets_def split: if_splits)

section \<open>Properties\<close>

text \<open>
  C6.  Zero trust on the server side.  Outside permissive mode, for an identity with a named account,
  every HTTP policy of the inbound mesh policy belongs to one of the identity's services (or an
  apex service of theirs) on its target port; it has one rule per route; and a principal is allowed
  on a route exactly if a traffic target in force has the identity as destination, the principal's
  account among its sources, and a rule naming the match of an HTTP route group of its own
  namespace from which the route was built.  No other access is ever granted.
\<close>

theorem inbound_access_by_targets:
  assumes "\<not> cfg_Permissive (mc_cfg mc)" "specs_ok mc"
    and "ToK8sServiceAccount si = Some dst" "sa_Name dst \<noteq> ''''"
    and "GetInboundMeshTrafficPolicy mc si svcs = Some pol"
    and "imp_HTTPRouteConfigsPerPort pol port = Some itps" "itp \<in> set itps"
  shows "\<exists>svc\<in>set (getUpstreamServicesIncludeApex mc svcs).
    int (unat (ms_TargetPort svc)) = port \<and> \<not> is_tcp (ms_Protocol svc) \<and>
    distinct (map rule_Route (itp_Rules itp)) \<and>
    (\<forall>route p. p \<in> rules_allow (itp_Rules itp) route \<longleftrightarrow>
      (\<exists>t\<in>set (smi_TrafficTargets (mc_smi mc)).
         IsMonitoredNamespace (mc_kube mc) (om_Namespace (tt_Meta t)) \<and> isValidTrafficTarget t \<and>
         trafficTargetIdentityToSvcAccount (tt_Destination t) = dst \<and>
         (\<exists>s\<in>set (tt_Sources t). p = sa_AsPrincipal (trafficTargetIdentityToSvcAccount s) (GetTrustDomain mc)) \<and>
         (\<exists>r. target_route mc t r \<and> route = NewRouteWeightedCluster r [local_cluster svc] (service_setting mc svc))))"
proof -
  obtain svc where svc: "svc \<in> set (getUpstreamServicesIncludeApex mc svcs)"
      "int (unat (ms_TargetPort svc)) = port" "\<not> is_tcp (ms_Protocol svc)"
    and itp: "itp = buildInboundHTTPPolicyFromTrafficTarget mc svc
        (ListTrafficTargets (mc_kube mc) (mc_smi mc) dst) (service_setting mc svc)"
    by (rule inbound_policy_of_service [OF assms(1,3,5-7)])
  have "distinct (map rule_Route (itp_Rules itp))"
    by (simp add: itp buildInboundHTTPPolicyFromTrafficTarget_def Let_def distinct_fold_merge)
  with svc show ?thesis unfolding itp inbound_policy_access [OF assms(2,4)] by blast
qed

definition web0 :: MeshService where
  "web0 = (plain_service ''shop'' ''web'')\<lparr>ms_Port := 80, ms_TargetPort := 8080, ms_Protocol := ProtocolHTTP\<rparr>"

lemma specs_ok_cat0: "specs_ok cat0"
  by (simp add: specs_ok_def cat0_def NewMeshCatalog_def smi0_def api0_def meta0_def ListHTTPTrafficSpecs_def
      slash_free_def)

lemma monitored_shop: "IsMonitoredNamespace store0 ''shop''"
  by (simp add: store0_def meta0_def IsMonitoredNamespace_def GetNamespace_def)

lemma services_cat0: "getUpstreamServicesIncludeApex cat0 [web0] = [web0]"
  by (simp add: getUpstreamServicesIncludeApex_def cat0_def NewMeshCatalog_def smi0_def ListTrafficSplits_def
      set_add_def)

lemma not_tcp_web0 [simp]: "\<not> is_tcp (ms_Protocol web0)" "uint (ms_TargetPort web0) = 8080" "uint (ms_Port web0) = 80"
  by (simp_all add: web0_def is_tcp_def ProtocolHTTP_def ProtocolTCP_def ProtocolTCPServerFirst_def)

theorem inbound_access_by_targets_witness:
  "\<exists>pol itp. GetInboundMeshTrafficPolicy cat0 ''seller.shop'' [web0] = Some pol \<and>
     imp_HTTPRouteConfigsPerPort pol 8080 = Some [itp] \<and>
     ''buyer.shop.cluster.local'' \<in> rules_allow (itp_Rules itp)
       (NewRouteWeightedCluster (http_route_match (hd (hrg_Matches api0))) [local_cluster web0] (service_setting cat0 web0))"
proof -
  have strict: "\<not> cfg_Permissive (mc_cfg cat0)" by (simp add: cat0_def NewMeshCatalog_def cfg0_def)
  have sa: "ToK8sServiceAccount ''seller.shop'' = Some seller" by (simp add: ToK8sServiceAccount_def)
  obtain pol where pol: "GetInboundMeshTrafficPolicy cat0 ''seller.shop'' [web0] = Some pol"
    by (auto simp: GetInboundMeshTrafficPolicy_def Let_def sa strict)
  obtain itp where itp: "imp_HTTPRouteConfigsPerPort pol 8080 = Some [itp]"
    using GetInboundMeshTrafficPolicy_Some(3) [OF pol impI [OF sa], of 8080]
    by (auto simp: services_cat0 Let_def)
  have route: "target_route cat0 target0 (http_route_match (hd (hrg_Matches api0)))"
    using monitored_shop
    by (auto simp: target_route_def target0_def api0_def meta0_def cat0_def NewMeshCatalog_def smi0_def
        ListHTTPTrafficSpecs_def)
  have "''buyer.shop.cluster.local'' = sa_AsPrincipal (trafficTargetIdentityToSvcAccount (account0 ''buyer''))
      (GetTrustDomain cat0)"
    by (simp add: sa_AsPrincipal_def AsPrincipal_def IsWildcard_def WildcardServiceIdentity_def
        ToServiceIdentity_def New_def trafficTargetIdentityToSvcAccount_def account0_def GetTrustDomain_def
        cat0_def NewMeshCatalog_def)
  moreover have "account0 ''buyer'' \<in> set (tt_Sources target0)" "target0 \<in> set (smi_TrafficTargets (mc_smi cat0))"
    "trafficTargetIdentityToSvcAccount (tt_Destination target0) = seller" "mc_kube cat0 = store0"
    by (simp_all add: target0_def account0_def svcAccount_eq cat0_def NewMeshCatalog_def smi0_def)
  ultimately show ?thesis
    using inbound_access_by_targets [OF strict specs_ok_cat0 sa _ pol itp, of itp] route target0_in_force pol itp
    unfolding services_cat0 by (intro exI [of _ pol] exI [of _ itp]) auto
qed


text \<open>
  In permissive mode every HTTP policy of the inbound mesh policy has a single rule: the
  wildcard route to the service's local cluster, open to the wildcard principal.
\<close>

theorem permissive_inbound_open:
  assumes "cfg_Permissive (mc_cfg mc)" "GetInboundMeshTrafficPolicy mc si svcs = Some pol"
    and "imp_HTTPRouteConfigsPerPort pol port = Some itps" "itp \<in> set itps"
  shows "\<exists>svc\<in>set (getUpstreamServicesIncludeApex mc svcs). \<exists>r.
     itp_Rules itp = [r] \<and> rule_AllowedPrincipals r = {WildcardPrincipal} \<and>
     rwc_HTTPRouteMatch (rule_Route r) = WildCardRouteMatch \<and>
     rwc_WeightedClusters (rule_Route r) = {local_cluster svc}"
proof -
  obtain svc where svc: "svc \<in> set (getUpstreamServicesIncludeApex mc svcs)"
    and itp: "itp = getInboundTrafficPoliciesForUpstream mc svc True (inbound_targets mc undefined) (service_setting mc svc)"
    using assms(1,3,4) GetInboundMeshTrafficPolicy_Some(3) [OF assms(2), of undefined port]
    by (auto simp: Let_def split: if_splits)
  show ?thesis
    by (rule bexI [OF _ svc])
      (simp add: itp getInboundTrafficPoliciesForUpstream_def NewRouteWeightedCluster_def Let_def)
qed

theorem permissive_inbound_open_witness:
  "\<exists>pol itp. GetInboundMeshTrafficPolicy (cat0\<lparr>mc_cfg := cfg0\<lparr>cfg_Permissive := True\<rparr>\<rparr>) ''any'' [web0] = Some pol \<and>
     imp_HTTPRouteConfigsPerPort pol 8080 = Some [itp] \<and>
     rule_AllowedPrincipals (hd (itp_Rules itp)) = {''*''}"
proof -
  let ?mc = "cat0\<lparr>mc_cfg := cfg0\<lparr>cfg_Permissive := True\<rparr>\<rparr>"
  have perm: "cfg_Permissive (mc_cfg ?mc)" by simp
  obtain pol where pol: "GetInboundMeshTrafficPolicy ?mc ''any'' [web0] = Some pol"
    by (auto simp: GetInboundMeshTrafficPolicy_def Let_def)
  have svcs: "getUpstreamServicesIncludeApex ?mc [web0] = [web0]"
    by (simp add: getUpstreamServicesIncludeApex_def cat0_def NewMeshCatalog_def smi0_def ListTrafficSplits_def
        set_add_def)
  have "imp_HTTPRouteConfigsPerPort pol 8080 = Some [getInboundTrafficPoliciesForUpstream ?mc web0
      (cfg_Permissive (mc_cfg ?mc)) (inbound_targets ?mc seller) (service_setting ?mc web0)]"
    unfolding GetInboundMeshTrafficPolicy_Some(3) [OF pol, of seller 8080, simplified perm, simplified] svcs
    by (simp add: Let_def)
  then obtain itp where itp: "imp_HTTPRouteConfigsPerPort pol 8080 = Some [itp]" by blast
  obtain r where "itp_Rules itp = [r]" "rule_AllowedPrincipals r = {WildcardPrincipal}"
    using permissive_inbound_open [OF perm pol itp, of itp] by auto
  with pol itp show ?thesis by (intro exI [of _ pol] exI [of _ itp]) (simp add: WildcardPrincipal_def)
qed

end
