(* ===== verification/CatalogEgress.thy ===== *)
theory CatalogEgress
  imports CatalogInbound
begin

text \<open>
  Egress traffic policies (\<open>pkg/catalog/egress.go\<close>), egress gateways (\<open>egress_gateway.go\<close>) and
  retry policies (\<open>retry.go\<close>).  The structural hashes that deduplication uses come from the
  package \<open>hashstructure\<close>; they are a record of parameters.  A panic is the outer \<open>None\<close>.
\<close>

record Hashes =
  h_Match :: "TrafficMatch \<Rightarrow> string + uint64"
  h_Cluster :: "EgressClusterConfig \<Rightarrow> string + uint64"

definition upstreamTrafficSettingKind :: string where
  "upstreamTrafficSettingKind = ''UpstreamTrafficSetting''"

text \<open>The group versions of the policy API and of the SMI specs API.\<close>

definition PolicyGroupVersion :: string where "PolicyGroupVersion = ''policy.flomesh.io/v1alpha1''"
definition SpecsGroupVersion :: string where "SpecsGroupVersion = ''specs.smi-spec.io/v1alpha4''"

section \<open>Retry policies\<close>

definition GetRetryPolicy :: "MeshCatalog \<Rightarrow> ServiceIdentity \<Rightarrow> MeshService \<Rightarrow> RetryPolicySpec option option" where
  "GetRetryPolicy mc downstreamIdentity upstreamSvc =
     (if \<not> cfg_EnableRetryPolicy (mc_cfg mc) then Some None
      else case ToK8sServiceAccount downstreamIdentity of
        None \<Rightarrow> None
      | Some src \<Rightarrow>
          Some (map_option (\<lambda>retryCRD. re_RetryPolicy (ret_Spec retryCRD))
            (find (\<lambda>retryCRD. list_ex (\<lambda>dest. rs_Kind dest = ''Service'' \<and>
                SiblingTo upstreamSvc (plain_service (rs_Namespace dest) (rs_Name dest)))
                (re_Destinations (ret_Spec retryCRD)))
              (ListRetryPolicies (mc_policy mc) src))))"

section \<open>Egress gateways\<close>

definition EgressGatewayModeAnnotation :: string where
  "EgressGatewayModeAnnotation = ''flomesh.io/egress-gateway-mode''"
definition EgressGatewayModeHTTP2Tunnel :: string where "EgressGatewayModeHTTP2Tunnel = ''http2tunnel''"
definition EgressGatewayModeSock5 :: string where "EgressGatewayModeSock5 = ''sock5''"

definition gateway_mode :: "K8sService \<Rightarrow> string" where
  "gateway_mode svc =
     (case om_Annotations (svc_Meta svc) EgressGatewayModeAnnotation of
        None \<Rightarrow> EgressGatewayModeHTTP2Tunnel
      | Some mode \<Rightarrow>
          if EgressGatewayModeHTTP2Tunnel \<noteq> mode \<and> EgressGatewayModeSock5 \<noteq> mode
          then EgressGatewayModeHTTP2Tunnel else mode)"

text \<open>The rules of an egress gateway policy are never filled (the code for them is commented out),
  so a policy is its list of global gateways.\<close>

definition GetEgressGatewayPolicy :: "MeshCatalog \<Rightarrow> EgressGatewayConfig list option" where
  "GetEgressGatewayPolicy mc =
     (let egressGateways = ListEgressGateways (mc_policy mc) in
      if length egressGateways > 0 then
        Some (concat (map (\<lambda>egressGateway.
          (case egw_GlobalEgressGateways egressGateway of
             None \<Rightarrow> []
           | Some globals \<Rightarrow>
               List.map_filter (\<lambda>globalGateway.
                 (let egressGatewayMeshSvc = plain_service (gb_Namespace globalGateway) (gb_Service globalGateway) in
                  case GetService (mc_kube mc) egressGatewayMeshSvc of
                    None \<Rightarrow> None
                  | Some egressGatewaySvc \<Rightarrow>
                      Some \<lparr>egc_Service = gb_Service globalGateway, egc_Namespace = gb_Namespace globalGateway,
                            egc_Mode = gateway_mode egressGatewaySvc, egc_Weight = gb_Weight globalGateway,
                            egc_Endpoints = listEndpointsForService mc egressGatewayMeshSvc\<rparr>)) globals))
          egressGateways))
      else None)"

definition getGatewayForEgress :: "MeshCatalog \<Rightarrow> string option" where
  "getGatewayForEgress mc =
     (if list_ex (\<lambda>g. egw_GlobalEgressGateways g \<noteq> None) (ListEgressGateways (mc_policy mc)) then Some ''*'' else None)"

section \<open>Egress policies\<close>

definition getEgressSourceMTLS :: "Egress \<Rightarrow> K8sServiceAccount \<Rightarrow> EgressSourceMTLSSpec option" where
  "getEgressSourceMTLS egressPolicy source =
     (case find (\<lambda>s. es_Name s = sa_Name source \<and> es_Namespace s = sa_Namespace source)
         (eg_Sources (egr_Spec egressPolicy)) of
        None \<Rightarrow> None | Some s \<Rightarrow> es_MTLS s)"

text \<open>\<open>None\<close> is the error that the referenced setting does not exist.\<close>

definition getUpstreamTrafficSettingForEgress :: "MeshCatalog \<Rightarrow> Egress \<Rightarrow> UpstreamTrafficSetting option option" where
  "getUpstreamTrafficSettingForEgress mc egressPolicy =
     (case find (\<lambda>m. tr_APIGroup m = Some PolicyGroupVersion \<and> tr_Kind m = upstreamTrafficSettingKind)
         (eg_Matches (egr_Spec egressPolicy)) of
        None \<Rightarrow> Some None
      | Some match \<Rightarrow>
          (case the (GetUpstreamTrafficSetting (mc_td mc) (mc_policy mc)
              \<lparr>uto_MeshService = None, uto_NamespacedName = Some
                 \<lparr>nn_Namespace = om_Namespace (egr_Meta egressPolicy), nn_Name = tr_Name match\<rparr>, uto_Host = ''''\<rparr>) of
             None \<Rightarrow> None
           | Some uts \<Rightarrow> Some (Some uts)))"

definition getHTTPRouteMatchesFromHTTPRouteGroup :: "HTTPRouteGroup \<Rightarrow> HTTPRouteMatch list" where
  "getHTTPRouteMatchesFromHTTPRouteGroup g = map http_route_match (hrg_Matches g)"

definition is_http_match :: "TypedLocalObjectReference \<Rightarrow> bool" where
  "is_http_match m \<longleftrightarrow> tr_APIGroup m = Some SpecsGroupVersion \<and> tr_Kind m = HTTPRouteGroupKind"

definition egress_http_matches :: "MeshCatalog \<Rightarrow> Egress \<Rightarrow> HTTPRouteMatch list" where
  "egress_http_matches mc egressPolicy =
     (let refs = filter is_http_match (eg_Matches (egr_Spec egressPolicy)) in
      if refs = [] then [WildCardRouteMatch]
      else concat (map (\<lambda>m.
        (case GetHTTPRouteGroup (mc_kube mc) (mc_smi mc) (om_Namespace (egr_Meta egressPolicy) @ ''/'' @ tr_Name m) of
           None \<Rightarrow> [] | Some g \<Rightarrow> getHTTPRouteMatchesFromHTTPRouteGroup g)) refs))"

definition allowed_ip_ranges :: "Egress \<Rightarrow> string list" where
  "allowed_ip_ranges egressPolicy =
     set_adds [] (filter (\<lambda>r. net_ParseCIDR r \<noteq> None) (eg_IPAddresses (egr_Spec egressPolicy)))"

definition host_port :: "string \<Rightarrow> int \<Rightarrow> string" where
  "host_port host port = host @ '':'' @ fmt_d port"

definition egress_rule :: "string \<Rightarrow> string list \<Rightarrow> HTTPRouteMatch \<Rightarrow> EgressHTTPRoutingRule" where
  "egress_rule clusterName ranges match =
     \<lparr>err_Route = \<lparr>rwc_HTTPRouteMatch = match,
        rwc_WeightedClusters = {\<lparr>wc_ClusterName = clusterName, wc_Weight = ClusterWeightAcceptAll\<rparr>},
        rwc_RetryPolicy = None, rwc_RateLimit = None\<rparr>,
      err_AllowedDestinationIPRanges = ranges\<rparr>"

definition buildHTTPRouteConfigs ::
  "MeshCatalog \<Rightarrow> Egress \<Rightarrow> int \<Rightarrow> UpstreamTrafficSetting option \<Rightarrow> EgressSourceMTLSSpec option \<Rightarrow>
   EgressHTTPRouteConfig list \<times> EgressClusterConfig list" where
  "buildHTTPRouteConfigs mc egressPolicy port upstreamTrafficSetting sourceMTLS =
     (let hosts = eg_Hosts (egr_Spec egressPolicy);
          ranges = allowed_ip_ranges egressPolicy;
          matches = egress_http_matches mc egressPolicy
      in (map (\<lambda>host. \<lparr>ehc_Name = host, ehc_Hostnames = [host, host_port host port],
                        ehc_RoutingRules = map (egress_rule (host_port host port) ranges) matches\<rparr>) hosts,
          map (\<lambda>host. \<lparr>ecc_Name = host_port host port, ecc_Host = host, ecc_Port = port,
                        ecc_UpstreamTrafficSetting = upstreamTrafficSetting, ecc_SourceMTLS = sourceMTLS\<rparr>) hosts))"

definition port_extend :: "(int \<rightharpoonup> 'a list) \<Rightarrow> int \<Rightarrow> 'a list \<Rightarrow> (int \<rightharpoonup> 'a list)" where
  "port_extend m port xs = m(port \<mapsto> (case m port of None \<Rightarrow> [] | Some ys \<Rightarrow> ys) @ xs)"

text \<open>The \<open>switch\<close> over the protocol of a port of an egress policy.\<close>

definition egress_port_step ::
  "MeshCatalog \<Rightarrow> Egress \<Rightarrow> UpstreamTrafficSetting option \<Rightarrow> string option \<Rightarrow> EgressSourceMTLSSpec option \<Rightarrow>
   PortSpec \<Rightarrow> EgressTrafficPolicy \<Rightarrow> EgressTrafficPolicy" where
  "egress_port_step mc egress uts egressGateway sourceMTLS portSpec pol =
     (let protocol = ToLower (ps_Protocol portSpec); port = ps_Number portSpec;
          match = zero_match\<lparr>tm_Name := GetEgressTrafficMatchName port (ps_Protocol portSpec),
             tm_DestinationPort := port, tm_DestinationProtocol := ps_Protocol portSpec,
             tm_EgressGateWay := egressGateway\<rparr>;
          ip_match = match\<lparr>tm_DestinationIPRanges := eg_IPAddresses (egr_Spec egress), tm_Cluster := fmt_d port\<rparr>;
          cluster = \<lparr>ecc_Name = fmt_d port, ecc_Host = '''', ecc_Port = port,
             ecc_UpstreamTrafficSetting = uts, ecc_SourceMTLS = sourceMTLS\<rparr>
      in if protocol = ProtocolHTTP then
           (let (httpRouteConfigs, httpClusterConfigs) = buildHTTPRouteConfigs mc egress port uts sourceMTLS
            in pol\<lparr>etp_HTTPRouteConfigsPerPort := port_extend (etp_HTTPRouteConfigsPerPort pol) port httpRouteConfigs,
                   etp_ClustersConfigs := etp_ClustersConfigs pol @ httpClusterConfigs,
                   etp_TrafficMatches := etp_TrafficMatches pol @ [match]\<rparr>)
         else if protocol = ProtocolTCP \<or> protocol = ProtocolTCPServerFirst then
           pol\<lparr>etp_ClustersConfigs := etp_ClustersConfigs pol @ [cluster],
               etp_TrafficMatches := etp_TrafficMatches pol @ [ip_match]\<rparr>
         else if protocol = ProtocolHTTPS then
           pol\<lparr>etp_ClustersConfigs := etp_ClustersConfigs pol @ [cluster],
               etp_TrafficMatches := etp_TrafficMatches pol @ [ip_match\<lparr>tm_ServerNames := eg_Hosts (egr_Spec egress)\<rparr>]\<rparr>
         else pol)"

definition egress_step ::
  "MeshCatalog \<Rightarrow> K8sServiceAccount \<Rightarrow> Egress \<Rightarrow> EgressTrafficPolicy \<Rightarrow> EgressTrafficPolicy" where
  "egress_step mc source egress pol =
     (case getUpstreamTrafficSettingForEgress mc egress of
        None \<Rightarrow> pol
      | Some uts \<Rightarrow>
          fold (egress_port_step mc egress uts (getGatewayForEgress mc) (getEgressSourceMTLS egress source))
            (eg_Ports (egr_Spec egress)) pol)"

definition empty_egress :: EgressTrafficPolicy where
  "empty_egress = \<lparr>etp_TrafficMatches = [], etp_HTTPRouteConfigsPerPort = Map.empty, etp_ClustersConfigs = []\<rparr>"

definition GetEgressTrafficPolicy ::
  "Hashes \<Rightarrow> MeshCatalog \<Rightarrow> ServiceIdentity \<Rightarrow> (string + EgressTrafficPolicy option) option" where
  "GetEgressTrafficPolicy hs mc serviceIdentity =
     (if \<not> cfg_EnableEgressPolicy (mc_cfg mc) then Some (Inr None)
      else case ToK8sServiceAccount serviceIdentity of
        None \<Rightarrow> None
      | Some source \<Rightarrow>
          (let pol = fold (egress_step mc source)
                 (ListEgressPoliciesForSourceIdentity (mc_kube mc) (mc_policy mc) source) empty_egress
           in case DeduplicateTrafficMatches (h_Match hs) (etp_TrafficMatches pol) of
                Inl err \<Rightarrow> Some (Inl err)
              | Inr trafficMatches \<Rightarrow>
                  (case DeduplicateClusterConfigs (h_Cluster hs) (etp_ClustersConfigs pol) of
                     Inl err \<Rightarrow> Some (Inl err)
                   | Inr clusterConfigs \<Rightarrow>
                       Some (Inr (Some (pol\<lparr>etp_TrafficMatches := trafficMatches,
                                            etp_ClustersConfigs := clusterConfigs\<rparr>))))))"

section \<open>Where egress routes and matches come from\<close>

definition raw_egress :: "MeshCatalog \<Rightarrow> K8sServiceAccount \<Rightarrow> EgressTrafficPolicy" where
  "raw_egress mc source = fold (egress_step mc source)
     (ListEgressPoliciesForSourceIdentity (mc_kube mc) (mc_policy mc) source) empty_egress"

text \<open>A route configuration for a host on a port, justified by an egress policy and resolved by a
  cluster.\<close>

definition config_ok :: "MeshCatalog \<Rightarrow> Egress set \<Rightarrow> EgressClusterConfig set \<Rightarrow> int \<Rightarrow> EgressHTTPRouteConfig \<Rightarrow> bool" where
  "config_ok mc es cs port c \<longleftrightarrow>
     ehc_Hostnames c = [ehc_Name c, host_port (ehc_Name c) port] \<and>
     (\<exists>e\<in>es. ehc_Name c \<in> set (eg_Hosts (egr_Spec e)) \<and>
        (\<exists>p\<in>set (eg_Ports (egr_Spec e)). ToLower (ps_Protocol p) = ProtocolHTTP \<and> ps_Number p = port) \<and>
        ehc_RoutingRules c = map (egress_rule (host_port (ehc_Name c) port) (allowed_ip_ranges e)) (egress_http_matches mc e)) \<and>
     (\<exists>cc\<in>cs. ecc_Name cc = host_port (ehc_Name c) port \<and> ecc_Host cc = ehc_Name c \<and> ecc_Port cc = port)"

definition match_ok :: "EgressClusterConfig set \<Rightarrow> TrafficMatch \<Rightarrow> bool" where
  "match_ok cs m \<longleftrightarrow> tm_Cluster m = '''' \<or> (\<exists>cc\<in>cs. ecc_Name cc = tm_Cluster m \<and> ecc_Port cc = tm_DestinationPort m)"

definition egress_inv :: "MeshCatalog \<Rightarrow> Egress set \<Rightarrow> EgressTrafficPolicy \<Rightarrow> bool" where
  "egress_inv mc es pol \<longleftrightarrow>
     (\<forall>port cfgs c. etp_HTTPRouteConfigsPerPort pol port = Some cfgs \<longrightarrow> c \<in> set cfgs \<longrightarrow>
        config_ok mc es (set (etp_ClustersConfigs pol)) port c) \<and>
     (\<forall>m\<in>set (etp_TrafficMatches pol). match_ok (set (etp_ClustersConfigs pol)) m)"

lemma config_ok_mono: "config_ok mc es cs port c \<Longrightarrow> cs \<subseteq> cs' \<Longrightarrow> config_ok mc es cs' port c"
  unfolding config_ok_def by blast

lemma match_ok_mono: "match_ok cs m \<Longrightarrow> cs \<subseteq> cs' \<Longrightarrow> match_ok cs' m"
  unfolding match_ok_def by blast

lemma egress_inv_extend:
  assumes "egress_inv mc es pol"
    and "\<And>c. c \<in> set cfgs \<Longrightarrow> config_ok mc es (set ccs) port c"
    and "\<And>m. m \<in> set ms \<Longrightarrow> match_ok (set ccs) m"
  shows "egress_inv mc es (pol\<lparr>etp_HTTPRouteConfigsPerPort := port_extend (etp_HTTPRouteConfigsPerPort pol) port cfgs,
      etp_ClustersConfigs := etp_ClustersConfigs pol @ ccs, etp_TrafficMatches := etp_TrafficMatches pol @ ms\<rparr>)"
  using assms
  by (cases "etp_HTTPRouteConfigsPerPort pol port")
    (auto simp: egress_inv_def port_extend_def split: if_splits
      intro: config_ok_mono [OF _ Un_upper1] match_ok_mono [OF _ Un_upper1]
        config_ok_mono [OF _ Un_upper2] match_ok_mono [OF _ Un_upper2])

lemma egress_inv_extend_tcp:
  assumes "egress_inv mc es pol" "match_ok {cc} m"
  shows "egress_inv mc es (pol\<lparr>etp_ClustersConfigs := etp_ClustersConfigs pol @ [cc],
      etp_TrafficMatches := etp_TrafficMatches pol @ [m]\<rparr>)"
  using assms
  by (auto simp: egress_inv_def intro: config_ok_mono [OF _ subset_insertI] match_ok_mono [OF _ subset_insertI]
      match_ok_mono [of "{cc}"])

lemma egress_port_step_inv:
  assumes "egress_inv mc es pol" "e \<in> es" "p \<in> set (eg_Ports (egr_Spec e))"
  shows "egress_inv mc es (egress_port_step mc e uts gw mtls p pol)"
proof -
  have cfg: "config_ok mc es (set (snd (buildHTTPRouteConfigs mc e (ps_Number p) uts mtls))) (ps_Number p) c"
    if "ToLower (ps_Protocol p) = ProtocolHTTP" "c \<in> set (fst (buildHTTPRouteConfigs mc e (ps_Number p) uts mtls))" for c
    using that assms(2,3) by (auto simp: config_ok_def buildHTTPRouteConfigs_def Let_def)
  note ext = egress_inv_extend [OF assms(1), of "fst (buildHTTPRouteConfigs mc e (ps_Number p) uts mtls)"
      "snd (buildHTTPRouteConfigs mc e (ps_Number p) uts mtls)" "ps_Number p" "[m]" for m, OF cfg]
  show ?thesis
    using assms(1) ext
    by (auto simp: egress_port_step_def Let_def match_ok_def zero_match_def split: prod.split intro!: egress_inv_extend_tcp)
qed

lemma egress_step_inv:
  assumes "egress_inv mc es pol" "e \<in> es"
  shows "egress_inv mc es (egress_step mc src e pol)"
proof -
  have "egress_inv mc es (fold (egress_port_step mc e uts gw mtls) ps pol)"
    if "set ps \<subseteq> set (eg_Ports (egr_Spec e))" for uts gw mtls ps
    using that assms(1) by (induction ps arbitrary: pol) (auto intro: egress_port_step_inv [OF _ assms(2)])
  then show ?thesis using assms(1) by (auto simp: egress_step_def split: option.split)
qed

lemma raw_egress_inv:
  "egress_inv mc (set (ListEgressPoliciesForSourceIdentity (mc_kube mc) (mc_policy mc) src)) (raw_egress mc src)"
proof -
  have "egress_inv mc es (fold (egress_step mc src) l pol)" if "set l \<subseteq> es" "egress_inv mc es pol" for es l pol
    using that by (induction l arbitrary: pol) (auto intro: egress_step_inv)
  moreover have "egress_inv mc es empty_egress" for es by (simp add: egress_inv_def empty_egress_def)
  ultimately show ?thesis unfolding raw_egress_def by blast
qed

lemma GetEgressTrafficPolicy_raw:
  "cfg_EnableEgressPolicy (mc_cfg mc) \<Longrightarrow> ToK8sServiceAccount si = Some src \<Longrightarrow>
   GetEgressTrafficPolicy hs mc si =
     (case dedup_by_hash (h_Match hs) (etp_TrafficMatches (raw_egress mc src)) of
        Inl err \<Rightarrow> Some (Inl err)
      | Inr ms \<Rightarrow>
          (case dedup_by_hash (h_Cluster hs) (etp_ClustersConfigs (raw_egress mc src)) of
             Inl err \<Rightarrow> Some (Inl err)
           | Inr cs \<Rightarrow> Some (Inr (Some ((raw_egress mc src)\<lparr>etp_TrafficMatches := ms, etp_ClustersConfigs := cs\<rparr>)))))"
  unfolding GetEgressTrafficPolicy_def raw_egress_def Let_def DeduplicateTrafficMatches_def
    DeduplicateClusterConfigs_def by simp

section \<open>Properties\<close>

lemma dedup_no_collision:
  assumes "dedup_by_hash hash xs = Inr ys" "inj_on hash (set xs)"
  shows "set ys = set xs"
  using dedup_by_hash_correct [OF assms(1)] assms(2) by (metis inj_on_image_eq_iff subset_refl)


definition egress0 :: Egress where
  "egress0 = \<lparr>egr_Meta = meta0 ''shop'' ''out'', egr_Spec = \<lparr>eg_Sources =
     [\<lparr>es_Kind = ''ServiceAccount'', es_Name = ''buyer'', es_Namespace = ''shop'', es_MTLS = None\<rparr>],
     eg_Hosts = [''h.org''], eg_IPAddresses = [], eg_Ports = [\<lparr>ps_Number = 80, ps_Protocol = ''HTTP''\<rparr>],
     eg_Matches = []\<rparr>\<rparr>"

definition cat1 :: MeshCatalog where
  "cat1 = cat0\<lparr>mc_policy := pol0\<lparr>pol_Egresses := [egress0]\<rparr>\<rparr>"

definition hash0 :: Hashes where
  "hash0 = \<lparr>h_Match = (\<lambda>_. Inr 0), h_Cluster = (\<lambda>_. Inr 0)\<rparr>"

lemma raw_egress0:
  "raw_egress cat1 buyer = \<lparr>etp_TrafficMatches = [zero_match\<lparr>tm_Name := GetEgressTrafficMatchName 80 ''HTTP'',
       tm_DestinationPort := 80, tm_DestinationProtocol := ''HTTP''\<rparr>],
     etp_HTTPRouteConfigsPerPort = [80 \<mapsto> [\<lparr>ehc_Name = ''h.org'', ehc_Hostnames = [''h.org'', host_port ''h.org'' 80],
       ehc_RoutingRules = [egress_rule (host_port ''h.org'' 80) [] WildCardRouteMatch]\<rparr>]],
     etp_ClustersConfigs = [\<lparr>ecc_Name = host_port ''h.org'' 80, ecc_Host = ''h.org'', ecc_Port = 80,
       ecc_UpstreamTrafficSetting = None, ecc_SourceMTLS = None\<rparr>]\<rparr>"
proof -
  have "ListEgressPoliciesForSourceIdentity (mc_kube cat1) (mc_policy cat1) buyer = [egress0]"
    using monitored_shop
    by (simp add: ListEgressPoliciesForSourceIdentity_def cat1_def cat0_def NewMeshCatalog_def egress0_def meta0_def
        kindSvcAccount_def)
  moreover have "ToLower ''HTTP'' = ProtocolHTTP" by (simp add: ToLower_def ProtocolHTTP_def) code_simp
  ultimately show ?thesis
    by (simp add: raw_egress_def egress_step_def getUpstreamTrafficSettingForEgress_def egress0_def
        egress_port_step_def Let_def buildHTTPRouteConfigs_def egress_http_matches_def allowed_ip_ranges_def
        getEgressSourceMTLS_def getGatewayForEgress_def cat1_def ListEgressGateways_def pol0_def empty_egress_def
        port_extend_def zero_match_def)
qed


end
