(* ===== verification/CatalogOutbound.thy ===== *)
theory CatalogOutbound
  imports CatalogEgress
begin

text \<open>
  Outbound mesh traffic policies (\<open>pkg/catalog/outbound_traffic_policies.go\<close>): the clusters,
  traffic matches and HTTP routes of the services an identity may reach.  What the Go runtime and
  third-party code leave open is a record of parameters: the structural hashes, and the order in
  which a map from ports is iterated.
\<close>

record Runtime =
  rt_Hashes :: Hashes
  rt_Order :: "uint16 set \<Rightarrow> uint16 list"

text \<open>A map is iterated over each of its keys once.\<close>

definition lists_keys :: "Runtime \<Rightarrow> bool" where
  "lists_keys rt \<longleftrightarrow> (\<forall>ks. set (rt_Order rt ks) = ks \<and> distinct (rt_Order rt ks))"

section \<open>Services an identity may reach\<close>

definition ListOutboundServicesForIdentity :: "MeshCatalog \<Rightarrow> ServiceIdentity \<Rightarrow> MeshService list option" where
  "ListOutboundServicesForIdentity mc serviceIdentity =
     (if cfg_Permissive (mc_cfg mc) then listMeshServices mc
      else case ToK8sServiceAccount serviceIdentity of
        None \<Rightarrow> None
      | Some svcAccount \<Rightarrow>
          map_option (\<lambda>destServices. set_adds [] (concat destServices))
            (those (map (\<lambda>t. getServicesForServiceIdentity mc
                (ToServiceIdentity \<lparr>sa_Namespace = ids_Namespace (tt_Destination t), sa_Name = ids_Name (tt_Destination t)\<rparr>))
              (filter (\<lambda>t. list_ex (\<lambda>source. \<not> (ids_Name source \<noteq> sa_Name svcAccount \<or>
                  ids_Namespace source \<noteq> sa_Namespace svcAccount)) (tt_Sources t))
                (ListTrafficTargets (mc_kube mc) (mc_smi mc) no_destination)))))"

section \<open>Upstream clusters and their weights\<close>

text \<open>The loop of \<open>activeUpstreamClusters\<close>: each cluster takes its share of what is left; Go's
  integer division truncates.\<close>

fun spread_weight :: "int \<Rightarrow> string list \<Rightarrow> WeightedCluster list" where
  "spread_weight totalWeight [] = []"
| "spread_weight totalWeight (cn # aas) =
     (let weight = totalWeight sdiv int (length (cn # aas))
      in \<lparr>wc_ClusterName = cn, wc_Weight = weight\<rparr> # spread_weight (totalWeight - weight) aas)"

definition activeUpstreamClusters ::
  "string list \<Rightarrow> TrafficSplitBackend \<Rightarrow> WeightedCluster list \<Rightarrow> WeightedCluster list" where
  "activeUpstreamClusters aas backend upstreamClusters =
     (if length aas > 0 then upstreamClusters @ spread_weight (tsb_Weight backend) aas else upstreamClusters)"

definition failOverUpstreamClusters :: "string list \<Rightarrow> WeightedCluster list \<Rightarrow> WeightedCluster list" where
  "failOverUpstreamClusters fos upstreamClusters =
     upstreamClusters @ map (\<lambda>cn. \<lparr>wc_ClusterName = cn, wc_Weight = ClusterWeightFailOver\<rparr>) fos"

fun target_port_of_slaves ::
  "MeshCatalog \<Rightarrow> NamespacedName \<Rightarrow> uint16 \<Rightarrow> kube_error \<Rightarrow> string list \<Rightarrow> kube_error + uint16" where
  "target_port_of_slaves mc nn port err [] = Inl err"
| "target_port_of_slaves mc nn port err (slaveNamespace # slaves) =
     (case kube_GetTargetPortForServicePort (mc_tp mc) (mc_kube mc) (nn\<lparr>nn_Namespace := slaveNamespace\<rparr>) port of
        Inr targetPort \<Rightarrow> Inr targetPort
      | Inl err' \<Rightarrow> target_port_of_slaves mc nn port err' slaves)"

definition getTargetPortForServicePort ::
  "MeshCatalog \<Rightarrow> MeshService \<Rightarrow> NamespacedName \<Rightarrow> kube_error + uint16" where
  "getTargetPortForServicePort mc meshSvc namespacedName =
     (case kube_GetTargetPortForServicePort (mc_tp mc) (mc_kube mc) namespacedName (ms_Port meshSvc) of
        Inr targetPort \<Rightarrow> Inr targetPort
      | Inl err \<Rightarrow>
          (let lb = cfg_Lb (mc_cfg mc) in
           if IsMasterNamespace lb (nn_Namespace namespacedName)
           then target_port_of_slaves mc namespacedName (ms_Port meshSvc) err (lb_SlaveNamespaces lb)
           else Inl err))"

definition mergeUpstreamClusters :: "MeshCatalog \<Rightarrow> MeshService \<Rightarrow> WeightedCluster list \<Rightarrow> WeightedCluster list" where
  "mergeUpstreamClusters mc meshSvc upstreamClusters =
     (let wc = \<lparr>wc_ClusterName = SidecarClusterName meshSvc, wc_Weight = ClusterWeightAcceptAll\<rparr>;
          wc = (if IsMultiClusterService meshSvc then
                  (let lw = GetLbWeightForService (mc_multi mc) meshSvc in
                   if lw_aa lw \<and> lw_weight lw > 0 then wc\<lparr>wc_Weight := lw_weight lw\<rparr>
                   else if lw_fo lw then wc\<lparr>wc_Weight := ClusterWeightFailOver\<rparr> else wc)
                else wc)
      in upstreamClusters @ [wc])"

text \<open>The cluster name of a backend on a target port, and the local and imported clusters of a backend.\<close>

definition backend_cluster :: "string \<Rightarrow> string \<Rightarrow> uint16 \<Rightarrow> string" where
  "backend_cluster ns name targetPort = SidecarClusterName ((plain_service ns name)\<lparr>ms_TargetPort := targetPort\<rparr>)"

definition backend_name :: "MeshService \<Rightarrow> TrafficSplitBackend \<Rightarrow> string \<times> string" where
  "backend_name meshSvc backend =
     (case Split CHR ''/'' (tsb_Service backend) of
        [ns, name] \<Rightarrow> (ns, name)
      | _ \<Rightarrow> (ms_Namespace meshSvc, tsb_Service backend))"

definition local_backend_clusters :: "MeshCatalog \<Rightarrow> MeshService \<Rightarrow> string \<Rightarrow> string \<Rightarrow> string list" where
  "local_backend_clusters mc meshSvc ns name =
     (let lookupNs = (if length (ms_CloudAttachedNamespace meshSvc) > 0 \<and>
                         EqualFold (ms_CloudAttachedNamespace meshSvc) ns
                      then ms_Namespace meshSvc else ns)
      in case getTargetPortForServicePort mc meshSvc \<lparr>nn_Namespace = lookupNs, nn_Name = name\<rparr> of
           Inl _ \<Rightarrow> []
         | Inr targetPort \<Rightarrow> [backend_cluster ns name targetPort])"

definition imported_backend_clusters ::
  "Runtime \<Rightarrow> MeshCatalog \<Rightarrow> MeshService \<Rightarrow> string \<Rightarrow> string \<Rightarrow> string list \<Rightarrow> (string \<times> bool) list" where
  "imported_backend_clusters rt mc meshSvc ns name cnsLocal =
     (case mcs_GetTargetPortForServicePort (mc_multi mc) \<lparr>nn_Namespace = ns, nn_Name = name\<rparr> (ms_Port meshSvc) of
        None \<Rightarrow> []
      | Some targetPorts \<Rightarrow>
          filter (\<lambda>(cn, aa). cn \<notin> set cnsLocal)
            (map (\<lambda>targetPort. (backend_cluster ns name targetPort, targetPorts targetPort = Some True))
              (rt_Order rt (dom targetPorts))))"

definition mergeSplitUpstreamClusters ::
  "Runtime \<Rightarrow> MeshCatalog \<Rightarrow> MeshService \<Rightarrow> TrafficSplitBackend \<Rightarrow> WeightedCluster list \<Rightarrow> WeightedCluster list" where
  "mergeSplitUpstreamClusters rt mc meshSvc backend upstreamClusters =
     (let (ns, name) = backend_name meshSvc backend;
          locals = local_backend_clusters mc meshSvc ns name;
          imported = imported_backend_clusters rt mc meshSvc ns name locals;
          aas = locals @ map fst (filter snd imported);
          fos = map fst (filter (\<lambda>(_, aa). \<not> aa) imported)
      in failOverUpstreamClusters fos (activeUpstreamClusters aas backend upstreamClusters))"

section \<open>Routes of a service\<close>

definition getSplitRouteMatches :: "MeshCatalog \<Rightarrow> TrafficSplit \<Rightarrow> HTTPRouteMatch list" where
  "getSplitRouteMatches mc split =
     concat (map (\<lambda>trafficSpecs.
       if hrg_Matches trafficSpecs = [] then []
       else if list_ex (\<lambda>match. tr_Name match = om_Name (hrg_Meta trafficSpecs)) (ts_Matches split)
         then map http_route_match (hrg_Matches trafficSpecs) else [])
       (ListHTTPTrafficSpecs (mc_kube mc) (mc_smi mc)))"

definition split_route_match :: "Runtime \<Rightarrow> MeshCatalog \<Rightarrow> MeshService \<Rightarrow> TrafficSplit \<Rightarrow> HTTPRouteMatchWithWeightedClusters" where
  "split_route_match rt mc meshSvc split =
     \<lparr>hmw_UpstreamClusters = fold (mergeSplitUpstreamClusters rt mc meshSvc) (ts_Backends split) [],
      hmw_RouteMatches = (if length (ts_Matches split) > 0 then getSplitRouteMatches mc split else []),
      hmw_HasSplitMatches = (length (ts_Matches split) > 0)\<rparr>"

text \<open>\<open>hasTrafficSplitWildCard\<close> and \<open>routeMatches\<close>.\<close>

definition service_route_matches ::
  "Runtime \<Rightarrow> MeshCatalog \<Rightarrow> MeshService \<Rightarrow> bool \<times> HTTPRouteMatchWithWeightedClusters list" where
  "service_route_matches rt mc meshSvc =
     (let splitNs = (if length (ms_CloudAttachedNamespace meshSvc) > 0 then ms_CloudAttachedNamespace meshSvc
                     else ms_Namespace meshSvc);
          trafficSplits = ListTrafficSplits (mc_kube mc) (mc_smi mc)
            (WithTrafficSplitApexService (plain_service splitNs (ms_Name meshSvc)) no_split_options)
      in if length trafficSplits > 0
         then (list_ex (\<lambda>split. length (ts_Matches split) = 0) trafficSplits,
               map (split_route_match rt mc meshSvc) trafficSplits)
         else (True, [\<lparr>hmw_UpstreamClusters = mergeUpstreamClusters mc meshSvc [], hmw_RouteMatches = [],
                       hmw_HasSplitMatches = False\<rparr>]))"

fun first_clusters :: "(WeightedCluster \<Rightarrow> int) \<Rightarrow> string set \<Rightarrow> WeightedCluster list \<Rightarrow> WeightedCluster list" where
  "first_clusters w seen [] = []"
| "first_clusters w seen (c # cs) =
     (if wc_ClusterName c \<in> seen then first_clusters w seen cs
      else \<lparr>wc_ClusterName = wc_ClusterName c, wc_Weight = w c\<rparr> # first_clusters w (insert (wc_ClusterName c) seen) cs)"

definition getWildCardRouteUpstreamClusters ::
  "bool \<Rightarrow> HTTPRouteMatchWithWeightedClusters list \<Rightarrow> WeightedCluster list" where
  "getWildCardRouteUpstreamClusters hasTrafficSplitWildCard routeMatches =
     (if hasTrafficSplitWildCard
      then first_clusters wc_Weight {}
        (concat (map hmw_UpstreamClusters (filter (\<lambda>m. \<not> hmw_HasSplitMatches m) routeMatches)))
      else first_clusters (\<lambda>_. ClusterWeightAcceptAll) {} (concat (map hmw_UpstreamClusters routeMatches)))"

definition add_split_routes ::
  "RetryPolicySpec option \<Rightarrow> HTTPRouteMatchWithWeightedClusters list \<Rightarrow> OutboundTrafficPolicy \<Rightarrow> OutboundTrafficPolicy" where
  "add_split_routes retryPolicy routeMatches out =
     fold (\<lambda>(route, clusters) out. fst (AddRoute route retryPolicy clusters out))
       (concat (map (\<lambda>m. map (\<lambda>route. (route, hmw_UpstreamClusters m)) (hmw_RouteMatches m)) routeMatches)) out"

text \<open>The HTTP policy of a service; \<open>None\<close> is the \<open>continue\<close> when the wildcard route cannot be added.\<close>

definition outbound_http_policy ::
  "RetryPolicySpec option \<Rightarrow> bool \<Rightarrow> HTTPRouteMatchWithWeightedClusters list \<Rightarrow> OutboundTrafficPolicy \<Rightarrow>
   OutboundTrafficPolicy option" where
  "outbound_http_policy retryPolicy hasTrafficSplitWildCard routeMatches out =
     (let out = add_split_routes retryPolicy routeMatches out;
          hasWildCardRoute = list_ex (\<lambda>m. list_ex (\<lambda>r. hm_Path r = RegexMatchAll) (hmw_RouteMatches m)) routeMatches
      in if hasWildCardRoute then Some out
         else case AddRoute WildCardRouteMatch retryPolicy
                (getWildCardRouteUpstreamClusters hasTrafficSplitWildCard routeMatches) out of
           (out', None) \<Rightarrow> Some out'
         | (_, Some _) \<Rightarrow> None)"

section \<open>Egress of mesh services\<close>

definition isEgressService :: "MeshCatalog \<Rightarrow> MeshService \<Rightarrow> EgressTrafficPolicy \<Rightarrow> bool" where
  "isEgressService mc meshSvc egressPolicy =
     (let hostnames = GetHostnamesForService (mc_td mc) meshSvc (cfg_ServiceAccessNames (mc_cfg mc)) True
      in \<exists>routeConfigs\<in>ran (etp_HTTPRouteConfigsPerPort egressPolicy).
           list_ex (\<lambda>routeConfig. list_ex (\<lambda>host. host \<in> set hostnames) (ehc_Hostnames routeConfig)) routeConfigs)"

text \<open>The policy is fetched once: \<open>egressPolicyGetted\<close> and \<open>egressPolicy\<close> are the pair threaded through the
  loop.  An error of the fetch leaves the policy nil; \<open>None\<close> is a panic.\<close>

type_synonym egress_cache = "bool \<times> EgressTrafficPolicy option"

definition enableEgressSrviceForIdentity ::
  "Runtime \<Rightarrow> MeshCatalog \<Rightarrow> ServiceIdentity \<Rightarrow> egress_cache \<Rightarrow> MeshService \<Rightarrow> (bool \<times> egress_cache) option" where
  "enableEgressSrviceForIdentity rt mc downstreamIdentity cache meshSvc =
     (if cfg_EnableEgress (mc_cfg mc) then Some (True, cache)
      else case (if fst cache then Some cache
                 else map_option (\<lambda>r. (True, case r of Inl _ \<Rightarrow> None | Inr pol \<Rightarrow> pol))
                        (GetEgressTrafficPolicy (rt_Hashes rt) mc downstreamIdentity)) of
        None \<Rightarrow> None
      | Some cache' \<Rightarrow>
          Some (case snd cache' of None \<Rightarrow> False | Some pol \<Rightarrow> isEgressService mc meshSvc pol, cache'))"

section \<open>The policy of an identity\<close>

definition destination_ranges :: "Endpoint list \<Rightarrow> string list" where
  "destination_ranges eps = set_adds [] (map (\<lambda>endp. IP_String (ep_IP endp) @ ''/32'') eps)"

definition resolvable_addresses :: "Endpoint list \<Rightarrow> string list" where
  "resolvable_addresses eps = sort (remdups (map (\<lambda>endp. IP_String (ep_IP endp)) eps))"

definition outbound_cluster :: "MeshCatalog \<Rightarrow> MeshService \<Rightarrow> MeshClusterConfig" where
  "outbound_cluster mc meshSvc =
     \<lparr>mcc_Name = SidecarClusterName meshSvc, mcc_Service = meshSvc, mcc_Address = '''', mcc_Port = 0,
      mcc_EnableSidecarActiveHealthChecks = cfg_EnableSidecarActiveHealthChecks (mc_cfg mc),
      mcc_UpstreamTrafficSetting = service_setting mc meshSvc\<rparr>"

definition outbound_match :: "MeshService \<Rightarrow> string list \<Rightarrow> HTTPRouteMatchWithWeightedClusters \<Rightarrow> TrafficMatch" where
  "outbound_match meshSvc destinationIPRanges routeMatch =
     zero_match\<lparr>tm_Name := OutboundTrafficMatchName meshSvc, tm_DestinationPort := uint (ms_Port meshSvc),
       tm_DestinationProtocol := ms_Protocol meshSvc, tm_DestinationIPRanges := destinationIPRanges,
       tm_WeightedClusters := hmw_UpstreamClusters routeMatch\<rparr>"

definition service_policy_base :: "MeshCatalog \<Rightarrow> string \<Rightarrow> MeshService \<Rightarrow> Endpoint list \<Rightarrow> OutboundTrafficPolicy" where
  "service_policy_base mc downstreamNamespace meshSvc eps =
     (let localNamespace = (downstreamNamespace = ms_Namespace meshSvc \<or> length (ms_CloudInheritedFrom meshSvc) > 0)
      in NewOutboundTrafficPolicy (PolicyName meshSvc True) (getHostnamesForService mc meshSvc localNamespace eps))"

text \<open>The body of the loop for a service whose target port is not 0.\<close>

definition outbound_service_step ::
  "Runtime \<Rightarrow> MeshCatalog \<Rightarrow> ServiceIdentity \<Rightarrow> string \<Rightarrow> MeshService \<Rightarrow>
   OutboundMeshTrafficPolicy \<times> egress_cache \<Rightarrow> (OutboundMeshTrafficPolicy \<times> egress_cache) option" where
  "outbound_service_step rt mc downstreamIdentity downstreamNamespace meshSvc st =
     (case enableEgressSrviceForIdentity rt mc downstreamIdentity (snd st) meshSvc of
        None \<Rightarrow> None
      | Some (egressEnabled, cache) \<Rightarrow>
          (let pol = fst st;
               eps = getDNSResolvableServiceEndpoints mc meshSvc;
               monitoredNamespace = IsMonitoredNamespace (mc_kube mc) (ms_Namespace meshSvc);
               existIntraEndpoints = list_ex (\<lambda>endp. length (ep_ClusterKey endp) = 0 \<and>
                  (monitoredNamespace \<or> egressEnabled)) eps;
               addrs = resolvable_addresses eps;
               pol = (if cfg_LocalDNSProxy (mc_cfg mc) \<and> \<not> existIntraEndpoints \<and> length addrs > 0
                      then pol\<lparr>omp_ServicesResolvableSet := (omp_ServicesResolvableSet pol)(PolicyName meshSvc True \<mapsto> addrs)\<rparr>
                      else pol);
               (hasTrafficSplitWildCard, routeMatches) = service_route_matches rt mc meshSvc;
               pol = pol\<lparr>omp_ClustersConfigs := omp_ClustersConfigs pol @ [outbound_cluster mc meshSvc],
                  omp_TrafficMatches := omp_TrafficMatches pol @
                    map (outbound_match meshSvc (destination_ranges eps)) routeMatches\<rparr>
           in if is_tcp (ms_Protocol meshSvc) then Some (pol, cache)
              else case GetRetryPolicy mc downstreamIdentity meshSvc of
                None \<Rightarrow> None
              | Some retryPolicy \<Rightarrow>
                  (case outbound_http_policy retryPolicy hasTrafficSplitWildCard routeMatches
                       (service_policy_base mc downstreamNamespace meshSvc eps) of
                     None \<Rightarrow> Some (pol, cache)
                   | Some out \<Rightarrow>
                       Some (pol\<lparr>omp_HTTPRouteConfigsPerPort :=
                           port_append (omp_HTTPRouteConfigsPerPort pol) (uint (ms_Port meshSvc)) out\<rparr>, cache))))"

fun outbound_loop ::
  "Runtime \<Rightarrow> MeshCatalog \<Rightarrow> ServiceIdentity \<Rightarrow> string \<Rightarrow> MeshService list \<Rightarrow>
   OutboundMeshTrafficPolicy \<times> egress_cache \<Rightarrow> (OutboundMeshTrafficPolicy \<times> egress_cache) option" where
  "outbound_loop rt mc downstreamIdentity ns [] st = Some st"
| "outbound_loop rt mc downstreamIdentity ns (meshSvc # svcs) st =
     (if ms_TargetPort meshSvc = 0 then outbound_loop rt mc downstreamIdentity ns svcs st
      else case outbound_service_step rt mc downstreamIdentity ns meshSvc st of
        None \<Rightarrow> None
      | Some st' \<Rightarrow> outbound_loop rt mc downstreamIdentity ns svcs st')"

definition GetOutboundMeshTrafficPolicy ::
  "Runtime \<Rightarrow> MeshCatalog \<Rightarrow> ServiceIdentity \<Rightarrow> OutboundMeshTrafficPolicy option" where
  "GetOutboundMeshTrafficPolicy rt mc downstreamIdentity =
     (case ToK8sServiceAccount downstreamIdentity of
        None \<Rightarrow> None
      | Some downstreamSvcAccount \<Rightarrow>
          (case ListOutboundServicesForIdentity mc downstreamIdentity of
             None \<Rightarrow> None
           | Some svcs \<Rightarrow>
               map_option fst (outbound_loop rt mc downstreamIdentity (sa_Namespace downstreamSvcAccount) svcs
                 (\<lparr>omp_TrafficMatches = [], omp_HTTPRouteConfigsPerPort = Map.empty, omp_ClustersConfigs = [],
                   omp_ServicesResolvableSet = Map.empty\<rparr>, (False, None)))))"

section \<open>Lemmas on routes\<close>

abbreviation route_matches :: "OutboundTrafficPolicy \<Rightarrow> HTTPRouteMatch list" where
  "route_matches out \<equiv> map rwc_HTTPRouteMatch (otp_Routes out)"

lemma AddRoute_fst:
  "fst (AddRoute m rp wcs out) = out\<lparr>otp_Routes := fst (add_route (otp_Name out) m rp (set wcs) (otp_Routes out))\<rparr>"
  by (simp add: AddRoute_def split: prod.split)

lemma AddRoute_snd: "snd (AddRoute m rp wcs out) = snd (add_route (otp_Name out) m rp (set wcs) (otp_Routes out))"
  by (simp add: AddRoute_def split: prod.split)

lemma AddRoute_matches: "route_matches (fst (AddRoute m rp wcs out)) = set_add m (route_matches out)"
  by (simp add: AddRoute_fst add_route_keys)

lemma AddRoute_new: "m \<notin> set (route_matches out) \<Longrightarrow> snd (AddRoute m rp wcs out) = None"
proof -
  have "m \<notin> rwc_HTTPRouteMatch ` set rs \<Longrightarrow> snd (add_route n m rp wc rs) = None" for rs n wc
    by (induction rs) (auto split: prod.splits)
  then show "m \<notin> set (route_matches out) \<Longrightarrow> ?thesis" by (simp add: AddRoute_snd)
qed

lemma add_split_routes_matches:
  "route_matches (add_split_routes rp rms out) = set_adds (route_matches out) (concat (map hmw_RouteMatches rms))"
proof -
  have "route_matches (fold (\<lambda>(r, cs) out. fst (AddRoute r rp cs out)) l out) = set_adds (route_matches out) (map fst l)" for l
    by (induction l arbitrary: out) (auto simp: AddRoute_matches split: prod.splits)
  then show ?thesis by (simp add: add_split_routes_def map_concat comp_def)
qed

lemma add_split_routes_frame:
  "otp_Name (add_split_routes rp rms out) = otp_Name out \<and> otp_Hostnames (add_split_routes rp rms out) = otp_Hostnames out"
proof -
  have "otp_Name (fold (\<lambda>(r, cs) out. fst (AddRoute r rp cs out)) l out) = otp_Name out \<and>
      otp_Hostnames (fold (\<lambda>(r, cs) out. fst (AddRoute r rp cs out)) l out) = otp_Hostnames out" for l
    by (induction l arbitrary: out) (auto simp: AddRoute_fst split: prod.splits)
  then show ?thesis by (simp add: add_split_routes_def)
qed

definition split_routes :: "HTTPRouteMatchWithWeightedClusters list \<Rightarrow> HTTPRouteMatch list" where
  "split_routes rms = concat (map hmw_RouteMatches rms)"

lemma outbound_http_policy_Some:
  assumes "otp_Routes base = []"
  shows "\<exists>out. outbound_http_policy rp wild rms base = Some out \<and> otp_Name out = otp_Name base \<and>
    otp_Hostnames out = otp_Hostnames base \<and> distinct (route_matches out) \<and>
    set (route_matches out) = set (split_routes rms) \<union>
      (if \<exists>m\<in>set (split_routes rms). hm_Path m = RegexMatchAll then {} else {WildCardRouteMatch})"
proof -
  let ?out = "add_split_routes rp rms base"
  let ?wcs = "getWildCardRouteUpstreamClusters wild rms"
  have ms: "route_matches ?out = set_adds [] (split_routes rms)"
    by (simp add: add_split_routes_matches assms split_routes_def)
  have has: "list_ex (\<lambda>m. list_ex (\<lambda>r. hm_Path r = RegexMatchAll) (hmw_RouteMatches m)) rms \<longleftrightarrow>
      (\<exists>m\<in>set (split_routes rms). hm_Path m = RegexMatchAll)"
    by (auto simp: list_ex_iff split_routes_def)
  show ?thesis
  proof (cases "\<exists>m\<in>set (split_routes rms). hm_Path m = RegexMatchAll")
    case True
    moreover have "rwc_HTTPRouteMatch ` set (otp_Routes ?out) = set (split_routes rms)"
      using arg_cong [OF ms, of set] by simp
    ultimately show ?thesis using add_split_routes_frame [of rp rms base] ms
      by (simp add: outbound_http_policy_def has Let_def)
  next
    case False
    then have "WildCardRouteMatch \<notin> set (split_routes rms)" by (auto simp: WildCardRouteMatch_def)
    then have new: "WildCardRouteMatch \<notin> set (route_matches ?out)" unfolding ms by simp
    then obtain out where out: "AddRoute WildCardRouteMatch rp ?wcs ?out = (out, None)"
      using AddRoute_new [OF new, of rp ?wcs] by (metis prod.collapse)
    have "route_matches out = set_add WildCardRouteMatch (set_adds [] (split_routes rms))"
      using AddRoute_matches [of WildCardRouteMatch rp ?wcs ?out] ms out by simp
    moreover have "otp_Name out = otp_Name ?out" "otp_Hostnames out = otp_Hostnames ?out"
      using AddRoute_fst [of WildCardRouteMatch rp ?wcs ?out] out by simp_all
    moreover have "rwc_HTTPRouteMatch ` set (otp_Routes out) = insert WildCardRouteMatch (set (split_routes rms))"
      using arg_cong [OF calculation(1), of set] by simp
    ultimately show ?thesis using False add_split_routes_frame [of rp rms base]
      by (simp add: outbound_http_policy_def has Let_def out)
  qed
qed

section \<open>Lemmas on the loop\<close>

text \<open>The HTTP policy of a service, which always exists, and the route matches it is built from.\<close>

definition service_http_policy :: "Runtime \<Rightarrow> MeshCatalog \<Rightarrow> ServiceIdentity \<Rightarrow> string \<Rightarrow> MeshService \<Rightarrow> OutboundTrafficPolicy" where
  "service_http_policy rt mc si ns svc =
     the (outbound_http_policy (the (GetRetryPolicy mc si svc)) (fst (service_route_matches rt mc svc))
       (snd (service_route_matches rt mc svc)) (service_policy_base mc ns svc (getDNSResolvableServiceEndpoints mc svc)))"

definition service_splits :: "Runtime \<Rightarrow> MeshCatalog \<Rightarrow> MeshService \<Rightarrow> HTTPRouteMatch list" where
  "service_splits rt mc svc = split_routes (snd (service_route_matches rt mc svc))"

lemma service_policy_base_routes [simp]: "otp_Routes (service_policy_base mc ns svc eps) = []"
    "otp_Name (service_policy_base mc ns svc eps) = PolicyName svc True"
  by (simp_all add: service_policy_base_def NewOutboundTrafficPolicy_def Let_def)

lemma service_http_policy_props:
  "otp_Name (service_http_policy rt mc si ns svc) = PolicyName svc True"
  "distinct (route_matches (service_http_policy rt mc si ns svc))"
  "set (route_matches (service_http_policy rt mc si ns svc)) = set (service_splits rt mc svc) \<union>
     (if \<exists>m\<in>set (service_splits rt mc svc). hm_Path m = RegexMatchAll then {} else {WildCardRouteMatch})"
proof -
  obtain out where
    "outbound_http_policy (the (GetRetryPolicy mc si svc)) (fst (service_route_matches rt mc svc))
       (snd (service_route_matches rt mc svc)) (service_policy_base mc ns svc (getDNSResolvableServiceEndpoints mc svc)) = Some out"
    and out: "otp_Name out = PolicyName svc True" "distinct (route_matches out)"
      "set (route_matches out) = set (service_splits rt mc svc) \<union>
         (if \<exists>m\<in>set (service_splits rt mc svc). hm_Path m = RegexMatchAll then {} else {WildCardRouteMatch})"
    unfolding service_splits_def
    using outbound_http_policy_Some [of "service_policy_base mc ns svc (getDNSResolvableServiceEndpoints mc svc)"
      "the (GetRetryPolicy mc si svc)" "fst (service_route_matches rt mc svc)" "snd (service_route_matches rt mc svc)",
      unfolded service_policy_base_routes, OF refl] by blast
  then have "service_http_policy rt mc si ns svc = out" by (simp add: service_http_policy_def)
  with out show "otp_Name (service_http_policy rt mc si ns svc) = PolicyName svc True"
    "distinct (route_matches (service_http_policy rt mc si ns svc))"
    "set (route_matches (service_http_policy rt mc si ns svc)) = set (service_splits rt mc svc) \<union>
     (if \<exists>m\<in>set (service_splits rt mc svc). hm_Path m = RegexMatchAll then {} else {WildCardRouteMatch})"
    by simp_all
qed

lemma GetRetryPolicy_total: "\<not> dot_free si \<Longrightarrow> GetRetryPolicy mc si svc \<noteq> None"
  using ToK8sServiceAccount_None_iff [of si] by (auto simp: GetRetryPolicy_def)

lemma GetEgressTrafficPolicy_total: "\<not> dot_free si \<Longrightarrow> GetEgressTrafficPolicy hs mc si \<noteq> None"
  using ToK8sServiceAccount_None_iff [of si]
  by (auto simp: GetEgressTrafficPolicy_def Let_def split: sum.splits)

lemma enableEgress_total:
  "\<not> dot_free si \<Longrightarrow> enableEgressSrviceForIdentity rt mc si cache svc \<noteq> None"
  using GetEgressTrafficPolicy_total [of si "rt_Hashes rt" mc]
  by (auto simp: enableEgressSrviceForIdentity_def split: option.splits)

lemma outbound_service_step_Some:
  assumes "\<not> dot_free si"
  shows "\<exists>st'. outbound_service_step rt mc si ns svc st = Some st' \<and>
    omp_ClustersConfigs (fst st') = omp_ClustersConfigs (fst st) @ [outbound_cluster mc svc] \<and>
    omp_TrafficMatches (fst st') = omp_TrafficMatches (fst st) @
      map (outbound_match svc (destination_ranges (getDNSResolvableServiceEndpoints mc svc))) (snd (service_route_matches rt mc svc)) \<and>
    omp_HTTPRouteConfigsPerPort (fst st') =
      (if is_tcp (ms_Protocol svc) then omp_HTTPRouteConfigsPerPort (fst st)
       else port_append (omp_HTTPRouteConfigsPerPort (fst st)) (uint (ms_Port svc)) (service_http_policy rt mc si ns svc))"
proof -
  obtain rp where rp: "GetRetryPolicy mc si svc = Some rp" using GetRetryPolicy_total [OF assms] by blast
  obtain eg cache where eg: "enableEgressSrviceForIdentity rt mc si (snd st) svc = Some (eg, cache)"
    using enableEgress_total [OF assms, of rt mc "snd st" svc] by (metis not_None_eq surj_pair)
  obtain w rms where rms: "service_route_matches rt mc svc = (w, rms)" by fastforce
  let ?base = "service_policy_base mc ns svc (getDNSResolvableServiceEndpoints mc svc)"
  obtain out where out: "outbound_http_policy rp w rms ?base = Some out"
    using outbound_http_policy_Some [of ?base rp w rms] by auto
  then have "service_http_policy rt mc si ns svc = out" by (simp add: service_http_policy_def rp rms)
  then show ?thesis
    by (simp add: outbound_service_step_def eg rms rp out Let_def)
qed

lemma outbound_loop_Some:
  assumes "\<not> dot_free si"
  shows "\<exists>st'. outbound_loop rt mc si ns svcs st = Some st' \<and>
    omp_ClustersConfigs (fst st') = omp_ClustersConfigs (fst st) @
      map (outbound_cluster mc) (filter (\<lambda>s. ms_TargetPort s \<noteq> 0) svcs) \<and>
    omp_TrafficMatches (fst st') = omp_TrafficMatches (fst st) @
      concat (map (\<lambda>s. map (outbound_match s (destination_ranges (getDNSResolvableServiceEndpoints mc s)))
        (snd (service_route_matches rt mc s))) (filter (\<lambda>s. ms_TargetPort s \<noteq> 0) svcs)) \<and>
    omp_HTTPRouteConfigsPerPort (fst st') =
      fold (\<lambda>s m. port_append m (uint (ms_Port s)) (service_http_policy rt mc si ns s))
        (filter (\<lambda>s. ms_TargetPort s \<noteq> 0 \<and> \<not> is_tcp (ms_Protocol s)) svcs) (omp_HTTPRouteConfigsPerPort (fst st))"
proof (induction svcs arbitrary: st)
  case (Cons svc svcs)
  show ?case
  proof (cases "ms_TargetPort svc = 0")
    case True
    then show ?thesis using Cons.IH [of st] by simp
  next
    case False
    obtain st1 where st1: "outbound_service_step rt mc si ns svc st = Some st1"
      and parts: "omp_ClustersConfigs (fst st1) = omp_ClustersConfigs (fst st) @ [outbound_cluster mc svc]"
        "omp_TrafficMatches (fst st1) = omp_TrafficMatches (fst st) @
           map (outbound_match svc (destination_ranges (getDNSResolvableServiceEndpoints mc svc))) (snd (service_route_matches rt mc svc))"
        "omp_HTTPRouteConfigsPerPort (fst st1) = (if is_tcp (ms_Protocol svc) then omp_HTTPRouteConfigsPerPort (fst st)
           else port_append (omp_HTTPRouteConfigsPerPort (fst st)) (uint (ms_Port svc)) (service_http_policy rt mc si ns svc))"
      using outbound_service_step_Some [OF assms, of rt mc ns svc st] by blast
    show ?thesis using False Cons.IH [of st1] by (cases "is_tcp (ms_Protocol svc)") (simp_all add: st1 parts)
  qed
qed simp

lemma GetOutboundMeshTrafficPolicy_Some:
  assumes "ToK8sServiceAccount si = Some sa" "ListOutboundServicesForIdentity mc si = Some svcs"
  shows "\<exists>pol. GetOutboundMeshTrafficPolicy rt mc si = Some pol \<and>
    omp_ClustersConfigs pol = map (outbound_cluster mc) (filter (\<lambda>s. ms_TargetPort s \<noteq> 0) svcs) \<and>
    omp_TrafficMatches pol =
      concat (map (\<lambda>s. map (outbound_match s (destination_ranges (getDNSResolvableServiceEndpoints mc s)))
        (snd (service_route_matches rt mc s))) (filter (\<lambda>s. ms_TargetPort s \<noteq> 0) svcs)) \<and>
    (\<forall>port. (case omp_HTTPRouteConfigsPerPort pol port of None \<Rightarrow> [] | Some l \<Rightarrow> l) =
       map (service_http_policy rt mc si (sa_Namespace sa))
         (filter (\<lambda>s. ms_TargetPort s \<noteq> 0 \<and> \<not> is_tcp (ms_Protocol s) \<and> uint (ms_Port s) = port) svcs))"
proof -
  let ?init = "(\<lparr>omp_TrafficMatches = [], omp_HTTPRouteConfigsPerPort = Map.empty, omp_ClustersConfigs = [],
      omp_ServicesResolvableSet = Map.empty\<rparr>, (False, None))"
  have "\<not> dot_free si" using assms(1) ToK8sServiceAccount_None_iff [of si] by auto
  from outbound_loop_Some [OF this, of rt mc "sa_Namespace sa" svcs ?init] obtain st where
    st: "outbound_loop rt mc si (sa_Namespace sa) svcs ?init = Some st" and
    parts: "omp_ClustersConfigs (fst st) = map (outbound_cluster mc) (filter (\<lambda>s. ms_TargetPort s \<noteq> 0) svcs)"
      "omp_TrafficMatches (fst st) =
         concat (map (\<lambda>s. map (outbound_match s (destination_ranges (getDNSResolvableServiceEndpoints mc s)))
           (snd (service_route_matches rt mc s))) (filter (\<lambda>s. ms_TargetPort s \<noteq> 0) svcs))"
      "omp_HTTPRouteConfigsPerPort (fst st) =
         fold (\<lambda>s m. port_append m (uint (ms_Port s)) (service_http_policy rt mc si (sa_Namespace sa) s))
           (filter (\<lambda>s. ms_TargetPort s \<noteq> 0 \<and> \<not> is_tcp (ms_Protocol s)) svcs) Map.empty"
    by auto
  have "(case omp_HTTPRouteConfigsPerPort (fst st) port of None \<Rightarrow> [] | Some l \<Rightarrow> l) =
      map (service_http_policy rt mc si (sa_Namespace sa))
        (filter (\<lambda>s. ms_TargetPort s \<noteq> 0 \<and> \<not> is_tcp (ms_Protocol s) \<and> uint (ms_Port s) = port) svcs)" for port
    unfolding parts(3) fold_port_append by (auto simp: filter_empty_conv)
  then show ?thesis using assms st parts(1,2) by (simp add: GetOutboundMeshTrafficPolicy_def)
qed

section \<open>Lemmas on weights and services\<close>

lemma spread_weight_names: "map wc_ClusterName (spread_weight w aas) = aas"
  by (induction aas arbitrary: w) (auto simp: Let_def)

lemma sdiv_nonneg: "0 \<le> a \<Longrightarrow> 0 < b \<Longrightarrow> a sdiv b = a div (b :: int)"
  by (auto simp: signed_divide_int_def sgn_if)

text \<open>If the total of \<open>n\<close> shares lies between \<open>lo n\<close> and \<open>hi n\<close>, then so does the first share between
  \<open>lo\<close> and \<open>hi\<close>, and the rest keeps the bounds.\<close>

lemma share_bounds:
  fixes t n lo hi :: int
  assumes "lo * n \<le> t" "t \<le> hi * n" "0 < n"
  shows "lo \<le> t div n" "t div n \<le> hi" "lo * (n - 1) \<le> t - t div n" "t - t div n \<le> hi * (n - 1)"
proof -
  define q r where "q = t div n" and "r = t mod n"
  have t: "t = n * q + r" and r: "0 \<le> r" "r < n" using assms(3) by (simp_all add: q_def r_def)
  have lo: "lo \<le> q" using zdiv_mono1 [OF assms(1,3)] assms(3) by (simp add: q_def)
  have hi: "q \<le> hi" using zdiv_mono1 [OF assms(2,3)] assms(3) by (simp add: q_def)
  show "lo \<le> t div n" "t div n \<le> hi" using lo hi by (simp_all add: q_def)
  have rest: "t - q = (n - 1) * q + r" using t by (simp add: algebra_simps)
  have "(n - 1) * lo \<le> (n - 1) * q" using lo assms(3) by (intro mult_left_mono) auto
  then show "lo * (n - 1) \<le> t - t div n" using rest r(1) by (simp add: q_def [symmetric] mult.commute)
  show "t - t div n \<le> hi * (n - 1)"
  proof (cases "q = hi")
    case True
    then have "r = 0" using t assms(2) r by (simp add: mult.commute)
    then show ?thesis using rest True by (simp add: q_def [symmetric] mult.commute)
  next
    case False
    then have "(n - 1) * q \<le> (n - 1) * (hi - 1)" using hi assms(3) by (intro mult_left_mono) auto
    then show ?thesis using rest r by (simp add: q_def [symmetric] algebra_simps)
  qed
qed

lemma spread_weight_shares:
  assumes "0 \<le> lo" "lo * int (length aas) \<le> w" "w \<le> hi * int (length aas)"
  shows "sum_list (map wc_Weight (spread_weight w aas)) = w \<and>
    (\<forall>c\<in>set (spread_weight w aas). lo \<le> wc_Weight c \<and> wc_Weight c \<le> hi)"
  using assms
proof (induction aas arbitrary: w)
  case (Cons cn aas)
  let ?n = "int (length (cn # aas))"
  have n: "0 < ?n" by simp
  note b = share_bounds [OF Cons.prems(2,3) n]
  have "0 \<le> lo * ?n" using Cons.prems(1) by (intro mult_nonneg_nonneg) auto
  then have "0 \<le> w" using Cons.prems(2) by linarith
  then have q: "w sdiv ?n = w div ?n" using n by (rule sdiv_nonneg)
  have "sum_list (map wc_Weight (spread_weight (w - w div ?n) aas)) = w - w div ?n \<and>
    (\<forall>c\<in>set (spread_weight (w - w div ?n) aas). lo \<le> wc_Weight c \<and> wc_Weight c \<le> hi)"
    using Cons.prems(1) b(3,4) by (intro Cons.IH) auto
  then show ?case using b(1,2) q by (simp add: Let_def)
qed auto

lemma mem_outbound_services:
  assumes "\<not> cfg_Permissive (mc_cfg mc)" "ToK8sServiceAccount si = Some src"
    and "ListOutboundServicesForIdentity mc si = Some svcs"
  shows "distinct svcs \<and> (svc \<in> set svcs \<longleftrightarrow>
    (\<exists>t\<in>set (ListTrafficTargets (mc_kube mc) (mc_smi mc) no_destination).
       (\<exists>s\<in>set (tt_Sources t). trafficTargetIdentityToSvcAccount s = src) \<and>
       (\<exists>ds. getServicesForServiceIdentity mc (trafficTargetIdentityToServiceIdentity (tt_Destination t)) = Some ds \<and>
          svc \<in> set ds)))"
proof -
  let ?f = "\<lambda>t. getServicesForServiceIdentity mc
      (ToServiceIdentity \<lparr>sa_Namespace = ids_Namespace (tt_Destination t), sa_Name = ids_Name (tt_Destination t)\<rparr>)"
  let ?ts = "filter (\<lambda>t. list_ex (\<lambda>source. \<not> (ids_Name source \<noteq> sa_Name src \<or>
      ids_Namespace source \<noteq> sa_Namespace src)) (tt_Sources t))
      (ListTrafficTargets (mc_kube mc) (mc_smi mc) no_destination)"
  obtain dss where dss: "those (map ?f ?ts) = Some dss" "svcs = set_adds [] (concat dss)"
    using assms by (auto simp: ListOutboundServicesForIdentity_def)
  have "svc \<in> set svcs \<longleftrightarrow> (\<exists>t\<in>set ?ts. \<exists>ds. ?f t = Some ds \<and> svc \<in> set ds)"
    unfolding dss(2) using those_mem [OF dss(1)] by (simp add: Bex_def) blast
  also have "\<dots> \<longleftrightarrow> (\<exists>t\<in>set (ListTrafficTargets (mc_kube mc) (mc_smi mc) no_destination).
       (\<exists>s\<in>set (tt_Sources t). trafficTargetIdentityToSvcAccount s = src) \<and> (\<exists>ds. ?f t = Some ds \<and> svc \<in> set ds))"
    by (auto simp: list_ex_iff svcAccount_eq)
  finally show ?thesis
    using dss(2) by (simp add: trafficTargetIdentityToServiceIdentity_def trafficTargetIdentityToSvcAccount_def)
qed

context mesh_catalog
begin

lemma outbound_services_total:
  assumes "\<not> dot_free si"
  shows "ListOutboundServicesForIdentity mc si \<noteq> None"
proof -
  obtain sa where sa: "ToK8sServiceAccount si = Some sa" using assms ToK8sServiceAccount_None_iff by blast
  have "\<not> dot_free (ToServiceIdentity a)" for a by (simp add: ToServiceIdentity_def New_def dot_free_def)
  then have "those (map (\<lambda>t. getServicesForServiceIdentity mc
      (ToServiceIdentity \<lparr>sa_Namespace = ids_Namespace (tt_Destination t), sa_Name = ids_Name (tt_Destination t)\<rparr>)) ts) \<noteq> None" for ts
    by (intro those_total) (simp add: services_total del: not_None_eq)
  then show ?thesis
    using mesh_services_total by (auto simp: ListOutboundServicesForIdentity_def sa)
qed

lemma outbound_policy_total: "GetOutboundMeshTrafficPolicy rt mc si = None \<longleftrightarrow> dot_free si"
proof (cases "ToK8sServiceAccount si")
  case None
  then show ?thesis using ToK8sServiceAccount_None_iff [of si] by (simp add: GetOutboundMeshTrafficPolicy_def)
next
  case (Some sa)
  then have nd: "\<not> dot_free si" using ToK8sServiceAccount_None_iff [of si] by auto
  then obtain svcs where "ListOutboundServicesForIdentity mc si = Some svcs" using outbound_services_total by blast
  from GetOutboundMeshTrafficPolicy_Some [OF Some this, of rt] nd show ?thesis by auto
qed

end

section \<open>Properties\<close>


definition rt0 :: Runtime where
  "rt0 = \<lparr>rt_Hashes = hash0, rt_Order = sorted_list_of_set\<rparr>"


text \<open>
  C14.  The services an identity may reach outside permissive mode are listed without repetition, and
  a service is listed exactly if a traffic target in force has the identity's account among its
  sources and the service belongs to the target's destination.
\<close>

theorem outbound_services_authorised:
  assumes "\<not> cfg_Permissive (mc_cfg mc)" "ToK8sServiceAccount si = Some src"
    and "ListOutboundServicesForIdentity mc si = Some svcs"
  shows "distinct svcs \<and> (\<forall>svc. svc \<in> set svcs \<longleftrightarrow>
    (\<exists>t\<in>set (smi_TrafficTargets (mc_smi mc)).
       IsMonitoredNamespace (mc_kube mc) (om_Namespace (tt_Meta t)) \<and> isValidTrafficTarget t \<and>
       (\<exists>s\<in>set (tt_Sources t). trafficTargetIdentityToSvcAccount s = src) \<and>
       (\<exists>ds. getServicesForServiceIdentity mc (trafficTargetIdentityToServiceIdentity (tt_Destination t)) = Some ds \<and>
          svc \<in> set ds)))"
  using mem_outbound_services [OF assms] by (simp add: Bex_def mem_ListTrafficTargets conj_assoc)

theorem outbound_services_authorised_witness:
  "\<exists>svcs. ListOutboundServicesForIdentity cat0 ''buyer.shop'' = Some svcs \<and> distinct svcs"
proof -
  have sa: "ToK8sServiceAccount ''buyer.shop'' = Some buyer" by (simp add: ToK8sServiceAccount_def)
  have strict: "\<not> cfg_Permissive (mc_cfg cat0)" by (simp add: cat0_def NewMeshCatalog_def cfg0_def)
  obtain svcs where svcs: "ListOutboundServicesForIdentity cat0 ''buyer.shop'' = Some svcs"
    using wired.outbound_services_total [of "''buyer.shop''" tp0 store0 smi0 pol0 mcs0 cfg0 False "''cluster.local''" "''cluster.local''"]
    unfolding cat0_def by (auto simp: dot_free_def)
  from outbound_services_authorised [OF strict sa svcs] svcs show ?thesis by blast
qed

text \<open>
  C15.  Dividing the weight of a traffic split backend over its active clusters: every cluster gets a
  share in the given order, no weight is lost, and any two shares differ by at most one, although
  the code divides what is left step by step with truncation.  With no cluster nothing is added.
\<close>

theorem split_weight_divided_fairly:
  assumes "0 \<le> tsb_Weight backend" "aas \<noteq> []"
  shows "map wc_ClusterName (activeUpstreamClusters aas backend ucs) = map wc_ClusterName ucs @ aas \<and>
    sum_list (map wc_Weight (activeUpstreamClusters aas backend ucs)) = sum_list (map wc_Weight ucs) + tsb_Weight backend \<and>
    set (map wc_Weight (activeUpstreamClusters aas backend [])) \<subseteq>
      {tsb_Weight backend div int (length aas), tsb_Weight backend div int (length aas) + 1} \<and>
    activeUpstreamClusters [] backend ucs = ucs"
proof -
  let ?n = "int (length aas)" and ?w = "tsb_Weight backend"
  have n: "0 < ?n" using assms(2) by simp
  have lo: "0 \<le> ?w div ?n" using assms(1) n by (simp add: pos_imp_zdiv_nonneg_iff)
  have dm: "?w div ?n * ?n + ?w mod ?n = ?w" "0 \<le> ?w mod ?n" "?w mod ?n < ?n" using n by simp_all
  then have "?w div ?n * ?n \<le> ?w" by linarith
  moreover have "?w \<le> (?w div ?n + 1) * ?n" using dm by (simp only: distrib_right mult_1)
  ultimately have shares: "sum_list (map wc_Weight (spread_weight ?w aas)) = ?w \<and>
      (\<forall>c\<in>set (spread_weight ?w aas). ?w div ?n \<le> wc_Weight c \<and> wc_Weight c \<le> ?w div ?n + 1)"
    by (rule spread_weight_shares [OF lo])
  have "wc_Weight c \<in> {?w div ?n, ?w div ?n + 1}" if "c \<in> set (spread_weight ?w aas)" for c
    using shares that by (smt (verit) insert_iff)
  then show ?thesis using shares assms(2)
    by (auto simp: activeUpstreamClusters_def spread_weight_names)
qed

theorem split_weight_divided_fairly_witness:
  "map wc_Weight (activeUpstreamClusters [''a'', ''b'', ''c''] \<lparr>tsb_Service = ''s'', tsb_Weight = 100\<rparr> []) = [33, 33, 34] \<and>
   sum_list (map wc_Weight (activeUpstreamClusters [''a'', ''b'', ''c''] \<lparr>tsb_Service = ''s'', tsb_Weight = 100\<rparr> [])) = 100"
  using split_weight_divided_fairly [of "\<lparr>tsb_Service = ''s'', tsb_Weight = 100\<rparr>" "[''a'', ''b'', ''c'']" "[]"]
  by (simp add: activeUpstreamClusters_def Let_def signed_divide_int_def)

end
