(* ===== verification/CatalogIngress.thy ===== *)
theory CatalogIngress
  imports CatalogOutbound
begin

text \<open>
  The policies for traffic that enters a service from outside the mesh's own rules: ingress
  backends (\<open>ingress.go\<close>), access control lists (\<open>access_control.go\<close>) and services exported to
  other clusters (\<open>multi_cluster.go\<close>), all of \<open>pkg/catalog\<close>.

  An error value is the \<open>Inl\<close> of a sum.  The status an operation writes to its resource is part of
  its result.  The rules of one policy share a single set of principals in the code (one pointer),
  so each of them has the set as it is when the loop has ended.
\<close>

section \<open>Sources\<close>

definition singeIPPrefixLen :: string where "singeIPPrefixLen = ''/32''"

definition source_cidr :: "Endpoint \<Rightarrow> string" where
  "source_cidr ep = IP_String (ep_IP ep) @ singeIPPrefixLen"

text \<open>The set \<open>sourceIPSet\<close> and the list \<open>sourceIPRanges\<close>: a range is appended when the set did not
  have it.\<close>

fun add_source_cidrs :: "Endpoint list \<Rightarrow> string set \<times> string list \<Rightarrow> string set \<times> string list" where
  "add_source_cidrs [] acc = acc"
| "add_source_cidrs (ep # eps) (ips, ranges) =
     add_source_cidrs eps
       (insert (source_cidr ep) ips, if source_cidr ep \<in> ips then ranges else ranges @ [source_cidr ep])"

text \<open>The reason a policy is refused: a source service (namespace, name) without endpoints.\<close>

datatype source_error = NoSourceEndpoints string string

definition source_service :: "string \<Rightarrow> string \<Rightarrow> MeshService" where
  "source_service name namespace = \<lparr>ms_Namespace = namespace, ms_Name = name, ms_Port = 0, ms_TargetPort = 0,
     ms_Protocol = '''', ms_ServiceImportUID = '''', ms_CloudInheritedFrom = '''',
     ms_CloudAttachedNamespace = ''''\<rparr>"

text \<open>
  The loop over the sources (kind, name, namespace) of a policy.  \<open>grant\<close> gives the principals an
  authenticated principal adds.
\<close>

fun source_loop ::
  "MeshCatalog \<Rightarrow> (string \<Rightarrow> string set) \<Rightarrow> (string \<times> string \<times> string) list \<Rightarrow>
   string set \<times> string list \<Rightarrow> string set \<Rightarrow> source_error + string list \<times> string set" where
  "source_loop mc grant [] acc principals = Inr (snd acc, principals)"
| "source_loop mc grant ((kind, name, namespace) # sources) acc principals =
     (if kind = KindService then
        (let endpoints = listEndpointsForService mc (source_service name namespace) in
         if length endpoints = 0 then Inl (NoSourceEndpoints namespace name)
         else source_loop mc grant sources (add_source_cidrs endpoints acc) principals)
      else if kind = KindIPRange then
        (if net_ParseCIDR name = None then source_loop mc grant sources acc principals
         else source_loop mc grant sources (fst acc, snd acc @ [name]) principals)
      else if kind = KindAuthenticatedPrincipal then
        source_loop mc grant sources acc (principals \<union> grant name)
      else source_loop mc grant sources acc principals)"

definition backend_grant :: "TLSSpec option \<Rightarrow> string \<Rightarrow> string set" where
  "backend_grant tls name =
     (case tls of
        Some t \<Rightarrow> if tls_SkipClientCertValidation t then {WildcardServiceIdentity} else {name}
      | None \<Rightarrow> {name})"

definition http_grant :: "string \<Rightarrow> string set" where
  "http_grant protocol = (if EqualFold protocol ProtocolHTTP then {WildcardPrincipal} else {})"

definition wildcard_rule :: "MeshService \<Rightarrow> string set \<Rightarrow> Rule" where
  "wildcard_rule svc principals =
     \<lparr>rule_Route = \<lparr>rwc_HTTPRouteMatch = WildCardRouteMatch, rwc_WeightedClusters = {local_cluster svc},
        rwc_RetryPolicy = None, rwc_RateLimit = None\<rparr>,
      rule_AllowedPrincipals = principals\<rparr>"

definition wildcard_policy :: "MeshService \<Rightarrow> string \<Rightarrow> Rule list \<Rightarrow> InboundTrafficPolicy" where
  "wildcard_policy svc from_name rules =
     \<lparr>itp_Name = ms_String svc @ ''_from_'' @ from_name, itp_Hostnames = [''*''], itp_Rules = rules,
      itp_RateLimit = None\<rparr>"

definition setting_rate_limit :: "MeshCatalog \<Rightarrow> MeshService \<Rightarrow> RateLimitSpec option" where
  "setting_rate_limit mc svc =
     (case service_setting mc svc of None \<Rightarrow> None | Some uts \<Rightarrow> us_RateLimit (ut_Spec uts))"

section \<open>Ingress backends\<close>

definition ingress_sources :: "IngressBackend \<Rightarrow> (string \<times> string \<times> string) list" where
  "ingress_sources ib = map (\<lambda>s. (is_Kind s, is_Name s, is_Namespace s)) (ibs_Sources (ib_Spec ib))"

definition ingress_backend_applies :: "MeshService \<Rightarrow> BackendSpec \<Rightarrow> bool" where
  "ingress_backend_applies svc backend \<longleftrightarrow>
     \<not> (be_Name backend \<noteq> ms_Name svc \<or> ps_Number (be_Port backend) \<noteq> int16u (ms_TargetPort svc))"

definition ingress_match :: "MeshCatalog \<Rightarrow> MeshService \<Rightarrow> BackendSpec \<Rightarrow> string list \<Rightarrow> IngressTrafficMatch" where
  "ingress_match mc svc backend sourceIPRanges =
     \<lparr>itm_Name = IngressTrafficMatchName (ms_Name svc) (ms_Namespace svc) (u16 (ps_Number (be_Port backend)))
        (ps_Protocol (be_Port backend)),
      itm_Port = word_of_int (ps_Number (be_Port backend)), itm_Protocol = ps_Protocol (be_Port backend),
      itm_SourceIPRanges = sourceIPRanges, itm_TLS = be_TLS backend,
      itm_ServerNames = (case be_TLS backend of None \<Rightarrow> [] | Some t \<Rightarrow> tls_SNIHosts t),
      itm_SkipClientCertValidation =
        (case be_TLS backend of None \<Rightarrow> False | Some t \<Rightarrow> tls_SkipClientCertValidation t),
      itm_RateLimit = setting_rate_limit mc svc\<rparr>"

fun ingress_loop ::
  "MeshCatalog \<Rightarrow> MeshService \<Rightarrow> (string \<times> string \<times> string) list \<Rightarrow> BackendSpec list \<Rightarrow> string set \<Rightarrow>
   source_error + IngressTrafficMatch list \<times> string set" where
  "ingress_loop mc svc sources [] principals = Inr ([], principals)"
| "ingress_loop mc svc sources (backend # backends) principals =
     (if \<not> ingress_backend_applies svc backend then ingress_loop mc svc sources backends principals
      else case source_loop mc (backend_grant (be_TLS backend)) sources ({}, []) principals of
        Inl e \<Rightarrow> Inl e
      | Inr (ranges, principals') \<Rightarrow>
          (case ingress_loop mc svc sources backends
                  (principals' \<union> http_grant (ps_Protocol (be_Port backend))) of
             Inl e \<Rightarrow> Inl e
           | Inr (matches, final) \<Rightarrow> Inr (ingress_match mc svc backend ranges # matches, final)))"

definition error_status :: "source_error \<Rightarrow> PolicyStatus" where
  "error_status e = (case e of NoSourceEndpoints namespace name \<Rightarrow>
     \<lparr>st_CurrentStatus = ''error'', st_Reason = ''endpoints not found for service '' @ namespace @ ''/'' @ name\<rparr>)"

definition committed_status :: PolicyStatus where
  "committed_status = \<lparr>st_CurrentStatus = ''committed'', st_Reason = ''successfully committed by the system''\<rparr>"

text \<open>The result and the status written to the ingress backend, if one is written.\<close>

definition GetIngressTrafficPolicy ::
  "MeshCatalog \<Rightarrow> MeshService \<Rightarrow> (source_error + IngressTrafficPolicy option) \<times> PolicyStatus option" where
  "GetIngressTrafficPolicy mc svc =
     (if \<not> cfg_EnableIngressBackendPolicy (mc_cfg mc) then (Inr None, None)
      else case GetIngressBackendPolicy (mc_policy mc) svc of
        None \<Rightarrow> (Inr None, None)
      | Some ib \<Rightarrow>
          (case ingress_loop mc svc (ingress_sources ib) (ibs_Backends (ib_Spec ib)) {} of
             Inl e \<Rightarrow> (Inl e, Some (error_status e))
           | Inr (trafficMatches, sourcePrincipals) \<Rightarrow>
               if length trafficMatches = 0 then (Inr None, None)
               else (Inr (Some \<lparr>igp_TrafficMatches = trafficMatches,
                       igp_HTTPRoutePolicies = [wildcard_policy svc (om_Name (ib_Meta ib))
                         (map (\<lambda>_. wildcard_rule svc sourcePrincipals) trafficMatches)]\<rparr>),
                     Some committed_status)))"

section \<open>Access control\<close>

definition acl_sources :: "AccessControl \<Rightarrow> (string \<times> string \<times> string) list" where
  "acl_sources acl = map (\<lambda>s. (as_Kind s, as_Name s, as_Namespace s)) (acs_Sources (ac_Spec acl))"

definition acl_backend_applies :: "MeshService \<Rightarrow> AccessControlBackendSpec \<Rightarrow> bool" where
  "acl_backend_applies svc backend \<longleftrightarrow>
     \<not> (ab_Name backend \<noteq> ms_Name svc \<or> ps_Number (ab_Port backend) \<noteq> int16u (ms_TargetPort svc))"

text \<open>Routing rules are made for HTTP and gRPC only.\<close>

definition acl_routed :: "string \<Rightarrow> bool" where
  "acl_routed protocol \<longleftrightarrow> ToLower protocol = ProtocolHTTP \<or> ToLower protocol = ProtocolGRPC"

definition getPermissiveAccessControlTrafficPolicy ::
  "MeshCatalog \<Rightarrow> MeshService \<Rightarrow> AccessControl \<Rightarrow> source_error + AccessControlTrafficMatch list \<times> string set" where
  "getPermissiveAccessControlTrafficPolicy mc svc acl =
     (case source_loop mc (\<lambda>_. {}) (acl_sources acl) ({}, []) {} of
        Inl e \<Rightarrow> Inl e
      | Inr (ranges, principals) \<Rightarrow>
          Inr ([\<lparr>atm_Name = AccessControlTrafficMatchName (ms_Name svc) (ms_Namespace svc) (ms_Port svc) (ms_Protocol svc),
                 atm_Port = ucast (ms_Port svc), atm_Protocol = ms_Protocol svc, atm_SourceIPRanges = ranges,
                 atm_TLS = None, atm_RateLimit = setting_rate_limit mc svc\<rparr>],
               principals \<union> http_grant (ms_Protocol svc)))"

definition acl_match ::
  "MeshCatalog \<Rightarrow> MeshService \<Rightarrow> AccessControlBackendSpec \<Rightarrow> string list \<Rightarrow> AccessControlTrafficMatch" where
  "acl_match mc svc backend sourceIPRanges =
     \<lparr>atm_Name = AccessControlTrafficMatchName (ms_Name svc) (ms_Namespace svc)
        (u16 (ps_Number (ab_Port backend))) (ps_Protocol (ab_Port backend)),
      atm_Port = word_of_int (ps_Number (ab_Port backend)), atm_Protocol = ps_Protocol (ab_Port backend),
      atm_SourceIPRanges = sourceIPRanges, atm_TLS = ab_TLS backend,
      atm_RateLimit = setting_rate_limit mc svc\<rparr>"

text \<open>The status the strict form sets on an error is never stored: \<open>UpdateStatus\<close> gets a pointer to
  a pointer, which is none of the types it accepts.\<close>

fun getStrictAccessControlTrafficPolicy ::
  "MeshCatalog \<Rightarrow> MeshService \<Rightarrow> (string \<times> string \<times> string) list \<Rightarrow> AccessControlBackendSpec list \<Rightarrow>
   string set \<Rightarrow> source_error + AccessControlTrafficMatch list \<times> string set" where
  "getStrictAccessControlTrafficPolicy mc svc sources [] principals = Inr ([], principals)"
| "getStrictAccessControlTrafficPolicy mc svc sources (backend # backends) principals =
     (if \<not> acl_backend_applies svc backend
      then getStrictAccessControlTrafficPolicy mc svc sources backends principals
      else case source_loop mc (backend_grant (ab_TLS backend)) sources ({}, []) principals of
        Inl e \<Rightarrow> Inl e
      | Inr (ranges, principals') \<Rightarrow>
          (case getStrictAccessControlTrafficPolicy mc svc sources backends
                  (principals' \<union> http_grant (ps_Protocol (ab_Port backend))) of
             Inl e \<Rightarrow> Inl e
           | Inr (matches, final) \<Rightarrow> Inr (acl_match mc svc backend ranges # matches, final)))"

text \<open>A policy without routing rules is the nil pointer.\<close>

definition route_policy :: "MeshService \<Rightarrow> string \<Rightarrow> Rule list \<Rightarrow> InboundTrafficPolicy option" where
  "route_policy svc from_name rules =
     (if rules = [] then None else Some (wildcard_policy svc from_name rules))"

definition GetAccessControlTrafficPolicy ::
  "MeshCatalog \<Rightarrow> MeshService \<Rightarrow> source_error + AccessControlTrafficPolicy option" where
  "GetAccessControlTrafficPolicy mc svc =
     (if \<not> cfg_EnableAccessControlPolicy (mc_cfg mc) then Inr None
      else case GetAccessControlPolicy (mc_policy mc) svc of
        None \<Rightarrow> Inr None
      | Some acl \<Rightarrow>
          (case (if length (acs_Backends (ac_Spec acl)) > 0
                 then getStrictAccessControlTrafficPolicy mc svc (acl_sources acl) (acs_Backends (ac_Spec acl)) {}
                 else getPermissiveAccessControlTrafficPolicy mc svc acl) of
             Inl e \<Rightarrow> Inl e
           | Inr (trafficMatches, sourcePrincipals) \<Rightarrow>
               if length trafficMatches = 0 then Inr None
               else Inr (Some \<lparr>acp_TrafficMatches = trafficMatches,
                      acp_HTTPRoutePolicies = [route_policy svc (om_Name (ac_Meta acl))
                        (map (\<lambda>_. wildcard_rule svc sourcePrincipals)
                           (filter (\<lambda>m. acl_routed (atm_Protocol m)) trafficMatches))]\<rparr>)))"

section \<open>Exported services\<close>

definition export_ranges :: "MeshCatalog \<Rightarrow> string list" where
  "export_ranges mc =
     snd (fold (\<lambda>controllerService. add_source_cidrs (listEndpointsForService mc controllerService))
       (GetIngressControllerServices (mc_multi mc)) ({}, []))"

definition GetExportTrafficPolicy :: "MeshCatalog \<Rightarrow> MeshService \<Rightarrow> ServiceExportTrafficPolicy option" where
  "GetExportTrafficPolicy mc svc =
     (case GetExportedRule (mc_multi mc) svc of
        None \<Rightarrow> None
      | Some exportedRule \<Rightarrow>
          Some \<lparr>xtp_TrafficMatches =
                  [\<lparr>xtm_Name = ExportedServiceTrafficMatchName (ms_Name svc) (ms_Namespace svc)
                      (u16 (ser_PortNumber exportedRule)) (ms_Protocol svc),
                    xtm_Port = word_of_int (ser_PortNumber exportedRule), xtm_Protocol = ms_Protocol svc,
                    xtm_SourceIPRanges = export_ranges mc, xtm_TLS = None\<rparr>],
                xtp_HTTPRoutePolicies =
                  [route_policy svc ''IngressController''
                     (if acl_routed (ms_Protocol svc)
                      then [wildcard_rule svc (http_grant (ms_Protocol svc))] else [])]\<rparr>)"

section \<open>Lemmas\<close>

text \<open>What a list of sources stands for: the source services without endpoints, the admitted
  address ranges and the names of the authenticated principals.\<close>

definition unreachable_sources :: "MeshCatalog \<Rightarrow> (string \<times> string \<times> string) list \<Rightarrow> source_error list" where
  "unreachable_sources mc sources =
     [NoSourceEndpoints namespace name. (kind, name, namespace) \<leftarrow> sources, kind = KindService,
        listEndpointsForService mc (source_service name namespace) = []]"

definition source_ranges :: "MeshCatalog \<Rightarrow> (string \<times> string \<times> string) list \<Rightarrow> string set" where
  "source_ranges mc sources =
     {source_cidr ep | ep name namespace. (KindService, name, namespace) \<in> set sources \<and>
        ep \<in> set (listEndpointsForService mc (source_service name namespace))} \<union>
     {name | name namespace. (KindIPRange, name, namespace) \<in> set sources \<and> net_ParseCIDR name \<noteq> None}"

definition source_principals :: "(string \<times> string \<times> string) list \<Rightarrow> string set" where
  "source_principals sources = {name | name namespace. (KindAuthenticatedPrincipal, name, namespace) \<in> set sources}"

lemma source_kinds_distinct [simp]:
  "KindService \<noteq> KindIPRange" "KindService \<noteq> KindAuthenticatedPrincipal" "KindIPRange \<noteq> KindAuthenticatedPrincipal"
  by (simp_all add: KindService_def KindIPRange_def KindAuthenticatedPrincipal_def)

lemmas source_kinds_distinct_sym [simp] = source_kinds_distinct [symmetric]

lemma add_source_cidrs_set:
  "fst acc \<subseteq> set (snd acc) \<Longrightarrow>
   set (snd (add_source_cidrs eps acc)) = set (snd acc) \<union> source_cidr ` set eps \<and>
   fst (add_source_cidrs eps acc) \<subseteq> set (snd (add_source_cidrs eps acc))"
proof (induction eps acc rule: add_source_cidrs.induct)
  case (2 ep eps ips ranges)
  then have "insert (source_cidr ep) ips \<subseteq>
      set (if source_cidr ep \<in> ips then ranges else ranges @ [source_cidr ep])" by auto
  with 2 show ?case by auto
qed simp

lemma source_ranges_Nil: "source_ranges mc [] = {}" and source_principals_Nil: "source_principals [] = {}"
  by (simp_all add: source_ranges_def source_principals_def)

lemma source_ranges_Cons:
  "source_ranges mc ((kind, name, namespace) # sources) =
    (if kind = KindService then source_cidr ` set (listEndpointsForService mc (source_service name namespace))
     else if kind = KindIPRange \<and> net_ParseCIDR name \<noteq> None then {name} else {}) \<union> source_ranges mc sources"
  by (auto simp: source_ranges_def simp del: not_None_eq)

lemma source_principals_Cons:
  "source_principals ((kind, name, namespace) # sources) =
    (if kind = KindAuthenticatedPrincipal then {name} else {}) \<union> source_principals sources"
  by (auto simp: source_principals_def)

lemma unreachable_sources_Cons:
  "unreachable_sources mc ((kind, name, namespace) # sources) =
    (if kind = KindService \<and> listEndpointsForService mc (source_service name namespace) = []
     then [NoSourceEndpoints namespace name] else []) @ unreachable_sources mc sources"
  by (simp add: unreachable_sources_def)

lemmas source_specs = unreachable_sources_Cons source_ranges_Cons source_principals_Cons

text \<open>The loop fails with the first source service that has no endpoints, and otherwise collects
  exactly the ranges and the principals.\<close>

lemma source_loop_correct:
  assumes "fst acc \<subseteq> set (snd acc)"
  shows "case unreachable_sources mc sources of
      e # _ \<Rightarrow> source_loop mc grant sources acc ps = Inl e
    | [] \<Rightarrow> (\<exists>ranges. source_loop mc grant sources acc ps =
        Inr (ranges, ps \<union> (\<Union>p\<in>source_principals sources. grant p)) \<and>
        set ranges = set (snd acc) \<union> source_ranges mc sources)"
  using assms
proof (induction mc grant sources acc ps rule: source_loop.induct)
  case (1 mc grant acc ps)
  then show ?case by (simp add: unreachable_sources_def source_ranges_Nil source_principals_Nil)
next
  case (2 mc grant kind name namespace sources acc ps)
  let ?eps = "listEndpointsForService mc (source_service name namespace)"
  consider "kind = KindService" "?eps = []" | "kind = KindService" "?eps \<noteq> []"
    | "kind = KindIPRange" "net_ParseCIDR name = None" | "kind = KindIPRange" "net_ParseCIDR name \<noteq> None"
    | "kind = KindAuthenticatedPrincipal"
    | "kind \<noteq> KindService" "kind \<noteq> KindIPRange" "kind \<noteq> KindAuthenticatedPrincipal" by blast
  then show ?case
  proof cases
    case 1
    then show ?thesis by (simp add: source_specs)
  next
    case 2
    note added = add_source_cidrs_set [OF "2.prems", of ?eps]
    from "2.IH"(1) [OF 2(1) refl _ conjunct2 [OF added]] 2 conjunct1 [OF added]
    show ?thesis by (cases "unreachable_sources mc sources") (simp_all add: source_specs Un_assoc)
  next
    case 3
    with "2.IH"(2) "2.prems" show ?thesis by (cases "unreachable_sources mc sources") (simp_all add: source_specs)
  next
    case 4
    then have "fst acc \<subseteq> set (snd acc @ [name])" using "2.prems" by auto
    with "2.IH"(3) 4 show ?thesis by (cases "unreachable_sources mc sources") (simp_all add: source_specs del: not_None_eq)
  next
    case 5
    with "2.IH"(4) "2.prems" show ?thesis
      by (cases "unreachable_sources mc sources") (simp_all add: source_specs Un_assoc)
  next
    case 6
    with "2.IH"(5) "2.prems" show ?thesis by (cases "unreachable_sources mc sources") (simp_all add: source_specs)
  qed
qed

text \<open>The same for a policy's backends: one match per backend that names the service, each with the
  ranges of all sources, and the principals of all of these backends together.\<close>

definition backend_principals :: "(string \<times> string \<times> string) list \<Rightarrow> TLSSpec option \<Rightarrow> string \<Rightarrow> string set" where
  "backend_principals sources tls protocol =
     (\<Union>p\<in>source_principals sources. backend_grant tls p) \<union> http_grant protocol"

lemma source_loop_ok:
  assumes "unreachable_sources mc sources = []"
  obtains ranges where "source_loop mc grant sources ({}, []) ps =
      Inr (ranges, ps \<union> (\<Union>p\<in>source_principals sources. grant p))"
    and "set ranges = source_ranges mc sources"
  using source_loop_correct [of "({}, [])" mc grant sources ps] assms by auto

lemma source_loop_fails:
  assumes "unreachable_sources mc sources = e # es"
  shows "source_loop mc grant sources ({}, []) ps = Inl e"
  using source_loop_correct [of "({}, [])" mc grant sources ps] assms by simp

lemma ingress_match_sel:
  "itm_Port (ingress_match mc svc b ranges) = word_of_int (ps_Number (be_Port b))"
  "itm_TLS (ingress_match mc svc b ranges) = be_TLS b"
  "itm_Protocol (ingress_match mc svc b ranges) = ps_Protocol (be_Port b)"
  "itm_SourceIPRanges (ingress_match mc svc b ranges) = ranges"
  by (simp_all add: ingress_match_def)

lemma acl_match_sel:
  "atm_Port (acl_match mc svc b ranges) = word_of_int (ps_Number (ab_Port b))"
  "atm_TLS (acl_match mc svc b ranges) = ab_TLS b"
  "atm_Protocol (acl_match mc svc b ranges) = ps_Protocol (ab_Port b)"
  "atm_SourceIPRanges (acl_match mc svc b ranges) = ranges"
  by (simp_all add: acl_match_def)

lemma ingress_loop_ok:
  assumes "unreachable_sources mc sources = []"
  shows "\<exists>matches. ingress_loop mc svc sources backends ps =
      Inr (matches, ps \<union> (\<Union>b\<in>set (filter (ingress_backend_applies svc) backends).
        backend_principals sources (be_TLS b) (ps_Protocol (be_Port b)))) \<and>
    list_all2 (\<lambda>b m. \<exists>ranges. m = ingress_match mc svc b ranges \<and> set ranges = source_ranges mc sources)
      (filter (ingress_backend_applies svc) backends) matches"
proof (induction backends arbitrary: ps)
  case (Cons b backends)
  obtain ranges where ranges: "source_loop mc (backend_grant (be_TLS b)) sources ({}, []) ps =
      Inr (ranges, ps \<union> (\<Union>p\<in>source_principals sources. backend_grant (be_TLS b) p))"
      "set ranges = source_ranges mc sources"
    using source_loop_ok [OF assms] .
  show ?case
  proof (cases "ingress_backend_applies svc b")
    case True
    let ?ps = "ps \<union> (\<Union>p\<in>source_principals sources. backend_grant (be_TLS b) p) \<union> http_grant (ps_Protocol (be_Port b))"
    obtain matches where ms: "ingress_loop mc svc sources backends ?ps =
        Inr (matches, ?ps \<union> (\<Union>b\<in>set (filter (ingress_backend_applies svc) backends).
          backend_principals sources (be_TLS b) (ps_Protocol (be_Port b))))"
        "list_all2 (\<lambda>b m. \<exists>ranges. m = ingress_match mc svc b ranges \<and> set ranges = source_ranges mc sources)
          (filter (ingress_backend_applies svc) backends) matches"
      using Cons.IH [of ?ps] by (elim exE conjE)
    show ?thesis
      by (rule exI [of _ "ingress_match mc svc b ranges # matches"])
        (use True ranges ms in \<open>simp add: backend_principals_def Un_ac del: set_filter, blast\<close>)
  next
    case False
    with Cons.IH [of ps] show ?thesis by (simp del: set_filter)
  qed
qed simp

lemma ingress_loop_fails:
  assumes "unreachable_sources mc sources = e # es" "\<exists>b\<in>set backends. ingress_backend_applies svc b"
  shows "ingress_loop mc svc sources backends ps = Inl e"
  using assms(2) by (induction backends arbitrary: ps) (auto simp: source_loop_fails [OF assms(1)])

lemma acl_loop_ok:
  assumes "unreachable_sources mc sources = []"
  shows "\<exists>matches. getStrictAccessControlTrafficPolicy mc svc sources backends ps =
      Inr (matches, ps \<union> (\<Union>b\<in>set (filter (acl_backend_applies svc) backends).
        backend_principals sources (ab_TLS b) (ps_Protocol (ab_Port b)))) \<and>
    list_all2 (\<lambda>b m. \<exists>ranges. m = acl_match mc svc b ranges \<and> set ranges = source_ranges mc sources)
      (filter (acl_backend_applies svc) backends) matches"
proof (induction backends arbitrary: ps)
  case (Cons b backends)
  obtain ranges where ranges: "source_loop mc (backend_grant (ab_TLS b)) sources ({}, []) ps =
      Inr (ranges, ps \<union> (\<Union>p\<in>source_principals sources. backend_grant (ab_TLS b) p))"
      "set ranges = source_ranges mc sources"
    using source_loop_ok [OF assms] .
  show ?case
  proof (cases "acl_backend_applies svc b")
    case True
    let ?ps = "ps \<union> (\<Union>p\<in>source_principals sources. backend_grant (ab_TLS b) p) \<union> http_grant (ps_Protocol (ab_Port b))"
    obtain matches where ms: "getStrictAccessControlTrafficPolicy mc svc sources backends ?ps =
        Inr (matches, ?ps \<union> (\<Union>b\<in>set (filter (acl_backend_applies svc) backends).
          backend_principals sources (ab_TLS b) (ps_Protocol (ab_Port b))))"
        "list_all2 (\<lambda>b m. \<exists>ranges. m = acl_match mc svc b ranges \<and> set ranges = source_ranges mc sources)
          (filter (acl_backend_applies svc) backends) matches"
      using Cons.IH [of ?ps] by (elim exE conjE)
    show ?thesis
      by (rule exI [of _ "acl_match mc svc b ranges # matches"])
        (use True ranges ms in \<open>simp add: backend_principals_def Un_ac del: set_filter, blast\<close>)
  next
    case False
    with Cons.IH [of ps] show ?thesis by (simp del: set_filter)
  qed
qed simp

lemma acl_loop_fails:
  assumes "unreachable_sources mc sources = e # es" "\<exists>b\<in>set backends. acl_backend_applies svc b"
  shows "getStrictAccessControlTrafficPolicy mc svc sources backends ps = Inl e"
  using assms(2) by (induction backends arbitrary: ps) (auto simp: source_loop_fails [OF assms(1)])

lemma wildcard_principal_origin:
  assumes "WildcardPrincipal \<in> backend_principals sources tls protocol"
  shows "WildcardPrincipal \<in> source_principals sources \<or> EqualFold protocol ProtocolHTTP \<or>
    (\<exists>t. tls = Some t \<and> tls_SkipClientCertValidation t)"
  using assms by (auto simp: backend_principals_def backend_grant_def http_grant_def split: option.splits if_splits)

lemma found_ingress_backend_applies:
  assumes "GetIngressBackendPolicy pol svc = Some ib"
  shows "\<exists>b\<in>set (ibs_Backends (ib_Spec ib)). ingress_backend_applies svc b"
  using assms by (auto simp: GetIngressBackendPolicy_def ingress_backend_applies_def find_Some_iff list_ex_iff)

lemma found_acl_applies:
  assumes "GetAccessControlPolicy pol svc = Some acl" "acs_Backends (ac_Spec acl) \<noteq> []"
  shows "\<exists>b\<in>set (acs_Backends (ac_Spec acl)). acl_backend_applies svc b"
  using assms by (auto simp: GetAccessControlPolicy_def acl_backend_applies_def find_Some_iff list_ex_iff
      split: option.splits)

lemma acl_matches_ok:
  assumes "unreachable_sources mc (acl_sources acl) = []"
  shows "\<exists>matches. (if length (acs_Backends (ac_Spec acl)) > 0
        then getStrictAccessControlTrafficPolicy mc svc (acl_sources acl) (acs_Backends (ac_Spec acl)) {}
        else getPermissiveAccessControlTrafficPolicy mc svc acl) =
      Inr (matches, if acs_Backends (ac_Spec acl) = [] then http_grant (ms_Protocol svc)
        else \<Union>b\<in>{b \<in> set (acs_Backends (ac_Spec acl)). acl_backend_applies svc b}.
          backend_principals (acl_sources acl) (ab_TLS b) (ps_Protocol (ab_Port b))) \<and>
    map atm_Port matches = (if acs_Backends (ac_Spec acl) = [] then [ucast (ms_Port svc)]
       else map (\<lambda>b. word_of_int (ps_Number (ab_Port b)))
         (filter (acl_backend_applies svc) (acs_Backends (ac_Spec acl)))) \<and>
    (\<forall>m\<in>set matches. set (atm_SourceIPRanges m) = source_ranges mc (acl_sources acl))"
proof (cases "acs_Backends (ac_Spec acl) = []")
  case True
  obtain ranges where "source_loop mc (\<lambda>_. {}) (acl_sources acl) ({}, []) {} =
      Inr (ranges, {} \<union> (\<Union>p\<in>source_principals (acl_sources acl). {}))" "set ranges = source_ranges mc (acl_sources acl)"
    using source_loop_ok [OF assms] .
  with True show ?thesis by (simp add: getPermissiveAccessControlTrafficPolicy_def)
next
  case False
  let ?bs = "acs_Backends (ac_Spec acl)"
  obtain matches where ms: "getStrictAccessControlTrafficPolicy mc svc (acl_sources acl) ?bs {} =
      Inr (matches, {} \<union> (\<Union>b\<in>set (filter (acl_backend_applies svc) ?bs).
        backend_principals (acl_sources acl) (ab_TLS b) (ps_Protocol (ab_Port b))))"
      and all2: "list_all2 (\<lambda>b m. \<exists>ranges. m = acl_match mc svc b ranges \<and> set ranges = source_ranges mc (acl_sources acl))
        (filter (acl_backend_applies svc) ?bs) matches"
    using acl_loop_ok [OF assms, of svc ?bs "{}"] by (elim exE conjE)
  have sel: "map atm_Port ms = map (\<lambda>b. word_of_int (ps_Number (ab_Port b))) bs \<and>
      (\<forall>m\<in>set ms. set (atm_SourceIPRanges m) = R)"
    if "list_all2 (\<lambda>b m. \<exists>ranges. m = acl_match mc svc b ranges \<and> set ranges = R) bs ms" for bs ms R
    using that by (induction rule: list_all2_induct) (auto simp: acl_match_sel)
  show ?thesis using False ms sel [OF all2] by simp
qed

lemma add_source_cidrs_distinct:
  "distinct (snd acc) \<and> set (snd acc) = fst acc \<Longrightarrow>
   distinct (snd (add_source_cidrs eps acc)) \<and> set (snd (add_source_cidrs eps acc)) = fst (add_source_cidrs eps acc) \<and>
   fst (add_source_cidrs eps acc) = fst acc \<union> source_cidr ` set eps"
proof (induction eps acc rule: add_source_cidrs.induct)
  case (2 ep eps ips ranges)
  then have "distinct (if source_cidr ep \<in> ips then ranges else ranges @ [source_cidr ep]) \<and>
      set (if source_cidr ep \<in> ips then ranges else ranges @ [source_cidr ep]) = insert (source_cidr ep) ips" by auto
  with "2.IH" show ?case by simp
qed simp

lemma export_ranges_correct:
  "distinct (export_ranges mc) \<and>
   set (export_ranges mc) = {source_cidr ep | ep c. c \<in> set (GetIngressControllerServices (mc_multi mc)) \<and>
     ep \<in> set (listEndpointsForService mc c)}"
proof -
  have "distinct (snd (fold (\<lambda>c. add_source_cidrs (listEndpointsForService mc c)) cs acc)) \<and>
      set (snd (fold (\<lambda>c. add_source_cidrs (listEndpointsForService mc c)) cs acc)) =
        fst acc \<union> {source_cidr ep | ep c. c \<in> set cs \<and> ep \<in> set (listEndpointsForService mc c)}"
    if "distinct (snd acc) \<and> set (snd acc) = fst acc" for cs acc
    using that
  proof (induction cs arbitrary: acc)
    case (Cons c cs)
    note step = add_source_cidrs_distinct [OF Cons.prems, of "listEndpointsForService mc c"]
    have split: "{source_cidr ep | ep c'. c' \<in> set (c # cs) \<and> ep \<in> set (listEndpointsForService mc c')} =
        source_cidr ` set (listEndpointsForService mc c) \<union>
        {source_cidr ep | ep c'. c' \<in> set cs \<and> ep \<in> set (listEndpointsForService mc c')}" by auto
    from Cons.IH [of "add_source_cidrs (listEndpointsForService mc c) acc"] step show ?case
      unfolding split by (simp add: Un_assoc)
  qed auto
  from this [of "({}, [])" "GetIngressControllerServices (mc_multi mc)"] show ?thesis
    by (simp add: export_ranges_def)
qed

section \<open>Properties\<close>


lemma ingress_range_10_8: "net_ParseCIDR ''10.1.2.3/8'' \<noteq> None"
  using parse_10_8 by (auto simp: ParseCIDR_def split: option.splits)

definition ingress0 :: IngressBackend where
  "ingress0 = \<lparr>ib_Meta = meta0 ''shop'' ''front'',
     ib_Spec = \<lparr>ibs_Backends = [\<lparr>be_Name = ''web'', be_Port = \<lparr>ps_Number = 8080, ps_Protocol = ''grpc''\<rparr>,
                   be_TLS = Some \<lparr>tls_SkipClientCertValidation = False, tls_SNIHosts = [''shop'']\<rparr>\<rparr>],
       ibs_Sources = [\<lparr>is_Kind = KindAuthenticatedPrincipal, is_Name = ''gw.edge'', is_Namespace = ''''\<rparr>,
                      \<lparr>is_Kind = KindIPRange, is_Name = ''10.1.2.3/8'', is_Namespace = ''''\<rparr>],
       ibs_Matches = []\<rparr>, ib_Status = committed_status\<rparr>"

definition acl0 :: "string \<Rightarrow> AccessControl" where
  "acl0 protocol = \<lparr>ac_Meta = meta0 ''shop'' ''front'',
     ac_Spec = \<lparr>acs_Backends = [\<lparr>ab_Name = ''web'', ab_Port = \<lparr>ps_Number = 8080, ps_Protocol = protocol\<rparr>,
                   ab_TLS = None\<rparr>],
       acs_Sources = [\<lparr>as_Kind = KindIPRange, as_Name = ''10.1.2.3/8'', as_Namespace = ''''\<rparr>],
       acs_Matches = []\<rparr>, ac_Status = committed_status\<rparr>"

definition cat2 :: MeshCatalog where
  "cat2 = cat0\<lparr>mc_policy := pol0\<lparr>pol_IngressBackends := [ingress0], pol_AccessControls := [acl0 ''https'']\<rparr>\<rparr>"

lemma cat2_cfg [simp]: "mc_cfg cat2 = cfg0"
  by (simp add: cat2_def cat0_def NewMeshCatalog_def)

lemma cat2_ingress: "GetIngressBackendPolicy (mc_policy cat2) web0 = Some ingress0"
  by (simp add: cat2_def GetIngressBackendPolicy_def ingress0_def meta0_def web0_def plain_service_def int16u_def)

lemma ingress0_sources:
  "unreachable_sources mc (ingress_sources ingress0) = []"
  "source_ranges mc (ingress_sources ingress0) = {''10.1.2.3/8''}"
  "source_principals (ingress_sources ingress0) = {''gw.edge''}"
  using ingress_range_10_8
  by (simp_all add: ingress0_def ingress_sources_def unreachable_sources_def source_ranges_Cons source_ranges_Nil
      source_principals_Cons source_principals_Nil del: not_None_eq)



lemma cat2_acl: "GetAccessControlPolicy (mc_policy cat2) web0 = Some (acl0 ''https'')"
  by (simp add: cat2_def GetAccessControlPolicy_def acl0_def meta0_def web0_def plain_service_def int16u_def)

lemma acl0_sources:
  "unreachable_sources mc (acl_sources (acl0 p)) = []"
  by (simp add: acl0_def acl_sources_def unreachable_sources_def)


text \<open>
  C12.  Exported services.  A service has an export policy exactly if a valid and conflict-free
  export lists its port.  The policy then admits exactly the single addresses of the cluster's
  ingress controllers, each listed once, and an HTTP or gRPC service gets the one wildcard route
  to its local cluster.
\<close>

theorem export_admits_ingress_controllers:
  "case GetExportTrafficPolicy mc svc of
     None \<Rightarrow> GetExportedRule (mc_multi mc) svc = None
   | Some policy \<Rightarrow> \<exists>rule m hp. GetExportedRule (mc_multi mc) svc = Some rule \<and> u16 (ser_PortNumber rule) = ms_Port svc \<and>
       policy = \<lparr>xtp_TrafficMatches = [m], xtp_HTTPRoutePolicies = [hp]\<rparr> \<and>
       xtm_Port m = word_of_int (ser_PortNumber rule) \<and> distinct (xtm_SourceIPRanges m) \<and>
       set (xtm_SourceIPRanges m) = {source_cidr ep | ep c. c \<in> set (GetIngressControllerServices (mc_multi mc)) \<and>
         ep \<in> set (listEndpointsForService mc c)} \<and>
       map_option itp_Rules hp =
         (if acl_routed (ms_Protocol svc) then Some [wildcard_rule svc (http_grant (ms_Protocol svc))] else None)"
proof (cases "GetExportedRule (mc_multi mc) svc")
  case None
  then show ?thesis by (simp add: GetExportTrafficPolicy_def)
next
  case (Some rule)
  then have "u16 (ser_PortNumber rule) = ms_Port svc"
    by (auto simp: GetExportedRule_def find_Some_iff split: option.splits if_splits)
  with Some export_ranges_correct [of mc] show ?thesis
    by (simp add: GetExportTrafficPolicy_def route_policy_def wildcard_policy_def)
qed

end
