(* ===== verification/Validator.thy ===== *)
theory Validator
  imports CatalogIngress
begin

text \<open>
  The validating admission webhook (\<open>pkg/validator\<close>): one validator per resource kind and the
  dispatch that turns their results into responses.  A validator works on the decoded object; an
  object that does not decode is \<open>None\<close> in the request.  A panic, which the HTTP server turns into a
  dropped request, is \<open>None\<close> of the outer option.
\<close>

datatype validation_error =
    DecodeError
  | TargetNamespaceMismatch string string
  | AccessCertDisabled
  | PluginPolicyDisabled
  | DuplicateBackend string int
  | DuplicateBackends "(string \<times> conflict_error list) list"
  | MissingAuthenticatedPrincipal
  | BadPortProtocol string
  | SourceNameMissing string
  | SourceNamespaceMissing string
  | BadIPRange string
  | BadSourceKind
  | BadMatchKind string string
  | BadMatchGroup string
  | TooManySettings
  | InvalidHost string
  | SettingConflict string string
  | InvalidStatusCode uint32
  | GlobalGatewayRedefined string string
  | MissingScript string string
  | UnknownKind string

type_synonym verdict = "validation_error + unit"

record ValidatorConfig =
  vc_EnableAccessCertPolicy :: bool
  vc_EnablePluginPolicy :: bool

section \<open>Validators\<close>

definition trafficTargetValidator :: "TrafficTarget \<Rightarrow> verdict" where
  "trafficTargetValidator t =
     (if ids_Namespace (tt_Destination t) \<noteq> om_Namespace (tt_Meta t)
      then Inl (TargetNamespaceMismatch (om_Namespace (tt_Meta t)) (ids_Namespace (tt_Destination t)))
      else Inr ())"

definition accessCertValidator :: "ValidatorConfig \<Rightarrow> verdict" where
  "accessCertValidator cfg = (if \<not> vc_EnableAccessCertPolicy cfg then Inl AccessCertDisabled else Inr ())"

text \<open>The service a backend is looked up by has no namespace.\<close>

definition fakeMeshSvc :: "string \<Rightarrow> PortSpec \<Rightarrow> MeshService" where
  "fakeMeshSvc name port = \<lparr>ms_Namespace = '''', ms_Name = name, ms_Port = 0, ms_TargetPort = u16 (ps_Number port),
     ms_Protocol = ps_Protocol port, ms_ServiceImportUID = '''', ms_CloudInheritedFrom = '''',
     ms_CloudAttachedNamespace = ''''\<rparr>"

definition authenticatedSourceFound :: "(string \<times> string \<times> string) list \<Rightarrow> bool" where
  "authenticatedSourceFound sources \<longleftrightarrow> list_ex (\<lambda>(kind, _, _). kind = KindAuthenticatedPrincipal) sources"

definition skips_validation :: "TLSSpec option \<Rightarrow> bool" where
  "skips_validation tls = (case tls of None \<Rightarrow> False | Some t \<Rightarrow> tls_SkipClientCertValidation t)"

text \<open>The check of the sources, which the two validators write out identically.\<close>

fun validate_sources :: "(string \<times> string \<times> string) list \<Rightarrow> verdict" where
  "validate_sources [] = Inr ()"
| "validate_sources ((kind, name, namespace) # sources) =
     (if kind = KindService then
        (if name = '''' then Inl (SourceNameMissing KindService)
         else if namespace = '''' then Inl (SourceNamespaceMissing KindService)
         else validate_sources sources)
      else if kind = KindAuthenticatedPrincipal then
        (if name = '''' then Inl (SourceNameMissing KindAuthenticatedPrincipal) else validate_sources sources)
      else if kind = KindIPRange then
        (if net_ParseCIDR name = None then Inl (BadIPRange name) else validate_sources sources)
      else Inl BadSourceKind)"

text \<open>The loop over the backends; \<open>seen\<close> is the set of backends, \<open>conflicting\<close> the policies found
  so far.  A policy found again ends the iteration (\<open>continue\<close>) before the remaining checks.\<close>

fun validate_acl_backends ::
  "PolicyStore \<Rightarrow> AccessControl \<Rightarrow> AccessControlBackendSpec list \<Rightarrow> (string \<times> int) set \<Rightarrow> AccessControl list \<Rightarrow>
   validation_error + AccessControl list" where
  "validate_acl_backends pol acl [] seen conflicting = Inr conflicting"
| "validate_acl_backends pol acl (backend # backends) seen conflicting =
     (let entry = (ab_Name backend, ps_Number (ab_Port backend));
          matching = (case GetAccessControlPolicy pol (fakeMeshSvc (ab_Name backend) (ab_Port backend)) of
             Some p \<Rightarrow> if om_Name (ac_Meta p) \<noteq> om_Name (ac_Meta acl) then Some p else None
           | None \<Rightarrow> None) in
      if entry \<in> seen then Inl (DuplicateBackend (fst entry) (snd entry))
      else case matching of
        Some p \<Rightarrow>
          if p \<in> set conflicting then validate_acl_backends pol acl backends (insert entry seen) conflicting
          else if skips_validation (ab_TLS backend) \<and> \<not> authenticatedSourceFound (acl_sources acl)
          then Inl MissingAuthenticatedPrincipal
          else validate_acl_backends pol acl backends (insert entry seen) (conflicting @ [p])
      | None \<Rightarrow>
          if skips_validation (ab_TLS backend) \<and> \<not> authenticatedSourceFound (acl_sources acl)
          then Inl MissingAuthenticatedPrincipal
          else validate_acl_backends pol acl backends (insert entry seen) conflicting)"

definition accessControlValidator :: "PolicyStore \<Rightarrow> AccessControl \<Rightarrow> verdict" where
  "accessControlValidator pol acl =
     (case validate_acl_backends pol acl (acs_Backends (ac_Spec acl)) {} [] of
        Inl e \<Rightarrow> Inl e
      | Inr conflicting \<Rightarrow>
          if conflicting \<noteq> []
          then Inl (DuplicateBackends
            (map (\<lambda>p. (om_Name (ac_Meta p), DetectAccessControlConflicts acl p)) conflicting))
          else validate_sources (acl_sources acl))"

definition validate_ingress_port ::
  "(string \<times> string \<times> string) list \<Rightarrow> BackendSpec \<Rightarrow> validation_error option" where
  "validate_ingress_port sources backend =
     (let protocol = ToLower (ps_Protocol (be_Port backend)) in
      if protocol = ProtocolHTTP then None
      else if protocol = ProtocolHTTPS then None
      else if protocol = ProtocolGRPC then
        (if skips_validation (be_TLS backend) \<and> \<not> authenticatedSourceFound sources
         then Some MissingAuthenticatedPrincipal else None)
      else Some (BadPortProtocol (ps_Protocol (be_Port backend))))"

fun validate_ingress_backends ::
  "PolicyStore \<Rightarrow> IngressBackend \<Rightarrow> BackendSpec list \<Rightarrow> (string \<times> int) set \<Rightarrow> IngressBackend list \<Rightarrow>
   validation_error + IngressBackend list" where
  "validate_ingress_backends pol ib [] seen conflicting = Inr conflicting"
| "validate_ingress_backends pol ib (backend # backends) seen conflicting =
     (let entry = (be_Name backend, ps_Number (be_Port backend));
          matching = (case GetIngressBackendPolicy pol (fakeMeshSvc (be_Name backend) (be_Port backend)) of
             Some p \<Rightarrow> if om_Name (ib_Meta p) \<noteq> om_Name (ib_Meta ib) then Some p else None
           | None \<Rightarrow> None) in
      if entry \<in> seen then Inl (DuplicateBackend (fst entry) (snd entry))
      else case matching of
        Some p \<Rightarrow>
          if p \<in> set conflicting then validate_ingress_backends pol ib backends (insert entry seen) conflicting
          else (case validate_ingress_port (ingress_sources ib) backend of
             Some e \<Rightarrow> Inl e
           | None \<Rightarrow> validate_ingress_backends pol ib backends (insert entry seen) (conflicting @ [p]))
      | None \<Rightarrow>
          (case validate_ingress_port (ingress_sources ib) backend of
             Some e \<Rightarrow> Inl e
           | None \<Rightarrow> validate_ingress_backends pol ib backends (insert entry seen) conflicting))"

definition ingressBackendValidator :: "PolicyStore \<Rightarrow> IngressBackend \<Rightarrow> verdict" where
  "ingressBackendValidator pol ib =
     (case validate_ingress_backends pol ib (ibs_Backends (ib_Spec ib)) {} [] of
        Inl e \<Rightarrow> Inl e
      | Inr conflicting \<Rightarrow>
          if conflicting \<noteq> []
          then Inl (DuplicateBackends
            (map (\<lambda>p. (om_Name (ib_Meta p), DetectIngressBackendConflicts ib p)) conflicting))
          else validate_sources (ingress_sources ib))"

text \<open>The loop over the matches of an egress policy: the number of settings, an error, or the
  dereference of a missing API group.\<close>

fun validate_egress_matches :: "TypedLocalObjectReference list \<Rightarrow> nat \<Rightarrow> (validation_error + nat) option" where
  "validate_egress_matches [] settings = Some (Inr settings)"
| "validate_egress_matches (m # matches) settings =
     (case tr_APIGroup m of
        None \<Rightarrow> None
      | Some apiGroup \<Rightarrow>
          if apiGroup = SpecsGroupVersion then
            (if tr_Kind m = HTTPRouteGroupKind then validate_egress_matches matches settings
             else Some (Inl (BadMatchKind (tr_Name m) (tr_Kind m))))
          else if apiGroup = PolicyGroupVersion then
            (if tr_Kind m = upstreamTrafficSettingKind then validate_egress_matches matches (Suc settings)
             else Some (Inl (BadMatchKind (tr_Name m) (tr_Kind m))))
          else Some (Inl (BadMatchGroup apiGroup)))"

definition egressValidator :: "Egress \<Rightarrow> verdict option" where
  "egressValidator egress =
     (case validate_egress_matches (eg_Matches (egr_Spec egress)) 0 of
        None \<Rightarrow> None
      | Some (Inl e) \<Rightarrow> Some (Inl e)
      | Some (Inr settings) \<Rightarrow> Some (if settings > 1 then Inl TooManySettings else Inr ()))"

definition statusCodes :: "int list" where
  "statusCodes = [0, 100, 200, 201, 202, 203, 204, 205, 206, 207, 208, 226, 300, 301, 302, 303, 304, 305, 307, 308,
     400, 401, 402, 403, 404, 405, 406, 407, 408, 409, 410, 411, 412, 413, 414, 415, 416, 417, 421, 422, 423, 424,
     426, 428, 429, 431, 500, 501, 502, 503, 504, 505, 506, 507, 508, 510, 511]"

definition bad_status_code :: "HTTPLocalRateLimitSpec option \<Rightarrow> validation_error option" where
  "bad_status_code limit =
     (case limit of
        None \<Rightarrow> None
      | Some l \<Rightarrow> if sint (hl_ResponseStatusCode l) \<in> set statusCodes then None
                  else Some (InvalidStatusCode (hl_ResponseStatusCode l)))"

definition upstreamTrafficSettingValidator :: "string \<Rightarrow> PolicyStore \<Rightarrow> UpstreamTrafficSetting \<Rightarrow> verdict option" where
  "upstreamTrafficSettingValidator td pol uts =
     (let host = us_Host (ut_Spec uts) in
      if length (Split CHR ''.'' host) < 2 then Some (Inl (InvalidHost host))
      else case GetUpstreamTrafficSetting td pol (for_host host) of
        None \<Rightarrow> None
      | Some matching \<Rightarrow> Some
          (case (case matching of
               Some m \<Rightarrow> if om_Name (ut_Meta m) \<noteq> om_Name (ut_Meta uts)
                          then Some (SettingConflict (om_Name (ut_Meta m)) (us_Host (ut_Spec m))) else None
             | None \<Rightarrow> None) of
             Some e \<Rightarrow> Inl e
           | None \<Rightarrow>
               (case List.map_filter bad_status_code
                   (Option.bind (Option.bind (us_RateLimit (ut_Spec uts)) rl_Local) lr_HTTP
                    # map (\<lambda>route. Option.bind (hr_RateLimit route) hp_Local) (us_HTTPRoutes (ut_Spec uts))) of
                  e # _ \<Rightarrow> Inl e
                | [] \<Rightarrow> Inr ())))"

definition global_gateways :: "EgressGateway \<Rightarrow> GatewayBindingSubject list" where
  "global_gateways g = (case egw_GlobalEgressGateways g of None \<Rightarrow> [] | Some gs \<Rightarrow> gs)"

definition egressGatewayValidator :: "PolicyStore \<Rightarrow> EgressGateway \<Rightarrow> verdict" where
  "egressGatewayValidator pol g =
     (if length (global_gateways g) > 0
      then (case find (\<lambda>p. \<not> (EqualFold (om_Name (egw_Meta g)) (om_Name (egw_Meta p)) \<and>
                             EqualFold (om_Namespace (egw_Meta g)) (om_Namespace (egw_Meta p))) \<and>
                          length (global_gateways p) > 0) (ListEgressGateways pol) of
              Some p \<Rightarrow> Inl (GlobalGatewayRedefined (om_Namespace (egw_Meta p)) (om_Name (egw_Meta p)))
            | None \<Rightarrow> Inr ())
      else Inr ())"

record Plugin =
  pl_Meta :: ObjectMeta
  pl_Script :: string

definition pluginValidator :: "ValidatorConfig \<Rightarrow> Plugin option \<Rightarrow> verdict" where
  "pluginValidator cfg plugin =
     (if \<not> vc_EnablePluginPolicy cfg then Inl PluginPolicyDisabled
      else case plugin of
        None \<Rightarrow> Inl DecodeError
      | Some p \<Rightarrow> if length (pl_Script p) = 0 then Inl (MissingScript (om_Name (pl_Meta p)) (om_Namespace (pl_Meta p)))
                  else Inr ())"

text \<open>\<open>pluginConfigValidator\<close> and \<open>pluginChainValidator\<close> only check the flag and decode.\<close>

definition pluginConfigValidator :: "ValidatorConfig \<Rightarrow> unit option \<Rightarrow> verdict" where
  "pluginConfigValidator cfg decoded =
     (if \<not> vc_EnablePluginPolicy cfg then Inl PluginPolicyDisabled
      else case decoded of None \<Rightarrow> Inl DecodeError | Some _ \<Rightarrow> Inr ())"

section \<open>Dispatch\<close>

text \<open>The decoded object of a request, by kind.\<close>

datatype AdmissionObject =
    AccessCertObject "unit option"
  | AccessControlObject "AccessControl option"
  | IngressBackendObject "IngressBackend option"
  | EgressObject "Egress option"
  | EgressGatewayObject "EgressGateway option"
  | UpstreamTrafficSettingObject "UpstreamTrafficSetting option"
  | TrafficTargetObject "TrafficTarget option"
  | PluginObject "Plugin option"
  | PluginConfigObject "unit option"
  | PluginChainObject "unit option"
  | OtherObject string

record AdmissionRequest =
  rq_UID :: string
  rq_Object :: AdmissionObject

record AdmissionResponse =
  ar_UID :: string
  ar_Allowed :: bool
  ar_Result :: "validation_error option"

definition decoded :: "('a \<Rightarrow> verdict) \<Rightarrow> 'a option \<Rightarrow> verdict" where
  "decoded validate object = (case object of None \<Rightarrow> Inl DecodeError | Some x \<Rightarrow> validate x)"

fun validate :: "ValidatorConfig \<Rightarrow> string \<Rightarrow> PolicyStore \<Rightarrow> AdmissionObject \<Rightarrow> verdict option" where
  "validate cfg td pol (AccessCertObject x) = Some (decoded (\<lambda>_. accessCertValidator cfg) x)"
| "validate cfg td pol (AccessControlObject x) = Some (decoded (accessControlValidator pol) x)"
| "validate cfg td pol (IngressBackendObject x) = Some (decoded (ingressBackendValidator pol) x)"
| "validate cfg td pol (EgressObject x) = (case x of None \<Rightarrow> Some (Inl DecodeError) | Some e \<Rightarrow> egressValidator e)"
| "validate cfg td pol (EgressGatewayObject x) = Some (decoded (egressGatewayValidator pol) x)"
| "validate cfg td pol (UpstreamTrafficSettingObject x) =
     (case x of None \<Rightarrow> Some (Inl DecodeError) | Some u \<Rightarrow> upstreamTrafficSettingValidator td pol u)"
| "validate cfg td pol (TrafficTargetObject x) = Some (decoded trafficTargetValidator x)"
| "validate cfg td pol (PluginObject x) = Some (pluginValidator cfg x)"
| "validate cfg td pol (PluginConfigObject x) = Some (pluginConfigValidator cfg x)"
| "validate cfg td pol (PluginChainObject x) = Some (pluginConfigValidator cfg x)"
| "validate cfg td pol (OtherObject gvk) = Some (Inl (UnknownKind gvk))"

definition handleValidation ::
  "ValidatorConfig \<Rightarrow> string \<Rightarrow> PolicyStore \<Rightarrow> AdmissionRequest \<Rightarrow> AdmissionResponse option" where
  "handleValidation cfg td pol req =
     (case validate cfg td pol (rq_Object req) of
        None \<Rightarrow> None
      | Some (Inl e) \<Rightarrow> Some \<lparr>ar_UID = rq_UID req, ar_Allowed = False, ar_Result = Some e\<rparr>
      | Some (Inr _) \<Rightarrow> Some \<lparr>ar_UID = rq_UID req, ar_Allowed = True, ar_Result = None\<rparr>)"

section \<open>Lemmas\<close>

definition valid_source :: "string \<times> string \<times> string \<Rightarrow> bool" where
  "valid_source s = (case s of (kind, name, namespace) \<Rightarrow>
     (kind = KindService \<and> name \<noteq> '''' \<and> namespace \<noteq> '''') \<or>
     (kind = KindAuthenticatedPrincipal \<and> name \<noteq> '''') \<or>
     (kind = KindIPRange \<and> net_ParseCIDR name \<noteq> None))"

lemma validate_sources_ok: "validate_sources sources = Inr () \<longleftrightarrow> list_all valid_source sources"
  by (induction sources rule: validate_sources.induct) (auto simp: valid_source_def simp del: not_None_eq)

lemma fake_service_unknown:
  assumes "\<forall>p\<in>set (pol_IngressBackends pol). om_Namespace (ib_Meta p) \<noteq> ''''"
  shows "GetIngressBackendPolicy pol (fakeMeshSvc name port) = None"
  using assms by (auto simp: GetIngressBackendPolicy_def fakeMeshSvc_def find_None_iff)

lemma fake_service_acl:
  assumes "\<forall>p\<in>set (pol_AccessControls pol). om_Namespace (ac_Meta p) \<noteq> ''''"
  shows "GetAccessControlPolicy pol (fakeMeshSvc name port) =
    find (\<lambda>acl. acs_Backends (ac_Spec acl) = []) (pol_AccessControls pol)"
proof -
  have "find (\<lambda>acl. om_Namespace (ac_Meta acl) = ms_Namespace (fakeMeshSvc name port) \<and>
      list_ex (\<lambda>backend. ab_Name backend = ms_Name (fakeMeshSvc name port) \<and>
        ps_Number (ab_Port backend) = int16u (ms_TargetPort (fakeMeshSvc name port)))
      (acs_Backends (ac_Spec acl))) (pol_AccessControls pol) = None"
    using assms by (auto simp: fakeMeshSvc_def find_None_iff)
  then show ?thesis unfolding GetAccessControlPolicy_def by simp
qed

abbreviation ingress_entry :: "BackendSpec \<Rightarrow> string \<times> int" where
  "ingress_entry b \<equiv> (be_Name b, ps_Number (be_Port b))"

abbreviation acl_entry :: "AccessControlBackendSpec \<Rightarrow> string \<times> int" where
  "acl_entry b \<equiv> (ab_Name b, ps_Number (ab_Port b))"

lemma validate_ingress_backends_ok:
  assumes "\<forall>p\<in>set (pol_IngressBackends pol). om_Namespace (ib_Meta p) \<noteq> ''''"
  shows "validate_ingress_backends pol ib bs seen conflicting = Inr r \<longleftrightarrow> r = conflicting \<and>
      distinct (map ingress_entry bs) \<and> ingress_entry ` set bs \<inter> seen = {} \<and>
      (\<forall>b\<in>set bs. validate_ingress_port (ingress_sources ib) b = None)"
proof (induction bs arbitrary: seen)
  case (Cons b bs)
  show ?case
    using Cons.IH [of "insert (ingress_entry b) seen"]
    by (simp add: fake_service_unknown [OF assms] Let_def image_iff split: option.splits) fastforce
qed auto

lemma validate_acl_backends_none:
  assumes "\<And>b. b \<in> set bs \<Longrightarrow> (case GetAccessControlPolicy pol (fakeMeshSvc (ab_Name b) (ab_Port b)) of
      None \<Rightarrow> True | Some p \<Rightarrow> om_Name (ac_Meta p) = om_Name (ac_Meta acl))"
  shows "validate_acl_backends pol acl bs seen conflicting = Inr r \<longleftrightarrow> r = conflicting \<and>
      distinct (map acl_entry bs) \<and> acl_entry ` set bs \<inter> seen = {} \<and>
      (\<forall>b\<in>set bs. skips_validation (ab_TLS b) \<longrightarrow> authenticatedSourceFound (acl_sources acl))"
  using assms
proof (induction bs arbitrary: seen)
  case (Cons b bs)
  let ?skip = "skips_validation (ab_TLS b) \<and> \<not> authenticatedSourceFound (acl_sources acl)"
  have step: "validate_acl_backends pol acl (b # bs) seen conflicting =
      (if acl_entry b \<in> seen then Inl (DuplicateBackend (ab_Name b) (ps_Number (ab_Port b)))
       else if ?skip then Inl MissingAuthenticatedPrincipal
       else validate_acl_backends pol acl bs (insert (acl_entry b) seen) conflicting)"
    using Cons.prems [of b]
    by (cases "GetAccessControlPolicy pol (fakeMeshSvc (ab_Name b) (ab_Port b))") (simp_all add: Let_def)
  have IH: "validate_acl_backends pol acl bs (insert (acl_entry b) seen) conflicting = Inr r \<longleftrightarrow>
      r = conflicting \<and> distinct (map acl_entry bs) \<and> acl_entry ` set bs \<inter> insert (acl_entry b) seen = {} \<and>
      (\<forall>b\<in>set bs. skips_validation (ab_TLS b) \<longrightarrow> authenticatedSourceFound (acl_sources acl))"
    using Cons.prems by (intro Cons.IH) simp
  show ?case unfolding step by (cases "acl_entry b \<in> seen"; cases ?skip) (auto simp: IH)
qed auto

lemma validate_acl_backends_conflict:
  assumes "validate_acl_backends pol acl bs seen conflicting = Inr r"
  shows "set conflicting \<subseteq> set r \<and> (\<forall>b\<in>set bs. \<forall>p.
     GetAccessControlPolicy pol (fakeMeshSvc (ab_Name b) (ab_Port b)) = Some p \<and>
     om_Name (ac_Meta p) \<noteq> om_Name (ac_Meta acl) \<longrightarrow> p \<in> set r)"
  using assms
  by (induction bs arbitrary: seen conflicting) (fastforce simp: Let_def split: option.splits if_splits)+

section \<open>Properties\<close>

text \<open>
  C22.  What the webhook demands of an ingress backend.  As every cached policy has a namespace, an
  ingress backend is accepted exactly if its backends differ in name or port, each has a supported
  protocol (and a gRPC backend that skips certificate validation comes with an authenticated
  principal), and each source is complete.  The cached policies play no part: a policy that claims
  a backend of another one is accepted, although the webhook means to refuse it.
\<close>

theorem ingress_validator_accepts:
  assumes "\<forall>p\<in>set (pol_IngressBackends pol). om_Namespace (ib_Meta p) \<noteq> ''''"
  shows "ingressBackendValidator pol ib = Inr () \<longleftrightarrow>
    distinct (map ingress_entry (ibs_Backends (ib_Spec ib))) \<and>
    (\<forall>b\<in>set (ibs_Backends (ib_Spec ib)). validate_ingress_port (ingress_sources ib) b = None) \<and>
    list_all valid_source (ingress_sources ib)"
  using validate_ingress_backends_ok [OF assms, of ib "ibs_Backends (ib_Spec ib)" "{}" "[]"]
  by (cases "validate_ingress_backends pol ib (ibs_Backends (ib_Spec ib)) {} []")
    (auto simp: ingressBackendValidator_def validate_sources_ok)

definition rival0 :: IngressBackend where
  "rival0 = ingress0\<lparr>ib_Meta := meta0 ''shop'' ''rival''\<rparr>"

theorem ingress_validator_accepts_witness:
  "ingressBackendValidator (mc_policy cat2) rival0 = Inr () \<and> DetectIngressBackendConflicts rival0 ingress0 \<noteq> []"
proof -
  have "ToLower ''grpc'' = ''grpc''" by code_simp
  then have "validate_ingress_port (ingress_sources rival0) b = None"
    if "b \<in> set (ibs_Backends (ib_Spec rival0))" for b
    using that by (simp add: rival0_def ingress0_def validate_ingress_port_def Let_def skips_validation_def
        ProtocolGRPC_def)
  moreover have "list_all valid_source (ingress_sources rival0)"
    using ingress_range_10_8
    by (simp add: rival0_def ingress0_def ingress_sources_def valid_source_def del: not_None_eq)
  moreover have "distinct (map ingress_entry (ibs_Backends (ib_Spec rival0)))" by (simp add: rival0_def ingress0_def)
  moreover have "\<forall>p\<in>set (pol_IngressBackends (mc_policy cat2)). om_Namespace (ib_Meta p) \<noteq> ''''"
    by (simp add: cat2_def ingress0_def meta0_def)
  ultimately have "ingressBackendValidator (mc_policy cat2) rival0 = Inr ()"
    using ingress_validator_accepts by fast
  moreover have "DetectIngressBackendConflicts rival0 ingress0 \<noteq> []"
    by (simp add: DetectIngressBackendConflicts_def backend_conflicts_Nil rival0_def ingress0_def)
  ultimately show ?thesis by simp
qed


definition open_acl0 :: AccessControl where
  "open_acl0 = (acl0 ''http'')\<lparr>ac_Meta := meta0 ''other'' ''open'', ac_Spec := (ac_Spec (acl0 ''http''))\<lparr>acs_Backends := []\<rparr>\<rparr>"


end
