(* ===== verification/Dispatcher.thy ===== *)
theory Dispatcher
  imports Prelude
begin

text \<open>
  The six dispatchers of the message broker (\<open>run*UpdateDispatcher\<close> in \<open>pkg/messaging/broker.go\<close>),
  which coalesce update events received in close proximity with a sliding timer and a timer for
  the maximal delay.  The six loops are copies of one another up to the channel, the windows and the counter,
  so there is one loop with these as parameters and one instance per dispatcher.

  A dispatcher is a step relation: the passing of time, the three events its \<open>select\<close> waits for and the
  stop signal.  Timers follow the documentation of package \<open>time\<close> (Go 1.23 and later): a running
  timer whose time has come is ready to be received from, \<open>Stop\<close> reports whether the timer was
  running, and a receive from a timer that is not running blocks forever - here the value \<open>None\<close>.
\<close>

type_synonym time = nat
type_synonym Timer = "time option"

definition Second :: time where "Second = 10 ^ 9"
definition Hour :: time where "Hour = 3600 * Second"

definition timer_NewTimer :: "time \<Rightarrow> time \<Rightarrow> Timer" where
  "timer_NewTimer now d = Some (now + d)"

definition timer_Stop :: "Timer \<Rightarrow> bool \<times> Timer" where
  "timer_Stop t = (t \<noteq> None, None)"

definition timer_Reset :: "time \<Rightarrow> time \<Rightarrow> Timer \<Rightarrow> Timer" where
  "timer_Reset now d t = Some (now + d)"

definition timer_ready :: "time \<Rightarrow> Timer \<Rightarrow> bool" where
  "timer_ready now t = (case t of None \<Rightarrow> False | Some d \<Rightarrow> d \<le> now)"

text \<open>\<open>if !t.Stop() { <-t.C }\<close>: a timer that was not running has nothing to drain.\<close>

definition stop_and_drain :: "Timer \<Rightarrow> Timer option" where
  "stop_and_drain t = (let (running, t') = timer_Stop t in if \<not> running then None else Some t')"

section \<open>The loop\<close>

record Window =
  win_Sliding :: time
  win_Max :: time
  win_Counted :: bool

text \<open>The local variables of the loop, the calls of \<open>Pub\<close> it has made (event, size of the batch,
  time) and its counter.  The zero value of the event is \<open>None\<close>.\<close>

record 'e Dispatcher =
  dp_now :: time
  dp_slidingTimer :: Timer
  dp_maxTimer :: Timer
  dp_dispatchPending :: bool
  dp_batchCount :: nat
  dp_event :: "'e option"
  dp_published :: "('e option \<times> nat \<times> time) list"
  dp_dispatched :: uint64
  dp_running :: bool

definition noTimeout :: time where "noTimeout = 87600 * Hour"

definition start_dispatcher :: "time \<Rightarrow> 'e Dispatcher" where
  "start_dispatcher t0 = \<lparr>dp_now = t0, dp_slidingTimer = timer_NewTimer t0 noTimeout,
     dp_maxTimer = timer_NewTimer t0 noTimeout, dp_dispatchPending = False, dp_batchCount = 0,
     dp_event = None, dp_published = [], dp_dispatched = 0, dp_running = True\<rparr>"

definition receive_event :: "Window \<Rightarrow> 'e \<Rightarrow> 'e Dispatcher \<Rightarrow> 'e Dispatcher option" where
  "receive_event w e s =
     (let s = s\<lparr>dp_event := Some e\<rparr> in
      if \<not> dp_dispatchPending s then
        (case stop_and_drain (dp_slidingTimer s) of
           None \<Rightarrow> None
         | Some sliding \<Rightarrow>
             (case stop_and_drain (dp_maxTimer s) of
                None \<Rightarrow> None
              | Some maxT \<Rightarrow> Some (s\<lparr>dp_slidingTimer := timer_Reset (dp_now s) (win_Sliding w) sliding,
                   dp_maxTimer := timer_Reset (dp_now s) (win_Max w) maxT,
                   dp_dispatchPending := True, dp_batchCount := dp_batchCount s + 1\<rparr>)))
      else
        (case stop_and_drain (dp_slidingTimer s) of
           None \<Rightarrow> None
         | Some sliding \<Rightarrow> Some (s\<lparr>dp_slidingTimer := timer_Reset (dp_now s) (win_Sliding w) sliding,
              dp_batchCount := dp_batchCount s + 1\<rparr>)))"

definition publish :: "Window \<Rightarrow> 'e Dispatcher \<Rightarrow> 'e Dispatcher" where
  "publish w s = s\<lparr>dp_published := dp_published s @ [(dp_event s, dp_batchCount s, dp_now s)],
     dp_dispatched := (if win_Counted w then dp_dispatched s + 1 else dp_dispatched s),
     dp_dispatchPending := False, dp_batchCount := 0\<rparr>"

text \<open>Receiving from a timer's channel leaves the timer not running.\<close>

definition sliding_expired :: "Window \<Rightarrow> 'e Dispatcher \<Rightarrow> 'e Dispatcher option" where
  "sliding_expired w s =
     (let s = s\<lparr>dp_slidingTimer := None\<rparr>;
          s = s\<lparr>dp_slidingTimer := timer_Reset (dp_now s) noTimeout (dp_slidingTimer s)\<rparr> in
      case stop_and_drain (dp_maxTimer s) of
        None \<Rightarrow> None
      | Some maxT \<Rightarrow> Some (publish w (s\<lparr>dp_maxTimer := timer_Reset (dp_now s) noTimeout maxT\<rparr>)))"

definition max_expired :: "Window \<Rightarrow> 'e Dispatcher \<Rightarrow> 'e Dispatcher option" where
  "max_expired w s =
     (let s = s\<lparr>dp_maxTimer := None\<rparr>;
          s = s\<lparr>dp_maxTimer := timer_Reset (dp_now s) noTimeout (dp_maxTimer s)\<rparr> in
      case stop_and_drain (dp_slidingTimer s) of
        None \<Rightarrow> None
      | Some sliding \<Rightarrow> Some (publish w (s\<lparr>dp_slidingTimer := timer_Reset (dp_now s) noTimeout sliding\<rparr>)))"

datatype 'e label = Tick time | Recv 'e | SlidingExpired | MaxExpired | StopSignal

definition not_overdue :: "time \<Rightarrow> Timer \<Rightarrow> bool" where
  "not_overdue now t = (case t of None \<Rightarrow> True | Some d \<Rightarrow> now \<le> d)"

text \<open>The steps.  When several cases of the \<open>select\<close> are ready any of them may be taken.  In a
  \<^emph>\<open>prompt\<close> execution the loop reacts before time passes beyond a deadline.\<close>

inductive dispatch :: "bool \<Rightarrow> Window \<Rightarrow> 'e Dispatcher \<Rightarrow> 'e label \<Rightarrow> 'e Dispatcher \<Rightarrow> bool"
  for prompt :: bool and w :: Window where
  tick: "prompt \<longrightarrow> not_overdue (dp_now s + d) (dp_slidingTimer s) \<and> not_overdue (dp_now s + d) (dp_maxTimer s) \<Longrightarrow>
    dispatch prompt w s (Tick d) (s\<lparr>dp_now := dp_now s + d\<rparr>)"
| recv: "dp_running s \<Longrightarrow> receive_event w e s = Some s' \<Longrightarrow> dispatch prompt w s (Recv e) s'"
| sliding: "dp_running s \<Longrightarrow> timer_ready (dp_now s) (dp_slidingTimer s) \<Longrightarrow> sliding_expired w s = Some s' \<Longrightarrow>
    dispatch prompt w s SlidingExpired s'"
| maxt: "dp_running s \<Longrightarrow> timer_ready (dp_now s) (dp_maxTimer s) \<Longrightarrow> max_expired w s = Some s' \<Longrightarrow>
    dispatch prompt w s MaxExpired s'"
| stop: "dp_running s \<Longrightarrow> dispatch prompt w s StopSignal (s\<lparr>dp_running := False\<rparr>)"

inductive_cases dispatch_TickE: "dispatch prompt w s (Tick d) s'"
inductive_cases dispatch_RecvE: "dispatch prompt w s (Recv e) s'"
inductive_cases dispatch_SlidingE: "dispatch prompt w s SlidingExpired s'"
inductive_cases dispatch_MaxE: "dispatch prompt w s MaxExpired s'"
inductive_cases dispatch_StopE: "dispatch prompt w s StopSignal s'"

lemmas dispatch_cases = dispatch_TickE dispatch_RecvE dispatch_SlidingE dispatch_MaxE dispatch_StopE

inductive run :: "bool \<Rightarrow> Window \<Rightarrow> 'e Dispatcher \<Rightarrow> 'e label list \<Rightarrow> 'e Dispatcher \<Rightarrow> bool"
  for prompt :: bool and w :: Window and s0 :: "'e Dispatcher" where
  run_Nil: "run prompt w s0 [] s0"
| run_snoc: "run prompt w s0 tr s \<Longrightarrow> dispatch prompt w s l s' \<Longrightarrow> run prompt w s0 (tr @ [l]) s'"

section \<open>The six dispatchers\<close>

definition proxyUpdateWindow :: Window where
  "proxyUpdateWindow = \<lparr>win_Sliding = 2 * Second, win_Max = 10 * Second, win_Counted = True\<rparr>"

definition ingressUpdateWindow :: Window where
  "ingressUpdateWindow = \<lparr>win_Sliding = 2 * Second, win_Max = 10 * Second, win_Counted = True\<rparr>"

definition gatewayUpdateWindow :: Window where
  "gatewayUpdateWindow = \<lparr>win_Sliding = 2 * Second, win_Max = 10 * Second, win_Counted = True\<rparr>"

definition serviceUpdateWindow :: Window where
  "serviceUpdateWindow = \<lparr>win_Sliding = 2 * Second, win_Max = 5 * Second, win_Counted = True\<rparr>"

definition connectorUpdateWindow :: Window where
  "connectorUpdateWindow = \<lparr>win_Sliding = 2 * Second, win_Max = 5 * Second, win_Counted = True\<rparr>"

definition xnetworkUpdateWindow :: Window where
  "xnetworkUpdateWindow = \<lparr>win_Sliding = 2 * Second, win_Max = 5 * Second, win_Counted = False\<rparr>"

definition runProxyUpdateDispatcher where
  "runProxyUpdateDispatcher prompt t0 = run prompt proxyUpdateWindow (start_dispatcher t0)"
definition runIngressUpdateDispatcher where
  "runIngressUpdateDispatcher prompt t0 = run prompt ingressUpdateWindow (start_dispatcher t0)"
definition runGatewayUpdateDispatcher where
  "runGatewayUpdateDispatcher prompt t0 = run prompt gatewayUpdateWindow (start_dispatcher t0)"
definition runServiceUpdateDispatcher where
  "runServiceUpdateDispatcher prompt t0 = run prompt serviceUpdateWindow (start_dispatcher t0)"
definition runConnectorUpdateDispatcher where
  "runConnectorUpdateDispatcher prompt t0 = run prompt connectorUpdateWindow (start_dispatcher t0)"
definition runXNetworkUpdateDispatcher where
  "runXNetworkUpdateDispatcher prompt t0 = run prompt xnetworkUpdateWindow (start_dispatcher t0)"

lemmas dispatcher_defs = runProxyUpdateDispatcher_def runIngressUpdateDispatcher_def runGatewayUpdateDispatcher_def
  runServiceUpdateDispatcher_def runConnectorUpdateDispatcher_def runXNetworkUpdateDispatcher_def

lemmas window_defs = proxyUpdateWindow_def ingressUpdateWindow_def gatewayUpdateWindow_def
  serviceUpdateWindow_def connectorUpdateWindow_def xnetworkUpdateWindow_def

section \<open>Specification: a batcher\<close>

text \<open>What a dispatcher promises: it collects events with their arrival times into a batch and
  flushes the batch as a whole.\<close>

record 'e Batcher =
  bt_Clock :: time
  bt_Batch :: "('e \<times> time) list"
  bt_Out :: "(('e \<times> time) list \<times> time) list"

definition flush :: "'e Batcher \<Rightarrow> 'e Batcher" where
  "flush b = b\<lparr>bt_Batch := [], bt_Out := bt_Out b @ [(bt_Batch b, bt_Clock b)]\<rparr>"

fun batch_step :: "'e label \<Rightarrow> 'e Batcher \<Rightarrow> 'e Batcher" where
  "batch_step (Tick d) b = b\<lparr>bt_Clock := bt_Clock b + d\<rparr>"
| "batch_step (Recv e) b = b\<lparr>bt_Batch := bt_Batch b @ [(e, bt_Clock b)]\<rparr>"
| "batch_step SlidingExpired b = flush b"
| "batch_step MaxExpired b = flush b"
| "batch_step StopSignal b = b"

definition batcher :: "time \<Rightarrow> 'e label list \<Rightarrow> 'e Batcher" where
  "batcher t0 tr = fold batch_step tr \<lparr>bt_Clock = t0, bt_Batch = [], bt_Out = []\<rparr>"

text \<open>A publication represents a batch: it has its size, its time and its latest event.\<close>

definition represents :: "'e option \<times> nat \<times> time \<Rightarrow> ('e \<times> time) list \<times> time \<Rightarrow> bool" where
  "represents p b = (case p of (e, n, t) \<Rightarrow> case b of (batch, t') \<Rightarrow>
     n = length batch \<and> t = t' \<and> (batch \<noteq> [] \<longrightarrow> e = Some (fst (last batch))))"

definition implements :: "Window \<Rightarrow> 'e Dispatcher \<Rightarrow> 'e Batcher \<Rightarrow> bool" where
  "implements w s b \<longleftrightarrow> dp_now s = bt_Clock b \<and> dp_batchCount s = length (bt_Batch b) \<and>
     (dp_dispatchPending s \<longleftrightarrow> bt_Batch b \<noteq> []) \<and>
     (bt_Batch b \<noteq> [] \<longrightarrow> dp_event s = Some (fst (last (bt_Batch b)))) \<and>
     list_all2 represents (dp_published s) (bt_Out b) \<and>
     dp_dispatched s = (if win_Counted w then of_nat (length (dp_published s)) else 0)"

definition armed :: "Window \<Rightarrow> 'e Dispatcher \<Rightarrow> 'e Batcher \<Rightarrow> bool" where
  "armed w s b \<longleftrightarrow>
     (if bt_Batch b = [] then dp_slidingTimer s \<noteq> None \<and> dp_maxTimer s \<noteq> None
      else dp_slidingTimer s = Some (snd (last (bt_Batch b)) + win_Sliding w) \<and>
           dp_maxTimer s = Some (snd (hd (bt_Batch b)) + win_Max w))"

section \<open>Lemmas\<close>

lemmas timer_defs = timer_NewTimer_def timer_Stop_def timer_Reset_def stop_and_drain_def

lemma stop_and_drain_Some [simp]: "stop_and_drain (Some d) = Some None"
  by (simp add: timer_defs)

lemma batcher_snoc: "batcher t0 (tr @ [l]) = batch_step l (batcher t0 tr)"
  by (simp add: batcher_def)

lemma batcher_Nil: "batcher t0 [] = \<lparr>bt_Clock = t0, bt_Batch = [], bt_Out = []\<rparr>"
  by (simp add: batcher_def)

lemma receive_total:
  assumes "dp_slidingTimer s = Some x" "dp_maxTimer s = Some y"
  shows "receive_event w e s = Some (s\<lparr>dp_event := Some e,
      dp_slidingTimer := Some (dp_now s + win_Sliding w),
      dp_maxTimer := (if dp_dispatchPending s then Some y else Some (dp_now s + win_Max w)),
      dp_dispatchPending := True, dp_batchCount := dp_batchCount s + 1\<rparr>)"
  using assms by (simp add: receive_event_def Let_def timer_Reset_def)

lemma sliding_total:
  assumes "dp_maxTimer s = Some y"
  shows "sliding_expired w s = Some (publish w (s\<lparr>dp_slidingTimer := Some (dp_now s + noTimeout),
      dp_maxTimer := Some (dp_now s + noTimeout)\<rparr>))"
  using assms by (simp add: sliding_expired_def Let_def timer_Reset_def)

lemma max_total:
  assumes "dp_slidingTimer s = Some x"
  shows "max_expired w s = Some (publish w (s\<lparr>dp_slidingTimer := Some (dp_now s + noTimeout),
      dp_maxTimer := Some (dp_now s + noTimeout)\<rparr>))"
  using assms by (simp add: max_expired_def Let_def timer_Reset_def publish_def)

lemma armed_running:
  assumes "armed w s b"
  obtains x y where "dp_slidingTimer s = Some x" "dp_maxTimer s = Some y"
  using assms by (auto simp: armed_def split: if_splits)

lemma publish_implements:
  assumes "implements w s b" "dp_now s = dp_now s'" "dp_batchCount s = dp_batchCount s'"
    "dp_event s = dp_event s'" "dp_published s = dp_published s'" "dp_dispatched s = dp_dispatched s'"
    "dp_slidingTimer s' \<noteq> None" "dp_maxTimer s' \<noteq> None"
  shows "implements w (publish w s') (flush b) \<and> armed w (publish w s') (flush b)"
  using assms
  by (auto simp: implements_def armed_def publish_def flush_def represents_def list_all2_appendI)

text \<open>One step of the loop is one step of the batcher, and leaves both timers running.\<close>

lemma dispatch_implements:
  assumes "dispatch prompt w s l s'" "implements w s b" "armed w s b"
  shows "implements w s' (batch_step l b) \<and> armed w s' (batch_step l b)"
proof -
  obtain x y where t: "dp_slidingTimer s = Some x" "dp_maxTimer s = Some y" using armed_running [OF assms(3)] .
  show ?thesis
  proof (cases l)
    case (Tick d)
    with assms show ?thesis by (auto simp: implements_def armed_def elim!: dispatch_TickE)
  next
    case (Recv e)
    with assms t show ?thesis
      by (auto simp: implements_def armed_def receive_total [OF t] split: if_splits elim!: dispatch_RecvE)
  next
    case SlidingExpired
    then have "s' = publish w (s\<lparr>dp_slidingTimer := Some (dp_now s + noTimeout), dp_maxTimer := Some (dp_now s + noTimeout)\<rparr>)"
      using assms(1) t by (auto simp: sliding_total elim!: dispatch_SlidingE)
    with SlidingExpired show ?thesis using publish_implements [OF assms(2)] by simp
  next
    case MaxExpired
    then have "s' = publish w (s\<lparr>dp_slidingTimer := Some (dp_now s + noTimeout), dp_maxTimer := Some (dp_now s + noTimeout)\<rparr>)"
      using assms(1) t by (auto simp: max_total elim!: dispatch_MaxE)
    with MaxExpired show ?thesis using publish_implements [OF assms(2)] by simp
  next
    case StopSignal
    with assms show ?thesis by (auto simp: implements_def armed_def elim!: dispatch_StopE)
  qed
qed

lemma run_implements:
  assumes "run prompt w (start_dispatcher t0) tr s"
  shows "implements w s (batcher t0 tr) \<and> armed w s (batcher t0 tr)"
  using assms
proof induction
  case run_Nil
  show ?case by (simp add: implements_def armed_def batcher_Nil start_dispatcher_def timer_NewTimer_def)
next
  case (run_snoc tr s l s')
  then show ?case unfolding batcher_snoc using dispatch_implements [OF run_snoc.hyps(2)] by simp
qed

text \<open>Promptness: no deadline is in the past, a batch that waits is younger than its windows, and
  every batch was flushed at the earlier of its two deadlines.\<close>

definition deadline :: "Window \<Rightarrow> ('e \<times> time) list \<Rightarrow> time" where
  "deadline w batch = min (snd (last batch) + win_Sliding w) (snd (hd batch) + win_Max w)"

definition on_time :: "Window \<Rightarrow> 'e Dispatcher \<Rightarrow> 'e Batcher \<Rightarrow> bool" where
  "on_time w s b \<longleftrightarrow> not_overdue (dp_now s) (dp_slidingTimer s) \<and> not_overdue (dp_now s) (dp_maxTimer s) \<and>
     (\<forall>(batch, t)\<in>set (bt_Out b). batch \<noteq> [] \<longrightarrow> t = deadline w batch)"

lemma flush_on_time:
  assumes "on_time w s b" "armed w s b" "implements w s b"
    and "timer_ready (dp_now s) (dp_slidingTimer s) \<or> timer_ready (dp_now s) (dp_maxTimer s)" "bt_Batch b \<noteq> []"
  shows "bt_Clock b = deadline w (bt_Batch b)"
  using assms by (auto simp: on_time_def armed_def implements_def not_overdue_def timer_ready_def deadline_def)

lemma publish_on_time:
  assumes "on_time w s b" "armed w s b" "implements w s b"
    and "timer_ready (dp_now s) (dp_slidingTimer s) \<or> timer_ready (dp_now s) (dp_maxTimer s)"
  shows "on_time w (publish w (s\<lparr>dp_slidingTimer := Some (dp_now s + noTimeout),
      dp_maxTimer := Some (dp_now s + noTimeout)\<rparr>)) (flush b)"
  using assms(1) flush_on_time [OF assms]
  by (auto simp: on_time_def publish_def flush_def not_overdue_def)

lemma dispatch_on_time:
  assumes "dispatch True w s l s'" "implements w s b" "armed w s b" "on_time w s b"
  shows "on_time w s' (batch_step l b)"
proof -
  obtain x y where t: "dp_slidingTimer s = Some x" "dp_maxTimer s = Some y" using armed_running [OF assms(3)] .
  from assms(1) show ?thesis
  proof cases
    case tick
    then show ?thesis using assms(4) by (auto simp: on_time_def)
  next
    case (recv e)
    then show ?thesis using assms(4) t by (auto simp: receive_total [OF t] on_time_def not_overdue_def)
  next
    case sliding
    then show ?thesis using publish_on_time [OF assms(4,3,2)] t by (auto simp: sliding_total)
  next
    case maxt
    then show ?thesis using publish_on_time [OF assms(4,3,2)] t by (auto simp: max_total)
  next
    case stop
    then show ?thesis using assms(4) by (auto simp: on_time_def)
  qed
qed

lemma run_on_time:
  assumes "run True w (start_dispatcher t0) tr s"
  shows "on_time w s (batcher t0 tr)"
  using assms
proof induction
  case run_Nil
  show ?case by (simp add: on_time_def batcher_Nil start_dispatcher_def timer_NewTimer_def not_overdue_def)
next
  case (run_snoc tr s l s')
  then show ?case unfolding batcher_snoc
    using dispatch_on_time [OF run_snoc.hyps(2)] run_implements [OF run_snoc.hyps(1)] by simp
qed

lemma run_pending_young:
  assumes "run True w (start_dispatcher t0) tr s" "bt_Batch (batcher t0 tr) \<noteq> []"
  shows "dp_now s \<le> deadline w (bt_Batch (batcher t0 tr))"
  using run_on_time [OF assms(1)] run_implements [OF assms(1)] assms(2)
  by (auto simp: on_time_def armed_def not_overdue_def deadline_def)

text \<open>The laws the windows obey, and what follows from them for a lone event.\<close>

locale dispatch_windows =
  fixes w :: Window
  assumes sliding_positive: "0 < win_Sliding w"
    and sliding_within_max: "win_Sliding w \<le> win_Max w"
    and max_below_idle: "win_Max w < noTimeout"
begin

lemma deadline_lone: "deadline w [(e, t)] = t + win_Sliding w"
  using sliding_within_max by (simp add: deadline_def)

lemma deadline_bounds:
  assumes "batch \<noteq> []"
  shows "deadline w batch \<le> snd (hd batch) + win_Max w" "deadline w batch \<le> snd (last batch) + win_Sliding w"
  by (simp_all add: deadline_def)

text \<open>A waiting batch can always be flushed: wait for its deadline, then take the expired timer.\<close>

lemma pending_can_flush:
  assumes "run True w (start_dispatcher t0) tr s" "dp_running s" "dp_dispatchPending s"
  shows "\<exists>d l s'. l \<in> {SlidingExpired, MaxExpired} \<and> run True w (start_dispatcher t0) (tr @ [Tick d, l]) s' \<and>
    \<not> dp_dispatchPending s' \<and> dp_now s' = deadline w (bt_Batch (batcher t0 tr)) \<and>
    dp_published s' = dp_published s @ [(dp_event s, dp_batchCount s, dp_now s')]"
proof -
  let ?b = "batcher t0 tr"
  note inv = run_implements [OF assms(1)] run_on_time [OF assms(1)]
  have ne: "bt_Batch ?b \<noteq> []" using inv assms(3) by (simp add: implements_def)
  let ?x = "snd (last (bt_Batch ?b)) + win_Sliding w" and ?y = "snd (hd (bt_Batch ?b)) + win_Max w"
  have t: "dp_slidingTimer s = Some ?x" "dp_maxTimer s = Some ?y" using inv ne by (simp_all add: armed_def)
  define d where "d = deadline w (bt_Batch ?b) - dp_now s"
  have now: "dp_now s + d = min ?x ?y"
    using run_pending_young [OF assms(1) ne] by (simp add: d_def deadline_def)
  define s1 where "s1 = s\<lparr>dp_now := dp_now s + d\<rparr>"
  have tick: "dispatch True w s (Tick d) s1"
    unfolding s1_def by (rule dispatch.tick) (simp add: t not_overdue_def now)
  define s2 where "s2 = publish w (s1\<lparr>dp_slidingTimer := Some (dp_now s1 + noTimeout),
      dp_maxTimer := Some (dp_now s1 + noTimeout)\<rparr>)"
  have s1: "dp_slidingTimer s1 = Some ?x" "dp_maxTimer s1 = Some ?y" "dp_now s1 = min ?x ?y" "dp_running s1"
    using t now assms(2) by (simp_all add: s1_def)
  have "\<exists>l\<in>{SlidingExpired, MaxExpired}. dispatch True w s1 l s2"
  proof (cases "?x \<le> ?y")
    case True
    then have "dispatch True w s1 SlidingExpired s2"
      using s1 by (intro dispatch.sliding) (simp_all add: timer_ready_def sliding_total s2_def)
    then show ?thesis by blast
  next
    case False
    then have "dispatch True w s1 MaxExpired s2"
      using s1 by (intro dispatch.maxt) (simp_all add: timer_ready_def max_total s2_def)
    then show ?thesis by blast
  qed
  then obtain l where l: "l \<in> {SlidingExpired, MaxExpired}" "dispatch True w s1 l s2" by blast
  have "run True w (start_dispatcher t0) (tr @ [Tick d, l]) s2"
    using run_snoc [OF run_snoc [OF assms(1) tick] l(2)] by simp
  moreover have "\<not> dp_dispatchPending s2" "dp_now s2 = deadline w (bt_Batch ?b)"
      "dp_published s2 = dp_published s @ [(dp_event s, dp_batchCount s, dp_now s2)]"
    using s1(3) by (simp_all add: s2_def publish_def s1_def deadline_def)
  ultimately show ?thesis using l(1) by blast
qed

end

lemmas seconds = window_defs noTimeout_def Hour_def Second_def

interpretation proxy: dispatch_windows proxyUpdateWindow
  by unfold_locales (simp_all add: seconds)

interpretation ingress: dispatch_windows ingressUpdateWindow
  by unfold_locales (simp_all add: seconds)

interpretation gateway: dispatch_windows gatewayUpdateWindow
  by unfold_locales (simp_all add: seconds)

interpretation service: dispatch_windows serviceUpdateWindow
  by unfold_locales (simp_all add: seconds)

interpretation connector: dispatch_windows connectorUpdateWindow
  by unfold_locales (simp_all add: seconds)

interpretation xnetwork: dispatch_windows xnetworkUpdateWindow
  by unfold_locales (simp_all add: seconds)

text \<open>The dispatchers by the updates they batch.\<close>

datatype Updates = ProxyUpdates | IngressUpdates | GatewayUpdates | ServiceUpdates | ConnectorUpdates | XNetworkUpdates

fun update_window :: "Updates \<Rightarrow> Window" where
  "update_window ProxyUpdates = proxyUpdateWindow"
| "update_window IngressUpdates = ingressUpdateWindow"
| "update_window GatewayUpdates = gatewayUpdateWindow"
| "update_window ServiceUpdates = serviceUpdateWindow"
| "update_window ConnectorUpdates = connectorUpdateWindow"
| "update_window XNetworkUpdates = xnetworkUpdateWindow"

fun run_dispatcher :: "Updates \<Rightarrow> bool \<Rightarrow> time \<Rightarrow> 'e label list \<Rightarrow> 'e Dispatcher \<Rightarrow> bool" where
  "run_dispatcher ProxyUpdates = runProxyUpdateDispatcher"
| "run_dispatcher IngressUpdates = runIngressUpdateDispatcher"
| "run_dispatcher GatewayUpdates = runGatewayUpdateDispatcher"
| "run_dispatcher ServiceUpdates = runServiceUpdateDispatcher"
| "run_dispatcher ConnectorUpdates = runConnectorUpdateDispatcher"
| "run_dispatcher XNetworkUpdates = runXNetworkUpdateDispatcher"

lemma run_dispatcher_run: "run_dispatcher u prompt t0 = run prompt (update_window u) (start_dispatcher t0)"
  by (cases u) (simp_all add: dispatcher_defs)

lemma update_window_laws: "dispatch_windows (update_window u)"
  by (cases u) (simp_all add: proxy.dispatch_windows_axioms ingress.dispatch_windows_axioms
      gateway.dispatch_windows_axioms service.dispatch_windows_axioms connector.dispatch_windows_axioms
      xnetwork.dispatch_windows_axioms)

fun received :: "'e label list \<Rightarrow> 'e list" where
  "received [] = []"
| "received (Recv e # tr) = e # received tr"
| "received (_ # tr) = received tr"

lemma received_append: "received (tr @ tr') = received tr @ received tr'"
  by (induction tr rule: received.induct) simp_all

lemma batcher_conserves:
  "received tr = concat (map (map fst \<circ> fst) (bt_Out (batcher t0 tr))) @ map fst (bt_Batch (batcher t0 tr))"
proof (induction tr rule: rev_induct)
  case (snoc l tr)
  then show ?case by (cases l) (simp_all add: batcher_snoc received_append flush_def)
qed (simp add: batcher_Nil)

lemma published_sizes:
  assumes "list_all2 represents ps out"
  shows "map (fst \<circ> snd) ps = map (length \<circ> fst) out"
  using assms by (induction rule: list_all2_induct) (auto simp: represents_def)

section \<open>Properties\<close>

text \<open>
  C18.  Each of the six dispatchers, whatever the order of events and expiries and however late the
  loop reacts, refines the batcher: what it publishes are the flushed batches in order, each
  with its size, its time and its latest event.  No event is lost or counted twice, so the events
  received are the sizes of the publications plus the events waiting.  The loop never blocks on
  draining a timer, neither when it receives an event nor when a timer expires.
\<close>

theorem dispatcher_refines_batcher:
  assumes "run_dispatcher u prompt t0 tr s"
  shows "implements (update_window u) s (batcher t0 tr) \<and>
    received tr = concat (map (map fst \<circ> fst) (bt_Out (batcher t0 tr))) @ map fst (bt_Batch (batcher t0 tr)) \<and>
    length (received tr) = sum_list (map (fst \<circ> snd) (dp_published s)) + dp_batchCount s \<and>
    receive_event (update_window u) e s \<noteq> None \<and> sliding_expired (update_window u) s \<noteq> None \<and>
    max_expired (update_window u) s \<noteq> None"
proof -
  note inv = run_implements [OF assms [unfolded run_dispatcher_run]]
  obtain x y where t: "dp_slidingTimer s = Some x" "dp_maxTimer s = Some y"
    using armed_running [OF conjunct2 [OF inv]] .
  have "length (received tr) = sum_list (map (length \<circ> fst) (bt_Out (batcher t0 tr))) + length (bt_Batch (batcher t0 tr))"
    by (subst batcher_conserves [of tr t0]) (simp add: length_concat comp_def)
  moreover have "map (fst \<circ> snd) (dp_published s) = map (length \<circ> fst) (bt_Out (batcher t0 tr))"
    using inv by (intro published_sizes) (simp add: implements_def)
  ultimately have "length (received tr) = sum_list (map (fst \<circ> snd) (dp_published s)) + dp_batchCount s"
    using inv by (simp add: implements_def)
  with inv batcher_conserves [of tr t0] show ?thesis
    by (simp add: receive_total [OF t] sliding_total [OF t(2)] max_total [OF t(1)])
qed

definition trace0 :: "string label list" where
  "trace0 = [Recv ''a'', Tick Second, Recv ''b'', Tick (2 * Second), SlidingExpired]"

lemma run0: "\<exists>s. run_dispatcher ProxyUpdates True 0 trace0 s \<and> dp_published s = [(Some ''b'', 2, 3 * Second)]"
proof -
  define s0 where "s0 = (start_dispatcher 0 :: string Dispatcher)"
  define s1 where "s1 = s0\<lparr>dp_event := Some ''a'', dp_slidingTimer := Some (2 * Second), dp_maxTimer := Some (10 * Second),
      dp_dispatchPending := True, dp_batchCount := 1\<rparr>"
  define s2 where "s2 = s1\<lparr>dp_now := Second\<rparr>"
  define s3 where "s3 = s2\<lparr>dp_event := Some ''b'', dp_slidingTimer := Some (3 * Second), dp_batchCount := 2\<rparr>"
  define s4 where "s4 = s3\<lparr>dp_now := 3 * Second\<rparr>"
  define s5 where "s5 = publish proxyUpdateWindow (s4\<lparr>dp_slidingTimer := Some (3 * Second + noTimeout),
      dp_maxTimer := Some (3 * Second + noTimeout)\<rparr>)"
  note ss = s0_def s1_def s2_def s3_def s4_def s5_def start_dispatcher_def timer_NewTimer_def seconds
  have 1: "dispatch True proxyUpdateWindow s0 (Recv ''a'') s1"
    by (rule dispatch.recv) (simp_all add: ss receive_event_def timer_Reset_def)
  have 2: "dispatch True proxyUpdateWindow s1 (Tick Second) s2"
    using dispatch.tick [of True s1 Second proxyUpdateWindow] by (simp add: ss not_overdue_def)
  have 3: "dispatch True proxyUpdateWindow s2 (Recv ''b'') s3"
    by (rule dispatch.recv) (simp_all add: ss receive_event_def timer_Reset_def)
  have 4: "dispatch True proxyUpdateWindow s3 (Tick (2 * Second)) s4"
    using dispatch.tick [of True s3 "2 * Second" proxyUpdateWindow] by (simp add: ss not_overdue_def)
  have 5: "dispatch True proxyUpdateWindow s4 SlidingExpired s5"
    by (rule dispatch.sliding) (simp_all add: ss timer_ready_def sliding_expired_def timer_Reset_def)
  have "run True proxyUpdateWindow s0 ((((([] @ [Recv ''a'']) @ [Tick Second]) @ [Recv ''b'']) @ [Tick (2 * Second)]) @ [SlidingExpired]) s5"
    by (rule run_snoc [OF run_snoc [OF run_snoc [OF run_snoc [OF run_snoc [OF run_Nil 1] 2] 3] 4] 5])
  then have "run_dispatcher ProxyUpdates True 0 trace0 s5"
    by (simp add: dispatcher_defs trace0_def s0_def)
  moreover have "dp_published s5 = [(Some ''b'', 2, 3 * Second)]" by (simp add: ss publish_def)
  ultimately show ?thesis by blast
qed

theorem dispatcher_refines_batcher_witness:
  "\<exists>s. run_dispatcher ProxyUpdates True 0 trace0 s \<and> dp_published s = [(Some ''b'', 2, 3 * Second)] \<and>
     length (received trace0) = 2 \<and> receive_event proxyUpdateWindow ''c'' s \<noteq> None"
proof -
  obtain s where s: "run_dispatcher ProxyUpdates True 0 trace0 s" "dp_published s = [(Some ''b'', 2, 3 * Second)]"
    using run0 by blast
  have "receive_event proxyUpdateWindow ''c'' s \<noteq> None"
    using dispatcher_refines_batcher [OF s(1), of "''c''"] by simp
  with s show ?thesis by (intro exI [of _ s]) (simp add: trace0_def)
qed

text \<open>
  C19.  Bounded delay.  In a prompt execution every batch of at least one event is published exactly
  at the earlier of two deadlines, the sliding window after its last event and the maximal window
  after its first, so no event is held longer than the maximal window (10 s for proxies, ingress and
  gateways, 5 s for the others) and a lone event is held exactly the sliding window of 2 s.  The
  same bound holds for the batch that is still waiting.
\<close>

theorem dispatcher_delay_bounded:
  assumes "run_dispatcher u True t0 tr s"
  shows "(\<forall>(batch, t)\<in>set (bt_Out (batcher t0 tr)). batch \<noteq> [] \<longrightarrow>
      t = deadline (update_window u) batch \<and> t \<le> snd (hd batch) + win_Max (update_window u) \<and>
      (length batch = 1 \<longrightarrow> t = snd (hd batch) + 2 * Second)) \<and>
    (dp_dispatchPending s \<longrightarrow> dp_now s \<le> snd (hd (bt_Batch (batcher t0 tr))) + win_Max (update_window u)) \<and>
    win_Max (update_window u) = (if u \<in> {ProxyUpdates, IngressUpdates, GatewayUpdates} then 10 else 5) * Second"
proof -
  note run = assms [unfolded run_dispatcher_run]
  have lone: "deadline (update_window u) batch = snd (hd batch) + 2 * Second" if "length batch = 1" for batch :: "('a \<times> time) list"
  proof -
    from that obtain e t where "batch = [(e, t)]" by (cases batch) auto
    then show ?thesis using dispatch_windows.deadline_lone [OF update_window_laws, of u e t]
      by (cases u) (simp_all add: window_defs)
  qed
  have "deadline (update_window u) batch \<le> snd (hd batch) + win_Max (update_window u)" for batch :: "('a \<times> time) list"
    by (simp add: deadline_def)
  moreover have "dp_now s \<le> snd (hd (bt_Batch (batcher t0 tr))) + win_Max (update_window u)" if "dp_dispatchPending s"
  proof -
    have "bt_Batch (batcher t0 tr) \<noteq> []" using run_implements [OF run] that by (simp add: implements_def)
    from run_pending_young [OF run this] show ?thesis by (simp add: deadline_def)
  qed
  moreover have "win_Max (update_window u) = (if u \<in> {ProxyUpdates, IngressUpdates, GatewayUpdates} then 10 else 5) * Second"
    by (cases u) (simp_all add: window_defs)
  ultimately show ?thesis using run_on_time [OF run] lone by (auto simp: on_time_def)
qed

theorem dispatcher_delay_bounded_witness:
  "\<exists>s batch t. run_dispatcher ProxyUpdates True 0 trace0 s \<and> (batch, t) \<in> set (bt_Out (batcher 0 trace0)) \<and>
     batch = [(''a'', 0), (''b'', Second)] \<and> t = 3 * Second \<and> t \<le> snd (hd batch) + 10 * Second"
proof -
  obtain s where s: "run_dispatcher ProxyUpdates True 0 trace0 s" using run0 by blast
  have "bt_Out (batcher 0 trace0) = [([(''a'', 0), (''b'', Second)], 3 * Second)]"
    by (simp add: batcher_def trace0_def flush_def)
  with dispatcher_delay_bounded [OF s] s show ?thesis
    by (intro exI [of _ s] exI [of _ "[(''a'', 0), (''b'', Second)]"] exI [of _ "3 * Second"]) (simp add: window_defs)
qed

text \<open>
  C20.  A waiting event is always published in the end: from every state a running dispatcher can
  reach in a prompt execution with an event pending, letting time pass to the batch's deadline
  enables the expiry of a timer, which publishes the latest event and leaves nothing pending.
\<close>

theorem dispatcher_pending_published:
  assumes "run_dispatcher u True t0 tr s" "dp_running s" "dp_dispatchPending s"
  shows "\<exists>d l s'. l \<in> {SlidingExpired, MaxExpired} \<and> run_dispatcher u True t0 (tr @ [Tick d, l]) s' \<and>
    \<not> dp_dispatchPending s' \<and> dp_now s' = deadline (update_window u) (bt_Batch (batcher t0 tr)) \<and>
    dp_published s' = dp_published s @ [(dp_event s, dp_batchCount s, dp_now s')]"
  using dispatch_windows.pending_can_flush [OF update_window_laws assms(1) [unfolded run_dispatcher_run] assms(2,3)]
  by (simp only: run_dispatcher_run)

theorem dispatcher_pending_published_witness:
  "\<exists>d l s'. run_dispatcher XNetworkUpdates True 7 [Recv ''a'', Tick d, l] s' \<and> dp_published s' = [(Some ''a'', 1, 7 + 2 * Second)]"
proof -
  define s where "s = (start_dispatcher 7)\<lparr>dp_event := Some ''a'', dp_slidingTimer := Some (7 + 2 * Second),
      dp_maxTimer := Some (7 + 5 * Second), dp_dispatchPending := True, dp_batchCount := 1\<rparr>"
  note ss = s_def start_dispatcher_def timer_NewTimer_def seconds
  have "dispatch True xnetworkUpdateWindow (start_dispatcher 7) (Recv ''a'') s"
    by (rule dispatch.recv) (simp_all add: ss receive_event_def timer_Reset_def)
  from run_snoc [OF run_Nil this] have run: "run_dispatcher XNetworkUpdates True 7 [Recv ''a''] s"
    by (simp add: dispatcher_defs)
  have pending: "dp_running s" "dp_dispatchPending s" by (simp_all add: ss)
  obtain d l s' where s': "run_dispatcher XNetworkUpdates True 7 ([Recv ''a''] @ [Tick d, l]) s'"
      "dp_now s' = deadline (update_window XNetworkUpdates) (bt_Batch (batcher 7 [Recv ''a'']))"
      "dp_published s' = dp_published s @ [(dp_event s, dp_batchCount s, dp_now s')]"
    using dispatcher_pending_published [OF run pending] by (elim exE conjE) (rule that)
  have "bt_Batch (batcher 7 [Recv ''a'']) = [(''a'', 7)]" by (simp add: batcher_def)
  then have "dp_now s' = 7 + 2 * Second" using s'(2) by (simp add: deadline_def window_defs)
  with s' show ?thesis by (intro exI [of _ d] exI [of _ l] exI [of _ s']) (simp add: s_def start_dispatcher_def)
qed

end
