(* ===== verification/Broker.thy ===== *)
theory Broker
  imports Dispatcher KubeClient
begin

text \<open>
  The message broker (\<open>pkg/messaging\<close>): which updates an event of the cluster causes
  (\<open>get*UpdateEvent\<close>), and the processing of one event of the work queue (\<open>processEvent\<close>,
  \<open>processNextItem\<close>).  The effects of processing, publications and sends to the dispatchers, are the
  list of effects in the order the code performs them.  The kinds of announcements
  (\<open>pkg/announcements\<close>) are their strings, as in the code.

  Parameters: the LRU cache of micro service metadata (a third-party package), as the predicate
  that tells which keys it holds.
\<close>

section \<open>Messages\<close>

text \<open>Structs the broker only compares as a whole are values of a type \<open>'v\<close>.  A pointer that is
  compared as such is an address with its pointee.\<close>

record TracingSpec =
  trc_Enable :: bool
  trc_Port :: int
  trc_Address :: string
  trc_Endpoint :: string
  trc_SampledFraction :: "(nat \<times> string) option"

record RemoteLoggingSpec =
  rlg_Enable :: bool
  rlg_Level :: uint16
  rlg_Port :: int
  rlg_Address :: string
  rlg_Endpoint :: string
  rlg_Authorization :: string
  rlg_SampledFraction :: "(nat \<times> string) option"
  rlg_SecretName :: string

record ExternalAuthzSpec =
  eaz_Enable :: bool
  eaz_Address :: string
  eaz_Port :: uint16
  eaz_StatPrefix :: string
  eaz_Timeout :: string
  eaz_FailureModeAllow :: bool

record 'v MeshConfigSpec =
  cfs_EnableEgress :: bool
  cfs_EnablePermissiveTrafficPolicyMode :: bool
  cfs_HTTP1PerRequestLoadBalancing :: bool
  cfs_HTTP2PerRequestLoadBalancing :: bool
  cfs_ServiceAccessMode :: string
  cfs_InboundExternalAuthorization :: ExternalAuthzSpec
  cfs_Tracing :: TracingSpec
  cfs_RemoteLogging :: RemoteLoggingSpec
  cfs_LogLevel :: string
  cfs_CompressConfig :: bool
  cfs_SidecarTimeout :: int
  cfs_LocalDNSProxy :: 'v
  cfs_XNetDNSProxy :: 'v
  cfs_FeatureFlags :: 'v
  cfs_PluginChains :: 'v
  cfs_Connector :: 'v
  cfs_ClusterSet :: 'v

text \<open>The dynamic type of an object; of a pod also whether it has a deletion timestamp.\<close>

datatype 'v K8sObject =
    NamespaceObject ObjectMeta
  | EndpointsObject ObjectMeta
  | ServiceObject ObjectMeta
  | MeshConfigObject "'v MeshConfigSpec"
  | PodObject Pod bool
  | OtherK8sObject

record 'v PubSubMessage =
  psm_Kind :: string
  psm_OldObj :: "'v K8sObject option"
  psm_NewObj :: "'v K8sObject option"

text \<open>\<open>proxyUpdateEvent\<close> and, with no pods, the update events of the other kinds.\<close>

record 'v UpdateEvent =
  ue_msg :: "'v PubSubMessage"
  ue_topic :: string
  ue_creationPod :: "Pod option"
  ue_deletionPod :: "Pod option"

section \<open>Kinds\<close>

definition ProxyUpdate :: string where "ProxyUpdate = ''proxy-update''"
definition IngressUpdate :: string where "IngressUpdate = ''ingress-update''"
definition GatewayUpdate :: string where "GatewayUpdate = ''gateway-update''"
definition ServiceUpdate :: string where "ServiceUpdate = ''service-update''"
definition ConnectorUpdate :: string where "ConnectorUpdate = ''connector-update''"
definition XNetworkUpdate :: string where "XNetworkUpdate = ''xnetwork-update''"

definition added :: "string \<Rightarrow> string" where "added r = r @ ''-added''"
definition deleted :: "string \<Rightarrow> string" where "deleted r = r @ ''-deleted''"
definition updated :: "string \<Rightarrow> string" where "updated r = r @ ''-updated''"

text \<open>The three kinds of a resource: added, deleted, updated.\<close>

definition kinds_of :: "string list \<Rightarrow> string list" where
  "kinds_of rs = concat (map (\<lambda>r. [added r, deleted r, updated r]) rs)"

definition proxy_kinds :: "string list" where
  "proxy_kinds = kinds_of [''ingress'', ''ingressclass'', ''egress'', ''egressgateway'', ''ingressbackend'', ''accesscontrol'',
     ''isolation'', ''retry'', ''trafficwarmup'', ''upstreamtrafficsetting'', ''routegroup'', ''tcproute'', ''trafficsplit'',
     ''traffictarget'', ''serviceimport'', ''serviceexport'', ''globaltrafficpolicy'', ''plugin'', ''pluginchain'',
     ''pluginconfig'', ''virtualmachine''] @ [ProxyUpdate]"

definition ingress_kinds :: "string list" where
  "ingress_kinds = kinds_of [''endpoint'', ''service'', ''ingress'', ''ingressclass'', ''serviceimport'']"

definition gateway_kinds :: "string list" where
  "gateway_kinds = kinds_of [''endpoint'', ''endpointslices'', ''service'', ''secret'', ''configmap'', ''isolation'',
     ''gwapi-gateway'', ''gwapi-gatewayclass'', ''gwapi-httproute'', ''gwapi-grpcroute'', ''gwapi-tlsroute'',
     ''gwapi-tcproute'', ''gwapi-udproute'', ''gwapi-referencegrant'', ''RateLimit'', ''circuitbreaking'',
     ''healthcheckpolicy'', ''FaultInjection'', ''backendtlspolicy'', ''backendlbpolicy'', ''routerulefilterpolicy'',
     ''filter'', ''listenerfilter'', ''filterdefinition'', ''filterconfig'', ''gatewayhttplog'', ''gatewaymetrics'',
     ''gatewayzipkin'', ''gatewayproxytag'', ''gatewayiprestriction'', ''gatewayconcurrencylimit'',
     ''gatewayexternalratelimit'', ''gatewayrequesttermination'', ''gatewaydnsmodifier'', ''serviceimport'']"

definition mcs_kinds :: "string list" where
  "mcs_kinds = [''mcs-serviceexport-created'', ''mcs-serviceexport-deleted'', ''mcs-serviceexport-accepted'',
     ''mcs-serviceexport-rejected'']"

definition connector_kinds :: "string list" where
  "connector_kinds = kinds_of [''consulconnector'', ''eurekaconnector'', ''nacosconnector'', ''zookeeperconnector'',
     ''machineconnector'', ''gatewayconnector''] @ [ConnectorUpdate]"

text \<open>\<open>XAccessControlAdded\<close> and its siblings have the strings of \<open>AccessControlAdded\<close> and its siblings.\<close>

definition XAccessControl :: string where "XAccessControl = ''accesscontrol''"
definition AccessControlKind :: string where "AccessControlKind = ''accesscontrol''"

definition xnetwork_kinds :: "string list" where
  "xnetwork_kinds = kinds_of [''service'', ''endpoint'', XAccessControl, ''eipadvertisement''] @ [XNetworkUpdate]"

section \<open>Update events\<close>

definition CloudSourcedServiceLabel :: string where
  "CloudSourcedServiceLabel = ''fsm-connector-cloud-sourced-service''"
definition PrometheusScrapeAnnotation :: string where
  "PrometheusScrapeAnnotation = ''prometheus.io/scrape''"
definition AnnotationMeshEndpointHash :: string where
  "AnnotationMeshEndpointHash = ''flomesh.io/cloud-endpoint-hash''"

definition map_get :: "(string \<rightharpoonup> string) \<Rightarrow> string \<Rightarrow> string" where
  "map_get m k = (case m k of None \<Rightarrow> '''' | Some v \<Rightarrow> v)"

definition MicroSvcMetaExists :: "(string \<Rightarrow> bool) \<Rightarrow> ObjectMeta \<Rightarrow> bool" where
  "MicroSvcMetaExists cache svc =
     cache (om_Namespace svc @ ''.'' @ om_Name svc @ ''.'' @ map_get (om_Annotations svc) AnnotationMeshEndpointHash)"

definition broadcast_event :: "'v PubSubMessage \<Rightarrow> string \<Rightarrow> 'v UpdateEvent" where
  "broadcast_event msg topic = \<lparr>ue_msg = msg, ue_topic = topic, ue_creationPod = None, ue_deletionPod = None\<rparr>"

definition GetPubSubTopicForProxyUUID :: "string \<Rightarrow> string" where
  "GetPubSubTopicForProxyUUID uuid = ''proxy:'' @ uuid"

fun exclusion_list :: "'v K8sObject option \<Rightarrow> string" where
  "exclusion_list (Some (NamespaceObject ns)) = map_get (om_Annotations ns) ServiceExclusionListAnnotation"
| "exclusion_list _ = ''''"

definition namespaceUpdated :: "'v PubSubMessage \<Rightarrow> 'v UpdateEvent option" where
  "namespaceUpdated msg =
     (if \<not> EqualFold (exclusion_list (psm_OldObj msg)) (exclusion_list (psm_NewObj msg))
      then Some (broadcast_event msg ProxyUpdate) else None)"

definition proxy_config_changed :: "'v MeshConfigSpec \<Rightarrow> 'v MeshConfigSpec \<Rightarrow> bool" where
  "proxy_config_changed prevSpec newSpec \<longleftrightarrow>
     cfs_EnableEgress prevSpec \<noteq> cfs_EnableEgress newSpec \<or>
     cfs_EnablePermissiveTrafficPolicyMode prevSpec \<noteq> cfs_EnablePermissiveTrafficPolicyMode newSpec \<or>
     cfs_HTTP1PerRequestLoadBalancing prevSpec \<noteq> cfs_HTTP1PerRequestLoadBalancing newSpec \<or>
     cfs_HTTP2PerRequestLoadBalancing prevSpec \<noteq> cfs_HTTP2PerRequestLoadBalancing newSpec \<or>
     cfs_ServiceAccessMode prevSpec \<noteq> cfs_ServiceAccessMode newSpec \<or>
     cfs_Tracing prevSpec \<noteq> cfs_Tracing newSpec \<or>
     cfs_RemoteLogging prevSpec \<noteq> cfs_RemoteLogging newSpec \<or>
     cfs_LogLevel prevSpec \<noteq> cfs_LogLevel newSpec \<or>
     cfs_CompressConfig prevSpec \<noteq> cfs_CompressConfig newSpec \<or>
     cfs_SidecarTimeout prevSpec \<noteq> cfs_SidecarTimeout newSpec \<or>
     cfs_LocalDNSProxy prevSpec \<noteq> cfs_LocalDNSProxy newSpec \<or>
     eaz_Enable (cfs_InboundExternalAuthorization prevSpec) \<noteq> eaz_Enable (cfs_InboundExternalAuthorization newSpec) \<or>
     (eaz_Enable (cfs_InboundExternalAuthorization newSpec) \<and>
        cfs_InboundExternalAuthorization prevSpec \<noteq> cfs_InboundExternalAuthorization newSpec) \<or>
     cfs_FeatureFlags prevSpec \<noteq> cfs_FeatureFlags newSpec \<or>
     cfs_PluginChains prevSpec \<noteq> cfs_PluginChains newSpec \<or>
     cfs_Connector prevSpec \<noteq> cfs_Connector newSpec \<or>
     cfs_ClusterSet prevSpec \<noteq> cfs_ClusterSet newSpec"

definition meshConfigUpdated :: "'v PubSubMessage \<Rightarrow> 'v UpdateEvent option" where
  "meshConfigUpdated msg =
     (case (psm_OldObj msg, psm_NewObj msg) of
        (Some (MeshConfigObject prevSpec), Some (MeshConfigObject newSpec)) \<Rightarrow>
          if proxy_config_changed prevSpec newSpec then Some (broadcast_event msg ProxyUpdate) else None
      | _ \<Rightarrow> None)"

definition xNetDNSProxyUpdated :: "'v PubSubMessage \<Rightarrow> 'v UpdateEvent option" where
  "xNetDNSProxyUpdated msg =
     (case (psm_OldObj msg, psm_NewObj msg) of
        (Some (MeshConfigObject prevSpec), Some (MeshConfigObject newSpec)) \<Rightarrow>
          if cfs_XNetDNSProxy prevSpec \<noteq> cfs_XNetDNSProxy newSpec
          then Some (broadcast_event msg XNetworkUpdate) else None
      | _ \<Rightarrow> None)"

fun pod_of :: "'v K8sObject option \<Rightarrow> (Pod \<times> bool) option" where
  "pod_of (Some (PodObject pod deleting)) = Some (pod, deleting)"
| "pod_of _ = None"

definition pod_label :: "Pod \<Rightarrow> string" where
  "pod_label pod = map_get (om_Labels (pod_Meta pod)) SidecarUniqueIDLabelName"

definition podUpdated :: "'v PubSubMessage \<Rightarrow> 'v UpdateEvent option" where
  "podUpdated msg =
     (let prePod = pod_of (psm_OldObj msg); newPod = pod_of (psm_NewObj msg);
          scrape = (\<lambda>pod. map_get (om_Annotations (pod_Meta pod)) PrometheusScrapeAnnotation);
          metrics = (case (prePod, newPod) of
             (Some (pre, _), Some (new, _)) \<Rightarrow>
               if om_Annotations (pod_Meta pre) \<noteq> Map.empty \<and> om_Annotations (pod_Meta new) \<noteq> Map.empty \<and>
                  scrape pre \<noteq> scrape new \<and> om_Labels (pod_Meta new) \<noteq> Map.empty
               then Some (broadcast_event msg (GetPubSubTopicForProxyUUID (pod_label new))) else None
           | _ \<Rightarrow> None);
          created = (case (prePod, newPod) of
             (None, Some (new, _)) \<Rightarrow>
               if length (pod_label new) > 0
               then Some ((broadcast_event msg ProxyUpdate)\<lparr>ue_creationPod := Some new\<rparr>) else None
           | _ \<Rightarrow> None);
          changed = (case prePod of
             Some (pre, _) \<Rightarrow>
               if length (pod_label pre) > 0
               then Some ((broadcast_event msg ProxyUpdate)\<lparr>ue_deletionPod :=
                 (case newPod of Some (new, True) \<Rightarrow> Some new | _ \<Rightarrow> None)\<rparr>) else None
           | None \<Rightarrow> None) in
      case metrics of Some e \<Rightarrow> Some e
      | None \<Rightarrow> (case created of Some e \<Rightarrow> Some e | None \<Rightarrow> changed))"

fun cloud_sourced :: "'v K8sObject option \<Rightarrow> ObjectMeta option" where
  "cloud_sourced (Some (EndpointsObject m)) = (if om_Labels m CloudSourcedServiceLabel \<noteq> None then Some m else None)"
| "cloud_sourced (Some (ServiceObject m)) = (if om_Labels m CloudSourcedServiceLabel \<noteq> None then Some m else None)"
| "cloud_sourced _ = None"

fun is_endpoints :: "'v K8sObject option \<Rightarrow> bool" where
  "is_endpoints (Some (EndpointsObject m)) = True"
| "is_endpoints _ = False"

fun is_service :: "'v K8sObject option \<Rightarrow> bool" where
  "is_service (Some (ServiceObject m)) = True"
| "is_service _ = False"

definition endpointsUpdated :: "'v PubSubMessage \<Rightarrow> 'v UpdateEvent option" where
  "endpointsUpdated msg =
     (if is_endpoints (psm_NewObj msg) \<and> cloud_sourced (psm_NewObj msg) \<noteq> None then None
      else Some (broadcast_event msg ProxyUpdate))"

definition serviceUpdated :: "(string \<Rightarrow> bool) \<Rightarrow> 'v PubSubMessage \<Rightarrow> 'v UpdateEvent option" where
  "serviceUpdated cache msg =
     (case (if is_service (psm_NewObj msg) then cloud_sourced (psm_NewObj msg) else None) of
        Some svc \<Rightarrow>
          if \<not> MicroSvcMetaExists cache svc then Some (broadcast_event msg ProxyUpdate)
          else if is_service (psm_OldObj msg) \<and> cloud_sourced (psm_OldObj msg) \<noteq> None
          then Some (broadcast_event msg ProxyUpdate) else None
      | None \<Rightarrow>
          if is_service (psm_OldObj msg) \<and> cloud_sourced (psm_OldObj msg) \<noteq> None
          then Some (broadcast_event msg ProxyUpdate) else None)"

definition getProxyUpdateEvent :: "(string \<Rightarrow> bool) \<Rightarrow> 'v PubSubMessage \<Rightarrow> 'v UpdateEvent option" where
  "getProxyUpdateEvent cache msg =
     (if psm_Kind msg = updated ''namespace'' then namespaceUpdated msg
      else if psm_Kind msg \<in> set (kinds_of [''endpoint'']) then endpointsUpdated msg
      else if psm_Kind msg \<in> set (kinds_of [''service'']) then serviceUpdated cache msg
      else if psm_Kind msg \<in> set proxy_kinds then Some (broadcast_event msg ProxyUpdate)
      else if psm_Kind msg = updated ''meshconfig'' then meshConfigUpdated msg
      else if psm_Kind msg \<in> set (kinds_of [''pod'']) then podUpdated msg
      else None)"

definition getIngressUpdateEvent :: "'v PubSubMessage \<Rightarrow> 'v UpdateEvent option" where
  "getIngressUpdateEvent msg =
     (if psm_Kind msg \<in> set ingress_kinds then Some (broadcast_event msg IngressUpdate) else None)"

definition getGatewayUpdateEvent :: "'v PubSubMessage \<Rightarrow> 'v UpdateEvent option" where
  "getGatewayUpdateEvent msg =
     (if psm_Kind msg \<in> set gateway_kinds then Some (broadcast_event msg GatewayUpdate) else None)"

definition getMCSUpdateEvent :: "'v PubSubMessage \<Rightarrow> 'v UpdateEvent option" where
  "getMCSUpdateEvent msg =
     (if psm_Kind msg \<in> set mcs_kinds then Some (broadcast_event msg (psm_Kind msg)) else None)"

definition getServiceUpdateEvent :: "'v PubSubMessage \<Rightarrow> 'v UpdateEvent option" where
  "getServiceUpdateEvent msg =
     (if psm_Kind msg = ServiceUpdate then Some (broadcast_event msg ServiceUpdate) else None)"

definition getConnectorUpdateEvent :: "'v PubSubMessage \<Rightarrow> 'v UpdateEvent option" where
  "getConnectorUpdateEvent msg =
     (if psm_Kind msg \<in> set connector_kinds then Some (broadcast_event msg ConnectorUpdate) else None)"

definition getXNetworkUpdateEvent :: "'v PubSubMessage \<Rightarrow> 'v UpdateEvent option" where
  "getXNetworkUpdateEvent msg =
     (if psm_Kind msg \<in> set xnetwork_kinds then Some (broadcast_event msg XNetworkUpdate)
      else if psm_Kind msg = updated ''meshconfig'' then xNetDNSProxyUpdated msg
      else None)"

section \<open>Processing\<close>

text \<open>The publish-subscribe instances: one per dispatcher, and those for other clients.\<close>

datatype PubSub = UpdatePubSub Updates | McsEventPubSub | KubeEventPubSub

datatype 'v effect =
    ProxyCreationCh Pod
  | ProxyDeletionCh Pod
  | Pub PubSub "'v PubSubMessage" string
  | Send Updates "'v UpdateEvent"
  | MonitoredNamespaces int

text \<open>The counters \<open>totalQ*EventCount\<close> and \<open>totalDispatched*EventCount\<close>, one per kind of update;
  there are none for the cross network.\<close>

record Broker =
  br_proxyCreationChOn :: bool
  br_proxyDeletionChOn :: bool
  br_totalQEventCount :: uint64
  br_totalQ :: "Updates \<Rightarrow> uint64"
  br_totalDispatched :: "Updates \<Rightarrow> uint64"

fun broadcast_topic :: "Updates \<Rightarrow> string" where
  "broadcast_topic ProxyUpdates = ProxyUpdate"
| "broadcast_topic IngressUpdates = IngressUpdate"
| "broadcast_topic GatewayUpdates = GatewayUpdate"
| "broadcast_topic ServiceUpdates = ServiceUpdate"
| "broadcast_topic ConnectorUpdates = ConnectorUpdate"
| "broadcast_topic XNetworkUpdates = XNetworkUpdate"

fun getUpdateEvent :: "(string \<Rightarrow> bool) \<Rightarrow> Updates \<Rightarrow> 'v PubSubMessage \<Rightarrow> 'v UpdateEvent option" where
  "getUpdateEvent cache ProxyUpdates = getProxyUpdateEvent cache"
| "getUpdateEvent cache IngressUpdates = getIngressUpdateEvent"
| "getUpdateEvent cache GatewayUpdates = getGatewayUpdateEvent"
| "getUpdateEvent cache ServiceUpdates = getServiceUpdateEvent"
| "getUpdateEvent cache ConnectorUpdates = getConnectorUpdateEvent"
| "getUpdateEvent cache XNetworkUpdates = getXNetworkUpdateEvent"

text \<open>One of the six blocks of \<open>processEvent\<close>.  An event for one topic is published at once, a
  broadcast goes to the dispatcher.  The pods exist for proxies only.\<close>

definition process_update :: "(string \<Rightarrow> bool) \<Rightarrow> Updates \<Rightarrow> 'v PubSubMessage \<Rightarrow> Broker \<Rightarrow> Broker \<times> 'v effect list" where
  "process_update cache u msg b =
     (case getUpdateEvent cache u msg of
        None \<Rightarrow> (b, [])
      | Some event \<Rightarrow>
          let creations = (case ue_creationPod event of
                Some pod \<Rightarrow> if br_proxyCreationChOn b then [ProxyCreationCh pod] else [] | None \<Rightarrow> []);
              deletions = (case ue_deletionPod event of
                Some pod \<Rightarrow> if br_proxyDeletionChOn b then [ProxyDeletionCh pod] else [] | None \<Rightarrow> []);
              counted = u \<noteq> XNetworkUpdates;
              b = (if counted then b\<lparr>br_totalQ := (br_totalQ b)(u := br_totalQ b u + 1)\<rparr> else b) in
          if ue_topic event \<noteq> broadcast_topic u
          then (if counted then b\<lparr>br_totalDispatched := (br_totalDispatched b)(u := br_totalDispatched b u + 1)\<rparr> else b,
                creations @ deletions @ [Pub (UpdatePubSub u) (ue_msg event) (ue_topic event)])
          else (b, creations @ deletions @ [Send u event]))"

definition updateMetric :: "'v PubSubMessage \<Rightarrow> 'v effect list" where
  "updateMetric msg =
     (if psm_Kind msg = added ''namespace'' then [MonitoredNamespaces 1]
      else if psm_Kind msg = deleted ''namespace'' then [MonitoredNamespaces (- 1)] else [])"

definition update_order :: "Updates list" where
  "update_order = [ProxyUpdates, IngressUpdates, GatewayUpdates, ServiceUpdates, ConnectorUpdates, XNetworkUpdates]"

definition processEvent :: "(string \<Rightarrow> bool) \<Rightarrow> 'v PubSubMessage \<Rightarrow> Broker \<Rightarrow> Broker \<times> 'v effect list" where
  "processEvent cache msg b =
     (let (b, effects) = fold (\<lambda>u (b, es). let (b', es') = process_update cache u msg b in (b', es @ es'))
            update_order (b, []);
          mcs = (case getMCSUpdateEvent msg of
            Some event \<Rightarrow> [Pub McsEventPubSub (ue_msg event) (ue_topic event)] | None \<Rightarrow> []) in
      (b, effects @ mcs @ [Pub KubeEventPubSub msg (psm_Kind msg)] @ updateMetric msg))"

text \<open>An item of the work queue is a message or something else, which is only counted; \<open>None\<close> is
  the shutdown of the queue.\<close>

definition processNextItem ::
  "(string \<Rightarrow> bool) \<Rightarrow> 'v PubSubMessage option option \<Rightarrow> Broker \<Rightarrow> bool \<times> Broker \<times> 'v effect list" where
  "processNextItem cache item b =
     (case item of
        None \<Rightarrow> (False, b, [])
      | Some payload \<Rightarrow>
          let b = b\<lparr>br_totalQEventCount := br_totalQEventCount b + 1\<rparr> in
          (case payload of
             None \<Rightarrow> (True, b, [])
           | Some msg \<Rightarrow> (True, processEvent cache msg b)))"

section \<open>Lemmas\<close>

text \<open>The effects that concern one kind of update, and what they should be.\<close>

fun concerns :: "Updates \<Rightarrow> 'v effect \<Rightarrow> bool" where
  "concerns u (Send v e) = (v = u)"
| "concerns u (Pub (UpdatePubSub v) m t) = (v = u)"
| "concerns u _ = False"

definition routed :: "(string \<Rightarrow> bool) \<Rightarrow> Updates \<Rightarrow> 'v PubSubMessage \<Rightarrow> 'v effect list" where
  "routed cache u msg =
     (case getUpdateEvent cache u msg of
        None \<Rightarrow> []
      | Some e \<Rightarrow> if ue_topic e = broadcast_topic u then [Send u e] else [Pub (UpdatePubSub u) msg (ue_topic e)])"

definition targeted :: "(string \<Rightarrow> bool) \<Rightarrow> Updates \<Rightarrow> 'v PubSubMessage \<Rightarrow> bool" where
  "targeted cache u msg \<longleftrightarrow> (\<exists>e. getUpdateEvent cache u msg = Some e \<and> ue_topic e \<noteq> broadcast_topic u)"

named_theorems update_event_defs \<open>definitions of the update events\<close>

declare namespaceUpdated_def [update_event_defs] endpointsUpdated_def [update_event_defs]
  serviceUpdated_def [update_event_defs] meshConfigUpdated_def [update_event_defs]
  xNetDNSProxyUpdated_def [update_event_defs] broadcast_event_def [update_event_defs]
  getProxyUpdateEvent_def [update_event_defs] getIngressUpdateEvent_def [update_event_defs]
  getGatewayUpdateEvent_def [update_event_defs] getServiceUpdateEvent_def [update_event_defs]
  getConnectorUpdateEvent_def [update_event_defs] getXNetworkUpdateEvent_def [update_event_defs]

lemma podUpdated_topic:
  assumes "podUpdated msg = Some e"
  shows "ue_msg e = msg \<and> (ue_topic e = ProxyUpdate \<or> (\<exists>uuid. ue_topic e = GetPubSubTopicForProxyUUID uuid))"
  using assms by (auto simp: podUpdated_def broadcast_event_def Let_def split: option.splits prod.splits if_splits)

lemma plain_update_topics:
  "namespaceUpdated msg = Some e \<Longrightarrow> ue_msg e = msg \<and> ue_topic e = ProxyUpdate"
  "endpointsUpdated msg = Some e \<Longrightarrow> ue_msg e = msg \<and> ue_topic e = ProxyUpdate"
  "serviceUpdated cache msg = Some e \<Longrightarrow> ue_msg e = msg \<and> ue_topic e = ProxyUpdate"
  "meshConfigUpdated msg = Some e \<Longrightarrow> ue_msg e = msg \<and> ue_topic e = ProxyUpdate"
  "xNetDNSProxyUpdated msg = Some e \<Longrightarrow> ue_msg e = msg \<and> ue_topic e = XNetworkUpdate"
  by (auto simp: update_event_defs split: option.splits K8sObject.splits if_splits)

lemma update_event_topic:
  assumes "getUpdateEvent cache u msg = Some e"
  shows "ue_msg e = msg \<and> (ue_topic e = broadcast_topic u \<or>
    (u = ProxyUpdates \<and> psm_Kind msg \<in> set (kinds_of [''pod'']) \<and> (\<exists>uuid. ue_topic e = GetPubSubTopicForProxyUUID uuid)))"
proof (cases u)
  case ProxyUpdates
  then have "getProxyUpdateEvent cache msg = Some e" using assms by simp
  then show ?thesis unfolding getProxyUpdateEvent_def ProxyUpdates
    using plain_update_topics(1,2,4) [of msg e] plain_update_topics(3) [of cache msg e] podUpdated_topic [of msg e]
    by (simp split: if_splits) (auto simp: broadcast_event_def)
next
  case XNetworkUpdates
  then show ?thesis using assms plain_update_topics(5) [of msg e]
    by (auto simp: getXNetworkUpdateEvent_def broadcast_event_def split: if_splits)
qed (use assms in \<open>auto simp: update_event_defs split: if_splits\<close>)

lemma process_update_effects:
  "filter (concerns u) (snd (process_update cache v msg b)) = (if u = v then routed cache u msg else [])"
  using update_event_topic [of cache v msg]
  by (auto simp: process_update_def routed_def Let_def split: option.splits)

lemma process_update_publications:
  "filter (\<lambda>e. \<exists>m t. e = Pub KubeEventPubSub m t) (snd (process_update cache v msg b)) = []"
  by (auto simp: process_update_def Let_def split: option.splits)

lemma process_update_counters:
  "br_totalQ (fst (process_update cache v msg b)) u =
     br_totalQ b u + (if u = v \<and> u \<noteq> XNetworkUpdates \<and> getUpdateEvent cache u msg \<noteq> None then 1 else 0)"
  "br_totalDispatched (fst (process_update cache v msg b)) u =
     br_totalDispatched b u + (if u = v \<and> u \<noteq> XNetworkUpdates \<and> targeted cache u msg then 1 else 0)"
  by (auto simp: process_update_def targeted_def Let_def split: option.splits)

text \<open>The six blocks in sequence.\<close>

definition process_updates ::
  "(string \<Rightarrow> bool) \<Rightarrow> 'v PubSubMessage \<Rightarrow> Updates list \<Rightarrow> Broker \<times> 'v effect list \<Rightarrow> Broker \<times> 'v effect list" where
  "process_updates cache msg us acc =
     fold (\<lambda>u (b, es). let (b', es') = process_update cache u msg b in (b', es @ es')) us acc"

lemma process_updates_Nil: "process_updates cache msg [] acc = acc"
  by (simp add: process_updates_def)

lemma process_updates_Cons: "process_updates cache msg (u # us) (b, es) = process_updates cache msg us
    (fst (process_update cache u msg b), es @ snd (process_update cache u msg b))"
  by (simp add: process_updates_def case_prod_unfold Let_def)

lemma process_updates_effects:
  "filter (concerns u) (snd (process_updates cache msg us (b, es))) =
     filter (concerns u) es @ concat (map (\<lambda>v. if u = v then routed cache u msg else []) us)"
  by (induction us arbitrary: b es)
    (simp_all add: process_updates_Nil process_updates_Cons process_update_effects)

lemma process_updates_publications:
  "filter (\<lambda>e. \<exists>m t. e = Pub KubeEventPubSub m t) (snd (process_updates cache msg us (b, es))) =
     filter (\<lambda>e. \<exists>m t. e = Pub KubeEventPubSub m t) es"
  by (induction us arbitrary: b es)
    (simp_all add: process_updates_Nil process_updates_Cons process_update_publications)

lemma process_updates_counters:
  assumes "distinct us"
  shows "br_totalQ (fst (process_updates cache msg us (b, es))) u =
     br_totalQ b u + (if u \<in> set us \<and> u \<noteq> XNetworkUpdates \<and> getUpdateEvent cache u msg \<noteq> None then 1 else 0) \<and>
   br_totalDispatched (fst (process_updates cache msg us (b, es))) u =
     br_totalDispatched b u + (if u \<in> set us \<and> u \<noteq> XNetworkUpdates \<and> targeted cache u msg then 1 else 0)"
  using assms
proof (induction us arbitrary: b es)
  case (Cons v us)
  then show ?case by (auto simp: process_updates_Cons process_update_counters)
qed (simp add: process_updates_Nil)

lemma update_order_all: "set update_order = UNIV" "distinct update_order"
  by (auto simp: update_order_def) (metis Updates.exhaust)

lemma access_control_kinds:
  "list_all (\<lambda>k. k \<noteq> updated ''namespace'' \<and> k \<notin> set (kinds_of [''endpoint'']) \<and> k \<notin> set (kinds_of [''service'']) \<and>
     k \<in> set proxy_kinds \<and> k \<in> set xnetwork_kinds) (kinds_of [''accesscontrol''])"
  by code_simp

section \<open>Properties\<close>

text \<open>
  C21.  Routing.  Processing a message has, for each kind of update, exactly the effect its update
  event asks for: none, a send to the dispatcher if the event is a broadcast, or one publication
  under the event's topic.  Only pod events of proxies are ever published past the dispatcher,
  under the topic of one proxy.  Every message is announced exactly once under its own kind.  The counters
  of received and of directly dispatched events advance accordingly, those of the cross network never.
\<close>

theorem event_routing:
  "case processEvent cache msg b of (b', effects) \<Rightarrow>
     filter (concerns u) effects = routed cache u msg \<and>
     filter (\<lambda>e. \<exists>m t. e = Pub KubeEventPubSub m t) effects = [Pub KubeEventPubSub msg (psm_Kind msg)] \<and>
     (\<forall>m topic. Pub (UpdatePubSub u) m topic \<in> set effects \<longrightarrow> m = msg \<and> u = ProxyUpdates \<and>
        psm_Kind msg \<in> set (kinds_of [''pod'']) \<and> (\<exists>uuid. topic = GetPubSubTopicForProxyUUID uuid)) \<and>
     br_totalQ b' u = br_totalQ b u + (if u \<noteq> XNetworkUpdates \<and> getUpdateEvent cache u msg \<noteq> None then 1 else 0) \<and>
     br_totalDispatched b' u = br_totalDispatched b u + (if u \<noteq> XNetworkUpdates \<and> targeted cache u msg then 1 else 0)"
proof -
  let ?r = "process_updates cache msg update_order (b, [])"
  have eff: "processEvent cache msg b = (fst ?r, snd ?r @ (case getMCSUpdateEvent msg of
      Some event \<Rightarrow> [Pub McsEventPubSub (ue_msg event) (ue_topic event)] | None \<Rightarrow> []) @
      [Pub KubeEventPubSub msg (psm_Kind msg)] @ updateMetric msg)"
    by (simp add: processEvent_def process_updates_def case_prod_unfold Let_def)
  have one: "concat (map (\<lambda>v. if u = v then routed cache u msg else []) update_order) = routed cache u msg"
    by (cases u) (simp_all add: update_order_def)
  have routed: "filter (concerns u) (snd (processEvent cache msg b)) = routed cache u msg"
    unfolding eff by (simp add: process_updates_effects one updateMetric_def split: option.split)
  have "m = msg \<and> u = ProxyUpdates \<and> psm_Kind msg \<in> set (kinds_of [''pod'']) \<and>
      (\<exists>uuid. topic = GetPubSubTopicForProxyUUID uuid)"
    if "Pub (UpdatePubSub u) m topic \<in> set (snd (processEvent cache msg b))" for m topic
  proof -
    from that have "Pub (UpdatePubSub u) m topic \<in> set (routed cache u msg)" by (simp flip: routed)
    then obtain e where "getUpdateEvent cache u msg = Some e" "ue_topic e \<noteq> broadcast_topic u" "m = msg" "topic = ue_topic e"
      by (cases "getUpdateEvent cache u msg") (auto simp: routed_def split: if_splits)
    with update_event_topic [of cache u msg e] show ?thesis by simp
  qed
  moreover have "filter (\<lambda>e. \<exists>m t. e = Pub KubeEventPubSub m t) (snd (processEvent cache msg b)) =
      [Pub KubeEventPubSub msg (psm_Kind msg)]"
    unfolding eff by (simp add: process_updates_publications updateMetric_def split: option.split)
  moreover note process_updates_counters [OF update_order_all(2), of cache msg b "[]" u, unfolded update_order_all]
  ultimately show ?thesis using routed unfolding eff by simp
qed

definition scraped_pod :: "string \<Rightarrow> Pod" where
  "scraped_pod scrape = pod0\<lparr>pod_Meta := (pod_Meta pod0)\<lparr>om_Annotations := [PrometheusScrapeAnnotation \<mapsto> scrape]\<rparr>\<rparr>"

definition scrape_msg :: "nat PubSubMessage" where
  "scrape_msg = \<lparr>psm_Kind = updated ''pod'', psm_OldObj = Some (PodObject (scraped_pod ''true'') False),
     psm_NewObj = Some (PodObject (scraped_pod ''false'') False)\<rparr>"

definition broker0 :: Broker where
  "broker0 = \<lparr>br_proxyCreationChOn = True, br_proxyDeletionChOn = True, br_totalQEventCount = 0,
     br_totalQ = (\<lambda>_. 0), br_totalDispatched = (\<lambda>_. 0)\<rparr>"

lemma scrape_kinds:
  "updated ''pod'' \<noteq> updated ''namespace''" "updated ''pod'' \<notin> set (kinds_of [''endpoint''])"
  "updated ''pod'' \<notin> set (kinds_of [''service''])" "updated ''pod'' \<notin> set proxy_kinds"
  "updated ''pod'' \<noteq> updated ''meshconfig''" "updated ''pod'' \<in> set (kinds_of [''pod''])"
  by code_simp+

lemma scrape_event:
  "getUpdateEvent cache ProxyUpdates scrape_msg = Some (broadcast_event scrape_msg (GetPubSubTopicForProxyUUID ''u-1''))"
  by (simp add: getProxyUpdateEvent_def scrape_msg_def scrape_kinds podUpdated_def scraped_pod_def pod0_def meta0_def
      map_get_def pod_label_def Let_def)

theorem event_routing_witness:
  "\<exists>b' effects. processEvent (\<lambda>_. False) scrape_msg broker0 = (b', effects) \<and>
     filter (concerns ProxyUpdates) effects = [Pub (UpdatePubSub ProxyUpdates) scrape_msg ''proxy:u-1''] \<and>
     br_totalDispatched b' ProxyUpdates = 1"
proof -
  obtain b' effects where r: "processEvent (\<lambda>_. False) scrape_msg broker0 = (b', effects)" by fastforce
  have "GetPubSubTopicForProxyUUID ''u-1'' \<noteq> ProxyUpdate"
    by (simp add: GetPubSubTopicForProxyUUID_def ProxyUpdate_def)
  then show ?thesis
    using event_routing [where cache = "\<lambda>_. False" and msg = scrape_msg and b = broker0 and u = ProxyUpdates] r
    by (simp add: routed_def targeted_def scrape_event broadcast_event_def GetPubSubTopicForProxyUUID_def
        broker0_def del: getUpdateEvent.simps)
qed

text \<open>
  C24.  The kinds of the two access control resources coincide: an event of the policy resource
  triggers an update of the cross network, and an event of the cross network resource triggers an
  update of all proxies, through its dispatcher.
\<close>

theorem access_control_kinds_collide:
  assumes "psm_Kind msg \<in> set (kinds_of [AccessControlKind]) \<or> psm_Kind msg \<in> set (kinds_of [XAccessControl])"
  shows "\<exists>e. getProxyUpdateEvent cache msg = Some e \<and> routed cache ProxyUpdates msg = [Send ProxyUpdates e] \<and>
    getXNetworkUpdateEvent msg = Some (broadcast_event msg XNetworkUpdate)"
proof -
  have k: "psm_Kind msg \<in> set (kinds_of [''accesscontrol''])"
    using assms by (simp add: AccessControlKind_def XAccessControl_def)
  then have "getProxyUpdateEvent cache msg = Some (broadcast_event msg ProxyUpdate)"
    using access_control_kinds by (simp add: getProxyUpdateEvent_def list_all_iff)
  moreover have "getXNetworkUpdateEvent msg = Some (broadcast_event msg XNetworkUpdate)"
    using k access_control_kinds by (simp add: getXNetworkUpdateEvent_def list_all_iff)
  ultimately show ?thesis by (simp add: routed_def broadcast_event_def)
qed

theorem access_control_kinds_collide_witness:
  "\<exists>e. getProxyUpdateEvent (\<lambda>_. False)
     \<lparr>psm_Kind = added XAccessControl, psm_OldObj = None, psm_NewObj = Some (OtherK8sObject :: nat K8sObject)\<rparr> = Some e"
  using access_control_kinds_collide [of "\<lparr>psm_Kind = added XAccessControl, psm_OldObj = None,
      psm_NewObj = Some (OtherK8sObject :: nat K8sObject)\<rparr>" "\<lambda>_. False"]
  by (auto simp: kinds_of_def)

end
