(* ===== verification/PipyConf.thy ===== *)
theory PipyConf
  imports Complex_Main CatalogIngress
begin

text \<open>
  The configuration of a Pipy sidecar (\<open>pkg/sidecar/v1/providers/pipy/repo\<close>: \<open>types.go\<close>,
  \<open>ratelimit.go\<close> and the operations of \<open>policy.go\<close> that build it).  Nested pointers become nested
  values: an operation that returns a pointer into the configuration is modelled by one that makes
  sure the entry exists, and an update at that entry.  Nil and empty maps or slices are one value.
  The only pointers held twice are the outbound traffic matches, which are kept in a store under
  their unexported name, with the port entries holding the names.
\<close>

type_synonym Port = uint16
type_synonym Weight = uint32

text \<open>A \<open>float64\<close> is a real number (its rounding is not modelled), a plug-in configuration its raw
  bytes.  \<open>Seconds\<close> is the method of Go's \<open>time.Duration\<close>.\<close>

type_synonym float64 = real
type_synonym RawExtension = string

definition Seconds :: "duration \<Rightarrow> float64" where
  "Seconds d = of_int d / 1000000000"

definition URIMatchRegex :: string where "URIMatchRegex = ''Regex''"
definition URIMatchExact :: string where "URIMatchExact = ''Exact''"
definition URIMatchPrefix :: string where "URIMatchPrefix = ''Prefix''"

section \<open>Types\<close>

subsection \<open>Rate limits\<close>

record TCPLocalRateLimit =
  ptl_Connections :: uint32
  ptl_StatTimeWindow :: float64
  ptl_Burst :: uint32

record TCPRateLimit =
  ptr_Local :: "TCPLocalRateLimit option"

record HTTPLocalRateLimit =
  phl_Requests :: uint32
  phl_StatTimeWindow :: float64
  phl_Burst :: uint32
  phl_ResponseStatusCode :: uint32
  phl_ResponseHeadersToAdd :: "HTTPHeaderValue list"

record HTTPRateLimit =
  phr_Local :: "HTTPLocalRateLimit option"

record HTTPPerRouteRateLimit =
  ppr_Local :: "HTTPLocalRateLimit option"

subsection \<open>Route rules\<close>

record HTTPMatchRule =
  pmr_Path :: string
  pmr_Type :: string
  pmr_Headers :: "string \<rightharpoonup> string"
  pmr_Methods :: "string list"
  pmr_allowedAnyService :: bool
  pmr_allowedAnyMethod :: bool

record HTTPRouteRule =
  prr_HTTPMatchRule :: HTTPMatchRule
  prr_TargetClusters :: "string \<rightharpoonup> Weight"
  prr_AllowedServices :: "string list"

record InboundHTTPRouteRule = HTTPRouteRule +
  pir_RateLimit :: "HTTPPerRouteRateLimit option"

text \<open>The Go type \<open>OutboundHTTPRouteRule\<close> adds nothing to \<open>HTTPRouteRule\<close>.\<close>

type_synonym OutboundHTTPRouteRule = HTTPRouteRule

record HTTPRouteRuleRef =
  pref_RuleName :: string
  pref_Service :: string

type_synonym Plugins = "string \<rightharpoonup> RawExtension option"

record InboundHTTPRouteRules =
  pis_RouteRules :: "InboundHTTPRouteRule list"
  pis_Plugins :: Plugins
  pis_HTTPRateLimit :: "HTTPRateLimit option"
  pis_AllowedEndpoints :: "string \<rightharpoonup> string"

record InboundTCPServiceRouteRules =
  pit_TargetClusters :: "string \<rightharpoonup> Weight"
  pit_Plugins :: Plugins

record OutboundHTTPRouteRules =
  pos_RouteRules :: "OutboundHTTPRouteRule list"
  pos_EgressForwardGateway :: "string option"
  pos_Plugins :: Plugins

record OutboundTCPServiceRouteRules =
  pot_TargetClusters :: "string \<rightharpoonup> Weight"
  pot_AllowedEgressTraffic :: bool
  pot_EgressForwardGateway :: "string option"
  pot_Plugins :: Plugins

subsection \<open>Traffic matches and policies\<close>

record SourceSecuritySpec =
  psec_MTLS :: bool
  psec_SkipClientCertValidation :: bool
  psec_AuthenticatedPrincipals :: "string list"

record Certificate =
  pcert_FsmIssued :: "bool option"
  pcert_CommonName :: "string option"
  pcert_SubjectAltNames :: "string list"
  pcert_Expiration :: string
  pcert_CertChain :: string
  pcert_PrivateKey :: string
  pcert_IssuingCA :: string

record DestinationSecuritySpec =
  pdst_SourceCert :: "Certificate option"

record InboundTrafficMatch =
  pim_Port :: Port
  pim_Protocol :: string
  pim_SourceIPRanges :: "string \<rightharpoonup> SourceSecuritySpec option"
  pim_HTTPHostPort2Service :: "string \<rightharpoonup> HTTPRouteRuleRef"
  pim_HTTPServiceRouteRules :: "string \<rightharpoonup> InboundHTTPRouteRules"
  pim_TCPServiceRouteRules :: "InboundTCPServiceRouteRules option"
  pim_TCPRateLimit :: "TCPRateLimit option"

record OutboundTrafficMatch =
  pom_DestinationIPRanges :: "string \<rightharpoonup> DestinationSecuritySpec option"
  pom_Port :: Port
  pom_Protocol :: string
  pom_HTTPHostPort2Service :: "string \<rightharpoonup> HTTPRouteRuleRef"
  pom_HTTPServiceRouteRules :: "string \<rightharpoonup> OutboundHTTPRouteRules"
  pom_TCPServiceRouteRules :: "OutboundTCPServiceRouteRules option"

type_synonym WeightedEndpoint = "string \<rightharpoonup> Weight"

record PipyInboundTrafficPolicy =
  pip_TrafficMatches :: "Port \<rightharpoonup> InboundTrafficMatch"
  pip_ClustersConfigs :: "string \<rightharpoonup> WeightedEndpoint"

record WeightedZoneEndpoint =
  pze_Weight :: Weight
  pze_Cluster :: string
  pze_LBType :: string
  pze_ContextPath :: string
  pze_ViaGateway :: string

record PipyRetryPolicy =
  prp_RetryOn :: string
  prp_PerTryTimeout :: "float64 option"
  prp_NumRetries :: "uint32 option"
  prp_RetryBackoffBaseInterval :: "float64 option"

record PipyHTTPCircuitBreaking =
  pcb_StatTimeWindow :: "float64 option"
  pcb_MinRequestAmount :: uint32
  pcb_DegradedTimeWindow :: "float64 option"
  pcb_SlowTimeThreshold :: "float64 option"
  pcb_SlowAmountThreshold :: "uint32 option"
  pcb_SlowRatioThreshold :: "float32 option"
  pcb_ErrorAmountThreshold :: "uint32 option"
  pcb_ErrorRatioThreshold :: "float32 option"
  pcb_DegradedStatusCode :: "32 word option"
  pcb_DegradedResponseContent :: "string option"

record PipyHTTPConnectionSettings =
  phc_MaxRequests :: "uint32 option"
  phc_MaxRequestsPerConnection :: "uint32 option"
  phc_MaxPendingRequests :: "uint32 option"
  phc_MaxRetries :: "uint32 option"
  phc_CircuitBreaking :: "PipyHTTPCircuitBreaking option"

record PipyTCPConnectionSettings =
  ptc_MaxConnections :: "uint32 option"
  ptc_ConnectTimeout :: "float64 option"

record PipyConnectionSettings =
  pcs_TCP :: "PipyTCPConnectionSettings option"
  pcs_HTTP :: "PipyHTTPConnectionSettings option"

record ClusterConfig =
  pcc_Endpoints :: "string \<rightharpoonup> WeightedZoneEndpoint"
  pcc_ConnectionSettings :: "PipyConnectionSettings option"
  pcc_RetryPolicy :: "PipyRetryPolicy option"
  pcc_SourceCert :: "Certificate option"
  pcc_Hash :: uint64

record EgressGatewayClusterConfigs = ClusterConfig +
  peg_Mode :: string

record PipyOutboundTrafficPolicy =
  pop_namedTrafficMatches :: "string \<rightharpoonup> OutboundTrafficMatch"
  pop_TrafficMatches :: "Port \<rightharpoonup> string list"
  pop_ClustersConfigs :: "string \<rightharpoonup> ClusterConfig"

record ForwardTrafficPolicy =
  pfw_ForwardMatches :: "string \<rightharpoonup> (string \<rightharpoonup> Weight)"
  pfw_EgressGateways :: "string \<rightharpoonup> EgressGatewayClusterConfigs"

subsection \<open>The configuration\<close>

text \<open>A \<open>corev1.Probe\<close> is an opaque value of the Kubernetes API.\<close>

typedecl Probe

record PipyTrafficSpec =
  pts_EnableEgress :: bool
  pts_enablePermissiveTrafficPolicyMode :: bool
  pts_HTTP1PerRequestLoadBalancing :: bool
  pts_HTTP2PerRequestLoadBalancing :: bool

record PipyTracingSpec =
  ptx_Address :: string
  ptx_Endpoint :: string
  ptx_SampledFraction :: string

record PipyRemoteLoggingSpec =
  pre_Level :: uint16
  pre_Address :: string
  pre_Endpoint :: string
  pre_Authorization :: string
  pre_SampledFraction :: string

record MeshConfigSpec =
  psp_ServiceIdentity :: ServiceIdentity
  psp_SidecarLogLevel :: string
  psp_SidecarTimeout :: int
  psp_Traffic :: PipyTrafficSpec
  psp_EnableSidecarActiveHealthChecks :: bool
  psp_EnableAutoDefaultRoute :: bool
  psp_ReadinessProbes :: "Probe list"
  psp_LivenessProbes :: "Probe list"
  psp_StartupProbes :: "Probe list"
  psp_ClusterSet :: "string \<rightharpoonup> string"
  psp_Tracing :: "PipyTracingSpec option"
  psp_RemoteLogging :: "PipyRemoteLoggingSpec option"
  psp_sidecarCompressConfig :: bool

record PipyConf =
  pc_Version :: "string option"
  pc_Metrics :: bool
  pc_Spec :: MeshConfigSpec
  pc_Certificate :: "Certificate option"
  pc_Inbound :: "PipyInboundTrafficPolicy option"
  pc_Outbound :: "PipyOutboundTrafficPolicy option"
  pc_Forward :: "ForwardTrafficPolicy option"
  pc_AllowedEndpoints :: "string \<rightharpoonup> string"
  pc_Chains :: "(string \<rightharpoonup> string list) option"
  pc_PluginSetV :: string
  pc_pluginPolicies :: "string \<rightharpoonup> (string \<rightharpoonup> (string \<rightharpoonup> RawExtension option))"
  pc_hashNameSet :: "(uint64 \<times> nat) list"
  pc_dnsResolveDB :: "string \<rightharpoonup> string list"

section \<open>Operations\<close>

subsection \<open>Empty values\<close>

text \<open>What \<open>new(T)\<close> allocates.\<close>

definition new_HTTPMatchRule :: HTTPMatchRule where
  "new_HTTPMatchRule = \<lparr>pmr_Path = '''', pmr_Type = '''', pmr_Headers = Map.empty, pmr_Methods = [],
     pmr_allowedAnyService = False, pmr_allowedAnyMethod = False\<rparr>"

definition new_InboundHTTPRouteRule :: InboundHTTPRouteRule where
  "new_InboundHTTPRouteRule = \<lparr>prr_HTTPMatchRule = new_HTTPMatchRule, prr_TargetClusters = Map.empty,
     prr_AllowedServices = [], pir_RateLimit = None\<rparr>"

definition new_OutboundHTTPRouteRule :: OutboundHTTPRouteRule where
  "new_OutboundHTTPRouteRule = \<lparr>prr_HTTPMatchRule = new_HTTPMatchRule, prr_TargetClusters = Map.empty,
     prr_AllowedServices = []\<rparr>"

definition new_InboundHTTPRouteRules :: InboundHTTPRouteRules where
  "new_InboundHTTPRouteRules = \<lparr>pis_RouteRules = [], pis_Plugins = Map.empty, pis_HTTPRateLimit = None,
     pis_AllowedEndpoints = Map.empty\<rparr>"

definition new_OutboundHTTPRouteRules :: OutboundHTTPRouteRules where
  "new_OutboundHTTPRouteRules =
     \<lparr>pos_RouteRules = [], pos_EgressForwardGateway = None, pos_Plugins = Map.empty\<rparr>"

definition new_InboundTrafficMatch :: InboundTrafficMatch where
  "new_InboundTrafficMatch = \<lparr>pim_Port = 0, pim_Protocol = '''', pim_SourceIPRanges = Map.empty,
     pim_HTTPHostPort2Service = Map.empty, pim_HTTPServiceRouteRules = Map.empty,
     pim_TCPServiceRouteRules = None, pim_TCPRateLimit = None\<rparr>"

definition new_OutboundTrafficMatch :: OutboundTrafficMatch where
  "new_OutboundTrafficMatch = \<lparr>pom_DestinationIPRanges = Map.empty, pom_Port = 0, pom_Protocol = '''',
     pom_HTTPHostPort2Service = Map.empty, pom_HTTPServiceRouteRules = Map.empty,
     pom_TCPServiceRouteRules = None\<rparr>"

definition new_ClusterConfig :: ClusterConfig where
  "new_ClusterConfig = \<lparr>pcc_Endpoints = Map.empty, pcc_ConnectionSettings = None,
     pcc_RetryPolicy = None, pcc_SourceCert = None, pcc_Hash = 0\<rparr>"

definition new_Certificate :: Certificate where
  "new_Certificate = \<lparr>pcert_FsmIssued = None, pcert_CommonName = None, pcert_SubjectAltNames = [],
     pcert_Expiration = '''', pcert_CertChain = '''', pcert_PrivateKey = '''', pcert_IssuingCA = ''''\<rparr>"

definition new_InboundTrafficPolicy :: PipyInboundTrafficPolicy where
  "new_InboundTrafficPolicy = \<lparr>pip_TrafficMatches = Map.empty, pip_ClustersConfigs = Map.empty\<rparr>"

definition new_OutboundTrafficPolicy :: PipyOutboundTrafficPolicy where
  "new_OutboundTrafficPolicy = \<lparr>pop_namedTrafficMatches = Map.empty, pop_TrafficMatches = Map.empty,
     pop_ClustersConfigs = Map.empty\<rparr>"

definition new_ForwardTrafficPolicy :: ForwardTrafficPolicy where
  "new_ForwardTrafficPolicy = \<lparr>pfw_ForwardMatches = Map.empty, pfw_EgressGateways = Map.empty\<rparr>"

definition new_PipyConf :: PipyConf where
  "new_PipyConf = \<lparr>pc_Version = None, pc_Metrics = False,
     pc_Spec = \<lparr>psp_ServiceIdentity = '''', psp_SidecarLogLevel = '''', psp_SidecarTimeout = 0,
       psp_Traffic = \<lparr>pts_EnableEgress = False, pts_enablePermissiveTrafficPolicyMode = False,
         pts_HTTP1PerRequestLoadBalancing = False, pts_HTTP2PerRequestLoadBalancing = False\<rparr>,
       psp_EnableSidecarActiveHealthChecks = False, psp_EnableAutoDefaultRoute = False,
       psp_ReadinessProbes = [], psp_LivenessProbes = [], psp_StartupProbes = [],
       psp_ClusterSet = Map.empty, psp_Tracing = None, psp_RemoteLogging = None,
       psp_sidecarCompressConfig = False\<rparr>,
     pc_Certificate = None, pc_Inbound = None, pc_Outbound = None, pc_Forward = None,
     pc_AllowedEndpoints = Map.empty, pc_Chains = None, pc_PluginSetV = '''',
     pc_pluginPolicies = Map.empty, pc_hashNameSet = [], pc_dnsResolveDB = Map.empty\<rparr>"

subsection \<open>Rate limits\<close>

definition unit_seconds :: "string \<Rightarrow> float64" where
  "unit_seconds u = (if u = ''second'' then 1 else if u = ''minute'' then 60
     else if u = ''hour'' then 3600 else 0)"

definition newTCPLocalRateLimit :: "TCPLocalRateLimitSpec option \<Rightarrow> TCPLocalRateLimit option" where
  "newTCPLocalRateLimit spec = (case spec of
       None \<Rightarrow> None
     | Some s \<Rightarrow> Some \<lparr>ptl_Connections = tl_Connections s, ptl_StatTimeWindow = unit_seconds (tl_Unit s),
         ptl_Burst = tl_Burst s\<rparr>)"

definition newTCPRateLimit :: "LocalRateLimitSpec option \<Rightarrow> TCPRateLimit option" where
  "newTCPRateLimit spec = (case spec of
       None \<Rightarrow> None
     | Some s \<Rightarrow> if lr_TCP s = None then None else Some \<lparr>ptr_Local = newTCPLocalRateLimit (lr_TCP s)\<rparr>)"

definition newHTTPLocalRateLimit :: "HTTPLocalRateLimitSpec option \<Rightarrow> HTTPLocalRateLimit option" where
  "newHTTPLocalRateLimit spec = (case spec of
       None \<Rightarrow> None
     | Some s \<Rightarrow> Some \<lparr>phl_Requests = hl_Requests s, phl_StatTimeWindow = unit_seconds (hl_Unit s),
         phl_Burst = hl_Burst s, phl_ResponseStatusCode = hl_ResponseStatusCode s,
         phl_ResponseHeadersToAdd = hl_ResponseHeadersToAdd s\<rparr>)"

definition newHTTPRateLimit :: "LocalRateLimitSpec option \<Rightarrow> HTTPRateLimit option" where
  "newHTTPRateLimit spec = (case spec of
       None \<Rightarrow> None
     | Some s \<Rightarrow> if lr_HTTP s = None then None else Some \<lparr>phr_Local = newHTTPLocalRateLimit (lr_HTTP s)\<rparr>)"

definition newHTTPPerRouteRateLimit :: "HTTPPerRouteRateLimitSpec option \<Rightarrow> HTTPPerRouteRateLimit option" where
  "newHTTPPerRouteRateLimit spec =
     map_option (\<lambda>s. \<lparr>ppr_Local = newHTTPLocalRateLimit (hp_Local s)\<rparr>) spec"

subsection \<open>Match and route rules\<close>

definition addHeaderMatch :: "string \<Rightarrow> string \<Rightarrow> HTTPMatchRule \<Rightarrow> HTTPMatchRule" where
  "addHeaderMatch header headerRegexp hmr = hmr\<lparr>pmr_Headers := (pmr_Headers hmr)(header \<mapsto> headerRegexp)\<rparr>"

definition addMethodMatch :: "string \<Rightarrow> HTTPMatchRule \<Rightarrow> HTTPMatchRule" where
  "addMethodMatch method hmr =
     (if pmr_allowedAnyMethod hmr then hmr
      else if method = ''*'' then hmr\<lparr>pmr_allowedAnyMethod := True, pmr_Methods := []\<rparr>
      else hmr\<lparr>pmr_Methods := pmr_Methods hmr @ [method]\<rparr>)"

definition addWeightedCluster :: "string \<Rightarrow> Weight \<Rightarrow> ('a) HTTPRouteRule_scheme \<Rightarrow> 'a HTTPRouteRule_scheme" where
  "addWeightedCluster clusterName weight hrr =
     hrr\<lparr>prr_TargetClusters := (prr_TargetClusters hrr)(clusterName \<mapsto> weight)\<rparr>"

definition addAllowedService :: "string \<Rightarrow> ('a) HTTPRouteRule_scheme \<Rightarrow> 'a HTTPRouteRule_scheme" where
  "addAllowedService serviceName hrr =
     (if pmr_allowedAnyService (prr_HTTPMatchRule hrr) then hrr
      else if serviceName = ''*'' then
        hrr\<lparr>prr_HTTPMatchRule := (prr_HTTPMatchRule hrr)\<lparr>pmr_allowedAnyService := True\<rparr>,
            prr_AllowedServices := []\<rparr>
      else hrr\<lparr>prr_AllowedServices := prr_AllowedServices hrr @ [serviceName]\<rparr>)"

definition setRateLimit :: "HTTPPerRouteRateLimitSpec option \<Rightarrow> InboundHTTPRouteRule \<Rightarrow> InboundHTTPRouteRule" where
  "setRateLimit rateLimit ihrr = ihrr\<lparr>pir_RateLimit := newHTTPPerRouteRateLimit rateLimit\<rparr>"

definition setHTTPServiceRateLimit :: "RateLimitSpec option \<Rightarrow> InboundHTTPRouteRules \<Rightarrow> InboundHTTPRouteRules" where
  "setHTTPServiceRateLimit rateLimit hrrs =
     hrrs\<lparr>pis_HTTPRateLimit := (case rateLimit of
         None \<Rightarrow> None
       | Some r \<Rightarrow> if rl_Local r = None then None else newHTTPRateLimit (rl_Local r))\<rparr>"

definition addAllowedEndpoint :: "string \<Rightarrow> string \<Rightarrow> InboundHTTPRouteRules \<Rightarrow> InboundHTTPRouteRules" where
  "addAllowedEndpoint address serviceName hrrs =
     (case pis_AllowedEndpoints hrrs address of
        None \<Rightarrow> hrrs\<lparr>pis_AllowedEndpoints := (pis_AllowedEndpoints hrrs)(address \<mapsto> serviceName)\<rparr>
      | Some _ \<Rightarrow> hrrs)"

text \<open>The position of the first route rule with exactly this match rule, if there is one; both
  variants of \<open>newHTTPServiceRouteRule\<close> return it, or append a fresh rule.  The comparison includes
  the unexported fields, so a rule that already allows any service is not found again.\<close>

fun rule_index :: "HTTPMatchRule \<Rightarrow> ('a) HTTPRouteRule_scheme list \<Rightarrow> nat option" where
  "rule_index m [] = None"
| "rule_index m (r # rs) = (if m = prr_HTTPMatchRule r then Some 0 else map_option Suc (rule_index m rs))"

definition inbound_newHTTPServiceRouteRule ::
  "HTTPMatchRule \<Rightarrow> InboundHTTPRouteRules \<Rightarrow> InboundHTTPRouteRules \<times> nat \<times> bool" where
  "inbound_newHTTPServiceRouteRule matchRule hrrs =
     (case rule_index matchRule (pis_RouteRules hrrs) of
        Some i \<Rightarrow> (hrrs, i, True)
      | None \<Rightarrow> (hrrs\<lparr>pis_RouteRules := pis_RouteRules hrrs @
            [new_InboundHTTPRouteRule\<lparr>prr_HTTPMatchRule := matchRule\<rparr>]\<rparr>,
          length (pis_RouteRules hrrs), False))"

definition outbound_newHTTPServiceRouteRule ::
  "HTTPMatchRule \<Rightarrow> OutboundHTTPRouteRules \<Rightarrow> OutboundHTTPRouteRules \<times> nat \<times> bool" where
  "outbound_newHTTPServiceRouteRule matchRule hrrs =
     (case rule_index matchRule (pos_RouteRules hrrs) of
        Some i \<Rightarrow> (hrrs, i, True)
      | None \<Rightarrow> (hrrs\<lparr>pos_RouteRules := pos_RouteRules hrrs @
            [new_OutboundHTTPRouteRule\<lparr>prr_HTTPMatchRule := matchRule\<rparr>]\<rparr>,
          length (pos_RouteRules hrrs), False))"

text \<open>An assignment through the pointer that \<open>newHTTPServiceRouteRule\<close> returned.\<close>

definition at_rule :: "nat \<Rightarrow> (InboundHTTPRouteRule \<Rightarrow> InboundHTTPRouteRule) \<Rightarrow>
  InboundHTTPRouteRules \<Rightarrow> InboundHTTPRouteRules" where
  "at_rule i f hrrs = hrrs\<lparr>pis_RouteRules := (pis_RouteRules hrrs)[i := f (pis_RouteRules hrrs ! i)]\<rparr>"

definition at_outbound_rule :: "nat \<Rightarrow> (OutboundHTTPRouteRule \<Rightarrow> OutboundHTTPRouteRule) \<Rightarrow>
  OutboundHTTPRouteRules \<Rightarrow> OutboundHTTPRouteRules" where
  "at_outbound_rule i f hrrs =
     hrrs\<lparr>pos_RouteRules := (pos_RouteRules hrrs)[i := f (pos_RouteRules hrrs ! i)]\<rparr>"

subsection \<open>Traffic matches\<close>

definition addSourceIPRange :: "string \<Rightarrow> SourceSecuritySpec option \<Rightarrow> InboundTrafficMatch \<Rightarrow> InboundTrafficMatch" where
  "addSourceIPRange ipRange sourceSpec itm =
     (case pim_SourceIPRanges itm ipRange of
        None \<Rightarrow> itm\<lparr>pim_SourceIPRanges := (pim_SourceIPRanges itm)(ipRange \<mapsto> sourceSpec)\<rparr>
      | Some _ \<Rightarrow> itm)"

definition addDestinationIPRange ::
  "string \<Rightarrow> DestinationSecuritySpec option \<Rightarrow> OutboundTrafficMatch \<Rightarrow> OutboundTrafficMatch" where
  "addDestinationIPRange ipRange destinationSpec otm =
     (case pom_DestinationIPRanges otm ipRange of
        None \<Rightarrow> otm\<lparr>pom_DestinationIPRanges := (pom_DestinationIPRanges otm)(ipRange \<mapsto> destinationSpec)\<rparr>
      | Some _ \<Rightarrow> otm)"

definition sidecar_protocol :: "string \<Rightarrow> string" where
  "sidecar_protocol protocol =
     (let protocol = ToLower protocol in
      if ProtocolTCPServerFirst = protocol then ProtocolTCP else protocol)"

definition inbound_setProtocol :: "string \<Rightarrow> InboundTrafficMatch \<Rightarrow> InboundTrafficMatch" where
  "inbound_setProtocol protocol itm = itm\<lparr>pim_Protocol := sidecar_protocol protocol\<rparr>"

definition outbound_setProtocol :: "string \<Rightarrow> OutboundTrafficMatch \<Rightarrow> OutboundTrafficMatch" where
  "outbound_setProtocol protocol otm = otm\<lparr>pom_Protocol := sidecar_protocol protocol\<rparr>"

definition inbound_setPort :: "Port \<Rightarrow> InboundTrafficMatch \<Rightarrow> InboundTrafficMatch" where
  "inbound_setPort port itm = itm\<lparr>pim_Port := port\<rparr>"

definition outbound_setPort :: "Port \<Rightarrow> OutboundTrafficMatch \<Rightarrow> OutboundTrafficMatch" where
  "outbound_setPort port otm = otm\<lparr>pom_Port := port\<rparr>"

definition setTCPServiceRateLimit :: "RateLimitSpec option \<Rightarrow> InboundTrafficMatch \<Rightarrow> InboundTrafficMatch" where
  "setTCPServiceRateLimit rateLimit itm =
     itm\<lparr>pim_TCPRateLimit := (case rateLimit of
         None \<Rightarrow> None
       | Some r \<Rightarrow> if rl_Local r = None then None else newTCPRateLimit (rl_Local r))\<rparr>"

definition inbound_newTCPServiceRouteRules :: "InboundTrafficMatch \<Rightarrow> InboundTCPServiceRouteRules" where
  "inbound_newTCPServiceRouteRules itm =
     (case pim_TCPServiceRouteRules itm of
        None \<Rightarrow> \<lparr>pit_TargetClusters = Map.empty, pit_Plugins = Map.empty\<rparr> | Some t \<Rightarrow> t)"

definition outbound_newTCPServiceRouteRules :: "OutboundTrafficMatch \<Rightarrow> OutboundTCPServiceRouteRules" where
  "outbound_newTCPServiceRouteRules otm =
     (case pom_TCPServiceRouteRules otm of
        None \<Rightarrow> \<lparr>pot_TargetClusters = Map.empty, pot_AllowedEgressTraffic = False,
                  pot_EgressForwardGateway = None, pot_Plugins = Map.empty\<rparr>
      | Some t \<Rightarrow> t)"

definition inbound_tcp_addWeightedCluster ::
  "string \<Rightarrow> Weight \<Rightarrow> InboundTCPServiceRouteRules \<Rightarrow> InboundTCPServiceRouteRules" where
  "inbound_tcp_addWeightedCluster clusterName weight srr =
     srr\<lparr>pit_TargetClusters := (pit_TargetClusters srr)(clusterName \<mapsto> weight)\<rparr>"

definition outbound_tcp_addWeightedCluster ::
  "string \<Rightarrow> Weight \<Rightarrow> OutboundTCPServiceRouteRules \<Rightarrow> OutboundTCPServiceRouteRules" where
  "outbound_tcp_addWeightedCluster clusterName weight srr =
     srr\<lparr>pot_TargetClusters := (pot_TargetClusters srr)(clusterName \<mapsto> weight)\<rparr>"

text \<open>A host name shared by several rules goes to the one with the shorter name, of two names of the
  same length to the smaller; outbound, two names that both end in the desired suffix are compared
  by length alone.\<close>

definition inbound_prefers :: "HTTPRouteRuleRef \<Rightarrow> HTTPRouteRuleRef \<Rightarrow> bool" where
  "inbound_prefers ruleRef preRuleRef \<longleftrightarrow>
     (let clen = length (pref_RuleName ruleRef); plen = length (pref_RuleName preRuleRef) in
      clen < plen \<or> clen = plen \<and> pref_RuleName ruleRef < pref_RuleName preRuleRef)"

definition inbound_addHTTPHostPort2Service ::
  "string \<Rightarrow> HTTPRouteRuleRef \<Rightarrow> InboundTrafficMatch \<Rightarrow> InboundTrafficMatch" where
  "inbound_addHTTPHostPort2Service hostPort ruleRef itm =
     (if (case pim_HTTPHostPort2Service itm hostPort of None \<Rightarrow> True | Some pre \<Rightarrow> inbound_prefers ruleRef pre)
      then itm\<lparr>pim_HTTPHostPort2Service := (pim_HTTPHostPort2Service itm)(hostPort \<mapsto> ruleRef)\<rparr>
      else itm)"

definition outbound_prefers :: "string \<Rightarrow> HTTPRouteRuleRef \<Rightarrow> HTTPRouteRuleRef \<Rightarrow> bool" where
  "outbound_prefers desiredSuffix ruleRef preRuleRef \<longleftrightarrow>
     (let clen = length (pref_RuleName ruleRef); plen = length (pref_RuleName preRuleRef) in
      if length desiredSuffix > 0 \<and> suffix desiredSuffix (pref_RuleName ruleRef) \<and>
         suffix desiredSuffix (pref_RuleName preRuleRef)
      then clen < plen
      else clen < plen \<or> clen = plen \<and> pref_RuleName ruleRef < pref_RuleName preRuleRef)"

definition outbound_addHTTPHostPort2Service ::
  "string \<Rightarrow> HTTPRouteRuleRef \<Rightarrow> string \<Rightarrow> OutboundTrafficMatch \<Rightarrow> OutboundTrafficMatch" where
  "outbound_addHTTPHostPort2Service hostPort ruleRef desiredSuffix otm =
     (if (case pom_HTTPHostPort2Service otm hostPort of
            None \<Rightarrow> True | Some pre \<Rightarrow> outbound_prefers desiredSuffix ruleRef pre)
      then otm\<lparr>pom_HTTPHostPort2Service := (pom_HTTPHostPort2Service otm)(hostPort \<mapsto> ruleRef)\<rparr>
      else otm)"

text \<open>\<open>newHTTPServiceRouteRules\<close> returns nil for the empty rule name, and the entry otherwise; the
  caller stores the entry again after changing it.\<close>

definition inbound_newHTTPServiceRouteRules ::
  "HTTPRouteRuleRef \<Rightarrow> InboundTrafficMatch \<Rightarrow> InboundHTTPRouteRules option" where
  "inbound_newHTTPServiceRouteRules ruleRef itm =
     (if length (pref_RuleName ruleRef) = 0 then None
      else Some (case pim_HTTPServiceRouteRules itm (pref_RuleName ruleRef) of
          None \<Rightarrow> new_InboundHTTPRouteRules | Some rules \<Rightarrow> rules))"

definition outbound_newHTTPServiceRouteRules ::
  "HTTPRouteRuleRef \<Rightarrow> OutboundTrafficMatch \<Rightarrow> OutboundHTTPRouteRules option" where
  "outbound_newHTTPServiceRouteRules ruleRef otm =
     (if length (pref_RuleName ruleRef) = 0 then None
      else Some (case pom_HTTPServiceRouteRules otm (pref_RuleName ruleRef) of
          None \<Rightarrow> new_OutboundHTTPRouteRules | Some rules \<Rightarrow> rules))"

definition put_route_rules :: "string \<Rightarrow> InboundHTTPRouteRules \<Rightarrow> InboundTrafficMatch \<Rightarrow> InboundTrafficMatch" where
  "put_route_rules name hrrs itm =
     itm\<lparr>pim_HTTPServiceRouteRules := (pim_HTTPServiceRouteRules itm)(name \<mapsto> hrrs)\<rparr>"

definition put_outbound_route_rules ::
  "string \<Rightarrow> OutboundHTTPRouteRules \<Rightarrow> OutboundTrafficMatch \<Rightarrow> OutboundTrafficMatch" where
  "put_outbound_route_rules name hrrs otm =
     otm\<lparr>pom_HTTPServiceRouteRules := (pom_HTTPServiceRouteRules otm)(name \<mapsto> hrrs)\<rparr>"

subsection \<open>Policies\<close>

definition getTrafficMatch :: "PipyInboundTrafficPolicy \<Rightarrow> Port \<Rightarrow> InboundTrafficMatch option" where
  "getTrafficMatch itp port = pip_TrafficMatches itp port"

definition inbound_newTrafficMatch :: "PipyInboundTrafficPolicy \<Rightarrow> Port \<Rightarrow> InboundTrafficMatch" where
  "inbound_newTrafficMatch itp port =
     (case pip_TrafficMatches itp port of None \<Rightarrow> new_InboundTrafficMatch | Some tm \<Rightarrow> tm)"

definition put_traffic_match ::
  "Port \<Rightarrow> InboundTrafficMatch \<Rightarrow> PipyInboundTrafficPolicy \<Rightarrow> PipyInboundTrafficPolicy" where
  "put_traffic_match port tm itp =
     itp\<lparr>pip_TrafficMatches := (pip_TrafficMatches itp)(port \<mapsto> tm)\<rparr>"

definition namedPort :: "Port \<Rightarrow> string \<Rightarrow> string" where
  "namedPort port name = fmt_u16 port @ ''='' @ name"

definition outbound_newTrafficMatch ::
  "Port \<Rightarrow> string \<Rightarrow> PipyOutboundTrafficPolicy \<Rightarrow> PipyOutboundTrafficPolicy \<times> bool" where
  "outbound_newTrafficMatch port name otp =
     (case pop_namedTrafficMatches otp (namedPort port name) of
        Some _ \<Rightarrow> (otp, True)
      | None \<Rightarrow> (otp\<lparr>pop_namedTrafficMatches :=
                       (pop_namedTrafficMatches otp)(namedPort port name \<mapsto> new_OutboundTrafficMatch),
                     pop_TrafficMatches := (pop_TrafficMatches otp)(port \<mapsto>
                       (case pop_TrafficMatches otp port of None \<Rightarrow> [] | Some ms \<Rightarrow> ms) @ [namedPort port name])\<rparr>,
                 False))"

definition at_named_match :: "string \<Rightarrow> (OutboundTrafficMatch \<Rightarrow> OutboundTrafficMatch) \<Rightarrow>
  PipyOutboundTrafficPolicy \<Rightarrow> PipyOutboundTrafficPolicy" where
  "at_named_match key f otp = otp\<lparr>pop_namedTrafficMatches :=
     (pop_namedTrafficMatches otp)(key := map_option f (pop_namedTrafficMatches otp key))\<rparr>"

definition inbound_newClusterConfigs :: "PipyInboundTrafficPolicy \<Rightarrow> string \<Rightarrow> WeightedEndpoint" where
  "inbound_newClusterConfigs itp clusterName =
     (case pip_ClustersConfigs itp clusterName of None \<Rightarrow> Map.empty | Some c \<Rightarrow> c)"

definition outbound_newClusterConfigs :: "PipyOutboundTrafficPolicy \<Rightarrow> string \<Rightarrow> ClusterConfig" where
  "outbound_newClusterConfigs otp clusterName =
     (case pop_ClustersConfigs otp clusterName of None \<Rightarrow> new_ClusterConfig | Some c \<Rightarrow> c)"

definition put_cluster :: "string \<Rightarrow> ClusterConfig \<Rightarrow> PipyOutboundTrafficPolicy \<Rightarrow> PipyOutboundTrafficPolicy" where
  "put_cluster clusterName c otp =
     otp\<lparr>pop_ClustersConfigs := (pop_ClustersConfigs otp)(clusterName \<mapsto> c)\<rparr>"

definition newForwardMatch :: "ForwardTrafficPolicy \<Rightarrow> string \<Rightarrow> (string \<rightharpoonup> Weight)" where
  "newForwardMatch ftp rule = (case pfw_ForwardMatches ftp rule of None \<Rightarrow> Map.empty | Some m \<Rightarrow> m)"

definition newEgressGateway :: "ForwardTrafficPolicy \<Rightarrow> string \<Rightarrow> string \<Rightarrow> EgressGatewayClusterConfigs" where
  "newEgressGateway ftp clusterName mode =
     (case pfw_EgressGateways ftp clusterName of
        None \<Rightarrow> \<lparr>pcc_Endpoints = Map.empty, pcc_ConnectionSettings = None, pcc_RetryPolicy = None,
                 pcc_SourceCert = None, pcc_Hash = 0, peg_Mode = mode\<rparr>
      | Some c \<Rightarrow> c)"

subsection \<open>Clusters\<close>

text \<open>The regular expression \<open>:\d+$\<close>: a colon and at least one digit at the end.\<close>

definition addrWithPort :: "string \<Rightarrow> bool" where
  "addrWithPort s \<longleftrightarrow>
     (let digits = takeWhile is_digit (rev s); rest = dropWhile is_digit (rev s) in
      digits \<noteq> [] \<and> rest \<noteq> [] \<and> hd rest = CHR '':'')"

definition host_port :: "string \<Rightarrow> Port \<Rightarrow> string" where
  "host_port address port = (if addrWithPort address then address else address @ '':'' @ fmt_u16 port)"

definition we_addWeightedEndpoint :: "string \<Rightarrow> Port \<Rightarrow> Weight \<Rightarrow> WeightedEndpoint \<Rightarrow> WeightedEndpoint" where
  "we_addWeightedEndpoint address port weight we = we(host_port address port \<mapsto> weight)"

definition zone_endpoint :: "Weight \<Rightarrow> string \<Rightarrow> string \<Rightarrow> string \<Rightarrow> string \<Rightarrow> WeightedZoneEndpoint" where
  "zone_endpoint weight cluster lbType contextPath viaGw =
     \<lparr>pze_Weight = weight, pze_Cluster = cluster, pze_LBType = lbType, pze_ContextPath = contextPath,
      pze_ViaGateway = viaGw\<rparr>"

definition addWeightedZoneEndpoint :: "string \<Rightarrow> Port \<Rightarrow> Weight \<Rightarrow> string \<Rightarrow> string \<Rightarrow> string \<Rightarrow> string \<Rightarrow>
  ('a) ClusterConfig_scheme \<Rightarrow> 'a ClusterConfig_scheme" where
  "addWeightedZoneEndpoint address port weight cluster lbType contextPath viaGw c =
     c\<lparr>pcc_Endpoints := (pcc_Endpoints c)
         (host_port address port \<mapsto> zone_endpoint weight cluster lbType contextPath viaGw)\<rparr>"

definition addWeightedEndpoint :: "string \<Rightarrow> Port \<Rightarrow> Weight \<Rightarrow> ('a) ClusterConfig_scheme \<Rightarrow> 'a ClusterConfig_scheme" where
  "addWeightedEndpoint address port weight c =
     c\<lparr>pcc_Endpoints := (pcc_Endpoints c)
         (host_port address port \<mapsto> zone_endpoint weight '''' '''' '''' '''')\<rparr>"

definition circuit_breaking :: "HTTPCircuitBreaking \<Rightarrow> PipyHTTPCircuitBreaking" where
  "circuit_breaking b =
     \<lparr>pcb_StatTimeWindow = map_option Seconds (cb_StatTimeWindow b),
      pcb_MinRequestAmount = cb_MinRequestAmount b,
      pcb_DegradedTimeWindow = map_option Seconds (cb_DegradedTimeWindow b),
      pcb_SlowTimeThreshold = map_option Seconds (cb_SlowTimeThreshold b),
      pcb_SlowAmountThreshold = cb_SlowAmountThreshold b,
      pcb_SlowRatioThreshold = cb_SlowRatioThreshold b,
      pcb_ErrorAmountThreshold = cb_ErrorAmountThreshold b,
      pcb_ErrorRatioThreshold = cb_ErrorRatioThreshold b,
      pcb_DegradedStatusCode = cb_DegradedStatusCode b,
      pcb_DegradedResponseContent = cb_DegradedResponseContent b\<rparr>"

definition setConnectionSettings :: "ConnectionSettingsSpec option \<Rightarrow> ClusterConfig \<Rightarrow> ClusterConfig" where
  "setConnectionSettings connectionSettings c =
     c\<lparr>pcc_ConnectionSettings := (case connectionSettings of
         None \<Rightarrow> None
       | Some cs \<Rightarrow> Some
           \<lparr>pcs_TCP = map_option (\<lambda>t. \<lparr>ptc_MaxConnections = tc_MaxConnections t,
                ptc_ConnectTimeout = map_option Seconds (tc_ConnectTimeout t)\<rparr>) (cs_TCP cs),
            pcs_HTTP = map_option (\<lambda>h. \<lparr>phc_MaxRequests = hc_MaxRequests h,
                phc_MaxRequestsPerConnection = hc_MaxRequestsPerConnection h,
                phc_MaxPendingRequests = hc_MaxPendingRequests h,
                phc_MaxRetries = hc_MaxRetries h,
                phc_CircuitBreaking = map_option circuit_breaking (hc_CircuitBreaking h)\<rparr>) (cs_HTTP cs)\<rparr>)\<rparr>"

text \<open>The two durations of a retry policy are optional pointers, which the code dereferences.\<close>

definition setRetryPolicy :: "RetryPolicySpec option \<Rightarrow> ClusterConfig \<Rightarrow> ClusterConfig option" where
  "setRetryPolicy retryPolicy c =
     (case retryPolicy of
        None \<Rightarrow> Some (c\<lparr>pcc_RetryPolicy := None\<rparr>)
      | Some r \<Rightarrow>
          (case rp_PerTryTimeout r of
             None \<Rightarrow> None
           | Some perTryTimeout \<Rightarrow>
               (case rp_RetryBackoffBaseInterval r of
                  None \<Rightarrow> None
                | Some interval \<Rightarrow> Some (c\<lparr>pcc_RetryPolicy := Some
                    \<lparr>prp_RetryOn = rp_RetryOn r, prp_PerTryTimeout = Some (Seconds perTryTimeout),
                     prp_NumRetries = rp_NumRetries r,
                     prp_RetryBackoffBaseInterval = Some (Seconds interval)\<rparr>\<rparr>))))"

definition cluster_MeshService :: "string \<Rightarrow> MeshService option" where
  "cluster_MeshService c =
     (let clusterNameSegs = Split CHR ''/'' c in
      if length clusterNameSegs < 2 then None
      else let nameSegs = Split CHR ''|'' (clusterNameSegs ! 1) in
        if length nameSegs < 2 then None
        else Some (plain_service (clusterNameSegs ! 0) (nameSegs ! 0)))"

definition host_of :: "string \<Rightarrow> string option" where
  "host_of hostPort =
     (let segs = Split CHR '':'' hostPort in if length segs < 2 then None else Some (segs ! 0))"

subsection \<open>The configuration and its settings\<close>

definition newInboundTrafficPolicy :: "PipyConf \<Rightarrow> PipyInboundTrafficPolicy" where
  "newInboundTrafficPolicy p = (case pc_Inbound p of None \<Rightarrow> new_InboundTrafficPolicy | Some i \<Rightarrow> i)"

definition newOutboundTrafficPolicy :: "PipyConf \<Rightarrow> PipyOutboundTrafficPolicy" where
  "newOutboundTrafficPolicy p = (case pc_Outbound p of None \<Rightarrow> new_OutboundTrafficPolicy | Some i \<Rightarrow> i)"

definition newForwardTrafficPolicy :: "PipyConf \<Rightarrow> ForwardTrafficPolicy" where
  "newForwardTrafficPolicy p = (case pc_Forward p of None \<Rightarrow> new_ForwardTrafficPolicy | Some i \<Rightarrow> i)"

definition isPermissiveTrafficPolicyMode :: "PipyConf \<Rightarrow> bool" where
  "isPermissiveTrafficPolicyMode p = pts_enablePermissiveTrafficPolicyMode (psp_Traffic (pc_Spec p))"

text \<open>The setters report whether they changed anything; the log level is compared without case.\<close>

definition at_spec :: "(MeshConfigSpec \<Rightarrow> MeshConfigSpec) \<Rightarrow> PipyConf \<Rightarrow> PipyConf" where
  "at_spec f p = p\<lparr>pc_Spec := f (pc_Spec p)\<rparr>"

definition at_traffic :: "(PipyTrafficSpec \<Rightarrow> PipyTrafficSpec) \<Rightarrow> PipyConf \<Rightarrow> PipyConf" where
  "at_traffic f = at_spec (\<lambda>s. s\<lparr>psp_Traffic := f (psp_Traffic s)\<rparr>)"

definition setServiceIdentity :: "ServiceIdentity \<Rightarrow> PipyConf \<Rightarrow> PipyConf \<times> bool" where
  "setServiceIdentity serviceIdentity p =
     (if psp_ServiceIdentity (pc_Spec p) \<noteq> serviceIdentity
      then (at_spec (\<lambda>s. s\<lparr>psp_ServiceIdentity := serviceIdentity\<rparr>) p, True) else (p, False))"

definition setSidecarLogLevel :: "string \<Rightarrow> PipyConf \<Rightarrow> PipyConf \<times> bool" where
  "setSidecarLogLevel sidecarLogLevel p =
     (if \<not> EqualFold (psp_SidecarLogLevel (pc_Spec p)) sidecarLogLevel
      then (at_spec (\<lambda>s. s\<lparr>psp_SidecarLogLevel := sidecarLogLevel\<rparr>) p, True) else (p, False))"

definition setSidecarTimeout :: "int \<Rightarrow> PipyConf \<Rightarrow> PipyConf \<times> bool" where
  "setSidecarTimeout sidecarTimeout p =
     (if psp_SidecarTimeout (pc_Spec p) \<noteq> sidecarTimeout
      then (at_spec (\<lambda>s. s\<lparr>psp_SidecarTimeout := sidecarTimeout\<rparr>) p, True) else (p, False))"

definition setSidecarCompressConfig :: "bool \<Rightarrow> PipyConf \<Rightarrow> PipyConf \<times> bool" where
  "setSidecarCompressConfig compressConfig p =
     (if psp_sidecarCompressConfig (pc_Spec p) \<noteq> compressConfig
      then (at_spec (\<lambda>s. s\<lparr>psp_sidecarCompressConfig := compressConfig\<rparr>) p, True) else (p, False))"

definition setEnableSidecarActiveHealthChecks :: "bool \<Rightarrow> PipyConf \<Rightarrow> PipyConf \<times> bool" where
  "setEnableSidecarActiveHealthChecks enable p =
     (if psp_EnableSidecarActiveHealthChecks (pc_Spec p) \<noteq> enable
      then (at_spec (\<lambda>s. s\<lparr>psp_EnableSidecarActiveHealthChecks := enable\<rparr>) p, True) else (p, False))"

definition setEnableAutoDefaultRoute :: "bool \<Rightarrow> PipyConf \<Rightarrow> PipyConf \<times> bool" where
  "setEnableAutoDefaultRoute enable p =
     (if psp_EnableAutoDefaultRoute (pc_Spec p) \<noteq> enable
      then (at_spec (\<lambda>s. s\<lparr>psp_EnableAutoDefaultRoute := enable\<rparr>) p, True) else (p, False))"

definition setEnableEgress :: "bool \<Rightarrow> PipyConf \<Rightarrow> PipyConf \<times> bool" where
  "setEnableEgress enable p =
     (if pts_EnableEgress (psp_Traffic (pc_Spec p)) \<noteq> enable
      then (at_traffic (\<lambda>t. t\<lparr>pts_EnableEgress := enable\<rparr>) p, True) else (p, False))"

definition setHTTP1PerRequestLoadBalancing :: "bool \<Rightarrow> PipyConf \<Rightarrow> PipyConf \<times> bool" where
  "setHTTP1PerRequestLoadBalancing enable p =
     (if pts_HTTP1PerRequestLoadBalancing (psp_Traffic (pc_Spec p)) \<noteq> enable
      then (at_traffic (\<lambda>t. t\<lparr>pts_HTTP1PerRequestLoadBalancing := enable\<rparr>) p, True) else (p, False))"

definition setHTTP2PerRequestLoadBalancing :: "bool \<Rightarrow> PipyConf \<Rightarrow> PipyConf \<times> bool" where
  "setHTTP2PerRequestLoadBalancing enable p =
     (if pts_HTTP2PerRequestLoadBalancing (psp_Traffic (pc_Spec p)) \<noteq> enable
      then (at_traffic (\<lambda>t. t\<lparr>pts_HTTP2PerRequestLoadBalancing := enable\<rparr>) p, True) else (p, False))"

definition setEnablePermissiveTrafficPolicyMode :: "bool \<Rightarrow> PipyConf \<Rightarrow> PipyConf \<times> bool" where
  "setEnablePermissiveTrafficPolicyMode enable p =
     (if pts_enablePermissiveTrafficPolicyMode (psp_Traffic (pc_Spec p)) \<noteq> enable
      then (at_traffic (\<lambda>t. t\<lparr>pts_enablePermissiveTrafficPolicyMode := enable\<rparr>) p, True) else (p, False))"

text \<open>The tracing and logging settings of the mesh configuration, as the configurator returns them;
  the sampled fraction is formatted already.\<close>

record TracingConf =
  trc_Host :: string
  trc_Port :: uint16
  trc_Endpoint :: string
  trc_SampledFraction :: string

record RemoteLoggingConf =
  rlc_Level :: uint16
  rlc_Host :: string
  rlc_Port :: uint16
  rlc_Endpoint :: string
  rlc_Authorization :: string

definition setObservabilityTracing :: "bool \<Rightarrow> TracingConf \<Rightarrow> PipyConf \<Rightarrow> PipyConf" where
  "setObservabilityTracing enable conf =
     at_spec (\<lambda>s. s\<lparr>psp_Tracing := if enable then Some
        \<lparr>ptx_Address = trc_Host conf @ '':'' @ fmt_u16 (trc_Port conf), ptx_Endpoint = trc_Endpoint conf,
         ptx_SampledFraction = trc_SampledFraction conf\<rparr> else None\<rparr>)"

definition setObservabilityRemoteLogging :: "bool \<Rightarrow> RemoteLoggingConf \<Rightarrow> PipyConf \<Rightarrow> PipyConf" where
  "setObservabilityRemoteLogging enable conf =
     at_spec (\<lambda>s. s\<lparr>psp_RemoteLogging := if enable then Some
        \<lparr>pre_Level = rlc_Level conf, pre_Address = rlc_Host conf @ '':'' @ fmt_u16 (rlc_Port conf),
         pre_Endpoint = rlc_Endpoint conf, pre_Authorization = rlc_Authorization conf,
         pre_SampledFraction = ''''\<rparr> else None\<rparr>)"

subsection \<open>Plug-in configurations of a traffic match\<close>

text \<open>The configurations mounted for a traffic match of this name: the service is the second segment
  of the name, the mount point is made of the first and the fourth.  The cases \<open>ingress\<close> and \<open>acl\<close> of
  the code's \<open>switch\<close> are empty, so only \<open>exp\<close> is mapped to \<open>inbound\<close>.\<close>

definition mount_direction :: "string \<Rightarrow> string" where
  "mount_direction seg = (if seg = ''exp'' then ''inbound'' else seg)"

definition getTrafficMatchPluginConfigs :: "PipyConf \<Rightarrow> string \<Rightarrow> Plugins option" where
  "getTrafficMatchPluginConfigs p trafficMatch =
     (let segs = Split CHR ''_'' trafficMatch in
      if length segs \<le> 3 then None
      else let mountPoint = mount_direction (segs ! 0) @ ''-'' @ segs ! 3 in
        Some (case pc_pluginPolicies p (segs ! 1) of
            None \<Rightarrow> Map.empty
          | Some plugin2MountPoint2Config \<Rightarrow>
              (\<lambda>pluginName. case plugin2MountPoint2Config pluginName of
                 None \<Rightarrow> None | Some mountPoint2Config \<Rightarrow> mountPoint2Config mountPoint)))"

end
