(* ===== verification/PipyInbound.thy ===== *)
theory PipyInbound
  imports PipyConf "HOL-Library.Product_Lexorder"
begin

text \<open>
  The inbound half of the sidecar configuration (\<open>pkg/sidecar/v1/providers/pipy/repo/util.go\<close>): the
  translation of inbound mesh, ingress, access control and export policies of the catalog into route
  rules, source ranges and local clusters, with every nil dereference and index error as \<open>None\<close>.
\<close>

section \<open>Translation of names and matches\<close>

text \<open>The connected proxy (\<open>pipy.Proxy\<close>), reduced to what the configuration depends on.\<close>

record ProxyMetadata =
  pmd_Name :: string
  pmd_Namespace :: string
  pmd_ServiceAccount :: K8sServiceAccount
  pmd_WorkloadKind :: string
  pmd_WorkloadName :: string
  pmd_ReadinessProbes :: "Probe list"
  pmd_LivenessProbes :: "Probe list"
  pmd_StartupProbes :: "Probe list"

record PipyProxy =
  ppx_UUID :: string
  ppx_Identity :: ServiceIdentity
  ppx_podName :: string
  ppx_podNamespace :: string
  ppx_Addr :: "string option"
  ppx_Deletion :: bool
  ppx_Metadata :: "ProxyMetadata option"
  ppx_ETag :: uint64
  ppx_VM :: bool
  ppx_MachineIP :: "string option"
  ppx_ClusterID :: string

text \<open>The iteration orders of the sets a policy carries, and of maps with string or port keys.\<close>

record SetOrder =
  so_Clusters :: "WeightedCluster set \<Rightarrow> WeightedCluster list"
  so_Principals :: "string set \<Rightarrow> string list"
  so_Keys :: "string set \<Rightarrow> string list"
  so_Ports :: "Port set \<Rightarrow> Port list"

definition fair_order :: "SetOrder \<Rightarrow> bool" where
  "fair_order ord \<longleftrightarrow> lists_elements (so_Clusters ord) \<and> lists_elements (so_Principals ord) \<and>
     lists_elements (so_Keys ord) \<and> lists_elements (so_Ports ord)"

definition matchType :: "PathMatchType \<Rightarrow> string" where
  "matchType t = (case t of
       PathMatchExact \<Rightarrow> URIMatchExact
     | PathMatchPrefix \<Rightarrow> URIMatchPrefix
     | PathMatchRegex \<Rightarrow> URIMatchRegex)"

text \<open>The match rule that all generators build from an HTTP route match.  Adding the headers one by
  one, in whatever order, gives the map of all of them.\<close>

definition http_match_rule :: "HTTPRouteMatch \<Rightarrow> HTTPMatchRule" where
  "http_match_rule m =
     (let httpMatch = new_HTTPMatchRule\<lparr>pmr_Path := hm_Path m, pmr_Type := matchType (hm_PathMatchType m)\<rparr>;
          httpMatch = (if length (pmr_Type httpMatch) = 0 then httpMatch\<lparr>pmr_Type := URIMatchRegex\<rparr> else httpMatch);
          httpMatch = (if length (pmr_Path httpMatch) = 0 then httpMatch\<lparr>pmr_Path := RegexMatchAll\<rparr> else httpMatch);
          httpMatch = httpMatch\<lparr>pmr_Headers := pmr_Headers httpMatch ++ hm_Headers m\<rparr>
      in if length (hm_Methods m) = 0 then addMethodMatch ''*'' httpMatch
         else fold addMethodMatch (hm_Methods m) httpMatch)"

definition trafficMatchToMeshSvc :: "TrafficMatch \<Rightarrow> MeshService option" where
  "trafficMatchToMeshSvc trafficMatch =
     (let chunks = Split CHR ''_'' (tm_Name trafficMatch) in
      if length chunks \<noteq> 5 then None
      else case NamespacedNameFrom (chunks ! 1) of
        None \<Rightarrow> None
      | Some namespacedName \<Rightarrow>
          Some ((plain_service (nn_Namespace namespacedName) (nn_Name namespacedName))
            \<lparr>ms_Protocol := ToLower (tm_DestinationProtocol trafficMatch),
             ms_TargetPort := u16 (tm_DestinationPort trafficMatch),
             ms_CloudAttachedNamespace := chunks ! 4\<rparr>))"

definition getMeshClusterConfigs :: "MeshClusterConfig list \<Rightarrow> string \<Rightarrow> MeshClusterConfig list" where
  "getMeshClusterConfigs clustersConfigs clusterName =
     concat (map (\<lambda>c.
       (if clusterName = SidecarClusterName (mcc_Service c) then [c] else [])
       @ (if clusterName = SidecarLocalClusterName (mcc_Service c) then [c] else [])) clustersConfigs)"

definition getInboundHTTPRouteConfigs ::
  "(int \<rightharpoonup> InboundTrafficPolicy list) \<Rightarrow> int \<Rightarrow> string \<Rightarrow> InboundTrafficPolicy option" where
  "getInboundHTTPRouteConfigs httpRouteConfigsPerPort targetPort upstreamPolicyName =
     (case httpRouteConfigsPerPort targetPort of
        None \<Rightarrow> None
      | Some httpRouteConfigs \<Rightarrow> find (\<lambda>c. itp_Name c = upstreamPolicyName) httpRouteConfigs)"

section \<open>Inbound mesh policies\<close>

definition route_clusters :: "SetOrder \<Rightarrow> RouteWeightedClusters \<Rightarrow> ('a) HTTPRouteRule_scheme \<Rightarrow> 'a HTTPRouteRule_scheme" where
  "route_clusters ord route hsrr =
     fold (\<lambda>wc. addWeightedCluster (wc_ClusterName wc) (word_of_int (wc_Weight wc)))
       (so_Clusters ord (rwc_WeightedClusters route)) hsrr"

definition inbound_principal ::
  "MeshCatalog \<Rightarrow> PipyConf \<Rightarrow> string \<Rightarrow> nat \<Rightarrow> string \<Rightarrow> InboundHTTPRouteRules \<Rightarrow> InboundHTTPRouteRules option" where
  "inbound_principal mc pipyConf trustDomain i servicePrincipal hsrrs =
     (let serviceIdentity = FromPrincipal servicePrincipal trustDomain;
          hsrrs = at_rule i (addAllowedService serviceIdentity) hsrrs
      in if WildcardPrincipal = servicePrincipal \<or> isPermissiveTrafficPolicyMode pipyConf then Some hsrrs
         else case listEndpointsForServiceIdentity mc serviceIdentity of
           None \<Rightarrow> None
         | Some eps \<Rightarrow> Some (fold (\<lambda>ep. addAllowedEndpoint (IP_String (ep_IP ep)) serviceIdentity) eps hsrrs))"

definition inbound_http_rule ::
  "SetOrder \<Rightarrow> MeshCatalog \<Rightarrow> PipyConf \<Rightarrow> string \<Rightarrow> Rule \<Rightarrow> InboundHTTPRouteRules \<Rightarrow> InboundHTTPRouteRules option" where
  "inbound_http_rule ord mc pipyConf trustDomain rule hsrrs =
     (let route = rule_Route rule in
      if length (hm_Path (rwc_HTTPRouteMatch route)) = 0 then Some hsrrs
      else let (hsrrs, i, duplicate) =
               inbound_newHTTPServiceRouteRule (http_match_rule (rwc_HTTPRouteMatch route)) hsrrs;
             hsrrs = (if duplicate then hsrrs
                      else at_rule i (\<lambda>hsrr. route_clusters ord route (setRateLimit (rwc_RateLimit route) hsrr)) hsrrs)
           in fold_opt (inbound_principal mc pipyConf trustDomain i)
                (so_Principals ord (rule_AllowedPrincipals rule)) hsrrs)"

definition is_http_match :: "TrafficMatch \<Rightarrow> bool" where
  "is_http_match trafficMatch \<longleftrightarrow>
     ToLower (tm_DestinationProtocol trafficMatch) = ProtocolHTTP \<or>
     tm_DestinationProtocol trafficMatch = ProtocolGRPC"

text \<open>The body of the loop over the cluster configurations of a traffic match.\<close>

definition inbound_cluster_step ::
  "SetOrder \<Rightarrow> MeshCatalog \<Rightarrow> PipyConf \<Rightarrow> InboundMeshTrafficPolicy \<Rightarrow> string \<Rightarrow> TrafficMatch \<Rightarrow> MeshService \<Rightarrow>
   MeshClusterConfig \<Rightarrow> PipyInboundTrafficPolicy \<Rightarrow> PipyInboundTrafficPolicy option" where
  "inbound_cluster_step ord mc pipyConf inboundPolicy trustDomain trafficMatch upstreamSvc clusterConfig itp =
     (let port = ms_Port (mcc_Service clusterConfig);
          destinationProtocol = ToLower (tm_DestinationProtocol trafficMatch);
          tm = setTCPServiceRateLimit (tm_RateLimit trafficMatch)
                 (inbound_setPort (u16 (tm_DestinationPort trafficMatch))
                   (inbound_setProtocol destinationProtocol (inbound_newTrafficMatch itp port)))
      in if is_http_match trafficMatch then
           (case getInboundHTTPRouteConfigs (imp_HTTPRouteConfigsPerPort inboundPolicy)
                   (int (unat (ms_TargetPort upstreamSvc))) (PolicyName upstreamSvc False) of
              None \<Rightarrow> Some (put_traffic_match port tm itp)
            | Some httpRouteConfig \<Rightarrow>
                (let ruleRef = \<lparr>pref_RuleName = itp_Name httpRouteConfig, pref_Service = ''''\<rparr> in
                 case (inbound_newHTTPServiceRouteRules ruleRef tm,
                       getTrafficMatchPluginConfigs pipyConf (tm_Name trafficMatch)) of
                   (Some hsrrs, Some plugins) \<Rightarrow>
                     (let hsrrs = (setHTTPServiceRateLimit (tm_RateLimit trafficMatch) hsrrs)\<lparr>pis_Plugins := plugins\<rparr>;
                          tm = fold (\<lambda>hostname. inbound_addHTTPHostPort2Service hostname ruleRef)
                                 (itp_Hostnames httpRouteConfig) tm
                      in map_option (\<lambda>hsrrs. put_traffic_match port (put_route_rules (itp_Name httpRouteConfig) hsrrs tm) itp)
                           (fold_opt (inbound_http_rule ord mc pipyConf trustDomain) (itp_Rules httpRouteConfig) hsrrs))
                 | _ \<Rightarrow> None))
         else if destinationProtocol = ProtocolTCP \<or> destinationProtocol = ProtocolTCPServerFirst then
           map_option (\<lambda>plugins.
             (let tsrr = (inbound_tcp_addWeightedCluster (mcc_Name clusterConfig) (word_of_int ClusterWeightAcceptAll)
                            (inbound_newTCPServiceRouteRules tm))\<lparr>pit_Plugins := plugins\<rparr>
              in put_traffic_match port (tm\<lparr>pim_TCPServiceRouteRules := Some tsrr\<rparr>) itp))
             (getTrafficMatchPluginConfigs pipyConf (tm_Name trafficMatch))
         else Some (put_traffic_match port tm itp))"

definition inbound_match_step ::
  "SetOrder \<Rightarrow> MeshCatalog \<Rightarrow> PipyConf \<Rightarrow> InboundMeshTrafficPolicy \<Rightarrow> string \<Rightarrow> TrafficMatch \<Rightarrow>
   PipyInboundTrafficPolicy \<Rightarrow> PipyInboundTrafficPolicy option" where
  "inbound_match_step ord mc pipyConf inboundPolicy trustDomain trafficMatch itp =
     (case trafficMatchToMeshSvc trafficMatch of
        None \<Rightarrow> None
      | Some upstreamSvc \<Rightarrow>
          fold_opt (inbound_cluster_step ord mc pipyConf inboundPolicy trustDomain trafficMatch upstreamSvc)
            (getMeshClusterConfigs (imp_ClustersConfigs inboundPolicy) (SidecarLocalClusterName upstreamSvc)) itp)"

text \<open>The local cluster of each service forwards to the workload's address, or to the machine's.\<close>

definition inbound_local_cluster ::
  "PipyProxy \<Rightarrow> MeshClusterConfig \<Rightarrow> PipyInboundTrafficPolicy \<Rightarrow> PipyInboundTrafficPolicy option" where
  "inbound_local_cluster proxy cluster itp =
     (case (if ppx_VM proxy then ppx_MachineIP proxy else Some (mcc_Address cluster)) of
        None \<Rightarrow> None
      | Some address \<Rightarrow>
          Some (itp\<lparr>pip_ClustersConfigs := (pip_ClustersConfigs itp)(mcc_Name cluster \<mapsto>
            we_addWeightedEndpoint address (ucast (mcc_Port cluster)) (word_of_int ClusterWeightAcceptAll)
              (inbound_newClusterConfigs itp (mcc_Name cluster)))\<rparr>))"

definition generatePipyInboundTrafficPolicy ::
  "SetOrder \<Rightarrow> MeshCatalog \<Rightarrow> PipyConf \<Rightarrow> InboundMeshTrafficPolicy \<Rightarrow> string \<Rightarrow> PipyProxy \<Rightarrow> PipyConf option" where
  "generatePipyInboundTrafficPolicy ord mc pipyConf inboundPolicy trustDomain proxy =
     (case fold_opt (inbound_match_step ord mc pipyConf inboundPolicy trustDomain)
             (imp_TrafficMatches inboundPolicy) (newInboundTrafficPolicy pipyConf) of
        None \<Rightarrow> None
      | Some itp \<Rightarrow>
          map_option (\<lambda>itp. pipyConf\<lparr>pc_Inbound := Some itp\<rparr>)
            (fold_opt (inbound_local_cluster proxy) (imp_ClustersConfigs inboundPolicy) itp))"

section \<open>Ingress, access control and exported services\<close>

text \<open>
  The three generators translate a match with its source ranges and the HTTP route policies in the
  same way, except that exported services set no rate limits: \<open>limit\<close> is \<open>None\<close> for them and the rate
  limit of the match otherwise.  The security specification is one shared object that the code
  completes with the principals at the end of the iteration; nothing reads it before, so it is added
  complete here.
\<close>

definition source_security :: "TLSSpec option \<Rightarrow> string list \<Rightarrow> SourceSecuritySpec option" where
  "source_security tls principals =
     map_option (\<lambda>t. \<lparr>psec_MTLS = True, psec_SkipClientCertValidation = tls_SkipClientCertValidation t,
       psec_AuthenticatedPrincipals = principals\<rparr>) tls"

definition admission_principals :: "SetOrder \<Rightarrow> InboundTrafficPolicy option list \<Rightarrow> string list" where
  "admission_principals ord policies =
     concat (map (\<lambda>policy. concat (map (\<lambda>hostname. concat (map (\<lambda>rule.
         if length (hm_Path (rwc_HTTPRouteMatch (rule_Route rule))) = 0 then []
         else so_Principals ord (rule_AllowedPrincipals rule)) (itp_Rules policy)))
       (itp_Hostnames policy))) (List.map_filter id policies))"

definition admission_rule ::
  "SetOrder \<Rightarrow> bool \<Rightarrow> Rule \<Rightarrow> InboundHTTPRouteRules \<Rightarrow> InboundHTTPRouteRules" where
  "admission_rule ord limits rule hsrrs =
     (let route = rule_Route rule in
      if length (hm_Path (rwc_HTTPRouteMatch route)) = 0 then hsrrs
      else let (hsrrs, i, duplicate) =
               inbound_newHTTPServiceRouteRule (http_match_rule (rwc_HTTPRouteMatch route)) hsrrs
           in if duplicate then hsrrs
              else at_rule i (\<lambda>hsrr. route_clusters ord route
                     (if limits then setRateLimit (rwc_RateLimit route) hsrr else hsrr)) hsrrs)"

definition admission_host ::
  "SetOrder \<Rightarrow> PipyConf \<Rightarrow> (RateLimitSpec option) option \<Rightarrow> string \<Rightarrow> InboundTrafficPolicy \<Rightarrow> string \<Rightarrow>
   InboundTrafficMatch \<Rightarrow> InboundTrafficMatch option" where
  "admission_host ord pipyConf limit matchName httpRouteConfig hostname tm =
     (let ruleRef = \<lparr>pref_RuleName = hostname, pref_Service = ''''\<rparr>;
          tm = inbound_addHTTPHostPort2Service hostname ruleRef tm
      in case (inbound_newHTTPServiceRouteRules ruleRef tm, getTrafficMatchPluginConfigs pipyConf matchName) of
           (Some hsrrs, Some plugins) \<Rightarrow>
             (let hsrrs = (case limit of None \<Rightarrow> hsrrs | Some rl \<Rightarrow> setHTTPServiceRateLimit rl hsrrs);
                  hsrrs = hsrrs\<lparr>pis_Plugins := plugins\<rparr>
              in Some (put_route_rules hostname
                   (fold (admission_rule ord (limit \<noteq> None)) (itp_Rules httpRouteConfig) hsrrs) tm))
         | _ \<Rightarrow> None)"

definition admission_policy ::
  "SetOrder \<Rightarrow> PipyConf \<Rightarrow> (RateLimitSpec option) option \<Rightarrow> string \<Rightarrow> InboundTrafficPolicy option \<Rightarrow>
   InboundTrafficMatch \<Rightarrow> InboundTrafficMatch option" where
  "admission_policy ord pipyConf limit matchName policy tm =
     (case policy of
        None \<Rightarrow> None
      | Some httpRouteConfig \<Rightarrow>
          if length (itp_Rules httpRouteConfig) = 0 then Some tm
          else fold_opt (admission_host ord pipyConf limit matchName httpRouteConfig)
                 (itp_Hostnames httpRouteConfig) tm)"

definition is_admission_http :: "string \<Rightarrow> bool" where
  "is_admission_http protocol \<longleftrightarrow> ToLower protocol \<in> {ProtocolHTTP, ProtocolHTTPS, ProtocolGRPC}"

definition admission_match ::
  "SetOrder \<Rightarrow> PipyConf \<Rightarrow> (RateLimitSpec option) option \<Rightarrow> string \<Rightarrow> uint32 \<Rightarrow> string \<Rightarrow> string list \<Rightarrow>
   TLSSpec option \<Rightarrow> InboundTrafficPolicy option list \<Rightarrow> PipyInboundTrafficPolicy \<Rightarrow> PipyInboundTrafficPolicy option" where
  "admission_match ord pipyConf limit matchName matchPort protocol ranges tls policies itp =
     (let port = ucast matchPort;
          tm = (case getTrafficMatch itp port of
                  Some tm \<Rightarrow> tm
                | None \<Rightarrow>
                    (let tm = inbound_setPort port (inbound_setProtocol (ToLower protocol) (inbound_newTrafficMatch itp port))
                     in case limit of None \<Rightarrow> tm | Some rl \<Rightarrow> setTCPServiceRateLimit rl tm));
          http = is_admission_http protocol;
          securitySpec = source_security tls (if http then admission_principals ord policies else []);
          tm = fold (\<lambda>ipRange. addSourceIPRange ipRange securitySpec) ranges tm
      in if \<not> http then Some (put_traffic_match port tm itp)
         else map_option (\<lambda>tm. put_traffic_match port tm itp)
                (fold_opt (admission_policy ord pipyConf limit matchName) policies tm))"

text \<open>All three return early without matches, without an inbound policy or without local clusters.\<close>

definition on_inbound ::
  "(PipyInboundTrafficPolicy \<Rightarrow> PipyInboundTrafficPolicy option) \<Rightarrow> PipyConf \<Rightarrow> PipyConf option" where
  "on_inbound f pipyConf =
     (case pc_Inbound pipyConf of
        None \<Rightarrow> Some pipyConf
      | Some itp \<Rightarrow>
          if pip_ClustersConfigs itp = Map.empty then Some pipyConf
          else map_option (\<lambda>itp. pipyConf\<lparr>pc_Inbound := Some itp\<rparr>) (f itp))"

definition generatePipyIngressTrafficRoutePolicy ::
  "SetOrder \<Rightarrow> PipyConf \<Rightarrow> IngressTrafficPolicy \<Rightarrow> PipyConf option" where
  "generatePipyIngressTrafficRoutePolicy ord pipyConf ingressPolicy =
     (if length (igp_TrafficMatches ingressPolicy) = 0 then Some pipyConf
      else on_inbound (fold_opt (\<lambda>m. admission_match ord pipyConf (Some (itm_RateLimit m)) (itm_Name m) (itm_Port m)
               (itm_Protocol m) (itm_SourceIPRanges m) (itm_TLS m) (map Some (igp_HTTPRoutePolicies ingressPolicy)))
             (igp_TrafficMatches ingressPolicy)) pipyConf)"

definition generatePipyAccessControlTrafficRoutePolicy ::
  "SetOrder \<Rightarrow> PipyConf \<Rightarrow> AccessControlTrafficPolicy \<Rightarrow> PipyConf option" where
  "generatePipyAccessControlTrafficRoutePolicy ord pipyConf aclPolicy =
     (if length (acp_TrafficMatches aclPolicy) = 0 then Some pipyConf
      else on_inbound (fold_opt (\<lambda>m. admission_match ord pipyConf (Some (atm_RateLimit m)) (atm_Name m) (atm_Port m)
               (atm_Protocol m) (atm_SourceIPRanges m) (atm_TLS m) (acp_HTTPRoutePolicies aclPolicy))
             (acp_TrafficMatches aclPolicy)) pipyConf)"

definition generatePipyServiceExportTrafficRoutePolicy ::
  "SetOrder \<Rightarrow> PipyConf \<Rightarrow> ServiceExportTrafficPolicy \<Rightarrow> PipyConf option" where
  "generatePipyServiceExportTrafficRoutePolicy ord pipyConf expPolicy =
     (if length (xtp_TrafficMatches expPolicy) = 0 then Some pipyConf
      else on_inbound (fold_opt (\<lambda>m. admission_match ord pipyConf None (xtm_Name m) (xtm_Port m)
               (xtm_Protocol m) (xtm_SourceIPRanges m) (xtm_TLS m) (xtp_HTTPRoutePolicies expPolicy))
             (xtp_TrafficMatches expPolicy)) pipyConf)"

section \<open>Which identities a configuration admits\<close>

text \<open>
  A route rule admits an identity if it allows any service or lists the identity; \<open>match_key\<close> is the
  part of the rule that requests are matched against.  \<open>rule_grants\<close> says the same of a rule of the
  catalog's policy, where the wildcard principal stands for every identity.
\<close>

definition match_key :: "('a) HTTPRouteRule_scheme \<Rightarrow> HTTPMatchRule" where
  "match_key r = (prr_HTTPMatchRule r)\<lparr>pmr_allowedAnyService := False\<rparr>"

definition rule_allows :: "('a) HTTPRouteRule_scheme \<Rightarrow> ServiceIdentity \<Rightarrow> bool" where
  "rule_allows r si \<longleftrightarrow> pmr_allowedAnyService (prr_HTTPMatchRule r) \<or> si \<in> set (prr_AllowedServices r)"

definition rules_grant :: "InboundHTTPRouteRules \<Rightarrow> HTTPMatchRule \<Rightarrow> ServiceIdentity \<Rightarrow> bool" where
  "rules_grant hrrs m si \<longleftrightarrow> (\<exists>r\<in>set (pis_RouteRules hrrs). match_key r = m \<and> rule_allows r si)"

definition inbound_grants ::
  "PipyInboundTrafficPolicy \<Rightarrow> Port \<Rightarrow> string \<Rightarrow> HTTPMatchRule \<Rightarrow> ServiceIdentity \<Rightarrow> bool" where
  "inbound_grants itp port name m si \<longleftrightarrow>
     (\<exists>tm hrrs. pip_TrafficMatches itp port = Some tm \<and> pim_HTTPServiceRouteRules tm name = Some hrrs \<and>
        rules_grant hrrs m si)"

definition rule_grants :: "string \<Rightarrow> Rule \<Rightarrow> HTTPMatchRule \<Rightarrow> ServiceIdentity \<Rightarrow> bool" where
  "rule_grants td rule m si \<longleftrightarrow>
     hm_Path (rwc_HTTPRouteMatch (rule_Route rule)) \<noteq> '''' \<and>
     m = http_match_rule (rwc_HTTPRouteMatch (rule_Route rule)) \<and>
     (\<exists>p\<in>rule_AllowedPrincipals rule. FromPrincipal p td = si \<or> FromPrincipal p td = ''*'')"

text \<open>A loop each of whose steps can only make a predicate true.\<close>

lemma fold_opt_adds:
  assumes "fold_opt f xs s = Some s'"
    "\<And>x s s'. x \<in> set xs \<Longrightarrow> f x s = Some s' \<Longrightarrow> P s' \<longleftrightarrow> P s \<or> Q x"
  shows "P s' \<longleftrightarrow> P s \<or> (\<exists>x\<in>set xs. Q x)"
  using assms
proof (induction xs arbitrary: s)
  case (Cons x xs)
  then obtain t where "f x s = Some t" "fold_opt f xs t = Some s'" by (auto split: option.splits)
  with Cons.prems(2) Cons.IH [of t] show ?case by fastforce
qed simp

named_theorems pipy "facts about the operations on a sidecar configuration"

lemma addMethodMatch_any_service [pipy, simp]:
  "pmr_allowedAnyService (addMethodMatch method m) = pmr_allowedAnyService m"
  by (simp add: addMethodMatch_def)

lemma addMethodMatches_any_service [pipy, simp]:
  "pmr_allowedAnyService (fold addMethodMatch ms m) = pmr_allowedAnyService m"
  by (induction ms arbitrary: m) auto

lemma http_match_rule_any_service [pipy, simp]: "\<not> pmr_allowedAnyService (http_match_rule m)"
  by (simp add: http_match_rule_def new_HTTPMatchRule_def Let_def)

text \<open>Adding the headers of a finite map in any order gives the sum of the maps.\<close>

lemma addHeaderMatch_fold:
  assumes "set ks = dom hs"
  shows "fold (\<lambda>k. addHeaderMatch k (the (hs k))) ks m = m\<lparr>pmr_Headers := pmr_Headers m ++ hs\<rparr>"
proof -
  have "fold (\<lambda>k. addHeaderMatch k (the (hs k))) ks m =
      m\<lparr>pmr_Headers := pmr_Headers m ++ (hs |` set ks)\<rparr>" if "set ks \<subseteq> dom hs" for ks m
    using that
  proof (induction ks arbitrary: m)
    case (Cons k ks)
    then obtain v where "hs k = Some v" by auto
    then have "((pmr_Headers m)(k \<mapsto> v)) ++ (hs |` set ks) = pmr_Headers m ++ (hs |` insert k (set ks))"
      by (auto simp: fun_eq_iff map_add_def restrict_map_def split: option.split)
    with Cons \<open>hs k = Some v\<close> show ?case by (simp add: addHeaderMatch_def)
  qed simp
  moreover have "hs |` dom hs = hs" by (rule ext) (auto simp: restrict_map_def domIff)
  ultimately show ?thesis using assms by simp
qed

lemma rule_index_Some: "rule_index m rs = Some i \<Longrightarrow> i < length rs \<and> prr_HTTPMatchRule (rs ! i) = m"
  by (induction rs arbitrary: i) (auto split: if_splits)

lemma rule_index_None: "rule_index m rs = None \<longleftrightarrow> (\<forall>r\<in>set rs. prr_HTTPMatchRule r \<noteq> m)"
  by (induction rs) auto

lemma addWeightedClusters_simps [pipy, simp]:
  "prr_HTTPMatchRule (fold (\<lambda>wc. addWeightedCluster (n wc) (w wc)) wcs r) = prr_HTTPMatchRule r"
  "prr_AllowedServices (fold (\<lambda>wc. addWeightedCluster (n wc) (w wc)) wcs r) = prr_AllowedServices r"
  by (induction wcs arbitrary: r) (auto simp: addWeightedCluster_def)

lemma route_clusters_simps [pipy, simp]:
  "prr_HTTPMatchRule (route_clusters ord route r) = prr_HTTPMatchRule r"
  "prr_AllowedServices (route_clusters ord route r) = prr_AllowedServices r"
  by (simp_all add: route_clusters_def)

lemma setRateLimit_simps [pipy, simp]:
  "prr_HTTPMatchRule (setRateLimit rl r) = prr_HTTPMatchRule r"
  "prr_AllowedServices (setRateLimit rl r) = prr_AllowedServices r"
  by (simp_all add: setRateLimit_def)

lemma addAllowedService_simps [pipy, simp]:
  "match_key (addAllowedService s r) = match_key r"
  "rule_allows (addAllowedService s r) si \<longleftrightarrow> rule_allows r si \<or> s = si \<or> s = ''*''"
  by (auto simp: addAllowedService_def match_key_def rule_allows_def)

lemma at_rule_simps [pipy, simp]:
  "pis_RouteRules (at_rule i f h) = (pis_RouteRules h)[i := f (pis_RouteRules h ! i)]"
  by (simp add: at_rule_def)

lemma addAllowedEndpoints_rules [pipy, simp]:
  "pis_RouteRules (fold (\<lambda>ep. addAllowedEndpoint (a ep) s) eps h) = pis_RouteRules h"
  by (induction eps arbitrary: h) (auto simp: addAllowedEndpoint_def split: option.split)

lemma setHTTPServiceRateLimit_rules [pipy, simp]:
  "pis_RouteRules (setHTTPServiceRateLimit rl h) = pis_RouteRules h"
  by (simp add: setHTTPServiceRateLimit_def)

lemma bex_list_update:
  assumes "i < length xs" "P y \<longleftrightarrow> P (xs ! i) \<or> Q"
  shows "(\<exists>r\<in>set (xs[i := y]). P r) \<longleftrightarrow> (\<exists>r\<in>set xs. P r) \<or> Q"
proof
  assume "\<exists>r\<in>set (xs[i := y]). P r"
  then obtain r where "r \<in> set (xs[i := y])" "P r" by blast
  then have "r = y \<or> r \<in> set xs" using set_update_subset_insert by fast
  with \<open>P r\<close> assms show "(\<exists>r\<in>set xs. P r) \<or> Q" by (metis nth_mem)
next
  assume "(\<exists>r\<in>set xs. P r) \<or> Q"
  then consider j where "j < length xs" "P (xs ! j)" | Q by (auto simp: in_set_conv_nth)
  then show "\<exists>r\<in>set (xs[i := y]). P r"
  proof cases
    case 1
    then show ?thesis
      using assms by (cases "j = i") (metis set_update_memI, metis length_list_update nth_list_update_neq nth_mem)
  next
    case 2
    then show ?thesis using assms by (metis set_update_memI)
  qed
qed

lemma inbound_principal_rules:
  assumes "inbound_principal mc conf td i p h = Some h'"
  shows "pis_RouteRules h' = (pis_RouteRules h)[i := addAllowedService (FromPrincipal p td) (pis_RouteRules h ! i)]"
  using assms by (auto simp: inbound_principal_def Let_def split: if_splits option.splits)

lemma inbound_principals_grants:
  assumes "fold_opt (inbound_principal mc conf td i) ps h = Some h'" "i < length (pis_RouteRules h)"
  shows "rules_grant h' m si \<longleftrightarrow> rules_grant h m si \<or>
    match_key (pis_RouteRules h ! i) = m \<and> (\<exists>p\<in>set ps. FromPrincipal p td = si \<or> FromPrincipal p td = ''*'')"
  using assms
proof (induction ps arbitrary: h)
  case (Cons p ps)
  then obtain h1 where h1: "inbound_principal mc conf td i p h = Some h1"
      "fold_opt (inbound_principal mc conf td i) ps h1 = Some h'"
    by (auto split: option.splits)
  let ?r = "pis_RouteRules h ! i"
  have rules: "pis_RouteRules h1 = (pis_RouteRules h)[i := addAllowedService (FromPrincipal p td) ?r]"
    by (rule inbound_principal_rules [OF h1(1)])
  have "rules_grant h1 m si \<longleftrightarrow> rules_grant h m si \<or>
      match_key ?r = m \<and> (FromPrincipal p td = si \<or> FromPrincipal p td = ''*'')"
    unfolding rules_grant_def rules by (rule bex_list_update [OF Cons.prems(2)]) auto
  moreover have "i < length (pis_RouteRules h1)" "match_key (pis_RouteRules h1 ! i) = match_key ?r"
    using rules Cons.prems(2) by simp_all
  ultimately show ?case using Cons.IH [OF h1(2)] by auto
qed simp

text \<open>Creating a rule, or finding it again, admits nobody.\<close>

lemma new_route_rule_grants:
  assumes "inbound_newHTTPServiceRouteRule k h = (h', i, dup)" "\<not> pmr_allowedAnyService k"
  shows "i < length (pis_RouteRules h')" "match_key (pis_RouteRules h' ! i) = k" "rules_grant h' m si \<longleftrightarrow> rules_grant h m si"
    "prr_AllowedServices (pis_RouteRules h' ! i) = [] \<or> dup"
proof -
  have k: "match_key (new_InboundHTTPRouteRule\<lparr>prr_HTTPMatchRule := k\<rparr>) = k"
    using assms(2) by (simp add: match_key_def)
  show "i < length (pis_RouteRules h')" "match_key (pis_RouteRules h' ! i) = k" "rules_grant h' m si \<longleftrightarrow> rules_grant h m si"
    "prr_AllowedServices (pis_RouteRules h' ! i) = [] \<or> dup"
    using assms k rule_index_Some [of k "pis_RouteRules h"]
    by (auto simp: inbound_newHTTPServiceRouteRule_def match_key_def rules_grant_def rule_allows_def
        new_InboundHTTPRouteRule_def nth_append split: option.splits)
qed

lemma at_rule_grants_same:
  assumes "\<And>r. prr_HTTPMatchRule (f r) = prr_HTTPMatchRule r \<and> prr_AllowedServices (f r) = prr_AllowedServices r"
    "i < length (pis_RouteRules h)"
  shows "rules_grant (at_rule i f h) m si \<longleftrightarrow> rules_grant h m si"
    "match_key (pis_RouteRules (at_rule i f h) ! i) = match_key (pis_RouteRules h ! i)"
proof -
  have "rules_grant (at_rule i f h) m si \<longleftrightarrow> rules_grant h m si \<or> False"
    unfolding rules_grant_def at_rule_simps
    by (rule bex_list_update [OF assms(2)]) (simp add: assms(1) match_key_def rule_allows_def)
  then show "rules_grant (at_rule i f h) m si \<longleftrightarrow> rules_grant h m si" by simp
  show "match_key (pis_RouteRules (at_rule i f h) ! i) = match_key (pis_RouteRules h ! i)"
    using assms by (simp add: match_key_def)
qed

lemma inbound_http_rule_grants:
  assumes "inbound_http_rule ord mc conf td rule h = Some h'" "fair_order ord" "finite (rule_AllowedPrincipals rule)"
  shows "rules_grant h' m si \<longleftrightarrow> rules_grant h m si \<or> rule_grants td rule m si"
proof (cases "hm_Path (rwc_HTTPRouteMatch (rule_Route rule)) = ''''")
  case True
  with assms(1) show ?thesis by (simp add: inbound_http_rule_def rule_grants_def)
next
  case False
  let ?k = "http_match_rule (rwc_HTTPRouteMatch (rule_Route rule))"
  let ?f = "\<lambda>hsrr. route_clusters ord (rule_Route rule) (setRateLimit (rwc_RateLimit (rule_Route rule)) hsrr)"
  obtain h1 i dup where new: "inbound_newHTTPServiceRouteRule ?k h = (h1, i, dup)" by (metis prod_cases3)
  note n = new_route_rule_grants [OF new http_match_rule_any_service]
  let ?h2 = "if dup then h1 else at_rule i ?f h1"
  from assms(1) False new have run:
    "fold_opt (inbound_principal mc conf td i) (so_Principals ord (rule_AllowedPrincipals rule)) ?h2 = Some h'"
    by (simp add: inbound_http_rule_def Let_def)
  have "i < length (pis_RouteRules ?h2)" "match_key (pis_RouteRules ?h2 ! i) = ?k"
    "rules_grant ?h2 m si \<longleftrightarrow> rules_grant h m si"
    using n at_rule_grants_same [of ?f i h1] by (auto simp: match_key_def)
  with inbound_principals_grants [OF run, of m si] False show ?thesis
    using assms(2,3) lists_elementsD [of "so_Principals ord"]
    by (auto simp: rule_grants_def fair_order_def)
qed

lemma inbound_http_rules_grants:
  assumes "fold_opt (inbound_http_rule ord mc conf td) rules h = Some h'" "fair_order ord"
    "\<forall>rule\<in>set rules. finite (rule_AllowedPrincipals rule)"
  shows "rules_grant h' m si \<longleftrightarrow> rules_grant h m si \<or> (\<exists>rule\<in>set rules. rule_grants td rule m si)"
  by (rule fold_opt_adds [OF assms(1)]) (use assms(2,3) inbound_http_rule_grants in blast)

lemma fold_host_routes [pipy, simp]:
  "pim_HTTPServiceRouteRules (fold (\<lambda>hostname. inbound_addHTTPHostPort2Service hostname ref) hs tm) =
     pim_HTTPServiceRouteRules tm"
  by (induction hs arbitrary: tm) (auto simp: inbound_addHTTPHostPort2Service_def)

lemma match_setters [pipy, simp]:
  "pim_HTTPServiceRouteRules (inbound_setProtocol pr tm) = pim_HTTPServiceRouteRules tm"
  "pim_HTTPServiceRouteRules (inbound_setPort po tm) = pim_HTTPServiceRouteRules tm"
  "pim_HTTPServiceRouteRules (setTCPServiceRateLimit rl tm) = pim_HTTPServiceRouteRules tm"
  "pim_HTTPHostPort2Service (inbound_setProtocol pr tm) = pim_HTTPHostPort2Service tm"
  "pim_HTTPHostPort2Service (inbound_setPort po tm) = pim_HTTPHostPort2Service tm"
  "pim_HTTPHostPort2Service (setTCPServiceRateLimit rl tm) = pim_HTTPHostPort2Service tm"
  by (simp_all add: inbound_setProtocol_def inbound_setPort_def setTCPServiceRateLimit_def)

lemma inbound_grants_put:
  "inbound_grants (put_traffic_match port tm itp) port' name m si \<longleftrightarrow>
     (if port' = port then (\<exists>h. pim_HTTPServiceRouteRules tm name = Some h \<and> rules_grant h m si)
      else inbound_grants itp port' name m si)"
  by (auto simp: inbound_grants_def put_traffic_match_def)

lemma newTrafficMatch_grants:
  "(\<exists>h. pim_HTTPServiceRouteRules (inbound_newTrafficMatch itp port) name = Some h \<and> rules_grant h m si) \<longleftrightarrow>
     inbound_grants itp port name m si"
  by (auto simp: inbound_newTrafficMatch_def inbound_grants_def new_InboundTrafficMatch_def split: option.split)

text \<open>One cluster configuration of an HTTP traffic match adds exactly the grants of its HTTP route
  policy, under the service port and the policy's name.\<close>

definition match_policy :: "InboundMeshTrafficPolicy \<Rightarrow> TrafficMatch \<Rightarrow> MeshService \<Rightarrow> InboundTrafficPolicy option" where
  "match_policy pol trafficMatch svc =
     (if is_http_match trafficMatch
      then getInboundHTTPRouteConfigs (imp_HTTPRouteConfigsPerPort pol) (int (unat (ms_TargetPort svc))) (PolicyName svc False)
      else None)"

definition stored_rules :: "InboundTrafficMatch \<Rightarrow> string \<Rightarrow> InboundHTTPRouteRule list" where
  "stored_rules tm name = (case pim_HTTPServiceRouteRules tm name of None \<Rightarrow> [] | Some h \<Rightarrow> pis_RouteRules h)"

text \<open>A host of a port belongs to the shortest of the rule names registered for it, and among those to
  the least one, in whatever order they are registered.\<close>

definition name_before :: "string \<Rightarrow> string \<Rightarrow> bool" where
  "name_before a b \<longleftrightarrow> length a < length b \<or> length a = length b \<and> a < b"

definition least_name :: "HTTPRouteRuleRef option \<Rightarrow> string set \<Rightarrow> bool" where
  "least_name v N \<longleftrightarrow> (case v of None \<Rightarrow> N = {}
     | Some ref \<Rightarrow> pref_RuleName ref \<in> N \<and> (\<forall>n\<in>N. n = pref_RuleName ref \<or> name_before (pref_RuleName ref) n))"

lemma least_name_add:
  assumes "least_name (pim_HTTPHostPort2Service tm host) N"
  shows "least_name (pim_HTTPHostPort2Service (inbound_addHTTPHostPort2Service h ref tm) host)
    (N \<union> (if h = host then {pref_RuleName ref} else {}))"
  using assms
  by (auto simp: least_name_def inbound_addHTTPHostPort2Service_def inbound_prefers_def name_before_def Let_def
      split: option.splits)

lemma least_name_adds:
  "least_name (pim_HTTPHostPort2Service tm host) N \<Longrightarrow>
   least_name (pim_HTTPHostPort2Service (fold (\<lambda>h. inbound_addHTTPHostPort2Service h ref) hosts tm) host)
     (N \<union> (if host \<in> set hosts then {pref_RuleName ref} else {}))"
proof (induction hosts arbitrary: tm N)
  case (Cons h hosts)
  from Cons.IH [OF least_name_add [OF Cons.prems, of h ref]] show ?case by (simp split: if_splits)
qed simp

lemma inbound_cluster_step_cases:
  assumes "inbound_cluster_step ord mc conf pol td trafficMatch svc cc itp = Some itp'"
  obtains (other) tm where "match_policy pol trafficMatch svc = None"
      "itp' = put_traffic_match (ms_Port (mcc_Service cc)) tm itp"
      "pim_HTTPServiceRouteRules tm =
         pim_HTTPServiceRouteRules (inbound_newTrafficMatch itp (ms_Port (mcc_Service cc)))"
      "pim_HTTPHostPort2Service tm =
         pim_HTTPHostPort2Service (inbound_newTrafficMatch itp (ms_Port (mcc_Service cc)))"
    | (http) cfg h h' tm where "match_policy pol trafficMatch svc = Some cfg"
      "pis_RouteRules h = stored_rules (inbound_newTrafficMatch itp (ms_Port (mcc_Service cc))) (itp_Name cfg)"
      "fold_opt (inbound_http_rule ord mc conf td) (itp_Rules cfg) h = Some h'"
      "itp' = put_traffic_match (ms_Port (mcc_Service cc)) tm itp"
      "pim_HTTPServiceRouteRules tm =
         (pim_HTTPServiceRouteRules (inbound_newTrafficMatch itp (ms_Port (mcc_Service cc))))(itp_Name cfg \<mapsto> h')"
      "\<And>host N. least_name (pim_HTTPHostPort2Service (inbound_newTrafficMatch itp (ms_Port (mcc_Service cc))) host) N \<Longrightarrow>
         least_name (pim_HTTPHostPort2Service tm host) (N \<union> (if host \<in> set (itp_Hostnames cfg) then {itp_Name cfg} else {}))"
proof (cases "match_policy pol trafficMatch svc")
  case None
  with assms show ?thesis
    by (auto simp: inbound_cluster_step_def match_policy_def Let_def split: if_splits option.splits intro!: other)
next
  case (Some cfg)
  let ?p = "ms_Port (mcc_Service cc)"
  let ?tm = "setTCPServiceRateLimit (tm_RateLimit trafficMatch)
     (inbound_setPort (u16 (tm_DestinationPort trafficMatch))
       (inbound_setProtocol (ToLower (tm_DestinationProtocol trafficMatch)) (inbound_newTrafficMatch itp ?p)))"
  let ?ref = "\<lparr>pref_RuleName = itp_Name cfg, pref_Service = ''''\<rparr>"
  from Some have pol: "is_http_match trafficMatch"
      "getInboundHTTPRouteConfigs (imp_HTTPRouteConfigsPerPort pol) (int (unat (ms_TargetPort svc))) (PolicyName svc False)
       = Some cfg"
    by (auto simp: match_policy_def split: if_splits)
  with assms obtain h plugins h' where h: "inbound_newHTTPServiceRouteRules ?ref ?tm = Some h"
      "fold_opt (inbound_http_rule ord mc conf td) (itp_Rules cfg)
         ((setHTTPServiceRateLimit (tm_RateLimit trafficMatch) h)\<lparr>pis_Plugins := plugins\<rparr>) = Some h'"
      "itp' = put_traffic_match ?p (put_route_rules (itp_Name cfg) h'
         (fold (\<lambda>hostname. inbound_addHTTPHostPort2Service hostname ?ref) (itp_Hostnames cfg) ?tm)) itp"
    by (auto simp: inbound_cluster_step_def Let_def split: option.splits)
  from h(1) have "pis_RouteRules h = stored_rules (inbound_newTrafficMatch itp ?p) (itp_Name cfg)"
    by (auto simp: inbound_newHTTPServiceRouteRules_def stored_rules_def new_InboundHTTPRouteRules_def
        split: if_splits option.splits)
  moreover have "least_name (pim_HTTPHostPort2Service (put_route_rules (itp_Name cfg) h'
      (fold (\<lambda>hostname. inbound_addHTTPHostPort2Service hostname ?ref) (itp_Hostnames cfg) ?tm)) host)
      (N \<union> (if host \<in> set (itp_Hostnames cfg) then {itp_Name cfg} else {}))"
    if "least_name (pim_HTTPHostPort2Service (inbound_newTrafficMatch itp ?p) host) N" for host N
    using least_name_adds [of ?tm host N ?ref "itp_Hostnames cfg"] that
    by (cases "host \<in> set (itp_Hostnames cfg)") (simp_all add: put_route_rules_def)
  ultimately show ?thesis
    by (intro http [OF Some _ h(2,3)]) (simp_all add: put_route_rules_def)
qed

lemma grants_stored_rules:
  "pis_RouteRules h = stored_rules tm name \<Longrightarrow>
     rules_grant h m si \<longleftrightarrow> (\<exists>h. pim_HTTPServiceRouteRules tm name = Some h \<and> rules_grant h m si)"
  by (cases "pim_HTTPServiceRouteRules tm name") (auto simp: rules_grant_def stored_rules_def)

lemma inbound_cluster_step_grants:
  assumes "inbound_cluster_step ord mc conf pol td trafficMatch svc cc itp = Some itp'" "fair_order ord"
    "\<forall>cfg. match_policy pol trafficMatch svc = Some cfg \<longrightarrow>
       (\<forall>rule\<in>set (itp_Rules cfg). finite (rule_AllowedPrincipals rule))"
  shows "inbound_grants itp' port name m si \<longleftrightarrow> inbound_grants itp port name m si \<or>
    port = ms_Port (mcc_Service cc) \<and>
    (\<exists>cfg rule. match_policy pol trafficMatch svc = Some cfg \<and> name = itp_Name cfg \<and>
       rule \<in> set (itp_Rules cfg) \<and> rule_grants td rule m si)"
  using assms(1)
proof (cases rule: inbound_cluster_step_cases)
  case (other tm)
  then show ?thesis by (simp add: inbound_grants_put newTrafficMatch_grants)
next
  case (http cfg h h' tm)
  have "rules_grant h' m si \<longleftrightarrow> inbound_grants itp (ms_Port (mcc_Service cc)) (itp_Name cfg) m si \<or>
      (\<exists>rule\<in>set (itp_Rules cfg). rule_grants td rule m si)"
    using inbound_http_rules_grants [OF http(3) assms(2), of m si] assms(3) http(1)
    by (simp add: grants_stored_rules [OF http(2)] newTrafficMatch_grants)
  then show ?thesis
    unfolding http(4) by (auto simp: inbound_grants_put http(1,5) newTrafficMatch_grants)
qed

definition finite_principals :: "InboundMeshTrafficPolicy \<Rightarrow> bool" where
  "finite_principals pol \<longleftrightarrow> (\<forall>port cfgs. imp_HTTPRouteConfigsPerPort pol port = Some cfgs \<longrightarrow>
     (\<forall>cfg\<in>set cfgs. \<forall>rule\<in>set (itp_Rules cfg). finite (rule_AllowedPrincipals rule)))"

lemma match_policy_SomeD:
  assumes "match_policy pol trafficMatch svc = Some cfg"
  obtains cfgs where "imp_HTTPRouteConfigsPerPort pol (int (unat (ms_TargetPort svc))) = Some cfgs"
    "cfg \<in> set cfgs" "itp_Name cfg = PolicyName svc False" "is_http_match trafficMatch"
  using assms
  by (auto simp: match_policy_def getInboundHTTPRouteConfigs_def split: if_splits option.splits dest: find_SomeD)

lemma inbound_match_step_grants:
  assumes "inbound_match_step ord mc conf pol td trafficMatch itp = Some itp'" "fair_order ord" "finite_principals pol"
  shows "inbound_grants itp' port name m si \<longleftrightarrow> inbound_grants itp port name m si \<or>
    (\<exists>svc cc cfg rule. trafficMatchToMeshSvc trafficMatch = Some svc \<and>
       cc \<in> set (getMeshClusterConfigs (imp_ClustersConfigs pol) (SidecarLocalClusterName svc)) \<and>
       port = ms_Port (mcc_Service cc) \<and> match_policy pol trafficMatch svc = Some cfg \<and> name = itp_Name cfg \<and>
       rule \<in> set (itp_Rules cfg) \<and> rule_grants td rule m si)"
proof -
  from assms(1) obtain svc where svc: "trafficMatchToMeshSvc trafficMatch = Some svc"
      and run: "fold_opt (inbound_cluster_step ord mc conf pol td trafficMatch svc)
        (getMeshClusterConfigs (imp_ClustersConfigs pol) (SidecarLocalClusterName svc)) itp = Some itp'"
    by (auto simp: inbound_match_step_def split: option.splits)
  have fin: "\<forall>cfg. match_policy pol trafficMatch svc = Some cfg \<longrightarrow>
      (\<forall>rule\<in>set (itp_Rules cfg). finite (rule_AllowedPrincipals rule))"
    using assms(3) by (auto simp: finite_principals_def elim!: match_policy_SomeD)
  have "inbound_grants itp' port name m si \<longleftrightarrow> inbound_grants itp port name m si \<or>
    (\<exists>cc\<in>set (getMeshClusterConfigs (imp_ClustersConfigs pol) (SidecarLocalClusterName svc)).
       port = ms_Port (mcc_Service cc) \<and> (\<exists>cfg rule. match_policy pol trafficMatch svc = Some cfg \<and>
         name = itp_Name cfg \<and> rule \<in> set (itp_Rules cfg) \<and> rule_grants td rule m si))"
    by (rule fold_opt_adds [OF run]) (rule inbound_cluster_step_grants [OF _ assms(2) fin])
  with svc show ?thesis by auto
qed

lemma inbound_local_clusters_matches:
  "fold_opt (inbound_local_cluster proxy) ccs itp = Some itp' \<Longrightarrow> pip_TrafficMatches itp' = pip_TrafficMatches itp"
  by (induction ccs arbitrary: itp) (auto simp: inbound_local_cluster_def split: option.splits)

subsection \<open>Which routes a configuration has\<close>

text \<open>The same for the mere presence of a route, which may admit nobody by name.\<close>

definition has_route :: "InboundHTTPRouteRules \<Rightarrow> HTTPMatchRule \<Rightarrow> bool" where
  "has_route hrrs m \<longleftrightarrow> m \<in> match_key ` set (pis_RouteRules hrrs)"

definition inbound_has_route :: "PipyInboundTrafficPolicy \<Rightarrow> Port \<Rightarrow> string \<Rightarrow> HTTPMatchRule \<Rightarrow> bool" where
  "inbound_has_route itp port name m \<longleftrightarrow>
     (\<exists>tm hrrs. pip_TrafficMatches itp port = Some tm \<and> pim_HTTPServiceRouteRules tm name = Some hrrs \<and> has_route hrrs m)"

lemma keys_list_update:
  "i < length xs \<Longrightarrow> match_key y = match_key (xs ! i) \<Longrightarrow> match_key ` set (xs[i := y]) = match_key ` set xs"
  by (metis list.set_map list_update_id map_update)

lemma inbound_principals_has_route:
  assumes "fold_opt (inbound_principal mc conf td i) ps h = Some h'" "i < length (pis_RouteRules h)"
  shows "has_route h' m \<longleftrightarrow> has_route h m"
  using assms
proof (induction ps arbitrary: h)
  case (Cons p ps)
  then obtain h1 where h1: "inbound_principal mc conf td i p h = Some h1"
      "fold_opt (inbound_principal mc conf td i) ps h1 = Some h'"
    by (auto split: option.splits)
  have "has_route h1 m \<longleftrightarrow> has_route h m" "i < length (pis_RouteRules h1)"
    using Cons.prems(2) by (simp_all add: has_route_def inbound_principal_rules [OF h1(1)] keys_list_update)
  with Cons.IH [OF h1(2)] show ?case by simp
qed simp

lemma inbound_http_rule_has_route:
  assumes "inbound_http_rule ord mc conf td rule h = Some h'"
  shows "has_route h' m \<longleftrightarrow> has_route h m \<or> hm_Path (rwc_HTTPRouteMatch (rule_Route rule)) \<noteq> '''' \<and>
    m = http_match_rule (rwc_HTTPRouteMatch (rule_Route rule))"
proof (cases "hm_Path (rwc_HTTPRouteMatch (rule_Route rule)) = ''''")
  case True
  with assms show ?thesis by (simp add: inbound_http_rule_def)
next
  case False
  let ?k = "http_match_rule (rwc_HTTPRouteMatch (rule_Route rule))"
  let ?f = "\<lambda>hsrr. route_clusters ord (rule_Route rule) (setRateLimit (rwc_RateLimit (rule_Route rule)) hsrr)"
  obtain h1 i dup where new: "inbound_newHTTPServiceRouteRule ?k h = (h1, i, dup)" by (metis prod_cases3)
  note n = new_route_rule_grants [OF new http_match_rule_any_service]
  let ?h2 = "if dup then h1 else at_rule i ?f h1"
  from assms False new have run:
    "fold_opt (inbound_principal mc conf td i) (so_Principals ord (rule_AllowedPrincipals rule)) ?h2 = Some h'"
    by (simp add: inbound_http_rule_def Let_def)
  have k: "match_key (new_InboundHTTPRouteRule\<lparr>prr_HTTPMatchRule := ?k\<rparr>) = ?k" by (simp add: match_key_def)
  have "?k \<in> match_key ` set (pis_RouteRules h1)"
    using imageI [OF nth_mem [OF n(1)], of match_key] n(2) by simp
  then have "match_key ` set (pis_RouteRules h1) = insert ?k (match_key ` set (pis_RouteRules h))"
    using new k by (auto simp: inbound_newHTTPServiceRouteRule_def split: option.splits)
  moreover have "match_key ` set (pis_RouteRules ?h2) = match_key ` set (pis_RouteRules h1)"
    using keys_list_update [OF n(1), of "?f (pis_RouteRules h1 ! i)"] by (auto simp: match_key_def)
  moreover have "i < length (pis_RouteRules ?h2)" using n(1) by simp
  ultimately show ?thesis
    using inbound_principals_has_route [OF run, of m] False by (auto simp: has_route_def)
qed

lemma has_stored_rules:
  "pis_RouteRules h = stored_rules (inbound_newTrafficMatch itp port) name \<Longrightarrow>
     has_route h m \<longleftrightarrow> inbound_has_route itp port name m"
  by (cases "pip_TrafficMatches itp port"; cases "pim_HTTPServiceRouteRules (inbound_newTrafficMatch itp port) name")
    (auto simp: has_route_def stored_rules_def inbound_has_route_def inbound_newTrafficMatch_def new_InboundTrafficMatch_def)

lemma inbound_has_put:
  "inbound_has_route (put_traffic_match port tm itp) port' name m \<longleftrightarrow>
     (if port' = port then (\<exists>h. pim_HTTPServiceRouteRules tm name = Some h \<and> has_route h m)
      else inbound_has_route itp port' name m)"
  by (auto simp: inbound_has_route_def put_traffic_match_def)

lemma newTrafficMatch_has_route:
  "(\<exists>h. pim_HTTPServiceRouteRules (inbound_newTrafficMatch itp port) name = Some h \<and> has_route h m) \<longleftrightarrow>
     inbound_has_route itp port name m"
  by (auto simp: inbound_newTrafficMatch_def inbound_has_route_def new_InboundTrafficMatch_def split: option.split)

definition policy_has_route :: "InboundTrafficPolicy \<Rightarrow> HTTPMatchRule \<Rightarrow> bool" where
  "policy_has_route cfg m \<longleftrightarrow> (\<exists>rule\<in>set (itp_Rules cfg). hm_Path (rwc_HTTPRouteMatch (rule_Route rule)) \<noteq> '''' \<and>
     m = http_match_rule (rwc_HTTPRouteMatch (rule_Route rule)))"

lemma inbound_cluster_step_has_route:
  assumes "inbound_cluster_step ord mc conf pol td trafficMatch svc cc itp = Some itp'"
  shows "inbound_has_route itp' port name m \<longleftrightarrow> inbound_has_route itp port name m \<or>
    port = ms_Port (mcc_Service cc) \<and>
    (\<exists>cfg. match_policy pol trafficMatch svc = Some cfg \<and> name = itp_Name cfg \<and> policy_has_route cfg m)"
  using assms
proof (cases rule: inbound_cluster_step_cases)
  case (other tm)
  then show ?thesis by (simp add: inbound_has_put newTrafficMatch_has_route)
next
  case (http cfg h h' tm)
  have "has_route h' m \<longleftrightarrow> has_route h m \<or> (\<exists>rule\<in>set (itp_Rules cfg).
      hm_Path (rwc_HTTPRouteMatch (rule_Route rule)) \<noteq> '''' \<and> m = http_match_rule (rwc_HTTPRouteMatch (rule_Route rule)))"
    by (rule fold_opt_adds [OF http(3)]) (rule inbound_http_rule_has_route)
  then have "has_route h' m \<longleftrightarrow> inbound_has_route itp (ms_Port (mcc_Service cc)) (itp_Name cfg) m \<or> policy_has_route cfg m"
    by (simp add: has_stored_rules [OF http(2)] policy_has_route_def)
  then show ?thesis
    unfolding http(4) by (auto simp: inbound_has_put http(1,5) newTrafficMatch_has_route)
qed

lemma generated_has_route:
  assumes "generatePipyInboundTrafficPolicy ord mc conf pol td proxy = Some conf'" "pc_Inbound conf' = Some itp"
    "trafficMatch \<in> set (imp_TrafficMatches pol)" "trafficMatchToMeshSvc trafficMatch = Some svc"
    "cc \<in> set (getMeshClusterConfigs (imp_ClustersConfigs pol) (SidecarLocalClusterName svc))"
    "match_policy pol trafficMatch svc = Some cfg" "policy_has_route cfg m"
  shows "inbound_has_route itp (ms_Port (mcc_Service cc)) (itp_Name cfg) m"
proof -
  from assms(1,2) obtain itp1 where run:
      "fold_opt (inbound_match_step ord mc conf pol td) (imp_TrafficMatches pol) (newInboundTrafficPolicy conf) = Some itp1"
      "fold_opt (inbound_local_cluster proxy) (imp_ClustersConfigs pol) itp1 = Some itp"
    by (auto simp: generatePipyInboundTrafficPolicy_def split: option.splits)
  define Q where "Q t \<longleftrightarrow> (\<exists>svc c. trafficMatchToMeshSvc t = Some svc \<and>
      c \<in> set (getMeshClusterConfigs (imp_ClustersConfigs pol) (SidecarLocalClusterName svc)) \<and>
      ms_Port (mcc_Service cc) = ms_Port (mcc_Service c) \<and>
      (\<exists>cf. match_policy pol t svc = Some cf \<and> itp_Name cfg = itp_Name cf \<and> policy_has_route cf m))" for t
  have step: "inbound_has_route itp' (ms_Port (mcc_Service cc)) (itp_Name cfg) m \<longleftrightarrow>
      inbound_has_route itp0 (ms_Port (mcc_Service cc)) (itp_Name cfg) m \<or> Q t"
    if "inbound_match_step ord mc conf pol td t itp0 = Some itp'" for t itp0 itp'
  proof -
    from that obtain s where s: "trafficMatchToMeshSvc t = Some s" "fold_opt (inbound_cluster_step ord mc conf pol td t s)
        (getMeshClusterConfigs (imp_ClustersConfigs pol) (SidecarLocalClusterName s)) itp0 = Some itp'"
      by (auto simp: inbound_match_step_def split: option.splits)
    have "inbound_has_route itp' (ms_Port (mcc_Service cc)) (itp_Name cfg) m \<longleftrightarrow>
      inbound_has_route itp0 (ms_Port (mcc_Service cc)) (itp_Name cfg) m \<or>
      (\<exists>c\<in>set (getMeshClusterConfigs (imp_ClustersConfigs pol) (SidecarLocalClusterName s)).
         ms_Port (mcc_Service cc) = ms_Port (mcc_Service c) \<and>
         (\<exists>cf. match_policy pol t s = Some cf \<and> itp_Name cfg = itp_Name cf \<and> policy_has_route cf m))"
      by (rule fold_opt_adds [OF s(2)]) (rule inbound_cluster_step_has_route)
    then show ?thesis
      by (auto simp: Q_def s(1))
  qed
  have "Q trafficMatch" using assms(4-7) by (auto simp: Q_def)
  moreover have "inbound_has_route itp1 (ms_Port (mcc_Service cc)) (itp_Name cfg) m \<longleftrightarrow>
      inbound_has_route (newInboundTrafficPolicy conf) (ms_Port (mcc_Service cc)) (itp_Name cfg) m \<or>
      (\<exists>t\<in>set (imp_TrafficMatches pol). Q t)"
    by (rule fold_opt_adds [OF run(1)]) (rule step)
  ultimately have "inbound_has_route itp1 (ms_Port (mcc_Service cc)) (itp_Name cfg) m" using assms(3) by blast
  then show ?thesis using inbound_local_clusters_matches [OF run(2)] by (simp add: inbound_has_route_def)
qed

subsection \<open>Which rules a host selects\<close>

definition host_ref :: "PipyInboundTrafficPolicy \<Rightarrow> Port \<Rightarrow> string \<Rightarrow> HTTPRouteRuleRef option" where
  "host_ref itp port host =
     (case pip_TrafficMatches itp port of None \<Rightarrow> None | Some tm \<Rightarrow> pim_HTTPHostPort2Service tm host)"

definition registered_names :: "InboundMeshTrafficPolicy \<Rightarrow> Port \<Rightarrow> string \<Rightarrow> string set" where
  "registered_names pol port host = {itp_Name cfg |trafficMatch svc cc cfg.
     trafficMatch \<in> set (imp_TrafficMatches pol) \<and> trafficMatchToMeshSvc trafficMatch = Some svc \<and>
     cc \<in> set (getMeshClusterConfigs (imp_ClustersConfigs pol) (SidecarLocalClusterName svc)) \<and>
     port = ms_Port (mcc_Service cc) \<and> match_policy pol trafficMatch svc = Some cfg \<and> host \<in> set (itp_Hostnames cfg)}"

lemma fold_opt_collects:
  assumes "fold_opt f xs s = Some s'" "R s N" "\<And>x s s' N. x \<in> set xs \<Longrightarrow> f x s = Some s' \<Longrightarrow> R s N \<Longrightarrow> R s' (N \<union> S x)"
  shows "R s' (N \<union> (\<Union>x\<in>set xs. S x))"
  using assms
proof (induction xs arbitrary: s N)
  case (Cons x xs)
  then obtain t where t: "f x s = Some t" "fold_opt f xs t = Some s'" by (auto split: option.splits)
  have "R t (N \<union> S x)" using Cons.prems(2,3) t(1) by simp
  from Cons.IH [OF t(2) this] Cons.prems(3) show ?case by (simp add: Un_assoc)
qed simp

lemma host_ref_put:
  "host_ref (put_traffic_match port tm itp) port' host =
     (if port' = port then pim_HTTPHostPort2Service tm host else host_ref itp port' host)"
  by (simp add: host_ref_def put_traffic_match_def)

lemma host_ref_newTrafficMatch [simp]: "pim_HTTPHostPort2Service (inbound_newTrafficMatch itp port) host = host_ref itp port host"
  by (simp add: inbound_newTrafficMatch_def host_ref_def new_InboundTrafficMatch_def split: option.split)

definition step_names :: "InboundMeshTrafficPolicy \<Rightarrow> Port \<Rightarrow> string \<Rightarrow> TrafficMatch \<Rightarrow> MeshService \<Rightarrow> MeshClusterConfig \<Rightarrow> string set" where
  "step_names pol port host trafficMatch svc cc = {itp_Name cfg |cfg.
     port = ms_Port (mcc_Service cc) \<and> match_policy pol trafficMatch svc = Some cfg \<and> host \<in> set (itp_Hostnames cfg)}"

lemma inbound_cluster_step_host:
  assumes "inbound_cluster_step ord mc conf pol td trafficMatch svc cc itp = Some itp'" "least_name (host_ref itp port host) N"
  shows "least_name (host_ref itp' port host) (N \<union> step_names pol port host trafficMatch svc cc)"
  using assms(1)
proof (cases rule: inbound_cluster_step_cases)
  case (other tm)
  then show ?thesis using assms(2) by (auto simp: host_ref_put step_names_def)
next
  case (http cfg h h' tm)
  from http(6) [of host N] assms(2) show ?thesis
    unfolding http(4)
    by (cases "host \<in> set (itp_Hostnames cfg)"; cases "port = ms_Port (mcc_Service cc)")
      (simp_all add: host_ref_put step_names_def http(1))
qed

lemma generated_host:
  assumes "generatePipyInboundTrafficPolicy ord mc conf pol td proxy = Some conf'" "pc_Inbound conf = None"
    "pc_Inbound conf' = Some itp"
  shows "least_name (host_ref itp port host) (registered_names pol port host)"
proof -
  from assms obtain itp1 where run:
      "fold_opt (inbound_match_step ord mc conf pol td) (imp_TrafficMatches pol) (newInboundTrafficPolicy conf) = Some itp1"
      "fold_opt (inbound_local_cluster proxy) (imp_ClustersConfigs pol) itp1 = Some itp"
    by (auto simp: generatePipyInboundTrafficPolicy_def split: option.splits)
  define S where "S t = {n. \<exists>svc. trafficMatchToMeshSvc t = Some svc \<and>
      (\<exists>cc\<in>set (getMeshClusterConfigs (imp_ClustersConfigs pol) (SidecarLocalClusterName svc)).
         n \<in> step_names pol port host t svc cc)}" for t
  have step: "least_name (host_ref itp' port host) (N \<union> S t)"
    if "inbound_match_step ord mc conf pol td t itp0 = Some itp'" "least_name (host_ref itp0 port host) N" for t itp0 itp' N
  proof -
    from that(1) obtain s where s: "trafficMatchToMeshSvc t = Some s" "fold_opt (inbound_cluster_step ord mc conf pol td t s)
        (getMeshClusterConfigs (imp_ClustersConfigs pol) (SidecarLocalClusterName s)) itp0 = Some itp'"
      by (auto simp: inbound_match_step_def split: option.splits)
    have "least_name (host_ref itp' port host) (N \<union> (\<Union>cc\<in>set (getMeshClusterConfigs (imp_ClustersConfigs pol)
        (SidecarLocalClusterName s)). step_names pol port host t s cc))"
      by (rule fold_opt_collects [OF s(2), where R = "\<lambda>i N. least_name (host_ref i port host) N", OF that(2)])
        (rule inbound_cluster_step_host)
    moreover have "S t = (\<Union>cc\<in>set (getMeshClusterConfigs (imp_ClustersConfigs pol)
        (SidecarLocalClusterName s)). step_names pol port host t s cc)" by (auto simp: S_def s(1))
    ultimately show ?thesis by simp
  qed
  have "least_name (host_ref (newInboundTrafficPolicy conf) port host) {}"
    using assms(2) by (simp add: least_name_def host_ref_def newInboundTrafficPolicy_def new_InboundTrafficPolicy_def)
  from fold_opt_collects [OF run(1), where R = "\<lambda>i N. least_name (host_ref i port host) N" and S = S, OF this step]
  have "least_name (host_ref itp1 port host) (\<Union>t\<in>set (imp_TrafficMatches pol). S t)" by simp
  moreover have "(\<Union>t\<in>set (imp_TrafficMatches pol). S t) = registered_names pol port host"
    unfolding registered_names_def S_def step_names_def by blast
  ultimately show ?thesis using inbound_local_clusters_matches [OF run(2)] by (simp add: host_ref_def)
qed

subsection \<open>No route is left open\<close>

text \<open>
  A rule whose list of allowed services is empty is open to every client, as the sidecar cannot tell
  it from a rule for the wildcard.  If every rule of the catalog's policy names at least one principal
  and none is the wildcard, no open rule is generated.
\<close>

definition closed_rule :: "('a) HTTPRouteRule_scheme \<Rightarrow> bool" where
  "closed_rule r \<longleftrightarrow> \<not> pmr_allowedAnyService (prr_HTTPMatchRule r) \<and> prr_AllowedServices r \<noteq> []"

definition closed_policy :: "PipyInboundTrafficPolicy \<Rightarrow> bool" where
  "closed_policy itp \<longleftrightarrow> (\<forall>port tm name h. pip_TrafficMatches itp port = Some tm \<longrightarrow>
     pim_HTTPServiceRouteRules tm name = Some h \<longrightarrow> list_all closed_rule (pis_RouteRules h))"

definition named_principals :: "string \<Rightarrow> InboundMeshTrafficPolicy \<Rightarrow> bool" where
  "named_principals td pol \<longleftrightarrow> (\<forall>port cfgs. imp_HTTPRouteConfigsPerPort pol port = Some cfgs \<longrightarrow>
     (\<forall>cfg\<in>set cfgs. \<forall>rule\<in>set (itp_Rules cfg). finite (rule_AllowedPrincipals rule) \<and>
        rule_AllowedPrincipals rule \<noteq> {} \<and> (\<forall>p\<in>rule_AllowedPrincipals rule. FromPrincipal p td \<noteq> ''*'')))"

lemma named_principals_finite: "named_principals td pol \<Longrightarrow> finite_principals pol"
  by (simp add: named_principals_def finite_principals_def)

lemma closed_rule_allows: "closed_rule r \<Longrightarrow> rule_allows r si \<longleftrightarrow> si \<in> set (prr_AllowedServices r)"
  by (simp add: closed_rule_def rule_allows_def)

lemma addAllowedService_closed:
  "s \<noteq> ''*'' \<Longrightarrow> \<not> pmr_allowedAnyService (prr_HTTPMatchRule r) \<Longrightarrow> closed_rule (addAllowedService s r)"
  by (simp add: addAllowedService_def closed_rule_def)

lemma list_all_update_closed:
  assumes "list_all closed_rule (xs[i := y])" "closed_rule z"
  shows "list_all closed_rule (xs[i := z])"
  using assms unfolding list_all_length
  by (metis length_list_update nth_list_update_eq nth_list_update_neq)

lemma inbound_principals_closed:
  assumes "fold_opt (inbound_principal mc conf td i) ps h = Some h'" "\<forall>p\<in>set ps. FromPrincipal p td \<noteq> ''*''"
    "i < length (pis_RouteRules h)" "list_all closed_rule ((pis_RouteRules h)[i := y])"
    "\<not> pmr_allowedAnyService (prr_HTTPMatchRule (pis_RouteRules h ! i))" "closed_rule (pis_RouteRules h ! i) \<or> ps \<noteq> []"
  shows "list_all closed_rule (pis_RouteRules h')"
  using assms
proof (induction ps arbitrary: h y)
  case Nil
  then show ?case using list_all_update_closed [OF Nil.prems(4), of "pis_RouteRules h ! i"] by simp
next
  case (Cons p ps)
  then obtain h1 where h1: "inbound_principal mc conf td i p h = Some h1"
      "fold_opt (inbound_principal mc conf td i) ps h1 = Some h'"
    by (auto split: option.splits)
  let ?r = "addAllowedService (FromPrincipal p td) (pis_RouteRules h ! i)"
  have rules: "pis_RouteRules h1 = (pis_RouteRules h)[i := ?r]" by (rule inbound_principal_rules [OF h1(1)])
  have c: "closed_rule ?r" using Cons.prems by (simp add: addAllowedService_closed)
  then have "list_all closed_rule ((pis_RouteRules h)[i := ?r])"
    using list_all_update_closed [OF Cons.prems(4)] by simp
  moreover have "\<not> pmr_allowedAnyService (prr_HTTPMatchRule ?r)" using c by (simp add: closed_rule_def)
  ultimately show ?case
    by (intro Cons.IH [OF h1(2), of ?r]) (use Cons.prems(2,3) rules c in simp_all)
qed

lemma inbound_http_rule_closed:
  assumes "inbound_http_rule ord mc conf td rule h = Some h'" "fair_order ord"
    "finite (rule_AllowedPrincipals rule)" "rule_AllowedPrincipals rule \<noteq> {}"
    "\<forall>p\<in>rule_AllowedPrincipals rule. FromPrincipal p td \<noteq> ''*''" "list_all closed_rule (pis_RouteRules h)"
  shows "list_all closed_rule (pis_RouteRules h')"
proof (cases "hm_Path (rwc_HTTPRouteMatch (rule_Route rule)) = ''''")
  case True
  with assms(1,6) show ?thesis by (simp add: inbound_http_rule_def)
next
  case False
  let ?k = "http_match_rule (rwc_HTTPRouteMatch (rule_Route rule))"
  let ?f = "\<lambda>hsrr. route_clusters ord (rule_Route rule) (setRateLimit (rwc_RateLimit (rule_Route rule)) hsrr)"
  let ?ps = "so_Principals ord (rule_AllowedPrincipals rule)"
  obtain h1 i dup where new: "inbound_newHTTPServiceRouteRule ?k h = (h1, i, dup)" by (metis prod_cases3)
  note n = new_route_rule_grants [OF new http_match_rule_any_service]
  let ?h2 = "if dup then h1 else at_rule i ?f h1"
  from assms(1) False new have run: "fold_opt (inbound_principal mc conf td i) ?ps ?h2 = Some h'"
    by (simp add: inbound_http_rule_def Let_def)
  have ps: "set ?ps = rule_AllowedPrincipals rule"
    using assms(2,3) lists_elementsD [of "so_Principals ord"] by (auto simp: fair_order_def)
  let ?c = "addAllowedService ''a'' new_InboundHTTPRouteRule"
  have "closed_rule ?c" by (simp add: addAllowedService_def closed_rule_def new_InboundHTTPRouteRule_def new_HTTPMatchRule_def)
  then have "list_all closed_rule ((pis_RouteRules ?h2)[i := ?c])"
    using new assms(6)
    by (auto simp: inbound_newHTTPServiceRouteRule_def list_all_length nth_list_update nth_append
        split: option.splits dest: rule_index_Some)
  moreover have "\<not> pmr_allowedAnyService (prr_HTTPMatchRule (pis_RouteRules ?h2 ! i))" "i < length (pis_RouteRules ?h2)"
    using new n(1) rule_index_Some [of ?k "pis_RouteRules h"]
    by (auto simp: inbound_newHTTPServiceRouteRule_def nth_append split: option.splits)
  moreover have "?ps \<noteq> []" using ps assms(4) by auto
  ultimately show ?thesis using inbound_principals_closed [OF run] assms(5) ps by blast
qed

lemma closed_stored_rules:
  "closed_policy itp \<Longrightarrow> list_all closed_rule (stored_rules (inbound_newTrafficMatch itp port) name)"
  by (auto simp: closed_policy_def stored_rules_def inbound_newTrafficMatch_def new_InboundTrafficMatch_def
      split: option.split)

lemma inbound_cluster_step_closed:
  assumes "inbound_cluster_step ord mc conf pol td trafficMatch svc cc itp = Some itp'" "fair_order ord"
    "named_principals td pol" "closed_policy itp"
  shows "closed_policy itp'"
proof -
  have old: "list_all closed_rule (pis_RouteRules h)"
    if "pim_HTTPServiceRouteRules (inbound_newTrafficMatch itp (ms_Port (mcc_Service cc))) n = Some h" for n h
    using closed_stored_rules [OF assms(4), of "ms_Port (mcc_Service cc)" n] that by (simp add: stored_rules_def)
  show ?thesis
    using assms(1)
  proof (cases rule: inbound_cluster_step_cases)
    case (other tm)
    then show ?thesis
      using assms(4) old by (auto simp: closed_policy_def put_traffic_match_def split: if_splits)
  next
    case (http cfg h h' tm)
    have named: "finite (rule_AllowedPrincipals rule) \<and> rule_AllowedPrincipals rule \<noteq> {} \<and>
        (\<forall>p\<in>rule_AllowedPrincipals rule. FromPrincipal p td \<noteq> ''*'')" if "rule \<in> set (itp_Rules cfg)" for rule
      using http(1) assms(3) that by (auto simp: named_principals_def elim!: match_policy_SomeD)
    have step: "list_all closed_rule (pis_RouteRules s')"
      if "rule \<in> set (itp_Rules cfg)" "list_all closed_rule (pis_RouteRules s)"
        "inbound_http_rule ord mc conf td rule s = Some s'" for rule s s'
      using inbound_http_rule_closed [OF that(3) assms(2)] named [OF that(1)] that(2) by blast
    have "list_all closed_rule (pis_RouteRules h')"
    proof (rule fold_opt_inv [OF http(3), where I = "\<lambda>_ h. list_all closed_rule (pis_RouteRules h)"])
      show "list_all closed_rule (pis_RouteRules h)" by (simp add: http(2) closed_stored_rules [OF assms(4)])
    next
      fix ys rule zs s s'
      assume "itp_Rules cfg = ys @ rule # zs" "list_all closed_rule (pis_RouteRules s)"
        "inbound_http_rule ord mc conf td rule s = Some s'"
      then show "list_all closed_rule (pis_RouteRules s')" using step [of rule s s'] by simp
    qed
    then show ?thesis
      using assms(4) old http(5)
      by (auto simp: http(4) closed_policy_def put_traffic_match_def split: if_splits)
  qed
qed

lemma generated_policy_closed:
  assumes "generatePipyInboundTrafficPolicy ord mc conf pol td proxy = Some conf'" "pc_Inbound conf = None"
    "fair_order ord" "named_principals td pol" "pc_Inbound conf' = Some itp"
  shows "closed_policy itp"
proof -
  from assms(1,2,5) obtain itp1 where run:
      "fold_opt (inbound_match_step ord mc conf pol td) (imp_TrafficMatches pol) new_InboundTrafficPolicy = Some itp1"
      "fold_opt (inbound_local_cluster proxy) (imp_ClustersConfigs pol) itp1 = Some itp"
    by (auto simp: generatePipyInboundTrafficPolicy_def newInboundTrafficPolicy_def split: option.splits)
  have step: "closed_policy itp'"
    if "inbound_match_step ord mc conf pol td t itp0 = Some itp'" "closed_policy itp0" for t itp0 itp'
    using that inbound_cluster_step_closed [OF _ assms(3,4)]
    by (auto simp: inbound_match_step_def split: option.splits
        elim!: fold_opt_inv [where I = "\<lambda>_. closed_policy"])
  have closed_new: "closed_policy new_InboundTrafficPolicy"
    by (simp add: closed_policy_def new_InboundTrafficPolicy_def)
  have "closed_policy itp1"
    by (rule fold_opt_inv [OF run(1), where I = "\<lambda>_. closed_policy"])
      (use closed_new step in auto)
  with inbound_local_clusters_matches [OF run(2)] show ?thesis by (simp add: closed_policy_def)
qed

section \<open>The generated policy\<close>

text \<open>
  The sidecar configuration admits exactly whom the catalog's inbound policy admits.  After
  generating the inbound part for a fresh configuration, a route of the rules stored under a service
  port and a policy name admits an identity exactly if some traffic match of the policy, translated
  back to its service, has a local cluster on that service port and an HTTP policy of that name with
  a rule whose match is this route and whose principals include the identity's or the wildcard.
\<close>

lemma sidecar_inbound_admits_policy:
  assumes "generatePipyInboundTrafficPolicy ord mc conf pol td proxy = Some conf'" "pc_Inbound conf = None"
    and "fair_order ord" "finite_principals pol"
  shows "\<exists>itp. pc_Inbound conf' = Some itp \<and>
    (\<forall>port name m si. inbound_grants itp port name m si \<longleftrightarrow>
      (\<exists>trafficMatch\<in>set (imp_TrafficMatches pol). \<exists>svc cc cfg rule.
         trafficMatchToMeshSvc trafficMatch = Some svc \<and>
         cc \<in> set (getMeshClusterConfigs (imp_ClustersConfigs pol) (SidecarLocalClusterName svc)) \<and>
         port = ms_Port (mcc_Service cc) \<and> match_policy pol trafficMatch svc = Some cfg \<and> name = itp_Name cfg \<and>
         rule \<in> set (itp_Rules cfg) \<and> rule_grants td rule m si))"
proof -
  from assms(1,2) obtain itp1 itp where run:
      "fold_opt (inbound_match_step ord mc conf pol td) (imp_TrafficMatches pol) new_InboundTrafficPolicy = Some itp1"
      "fold_opt (inbound_local_cluster proxy) (imp_ClustersConfigs pol) itp1 = Some itp"
      "conf' = conf\<lparr>pc_Inbound := Some itp\<rparr>"
    by (auto simp: generatePipyInboundTrafficPolicy_def newInboundTrafficPolicy_def split: option.splits)
  have "inbound_grants itp1 port name m si \<longleftrightarrow> inbound_grants new_InboundTrafficPolicy port name m si \<or>
      (\<exists>trafficMatch\<in>set (imp_TrafficMatches pol). \<exists>svc cc cfg rule.
         trafficMatchToMeshSvc trafficMatch = Some svc \<and>
         cc \<in> set (getMeshClusterConfigs (imp_ClustersConfigs pol) (SidecarLocalClusterName svc)) \<and>
         port = ms_Port (mcc_Service cc) \<and> match_policy pol trafficMatch svc = Some cfg \<and> name = itp_Name cfg \<and>
         rule \<in> set (itp_Rules cfg) \<and> rule_grants td rule m si)" for port name m si
    by (rule fold_opt_adds [OF run(1)]) (rule inbound_match_step_grants [OF _ assms(3,4)])
  moreover have "inbound_grants itp port name m si \<longleftrightarrow> inbound_grants itp1 port name m si"
    "\<not> inbound_grants new_InboundTrafficPolicy port name m si" for port name m si
    using inbound_local_clusters_matches [OF run(2)]
    by (simp_all add: inbound_grants_def new_InboundTrafficPolicy_def)
  ultimately show ?thesis using run(3) by simp
qed

section \<open>The generation never panics\<close>

text \<open>
  For a policy whose match names have the expected form, whose HTTP policies are named and whose
  principals stand for accounts, and a proxy whose address is known.
\<close>

definition endpoints_total :: "MeshCatalog \<Rightarrow> bool" where
  "endpoints_total mc \<longleftrightarrow> (\<forall>si. \<not> dot_free si \<longrightarrow> listEndpointsForServiceIdentity mc si \<noteq> None)"

definition account_rules :: "string \<Rightarrow> InboundTrafficPolicy \<Rightarrow> bool" where
  "account_rules td cfg \<longleftrightarrow> itp_Name cfg \<noteq> '''' \<and> (\<forall>rule\<in>set (itp_Rules cfg).
     finite (rule_AllowedPrincipals rule) \<and> (\<forall>p\<in>rule_AllowedPrincipals rule. \<not> dot_free (FromPrincipal p td)))"

lemma fold_opt_neq_None: "(\<And>x s. x \<in> set xs \<Longrightarrow> f x s \<noteq> None) \<Longrightarrow> fold_opt f xs s \<noteq> None"
  using fold_opt_total [of xs "\<lambda>_. True" f s] by fastforce

lemma inbound_http_rule_total:
  assumes "endpoints_total mc" "fair_order ord" "finite (rule_AllowedPrincipals rule)"
    "\<forall>p\<in>rule_AllowedPrincipals rule. \<not> dot_free (FromPrincipal p td)"
  shows "inbound_http_rule ord mc conf td rule h \<noteq> None"
proof -
  have "set (so_Principals ord (rule_AllowedPrincipals rule)) = rule_AllowedPrincipals rule"
    using assms(2,3) lists_elementsD by (auto simp: fair_order_def)
  then have "fold_opt (inbound_principal mc conf td i) (so_Principals ord (rule_AllowedPrincipals rule)) h \<noteq> None" for i h
    using assms(1,4)
    by (intro fold_opt_neq_None) (auto simp: inbound_principal_def Let_def endpoints_total_def split: option.splits)
  then show ?thesis by (auto simp: inbound_http_rule_def Let_def split: prod.split simp del: not_None_eq)
qed

lemma plugin_configs_total:
  "trafficMatchToMeshSvc trafficMatch \<noteq> None \<Longrightarrow> getTrafficMatchPluginConfigs conf (tm_Name trafficMatch) \<noteq> None"
  by (auto simp: trafficMatchToMeshSvc_def getTrafficMatchPluginConfigs_def Let_def split: if_splits)

lemma inbound_cluster_step_total:
  assumes "endpoints_total mc" "fair_order ord" "trafficMatchToMeshSvc trafficMatch \<noteq> None"
    "\<And>cfg. match_policy pol trafficMatch svc = Some cfg \<Longrightarrow> account_rules td cfg"
  shows "inbound_cluster_step ord mc conf pol td trafficMatch svc cc itp \<noteq> None"
proof (cases "match_policy pol trafficMatch svc")
  case None
  then show ?thesis
    using plugin_configs_total [OF assms(3)]
    by (auto simp: inbound_cluster_step_def match_policy_def Let_def split: if_splits option.splits)
next
  case (Some cfg)
  then have cfg: "account_rules td cfg" "is_http_match trafficMatch"
      "getInboundHTTPRouteConfigs (imp_HTTPRouteConfigsPerPort pol) (int (unat (ms_TargetPort svc))) (PolicyName svc False) = Some cfg"
    using assms(4) by (auto simp: match_policy_def split: if_splits)
  have "fold_opt (inbound_http_rule ord mc conf td) (itp_Rules cfg) h \<noteq> None" for h
    using cfg(1) inbound_http_rule_total [OF assms(1,2)]
    by (intro fold_opt_neq_None) (simp add: account_rules_def del: not_None_eq)
  then show ?thesis
    using cfg plugin_configs_total [OF assms(3), of conf]
    by (auto simp: inbound_cluster_step_def inbound_newHTTPServiceRouteRules_def account_rules_def Let_def
        simp del: not_None_eq split: option.split)
qed

lemma inbound_generation_total:
  assumes "endpoints_total mc" "fair_order ord" "ppx_VM proxy \<longrightarrow> ppx_MachineIP proxy \<noteq> None"
    "\<And>t. t \<in> set (imp_TrafficMatches pol) \<Longrightarrow> trafficMatchToMeshSvc t \<noteq> None"
    "\<And>port cfgs cfg. imp_HTTPRouteConfigsPerPort pol port = Some cfgs \<Longrightarrow> cfg \<in> set cfgs \<Longrightarrow> account_rules td cfg"
  shows "generatePipyInboundTrafficPolicy ord mc conf pol td proxy \<noteq> None"
proof -
  have "inbound_match_step ord mc conf pol td t itp \<noteq> None" if t: "t \<in> set (imp_TrafficMatches pol)" for t itp
  proof -
    obtain svc where svc: "trafficMatchToMeshSvc t = Some svc" using assms(4) [OF t] by blast
    have "account_rules td cfg" if "match_policy pol t svc = Some cfg" for cfg
      using assms(5) by (rule match_policy_SomeD [OF that])
    then have "inbound_cluster_step ord mc conf pol td t svc cc itp \<noteq> None" for cc itp
      by (intro inbound_cluster_step_total [OF assms(1,2)]) (simp_all add: svc)
    with svc show ?thesis by (simp add: inbound_match_step_def fold_opt_neq_None del: not_None_eq)
  qed
  then have 1: "fold_opt (inbound_match_step ord mc conf pol td) (imp_TrafficMatches pol) itp \<noteq> None" for itp
    by (rule fold_opt_neq_None)
  have 2: "fold_opt (inbound_local_cluster proxy) (imp_ClustersConfigs pol) itp \<noteq> None" for itp
    using assms(3) by (intro fold_opt_neq_None) (auto simp: inbound_local_cluster_def split: option.split)
  show ?thesis
    using 1 2 by (simp add: generatePipyInboundTrafficPolicy_def del: not_None_eq split: option.split)
qed

section \<open>Examples\<close>

text \<open>An iteration order that sorts, and a sidecar of a pod.\<close>

definition order0 :: SetOrder where
  "order0 = \<lparr>so_Clusters = (\<lambda>A. map (\<lambda>(n, w). \<lparr>wc_ClusterName = n, wc_Weight = w\<rparr>)
       (sorted_list_of_set ((\<lambda>c. (wc_ClusterName c, wc_Weight c)) ` A))), so_Principals = sorted_list_of_set,
     so_Keys = sorted_list_of_set, so_Ports = sorted_list_of_set\<rparr>"

definition sidecar0 :: "ServiceIdentity \<Rightarrow> PipyProxy" where
  "sidecar0 identity = \<lparr>ppx_UUID = ''1'', ppx_Identity = identity, ppx_podName = ''web'', ppx_podNamespace = ''shop'',
     ppx_Addr = None, ppx_Deletion = False, ppx_Metadata = None, ppx_ETag = 0, ppx_VM = False, ppx_MachineIP = None,
     ppx_ClusterID = ''''\<rparr>"

lemma order0_fair: "fair_order order0"
proof -
  have "set (so_Clusters order0 A) = A \<and> distinct (so_Clusters order0 A)" if "finite A" for A :: "WeightedCluster set"
  proof
    let ?f = "\<lambda>(n, w). \<lparr>wc_ClusterName = n, wc_Weight = w\<rparr> :: WeightedCluster"
    have "?f (wc_ClusterName c, wc_Weight c) = c" for c by (cases c) simp
    then have "?f ` (\<lambda>c. (wc_ClusterName c, wc_Weight c)) ` A = A" by (simp only: image_image image_ident)
    then show "set (so_Clusters order0 A) = A" using that by (simp add: order0_def)
    have "inj ?f" by (auto simp: inj_def)
    then show "distinct (so_Clusters order0 A)" by (simp add: order0_def distinct_map inj_on_subset [OF _ subset_UNIV])
  qed
  then show ?thesis by (simp add: fair_order_def order0_def lists_elements_def)
qed

end
