(* ===== verification/PipyRouting.thy ===== *)
theory PipyRouting
  imports PipyInbound
begin

text \<open>
  The request routing of the inbound listener
  (\<open>pkg/sidecar/v1/providers/pipy/repo/codebase/modules/inbound-http-routing.js\<close>), which the sidecar
  runs on the published configuration.  Regular expressions and address masks of the Pipy runtime are
  the arguments \<open>re\<close> (pattern, text) and \<open>inMask\<close> (mask, address).  The configuration arrives as
  JSON, where unexported fields are missing and empty lists are omitted: a route without allowed
  services is registered under the empty identity.
\<close>

record HttpRequest =
  rq_serviceidentity :: string
  rq_method :: string
  rq_path :: string
  rq_headers :: "string \<rightharpoonup> string"
  rq_host :: string
  rq_remoteAddress :: string

definition allMethods :: "string list" where
  "allMethods = [''GET'', ''HEAD'', ''POST'', ''PUT'', ''DELETE'', ''PATCH'', ''OPTIONS'']"

definition matchPath :: "(string \<Rightarrow> string \<Rightarrow> bool) \<Rightarrow> HTTPMatchRule \<Rightarrow> string \<Rightarrow> bool" where
  "matchPath re m path =
     (if pmr_Type m = URIMatchRegex then re (pmr_Path m) path
      else if pmr_Type m = URIMatchExact then path = pmr_Path m
      else if pmr_Type m = URIMatchPrefix then HasPrefix path (pmr_Path m)
      else False)"

definition headerRules :: "(string \<Rightarrow> string \<Rightarrow> bool) \<Rightarrow> HTTPMatchRule \<Rightarrow> (string \<rightharpoonup> string) \<Rightarrow> bool" where
  "headerRules re m headers \<longleftrightarrow>
     (\<forall>k\<in>dom (pmr_Headers m). re (the (pmr_Headers m k)) (case headers k of None \<Rightarrow> '''' | Some v \<Rightarrow> v))"

definition rule_matches :: "(string \<Rightarrow> string \<Rightarrow> bool) \<Rightarrow> HTTPMatchRule \<Rightarrow> HttpRequest \<Rightarrow> bool" where
  "rule_matches re m rq \<longleftrightarrow> matchPath re m (rq_path rq) \<and> headerRules re m (rq_headers rq)"

definition allowedIdentities :: "('a) HTTPRouteRule_scheme \<Rightarrow> string list" where
  "allowedIdentities r = (if prr_AllowedServices r = [] then [''''] else prr_AllowedServices r)"

definition allowedMethods :: "HTTPMatchRule \<Rightarrow> string list" where
  "allowedMethods m = (if pmr_Methods m = [] then allMethods else pmr_Methods m)"

text \<open>\<open>tree[identity][method]\<close>: the rules registered there, in order; an absent entry is the empty list.
  The handler looks under the identity the request carries first, and under the empty identity only
  if there is no entry.\<close>

definition tree :: "('a) HTTPRouteRule_scheme list \<Rightarrow> string \<Rightarrow> string \<Rightarrow> 'a HTTPRouteRule_scheme list" where
  "tree rules ident method =
     filter (\<lambda>r. ident \<in> set (allowedIdentities r) \<and> method \<in> set (allowedMethods (prr_HTTPMatchRule r))) rules"

definition makeServiceHandler ::
  "(string \<Rightarrow> string \<Rightarrow> bool) \<Rightarrow> ('a) HTTPRouteRule_scheme list \<Rightarrow> HttpRequest \<Rightarrow> ('a) HTTPRouteRule_scheme option" where
  "makeServiceHandler re rules rq =
     (let named = tree rules (rq_serviceidentity rq) (rq_method rq) in
      find (\<lambda>r. rule_matches re (prr_HTTPMatchRule r) rq)
        (if rq_serviceidentity rq \<noteq> '''' \<and> named \<noteq> [] then named else tree rules '''' (rq_method rq)))"

text \<open>The host name of the request selects the service; requests from an address in a source range
  are ingress traffic and use the host \<open>*\<close>.\<close>

definition isIngress :: "(string \<Rightarrow> string \<Rightarrow> bool) \<Rightarrow> InboundTrafficMatch \<Rightarrow> HttpRequest \<Rightarrow> bool" where
  "isIngress inMask tm rq \<longleftrightarrow> (\<exists>k\<in>dom (pim_SourceIPRanges tm). inMask k (rq_remoteAddress rq))"

definition host_rules :: "InboundTrafficMatch \<Rightarrow> string \<Rightarrow> InboundHTTPRouteRule list" where
  "host_rules tm host =
     (case pim_HTTPHostPort2Service tm host of
        None \<Rightarrow> []
      | Some ref \<Rightarrow> (case pim_HTTPServiceRouteRules tm (pref_RuleName ref) of
                      None \<Rightarrow> [] | Some h \<Rightarrow> pis_RouteRules h))"

definition makePortHandler ::
  "(string \<Rightarrow> string \<Rightarrow> bool) \<Rightarrow> (string \<Rightarrow> string \<Rightarrow> bool) \<Rightarrow> InboundTrafficMatch \<Rightarrow> HttpRequest \<Rightarrow>
   InboundHTTPRouteRule option" where
  "makePortHandler re inMask tm rq =
     makeServiceHandler re (host_rules tm (if isIngress inMask tm rq then ''*'' else rq_host rq)) rq"

lemma host_rulesD:
  "r \<in> set (host_rules tm host) \<Longrightarrow> \<exists>name h. pim_HTTPServiceRouteRules tm name = Some h \<and> r \<in> set (pis_RouteRules h)"
  unfolding host_rules_def by (auto split: option.splits) metis

section \<open>Who is routed\<close>

text \<open>A request is routed to a rule that covers it and either lists the identity the request carries
  or is open; a request that a rule listing its identity covers is always routed.\<close>

definition rule_covers :: "(string \<Rightarrow> string \<Rightarrow> bool) \<Rightarrow> HTTPMatchRule \<Rightarrow> HttpRequest \<Rightarrow> bool" where
  "rule_covers re m rq \<longleftrightarrow> rule_matches re m rq \<and> rq_method rq \<in> set (allowedMethods m)"

lemma rule_covers_any_service [simp]:
  "rule_covers re (m\<lparr>pmr_allowedAnyService := b\<rparr>) rq = rule_covers re m rq"
  by (simp add: rule_covers_def rule_matches_def matchPath_def headerRules_def allowedMethods_def)

lemma makeServiceHandler_SomeD:
  assumes "makeServiceHandler re rules rq = Some r"
  shows "r \<in> set rules \<and> rule_covers re (prr_HTTPMatchRule r) rq \<and>
    (rq_serviceidentity rq \<in> set (prr_AllowedServices r) \<or> prr_AllowedServices r = [] \<or> '''' \<in> set (prr_AllowedServices r))"
  using find_SomeD [OF assms [unfolded makeServiceHandler_def Let_def]]
  by (auto simp: tree_def rule_covers_def allowedIdentities_def split: if_splits)

lemma makeServiceHandler_named:
  assumes "r \<in> set rules" "rule_covers re (prr_HTTPMatchRule r) rq"
    "rq_serviceidentity rq \<in> set (prr_AllowedServices r)" "rq_serviceidentity rq \<noteq> ''''"
  shows "\<exists>r'. makeServiceHandler re rules rq = Some r'"
proof -
  have r: "r \<in> set (tree rules (rq_serviceidentity rq) (rq_method rq))"
    using assms by (auto simp: tree_def rule_covers_def allowedIdentities_def)
  then have "tree rules (rq_serviceidentity rq) (rq_method rq) \<noteq> []" by auto
  with assms(4) have "makeServiceHandler re rules rq =
      find (\<lambda>r. rule_matches re (prr_HTTPMatchRule r) rq) (tree rules (rq_serviceidentity rq) (rq_method rq))"
    by (simp add: makeServiceHandler_def)
  moreover have "find (\<lambda>r. rule_matches re (prr_HTTPMatchRule r) rq)
      (tree rules (rq_serviceidentity rq) (rq_method rq)) \<noteq> None"
    using r assms(2) by (auto simp: find_None_iff rule_covers_def)
  ultimately show ?thesis by auto
qed

lemma makeServiceHandler_open:
  assumes "r \<in> set rules" "rule_covers re (prr_HTTPMatchRule r) rq" "prr_AllowedServices r = []"
    "\<forall>r'\<in>set rules. rq_serviceidentity rq \<in> set (prr_AllowedServices r') \<longrightarrow>
       rq_method rq \<notin> set (allowedMethods (prr_HTTPMatchRule r'))"
  shows "\<exists>r'. makeServiceHandler re rules rq = Some r'"
proof -
  have r: "r \<in> set (tree rules '''' (rq_method rq))"
    using assms(1-3) by (auto simp: tree_def rule_covers_def allowedIdentities_def)
  have "rq_serviceidentity rq \<noteq> '''' \<Longrightarrow> tree rules (rq_serviceidentity rq) (rq_method rq) = []"
    using assms(4) by (auto simp: tree_def filter_empty_conv allowedIdentities_def split: if_splits)
  then have "makeServiceHandler re rules rq =
      find (\<lambda>r. rule_matches re (prr_HTTPMatchRule r) rq) (tree rules '''' (rq_method rq))"
    by (auto simp: makeServiceHandler_def Let_def)
  moreover have "find (\<lambda>r. rule_matches re (prr_HTTPMatchRule r) rq) (tree rules '''' (rq_method rq)) \<noteq> None"
    using r assms(2) by (auto simp: find_None_iff rule_covers_def)
  ultimately show ?thesis by auto
qed

end
