(* ===== verification/MeshAccess.thy ===== *)
theory MeshAccess
  imports PipyRouting
begin

text \<open>
  From traffic targets to routed requests: the inbound policy the catalog computes for a workload,
  its translation into the sidecar configuration and the routing the sidecar performs on it, put
  together.
\<close>

section \<open>From a traffic match back to its service\<close>

definition plain_names :: "MeshService \<Rightarrow> bool" where
  "plain_names svc \<longleftrightarrow> CHR ''_'' \<notin> set (ms_Namespace svc) \<union> set (ms_Name svc) \<union> set (ms_Protocol svc) \<union>
       set (ms_CloudAttachedNamespace svc) \<and> slash_free (ms_Namespace svc) \<and> slash_free (ms_Name svc)"

lemma inbound_match_name_chunks:
  assumes "plain_names svc"
  shows "Split CHR ''_'' (InboundTrafficMatchName svc) =
    [''inbound'', ms_String svc, fmt_u16 (ms_TargetPort svc), ms_Protocol svc, ms_CloudAttachedNamespace svc]"
proof -
  have s: "CHR ''_'' \<notin> set (ms_String svc)" "CHR ''_'' \<notin> set (ms_Protocol svc)"
    "CHR ''_'' \<notin> set (ms_CloudAttachedNamespace svc)"
    using assms by (auto simp: plain_names_def ms_String_def)
  have "InboundTrafficMatchName svc = ''inbound'' @ CHR ''_'' # ms_String svc @ CHR ''_'' # fmt_u16 (ms_TargetPort svc)
      @ CHR ''_'' # ms_Protocol svc @ CHR ''_'' # ms_CloudAttachedNamespace svc"
    by (simp add: InboundTrafficMatchName_def)
  with s show ?thesis
    by (simp only: Split_append_sep [OF s(1)] Split_append_sep [OF s(2)] Split_no_sep [OF s(3)]
        Split_append_sep [OF fmt_u16_no_sep] sep_not_digit) (simp add: Split_append_sep Split_no_sep s)
qed

lemma inbound_match_back:
  assumes "plain_names svc"
  shows "trafficMatchToMeshSvc (inbound_match mc svc) =
    Some (svc\<lparr>ms_Port := 0, ms_Protocol := ToLower (ms_Protocol svc), ms_ServiceImportUID := '''',
      ms_CloudInheritedFrom := ''''\<rparr>)"
proof -
  have "Split CHR ''/'' (ms_String svc) = [ms_Namespace svc, ms_Name svc]"
    using assms by (simp add: plain_names_def slash_free_def ms_String_def Split_append_sep Split_no_sep)
  then show ?thesis
    using inbound_match_name_chunks [OF assms]
    by (simp add: trafficMatchToMeshSvc_def inbound_match_def NamespacedNameFrom_def plain_service_def Let_def
        u16_def zero_match_def)
qed

section \<open>The principals of the catalog's rules\<close>

text \<open>Traffic targets in force whose destination is the given account.\<close>

definition target_for :: "MeshCatalog \<Rightarrow> K8sServiceAccount \<Rightarrow> TrafficTarget \<Rightarrow> bool" where
  "target_for mc dst t \<longleftrightarrow> t \<in> set (smi_TrafficTargets (mc_smi mc)) \<and>
     IsMonitoredNamespace (mc_kube mc) (om_Namespace (tt_Meta t)) \<and> isValidTrafficTarget t \<and>
     trafficTargetIdentityToSvcAccount (tt_Destination t) = dst"

definition sources_named :: "MeshCatalog \<Rightarrow> K8sServiceAccount \<Rightarrow> bool" where
  "sources_named mc dst \<longleftrightarrow> (\<forall>t. target_for mc dst t \<longrightarrow> tt_Sources t \<noteq> [])"

lemma FromPrincipal_account [simp]: "FromPrincipal (sa_AsPrincipal sa td) td = ToServiceIdentity sa"
  by (simp add: sa_AsPrincipal_def AsPrincipal_def FromPrincipal_def ToServiceIdentity_def)

lemma ToServiceIdentity_dot: "CHR ''.'' \<in> set (ToServiceIdentity sa)"
  by (simp add: ToServiceIdentity_def New_def)

lemma ToServiceIdentity_named [simp]: "ToServiceIdentity sa \<noteq> ''*''" "ToServiceIdentity sa \<noteq> ''''"
  using ToServiceIdentity_dot [of sa] by auto

lemma merge_by_all:
  assumes "P new" "\<forall>x\<in>set xs. P x" "\<And>x y. P x \<Longrightarrow> P y \<Longrightarrow> P (join x y)"
  shows "\<forall>x\<in>set (merge_by key join new xs). P x"
  using assms by (induction xs) auto

lemma MergeRules_all:
  assumes "\<forall>x\<in>set a. P x" "\<forall>x\<in>set b. P x" "\<And>x y. P x \<Longrightarrow> P y \<Longrightarrow> P (join_rules x y)"
  shows "\<forall>x\<in>set (MergeRules a b). P x"
  unfolding MergeRules_def merge_all_by_def
  using assms(1,2)
proof (induction b arbitrary: a)
  case (Cons r b)
  have "\<forall>x\<in>set (merge_by rule_Route join_rules r a). P x"
    using Cons.prems assms(3) by (intro merge_by_all) auto
  with Cons show ?case by simp
qed simp

lemma built_rules_principals:
  assumes "sources_named mc dst" "sa_Name dst \<noteq> ''''"
    "rule \<in> set (itp_Rules (buildInboundHTTPPolicyFromTrafficTarget mc svc
        (ListTrafficTargets (mc_kube mc) (mc_smi mc) dst) uts))"
  shows "finite (rule_AllowedPrincipals rule) \<and> rule_AllowedPrincipals rule \<noteq> {}"
proof -
  define P where "P r \<longleftrightarrow> finite (rule_AllowedPrincipals r) \<and> rule_AllowedPrincipals r \<noteq> {}" for r :: Rule
  have join: "P (join_rules x y)" if "P x" "P y" for x y
    using that by (simp add: P_def join_rules_def)
  have one: "\<forall>r\<in>set (getRoutingRulesFromTrafficTarget mc t (local_cluster svc) uts). P r"
    if "t \<in> set (ListTrafficTargets (mc_kube mc) (mc_smi mc) dst)" for t
  proof -
    have "target_for mc dst t"
      using that FilterTrafficTarget_some [OF assms(2), of t]
      by (auto simp: target_for_def mem_ListTrafficTargets trafficTargetIdentityToSvcAccount_def)
    then have "tt_Sources t \<noteq> []" using assms(1) by (simp add: sources_named_def)
    then show ?thesis by (simp add: getRoutingRulesFromTrafficTarget_def Let_def P_def)
  qed
  have "\<forall>r\<in>set (fold (\<lambda>t rules. MergeRules rules (getRoutingRulesFromTrafficTarget mc t (local_cluster svc) uts)) ts rules). P r"
    if "set ts \<subseteq> set (ListTrafficTargets (mc_kube mc) (mc_smi mc) dst)" "\<forall>r\<in>set rules. P r" for ts rules
    using that
  proof (induction ts arbitrary: rules)
    case (Cons t ts)
    have "\<forall>r\<in>set (MergeRules rules (getRoutingRulesFromTrafficTarget mc t (local_cluster svc) uts)). P r"
      using MergeRules_all [OF Cons.prems(2) one [of t] join] Cons.prems(1) by simp
    with Cons show ?case by simp
  qed simp
  from this [of "ListTrafficTargets (mc_kube mc) (mc_smi mc) dst" "[]"] assms(3) show ?thesis
    by (simp add: buildInboundHTTPPolicyFromTrafficTarget_def Let_def P_def)
qed

text \<open>A principal of a rule is the principal of a source account of a target that grants the rule's
  route.\<close>

lemma built_rule_sources:
  assumes "specs_ok mc" "sa_Name dst \<noteq> ''''"
    "rule \<in> set (itp_Rules (buildInboundHTTPPolicyFromTrafficTarget mc svc
        (ListTrafficTargets (mc_kube mc) (mc_smi mc) dst) (service_setting mc svc)))" "p \<in> rule_AllowedPrincipals rule"
  obtains t s where "target_for mc dst t" "s \<in> set (tt_Sources t)"
    "p = sa_AsPrincipal (trafficTargetIdentityToSvcAccount s) (GetTrustDomain mc)"
    "target_route mc t (rwc_HTTPRouteMatch (rule_Route rule))"
proof -
  have "p \<in> rules_allow (itp_Rules (buildInboundHTTPPolicyFromTrafficTarget mc svc
        (ListTrafficTargets (mc_kube mc) (mc_smi mc) dst) (service_setting mc svc))) (rule_Route rule)"
    using assms(3,4) by (auto simp: mem_rules_allow)
  then show ?thesis
    unfolding inbound_policy_access [OF assms(1,2)]
    by (elim bexE conjE exE) (auto simp: target_for_def NewRouteWeightedCluster_def intro!: that)
qed

lemma granted_rule_exists:
  assumes "specs_ok mc" "sa_Name dst \<noteq> ''''" "target_for mc dst t" "s \<in> set (tt_Sources t)" "target_route mc t m"
  obtains rule where "rule \<in> set (itp_Rules (buildInboundHTTPPolicyFromTrafficTarget mc svc
        (ListTrafficTargets (mc_kube mc) (mc_smi mc) dst) (service_setting mc svc)))"
    "sa_AsPrincipal (trafficTargetIdentityToSvcAccount s) (GetTrustDomain mc) \<in> rule_AllowedPrincipals rule"
    "rwc_HTTPRouteMatch (rule_Route rule) = m"
proof -
  have "sa_AsPrincipal (trafficTargetIdentityToSvcAccount s) (GetTrustDomain mc) \<in>
      rules_allow (itp_Rules (buildInboundHTTPPolicyFromTrafficTarget mc svc
        (ListTrafficTargets (mc_kube mc) (mc_smi mc) dst) (service_setting mc svc)))
        (NewRouteWeightedCluster m [local_cluster svc] (service_setting mc svc))"
    unfolding inbound_policy_access [OF assms(1,2)] using assms(3-5) by (auto simp: target_for_def)
  then show ?thesis
    by (auto simp: mem_rules_allow NewRouteWeightedCluster_def intro!: that)
qed

text \<open>The setting of both end-to-end statements: an inbound policy of the catalog outside permissive
  mode, and the sidecar configuration generated from it.\<close>

record Workload =
  wl_mc :: MeshCatalog
  wl_identity :: ServiceIdentity
  wl_account :: K8sServiceAccount
  wl_services :: "MeshService list"
  wl_policy :: InboundMeshTrafficPolicy
  wl_order :: SetOrder
  wl_proxy :: PipyProxy
  wl_conf :: PipyConf
  wl_inbound :: PipyInboundTrafficPolicy

definition strict_policy :: "Workload \<Rightarrow> bool" where
  "strict_policy w \<longleftrightarrow>
     \<not> cfg_Permissive (mc_cfg (wl_mc w)) \<and> specs_ok (wl_mc w) \<and>
     ToK8sServiceAccount (wl_identity w) = Some (wl_account w) \<and> sa_Name (wl_account w) \<noteq> '''' \<and>
     GetInboundMeshTrafficPolicy (wl_mc w) (wl_identity w) (wl_services w) = Some (wl_policy w) \<and>
     fair_order (wl_order w) \<and> pc_Inbound (wl_conf w) = None"

definition configured :: "Workload \<Rightarrow> bool" where
  "configured w \<longleftrightarrow> strict_policy w \<and>
     map_option pc_Inbound (generatePipyInboundTrafficPolicy (wl_order w) (wl_mc w) (wl_conf w) (wl_policy w)
       (GetTrustDomain (wl_mc w)) (wl_proxy w)) = Some (Some (wl_inbound w))"

lemma policy_rules:
  assumes "strict_policy w" "imp_HTTPRouteConfigsPerPort (wl_policy w) port = Some cfgs" "cfg \<in> set cfgs"
  obtains svc where "cfg = buildInboundHTTPPolicyFromTrafficTarget (wl_mc w) svc
      (ListTrafficTargets (mc_kube (wl_mc w)) (mc_smi (wl_mc w)) (wl_account w)) (service_setting (wl_mc w) svc)"
  using inbound_policy_of_service [OF _ _ _ assms(2,3), of "wl_mc w" "wl_identity w" "wl_account w" "wl_services w"] assms(1)
  by (auto simp: configured_def strict_policy_def)

lemma policy_finite:
  assumes "strict_policy w"
  shows "finite_principals (wl_policy w)"
proof -
  have "finite (rule_AllowedPrincipals rule)"
    if "rule \<in> set (itp_Rules (buildInboundHTTPPolicyFromTrafficTarget mc svc ts uts))" for mc svc ts uts rule
  proof -
    have "\<forall>r\<in>set (fold (\<lambda>t rules. MergeRules rules (getRoutingRulesFromTrafficTarget mc t (local_cluster svc) uts)) ts rules).
        finite (rule_AllowedPrincipals r)" if "\<forall>r\<in>set rules. finite (rule_AllowedPrincipals r)" for rules
      using that
    proof (induction ts arbitrary: rules)
      case (Cons t ts)
      have "\<forall>r\<in>set (MergeRules rules (getRoutingRulesFromTrafficTarget mc t (local_cluster svc) uts)).
          finite (rule_AllowedPrincipals r)"
        by (rule MergeRules_all [OF Cons.prems])
          (auto simp: getRoutingRulesFromTrafficTarget_def Let_def join_rules_def)
      with Cons show ?case by simp
    qed simp
    from this [of "[]"] that show ?thesis by (simp add: buildInboundHTTPPolicyFromTrafficTarget_def Let_def)
  qed
  then show ?thesis unfolding finite_principals_def by (metis policy_rules [OF assms])
qed

lemma policy_named:
  assumes "strict_policy w" "sources_named (wl_mc w) (wl_account w)"
  shows "named_principals (GetTrustDomain (wl_mc w)) (wl_policy w)"
proof -
  have w: "specs_ok (wl_mc w)" "sa_Name (wl_account w) \<noteq> ''''" using assms(1) by (simp_all add: configured_def strict_policy_def)
  have "finite (rule_AllowedPrincipals rule) \<and> rule_AllowedPrincipals rule \<noteq> {} \<and>
      (\<forall>p\<in>rule_AllowedPrincipals rule. FromPrincipal p (GetTrustDomain (wl_mc w)) \<noteq> ''*'')"
    if pol: "imp_HTTPRouteConfigsPerPort (wl_policy w) port = Some cfgs" "cfg \<in> set cfgs" and r: "rule \<in> set (itp_Rules cfg)"
    for port cfgs cfg rule
  proof -
    obtain svc where cfg: "cfg = buildInboundHTTPPolicyFromTrafficTarget (wl_mc w) svc
        (ListTrafficTargets (mc_kube (wl_mc w)) (mc_smi (wl_mc w)) (wl_account w)) (service_setting (wl_mc w) svc)"
      by (rule policy_rules [OF assms(1) pol])
    have "FromPrincipal p (GetTrustDomain (wl_mc w)) \<noteq> ''*''" if "p \<in> rule_AllowedPrincipals rule" for p
      by (rule built_rule_sources [OF w r [unfolded cfg] that]) simp
    with built_rules_principals [OF assms(2) w(2) r [unfolded cfg]] show ?thesis by blast
  qed
  then show ?thesis unfolding named_principals_def by blast
qed

section \<open>What a configured sidecar admits\<close>

lemma configured_strict: "configured w \<Longrightarrow> strict_policy w"
  by (simp add: configured_def)

lemma workload_run:
  assumes "configured w"
  obtains conf' where "generatePipyInboundTrafficPolicy (wl_order w) (wl_mc w) (wl_conf w) (wl_policy w)
      (GetTrustDomain (wl_mc w)) (wl_proxy w) = Some conf'" "pc_Inbound conf' = Some (wl_inbound w)"
  using assms by (auto simp: configured_def strict_policy_def)

lemma workload_grants:
  assumes "configured w"
  shows "inbound_grants (wl_inbound w) port name m si \<longleftrightarrow>
      (\<exists>trafficMatch\<in>set (imp_TrafficMatches (wl_policy w)). \<exists>svc cc cfg rule.
         trafficMatchToMeshSvc trafficMatch = Some svc \<and>
         cc \<in> set (getMeshClusterConfigs (imp_ClustersConfigs (wl_policy w)) (SidecarLocalClusterName svc)) \<and>
         port = ms_Port (mcc_Service cc) \<and> match_policy (wl_policy w) trafficMatch svc = Some cfg \<and> name = itp_Name cfg \<and>
         rule \<in> set (itp_Rules cfg) \<and> rule_grants (GetTrustDomain (wl_mc w)) rule m si)"
proof -
  obtain conf' where run: "generatePipyInboundTrafficPolicy (wl_order w) (wl_mc w) (wl_conf w) (wl_policy w)
      (GetTrustDomain (wl_mc w)) (wl_proxy w) = Some conf'" "pc_Inbound conf' = Some (wl_inbound w)"
    by (rule workload_run [OF assms])
  have "pc_Inbound (wl_conf w) = None" "fair_order (wl_order w)" using assms by (simp_all add: configured_def strict_policy_def)
  from sidecar_inbound_admits_policy [OF run(1) this policy_finite [OF configured_strict [OF assms]]] run(2) show ?thesis by simp
qed

lemma workload_closed:
  assumes "configured w" "sources_named (wl_mc w) (wl_account w)"
  shows "closed_policy (wl_inbound w)"
proof -
  obtain conf' where run: "generatePipyInboundTrafficPolicy (wl_order w) (wl_mc w) (wl_conf w) (wl_policy w)
      (GetTrustDomain (wl_mc w)) (wl_proxy w) = Some conf'" "pc_Inbound conf' = Some (wl_inbound w)"
    by (rule workload_run [OF assms(1)])
  have "pc_Inbound (wl_conf w) = None" "fair_order (wl_order w)" using assms(1) by (simp_all add: configured_def strict_policy_def)
  from generated_policy_closed [OF run(1) this policy_named [OF configured_strict [OF assms(1)] assms(2)] run(2)] show ?thesis .
qed

text \<open>Every identity admitted on a route is the account of a source of a target that grants it.\<close>

lemma workload_grants_justified:
  assumes "configured w" "inbound_grants (wl_inbound w) port name m si"
  obtains t s r where "target_for (wl_mc w) (wl_account w) t" "s \<in> set (tt_Sources t)"
    "si = ToServiceIdentity (trafficTargetIdentityToSvcAccount s)" "target_route (wl_mc w) t r" "m = http_match_rule r"
proof -
  from assms(2) workload_grants [OF assms(1)] obtain trafficMatch svc cfg rule where
      cfg: "match_policy (wl_policy w) trafficMatch svc = Some cfg" and rule: "rule \<in> set (itp_Rules cfg)"
      "rule_grants (GetTrustDomain (wl_mc w)) rule m si"
    by blast
  obtain cfgs where "imp_HTTPRouteConfigsPerPort (wl_policy w) (int (unat (ms_TargetPort svc))) = Some cfgs" "cfg \<in> set cfgs"
    by (rule match_policy_SomeD [OF cfg])
  then obtain svc' where built: "cfg = buildInboundHTTPPolicyFromTrafficTarget (wl_mc w) svc'
      (ListTrafficTargets (mc_kube (wl_mc w)) (mc_smi (wl_mc w)) (wl_account w)) (service_setting (wl_mc w) svc')"
    by (rule policy_rules [OF configured_strict [OF assms(1)]])
  from rule(2) obtain p where p: "p \<in> rule_AllowedPrincipals rule"
      "FromPrincipal p (GetTrustDomain (wl_mc w)) = si \<or> FromPrincipal p (GetTrustDomain (wl_mc w)) = ''*''"
      "m = http_match_rule (rwc_HTTPRouteMatch (rule_Route rule))"
    by (auto simp: rule_grants_def)
  have "specs_ok (wl_mc w)" "sa_Name (wl_account w) \<noteq> ''''" using assms(1) by (simp_all add: configured_def strict_policy_def)
  from built_rule_sources [OF this rule(1) [unfolded built] p(1)] obtain t s where
      "target_for (wl_mc w) (wl_account w) t" "s \<in> set (tt_Sources t)"
      "p = sa_AsPrincipal (trafficTargetIdentityToSvcAccount s) (GetTrustDomain (wl_mc w))"
      "target_route (wl_mc w) t (rwc_HTTPRouteMatch (rule_Route rule))" by blast
  with p show ?thesis by (intro that) auto
qed

text \<open>And every grant of a target is present under the port and the policy name of each HTTP service.\<close>

lemma local_cluster_configs:
  assumes "svc \<in> set svcs" "SidecarLocalClusterName svc' = SidecarLocalClusterName svc"
  shows "inbound_cluster svc \<in> set (getMeshClusterConfigs (map inbound_cluster svcs) (SidecarLocalClusterName svc'))"
  using assms by (auto simp: getMeshClusterConfigs_def inbound_cluster_def)

lemma not_tcp_http:
  assumes "ToLower protocol = ProtocolHTTP \<or> protocol = ProtocolGRPC"
  shows "\<not> is_tcp protocol"
  using assms
  by (auto simp: is_tcp_def ProtocolTCP_def ProtocolTCPServerFirst_def ProtocolHTTP_def ProtocolGRPC_def
      ToLower_def lower_char_def)

text \<open>The service a traffic match of the catalog is translated back to, and its HTTP policy.\<close>

definition matched_service :: "MeshService \<Rightarrow> MeshService" where
  "matched_service svc = svc\<lparr>ms_Port := 0, ms_Protocol := ToLower (ms_Protocol svc), ms_ServiceImportUID := '''',
     ms_CloudInheritedFrom := ''''\<rparr>"

lemma matched_service_simps [simp]:
  "SidecarLocalClusterName (matched_service svc) = SidecarLocalClusterName svc"
  "PolicyName (matched_service svc) b = PolicyName svc b" "ms_TargetPort (matched_service svc) = ms_TargetPort svc"
  by (simp_all add: matched_service_def SidecarLocalClusterName_def PolicyName_def)

lemma workload_match_policy:
  assumes "configured w" "svc \<in> set (getUpstreamServicesIncludeApex (wl_mc w) (wl_services w))"
    "ToLower (ms_Protocol svc) = ProtocolHTTP \<or> ms_Protocol svc = ProtocolGRPC"
  obtains cfg where "match_policy (wl_policy w) (inbound_match (wl_mc w) svc) (matched_service svc) = Some cfg"
    "itp_Name cfg = PolicyName svc False"
proof -
  let ?mc = "wl_mc w" and ?pol = "wl_policy w"
  have c: "\<not> cfg_Permissive (mc_cfg ?mc) \<longrightarrow> ToK8sServiceAccount (wl_identity w) = Some (wl_account w)"
      "GetInboundMeshTrafficPolicy ?mc (wl_identity w) (wl_services w) = Some ?pol"
    using assms(1) by (simp_all add: configured_def strict_policy_def)
  let ?ss = "filter (\<lambda>s. \<not> is_tcp (ms_Protocol s) \<and> int (unat (ms_TargetPort s)) = int (unat (ms_TargetPort svc)))
      (getUpstreamServicesIncludeApex ?mc (wl_services w))"
  let ?f = "\<lambda>s. getInboundTrafficPoliciesForUpstream ?mc s (cfg_Permissive (mc_cfg ?mc))
      (inbound_targets ?mc (wl_account w)) (service_setting ?mc s)"
  have svc: "svc \<in> set ?ss" using assms(2) not_tcp_http [OF assms(3)] by simp
  then have "?ss \<noteq> []" by (metis empty_iff list.set(1))
  then have "imp_HTTPRouteConfigsPerPort ?pol (int (unat (ms_TargetPort svc))) = Some (map ?f ?ss)"
    unfolding GetInboundMeshTrafficPolicy_Some(3) [OF c(2,1)] Let_def by (simp only: if_False)
  moreover have "itp_Name (?f svc) = PolicyName svc False"
    using assms(1) by (simp add: configured_def strict_policy_def getInboundTrafficPoliciesForUpstream_def
        buildInboundHTTPPolicyFromTrafficTarget_def NewInboundTrafficPolicy_def Let_def)
  then obtain cfg where cfg: "find (\<lambda>c. itp_Name c = PolicyName svc False) (map ?f ?ss) = Some cfg"
    using svc by (cases "find (\<lambda>c. itp_Name c = PolicyName svc False) (map ?f ?ss)") (auto simp: find_None_iff)
  moreover have "is_http_match (inbound_match ?mc svc)" using assms(3) by (simp add: is_http_match_def inbound_match_def)
  ultimately have "match_policy ?pol (inbound_match ?mc svc) (matched_service svc) = Some cfg"
    by (simp add: match_policy_def getInboundHTTPRouteConfigs_def)
  with find_SomeD [OF cfg] show ?thesis by (intro that) auto
qed

text \<open>The policy a traffic match of the catalog selects, and what its rules become.\<close>

definition selects_policy :: "Workload \<Rightarrow> Port \<Rightarrow> InboundTrafficPolicy \<Rightarrow> bool" where
  "selects_policy w port cfg \<longleftrightarrow> (\<exists>trafficMatch\<in>set (imp_TrafficMatches (wl_policy w)). \<exists>svc cc.
     trafficMatchToMeshSvc trafficMatch = Some svc \<and>
     cc \<in> set (getMeshClusterConfigs (imp_ClustersConfigs (wl_policy w)) (SidecarLocalClusterName svc)) \<and>
     port = ms_Port (mcc_Service cc) \<and> match_policy (wl_policy w) trafficMatch svc = Some cfg)"

lemma registered_selects:
  "n \<in> registered_names (wl_policy w) port host \<longleftrightarrow> (\<exists>cfg. selects_policy w port cfg \<and> n = itp_Name cfg \<and> host \<in> set (itp_Hostnames cfg))"
  unfolding registered_names_def selects_policy_def by blast

lemma selected_policy_built:
  assumes "strict_policy w" "selects_policy w port cfg"
  obtains svc where "cfg = buildInboundHTTPPolicyFromTrafficTarget (wl_mc w) svc
      (ListTrafficTargets (mc_kube (wl_mc w)) (mc_smi (wl_mc w)) (wl_account w)) (service_setting (wl_mc w) svc)"
  using assms(2) match_policy_SomeD policy_rules [OF assms(1)] unfolding selects_policy_def by metis

lemma selected_grants:
  assumes "configured w" "selects_policy w port cfg"
    "target_for (wl_mc w) (wl_account w) t" "s \<in> set (tt_Sources t)" "target_route (wl_mc w) t r" "hm_Path r \<noteq> ''''"
  shows "inbound_grants (wl_inbound w) port (itp_Name cfg) (http_match_rule r)
    (ToServiceIdentity (trafficTargetIdentityToSvcAccount s))"
proof -
  let ?mc = "wl_mc w"
  have c: "specs_ok ?mc" "sa_Name (wl_account w) \<noteq> ''''"
    using assms(1) by (simp_all add: configured_def strict_policy_def)
  obtain svc2 where built: "cfg = buildInboundHTTPPolicyFromTrafficTarget ?mc svc2
      (ListTrafficTargets (mc_kube ?mc) (mc_smi ?mc) (wl_account w)) (service_setting ?mc svc2)"
    by (rule selected_policy_built [OF configured_strict [OF assms(1)] assms(2)])
  obtain rule where rule: "rule \<in> set (itp_Rules cfg)"
      "sa_AsPrincipal (trafficTargetIdentityToSvcAccount s) (GetTrustDomain ?mc) \<in> rule_AllowedPrincipals rule"
      "rwc_HTTPRouteMatch (rule_Route rule) = r"
    unfolding built by (rule granted_rule_exists [OF c assms(3-5)])
  then have "rule_grants (GetTrustDomain ?mc) rule (http_match_rule r) (ToServiceIdentity (trafficTargetIdentityToSvcAccount s))"
    using assms(6) FromPrincipal_account by (auto simp: rule_grants_def intro!: bexI)
  with rule(1) assms(2) show ?thesis unfolding workload_grants [OF assms(1)] selects_policy_def by blast
qed

text \<open>A route of a target is present even if the target names no source.\<close>

lemma target_rule_exists:
  assumes "specs_ok mc" "sa_Name dst \<noteq> ''''" "target_for mc dst t" "target_route mc t m"
  obtains rule where "rule \<in> set (itp_Rules (buildInboundHTTPPolicyFromTrafficTarget mc svc
        (ListTrafficTargets (mc_kube mc) (mc_smi mc) dst) (service_setting mc svc)))"
    "rwc_HTTPRouteMatch (rule_Route rule) = m"
proof -
  have routes: "rule_Route ` set (fold (\<lambda>t rules. MergeRules rules (f t)) ts rules) =
      rule_Route ` set rules \<union> (\<Union>t\<in>set ts. rule_Route ` set (f t))" for f and ts :: "TrafficTarget list" and rules
    by (induction ts arbitrary: rules) (auto simp: routes_MergeRules)
  have "t \<in> set (ListTrafficTargets (mc_kube mc) (mc_smi mc) dst)"
    using assms(3) FilterTrafficTarget_some [OF assms(2), of t]
    by (auto simp: target_for_def mem_ListTrafficTargets trafficTargetIdentityToSvcAccount_def)
  moreover have "NewRouteWeightedCluster m [local_cluster svc] (service_setting mc svc) \<in>
      rule_Route ` set (getRoutingRulesFromTrafficTarget mc t (local_cluster svc) (service_setting mc svc))"
    using mem_routesFromRules [OF assms(1), of m t] assms(4)
    by (force simp: getRoutingRulesFromTrafficTarget_def Let_def)
  ultimately have "NewRouteWeightedCluster m [local_cluster svc] (service_setting mc svc) \<in>
      rule_Route ` set (itp_Rules (buildInboundHTTPPolicyFromTrafficTarget mc svc
        (ListTrafficTargets (mc_kube mc) (mc_smi mc) dst) (service_setting mc svc)))"
    by (auto simp: buildInboundHTTPPolicyFromTrafficTarget_def Let_def routes)
  then obtain rule where "rule \<in> set (itp_Rules (buildInboundHTTPPolicyFromTrafficTarget mc svc
        (ListTrafficTargets (mc_kube mc) (mc_smi mc) dst) (service_setting mc svc)))"
      "rule_Route rule = NewRouteWeightedCluster m [local_cluster svc] (service_setting mc svc)"
    by (metis imageE)
  then show ?thesis by (intro that [of rule]) (simp_all add: NewRouteWeightedCluster_def)
qed

lemma selected_route_present:
  assumes "configured w" "selects_policy w port cfg"
    "target_for (wl_mc w) (wl_account w) t" "target_route (wl_mc w) t r" "hm_Path r \<noteq> ''''"
  shows "inbound_has_route (wl_inbound w) port (itp_Name cfg) (http_match_rule r)"
proof -
  let ?mc = "wl_mc w"
  have c: "specs_ok ?mc" "sa_Name (wl_account w) \<noteq> ''''"
    using assms(1) by (simp_all add: configured_def strict_policy_def)
  obtain svc2 where built: "cfg = buildInboundHTTPPolicyFromTrafficTarget ?mc svc2
      (ListTrafficTargets (mc_kube ?mc) (mc_smi ?mc) (wl_account w)) (service_setting ?mc svc2)"
    by (rule selected_policy_built [OF configured_strict [OF assms(1)] assms(2)])
  obtain rule where "rule \<in> set (itp_Rules cfg)" "rwc_HTTPRouteMatch (rule_Route rule) = r"
    unfolding built by (rule target_rule_exists [OF c assms(3,4)])
  then have "policy_has_route cfg (http_match_rule r)" using assms(5) by (auto simp: policy_has_route_def)
  moreover obtain conf' where "generatePipyInboundTrafficPolicy (wl_order w) ?mc (wl_conf w) (wl_policy w)
      (GetTrustDomain ?mc) (wl_proxy w) = Some conf'" "pc_Inbound conf' = Some (wl_inbound w)"
    by (rule workload_run [OF assms(1)])
  ultimately show ?thesis using assms(2) generated_has_route unfolding selects_policy_def by blast
qed

text \<open>The host names of a service of the workload lead to rules the policy of one of its services was
  translated to.\<close>

definition service_hosts :: "Workload \<Rightarrow> MeshService \<Rightarrow> string list" where
  "service_hosts w svc =
     (case getInboundHTTPRouteConfigs (imp_HTTPRouteConfigsPerPort (wl_policy w)) (int (unat (ms_TargetPort svc)))
             (PolicyName svc False) of
        None \<Rightarrow> [] | Some cfg \<Rightarrow> itp_Hostnames cfg)"

lemma service_selects:
  assumes "configured w" "svc \<in> set (wl_services w)" "plain_names svc"
    "ToLower (ms_Protocol svc) = ProtocolHTTP \<or> ms_Protocol svc = ProtocolGRPC"
  obtains cfg where "selects_policy w (ms_Port svc) cfg" "service_hosts w svc = itp_Hostnames cfg"
proof -
  let ?mc = "wl_mc w" and ?pol = "wl_policy w"
  have c: "\<not> cfg_Permissive (mc_cfg ?mc) \<longrightarrow> ToK8sServiceAccount (wl_identity w) = Some (wl_account w)"
      "GetInboundMeshTrafficPolicy ?mc (wl_identity w) (wl_services w) = Some ?pol"
    using assms(1) by (simp_all add: configured_def strict_policy_def)
  note parts = GetInboundMeshTrafficPolicy_Some [OF c(2,1)]
  have all: "svc \<in> set (getUpstreamServicesIncludeApex ?mc (wl_services w))"
    using assms(2) by (auto simp: getUpstreamServicesIncludeApex_def)
  have match: "inbound_match ?mc svc \<in> set (imp_TrafficMatches ?pol)" using all assms(2) by (simp add: parts(1))
  have cluster: "inbound_cluster svc \<in>
      set (getMeshClusterConfigs (imp_ClustersConfigs ?pol) (SidecarLocalClusterName (matched_service svc)))"
    unfolding parts(2) by (rule local_cluster_configs [OF all]) simp
  obtain cfg where cfg: "match_policy ?pol (inbound_match ?mc svc) (matched_service svc) = Some cfg"
      "itp_Name cfg = PolicyName svc False"
    by (rule workload_match_policy [OF assms(1) all assms(4)])
  from cfg(1) have "service_hosts w svc = itp_Hostnames cfg"
    by (simp add: service_hosts_def match_policy_def split: if_splits)
  moreover have "selects_policy w (ms_Port svc) cfg"
    using cluster cfg(1) inbound_match_back [OF assms(3), of ?mc] unfolding selects_policy_def
    by (intro bexI [OF _ match] exI [of _ "matched_service svc"] exI [of _ "inbound_cluster svc"])
      (simp add: matched_service_def inbound_cluster_def)
  ultimately show ?thesis by (intro that)
qed

lemma service_host_rules:
  assumes "configured w" "svc \<in> set (wl_services w)" "plain_names svc"
    "ToLower (ms_Protocol svc) = ProtocolHTTP \<or> ms_Protocol svc = ProtocolGRPC" "host \<in> set (service_hosts w svc)"
  obtains tm cfg where "pip_TrafficMatches (wl_inbound w) (ms_Port svc) = Some tm" "selects_policy w (ms_Port svc) cfg"
    "host_rules tm host = stored_rules tm (itp_Name cfg)"
proof -
  obtain cfg where cfg: "selects_policy w (ms_Port svc) cfg" "service_hosts w svc = itp_Hostnames cfg"
    by (rule service_selects [OF assms(1-4)])
  obtain conf' where run: "generatePipyInboundTrafficPolicy (wl_order w) (wl_mc w) (wl_conf w) (wl_policy w)
      (GetTrustDomain (wl_mc w)) (wl_proxy w) = Some conf'" "pc_Inbound conf' = Some (wl_inbound w)"
    by (rule workload_run [OF assms(1)])
  have fresh: "pc_Inbound (wl_conf w) = None" using assms(1) by (simp add: configured_def strict_policy_def)
  have "itp_Name cfg \<in> registered_names (wl_policy w) (ms_Port svc) host"
    using cfg assms(5) by (auto simp: registered_selects)
  with generated_host [OF run(1) fresh run(2), of "ms_Port svc" host] obtain ref where
      ref: "host_ref (wl_inbound w) (ms_Port svc) host = Some ref"
      "pref_RuleName ref \<in> registered_names (wl_policy w) (ms_Port svc) host"
    by (auto simp: least_name_def split: option.splits)
  then obtain cfg' where "selects_policy w (ms_Port svc) cfg'" "pref_RuleName ref = itp_Name cfg'"
    by (auto simp: registered_selects)
  with ref(1) that show ?thesis
    by (auto simp: host_ref_def host_rules_def stored_rules_def split: option.splits)
qed

lemma granted_routed:
  assumes "configured w" "sources_named (wl_mc w) (wl_account w)" "svc \<in> set (wl_services w)" "plain_names svc"
    "ToLower (ms_Protocol svc) = ProtocolHTTP \<or> ms_Protocol svc = ProtocolGRPC"
    and "target_for (wl_mc w) (wl_account w) t" "s \<in> set (tt_Sources t)" "target_route (wl_mc w) t m" "hm_Path m \<noteq> ''''"
    and "rq_serviceidentity rq = ToServiceIdentity (trafficTargetIdentityToSvcAccount s)"
      "rule_covers re (http_match_rule m) rq" "rq_host rq \<in> set (service_hosts w svc)"
  shows "\<exists>tm r. pip_TrafficMatches (wl_inbound w) (ms_Port svc) = Some tm \<and>
    makeServiceHandler re (host_rules tm (rq_host rq)) rq = Some r"
proof -
  obtain tm cfg where host: "pip_TrafficMatches (wl_inbound w) (ms_Port svc) = Some tm" "selects_policy w (ms_Port svc) cfg"
      "host_rules tm (rq_host rq) = stored_rules tm (itp_Name cfg)"
    by (rule service_host_rules [OF assms(1,3-5,12)])
  have "inbound_grants (wl_inbound w) (ms_Port svc) (itp_Name cfg) (http_match_rule m) (rq_serviceidentity rq)"
    using selected_grants [OF assms(1) host(2) assms(6-9)] by (simp add: assms(10))
  then obtain h r where r: "pim_HTTPServiceRouteRules tm (itp_Name cfg) = Some h" "r \<in> set (pis_RouteRules h)"
      "match_key r = http_match_rule m" "rule_allows r (rq_serviceidentity rq)"
    using host(1) by (auto simp: inbound_grants_def rules_grant_def)
  have "closed_rule r"
    using workload_closed [OF assms(1,2)] host(1) r(1,2) by (simp add: closed_policy_def list_all_iff)
  then have "rq_serviceidentity rq \<in> set (prr_AllowedServices r)" using r(4) by (simp add: closed_rule_allows)
  moreover have "rule_covers re (prr_HTTPMatchRule r) rq"
    using assms(11) unfolding r(3) [symmetric] by (simp add: match_key_def)
  moreover have "r \<in> set (host_rules tm (rq_host rq))" using r(1,2) by (simp add: host(3) stored_rules_def)
  ultimately obtain r' where "makeServiceHandler re (host_rules tm (rq_host rq)) rq = Some r'"
    using makeServiceHandler_named assms(10) by (metis ToServiceIdentity_named(2))
  with host(1) show ?thesis by blast
qed

section \<open>A configuration always exists\<close>

definition prepared :: "Workload \<Rightarrow> bool" where
  "prepared w \<longleftrightarrow> strict_policy w \<and> endpoints_total (wl_mc w) \<and> (\<forall>svc\<in>set (wl_services w). plain_names svc) \<and>
     (ppx_VM (wl_proxy w) \<longrightarrow> ppx_MachineIP (wl_proxy w) \<noteq> None)"

lemma PolicyName_neq_Nil: "PolicyName svc b \<noteq> ''''"
  by (simp add: PolicyName_def)

lemma wired_endpoints_total: "endpoints_total (NewMeshCatalog tp st smi pol mcs cfg multi td certTd)"
  unfolding endpoints_total_def using wired.identity_endpoints_total by blast

lemma strict_account_rules:
  assumes "strict_policy w" "imp_HTTPRouteConfigsPerPort (wl_policy w) port = Some cfgs" "cfg \<in> set cfgs"
  shows "account_rules (GetTrustDomain (wl_mc w)) cfg"
proof -
  have w: "specs_ok (wl_mc w)" "sa_Name (wl_account w) \<noteq> ''''" using assms(1) by (simp_all add: strict_policy_def)
  obtain svc where cfg: "cfg = buildInboundHTTPPolicyFromTrafficTarget (wl_mc w) svc
      (ListTrafficTargets (mc_kube (wl_mc w)) (mc_smi (wl_mc w)) (wl_account w)) (service_setting (wl_mc w) svc)"
    by (rule policy_rules [OF assms])
  have "itp_Name cfg \<noteq> ''''"
    by (simp add: cfg buildInboundHTTPPolicyFromTrafficTarget_def NewInboundTrafficPolicy_def Let_def PolicyName_neq_Nil)
  moreover have "\<not> dot_free (FromPrincipal p (GetTrustDomain (wl_mc w)))"
    if "rule \<in> set (itp_Rules cfg)" "p \<in> rule_AllowedPrincipals rule" for rule p
    using built_rule_sources [OF w that(1) [unfolded cfg] that(2)] ToServiceIdentity_dot
    by (metis FromPrincipal_account dot_free_def)
  moreover have "finite (rule_AllowedPrincipals rule)" if "rule \<in> set (itp_Rules cfg)" for rule
    using policy_finite [OF assms(1)] assms(2,3) that by (auto simp: finite_principals_def)
  ultimately show ?thesis by (simp add: account_rules_def)
qed

lemma configured_exists:
  assumes "prepared w"
  shows "\<exists>itp. configured (w\<lparr>wl_inbound := itp\<rparr>)"
proof -
  have strict: "strict_policy w" using assms by (simp add: prepared_def)
  have c: "\<not> cfg_Permissive (mc_cfg (wl_mc w)) \<longrightarrow> ToK8sServiceAccount (wl_identity w) = Some (wl_account w)"
      "GetInboundMeshTrafficPolicy (wl_mc w) (wl_identity w) (wl_services w) = Some (wl_policy w)"
    using strict by (simp_all add: strict_policy_def)
  have "trafficMatchToMeshSvc t \<noteq> None" if "t \<in> set (imp_TrafficMatches (wl_policy w))" for t
    using that assms inbound_match_back
    by (auto simp: GetInboundMeshTrafficPolicy_Some(1) [OF c(2,1)] prepared_def)
  then have "generatePipyInboundTrafficPolicy (wl_order w) (wl_mc w) (wl_conf w) (wl_policy w)
      (GetTrustDomain (wl_mc w)) (wl_proxy w) \<noteq> None"
    using assms strict strict_account_rules [OF strict]
    by (intro inbound_generation_total) (auto simp: prepared_def strict_policy_def simp del: not_None_eq)
  then obtain conf' where "generatePipyInboundTrafficPolicy (wl_order w) (wl_mc w) (wl_conf w) (wl_policy w)
      (GetTrustDomain (wl_mc w)) (wl_proxy w) = Some conf'" by blast
  moreover from this obtain itp where "pc_Inbound conf' = Some itp"
    by (auto simp: generatePipyInboundTrafficPolicy_def split: option.splits)
  ultimately show ?thesis using strict by (auto simp: configured_def strict_policy_def)
qed

section \<open>An example workload\<close>

text \<open>The account \<open>seller\<close> serves \<open>web\<close> over HTTP, in a mesh with the given traffic targets.\<close>

definition mesh0 :: "TrafficTarget list \<Rightarrow> MeshCatalog" where
  "mesh0 ts = NewMeshCatalog tp0 store0 (smi0\<lparr>smi_TrafficTargets := ts\<rparr>) pol0 mcs0 cfg0 False ''cluster.local'' ''cluster.local''"

definition workload0 :: "TrafficTarget list \<Rightarrow> Workload" where
  "workload0 ts = \<lparr>wl_mc = mesh0 ts, wl_identity = ''seller.shop'', wl_account = seller, wl_services = [web0],
     wl_policy = the (GetInboundMeshTrafficPolicy (mesh0 ts) ''seller.shop'' [web0]), wl_order = order0,
     wl_proxy = sidecar0 ''seller.shop'', wl_conf = new_PipyConf, wl_inbound = new_InboundTrafficPolicy\<rparr>"

lemma web0_plain: "plain_names web0"
  by (simp add: plain_names_def web0_def plain_service_def slash_free_def ProtocolHTTP_def)

lemma workload0_sel [simp]:
  "wl_mc (workload0 ts) = mesh0 ts" "wl_account (workload0 ts) = seller" "wl_services (workload0 ts) = [web0]"
  by (simp_all add: workload0_def)

lemma workload0_prepared: "prepared (workload0 ts)"
proof -
  have strict: "\<not> cfg_Permissive (mc_cfg (mesh0 ts))" by (simp add: mesh0_def NewMeshCatalog_def cfg0_def)
  have sa: "ToK8sServiceAccount ''seller.shop'' = Some seller" by (simp add: ToK8sServiceAccount_def)
  have "GetInboundMeshTrafficPolicy (mesh0 ts) ''seller.shop'' [web0] \<noteq> None"
    by (auto simp: GetInboundMeshTrafficPolicy_def Let_def sa strict)
  moreover have "specs_ok (mesh0 ts)"
    by (simp add: specs_ok_def mesh0_def NewMeshCatalog_def smi0_def api0_def meta0_def ListHTTPTrafficSpecs_def slash_free_def)
  moreover have "endpoints_total (mesh0 ts)" by (simp add: mesh0_def wired_endpoints_total)
  ultimately show ?thesis
    using strict sa order0_fair web0_plain
    by (auto simp: prepared_def strict_policy_def workload0_def sidecar0_def new_PipyConf_def)
qed

lemma mesh0_target:
  assumes "ts \<noteq> []" "set ts \<subseteq> {target0, target0\<lparr>tt_Sources := []\<rparr>}"
  shows "target_for (mesh0 ts) seller t \<longleftrightarrow> t \<in> set ts"
proof
  assume "t \<in> set ts"
  then have "t \<in> {target0, target0\<lparr>tt_Sources := []\<rparr>}" using assms(2) by blast
  then have "IsMonitoredNamespace store0 (om_Namespace (tt_Meta t)) \<and> isValidTrafficTarget t \<and>
      trafficTargetIdentityToSvcAccount (tt_Destination t) = seller"
    using target0_in_force by (auto simp: isValidTrafficTarget_iff) (simp_all add: target0_def account0_def svcAccount_eq)
  with \<open>t \<in> set ts\<close> show "target_for (mesh0 ts) seller t"
    by (simp add: target_for_def mesh0_def NewMeshCatalog_def)
qed (simp add: target_for_def mesh0_def NewMeshCatalog_def)

lemma mesh0_route:
  assumes "tt_Meta t = tt_Meta target0" "tt_Rules t = tt_Rules target0"
  shows "target_route (mesh0 ts) t (http_route_match (hd (hrg_Matches api0)))"
  using monitored_shop assms
  by (auto simp: target_route_def target0_def api0_def meta0_def mesh0_def NewMeshCatalog_def smi0_def
      ListHTTPTrafficSpecs_def)

definition request0 :: "string \<Rightarrow> HttpRequest" where
  "request0 identity = \<lparr>rq_serviceidentity = identity, rq_method = ''GET'', rq_path = ''/books'', rq_headers = Map.empty,
     rq_host = ''web'', rq_remoteAddress = ''10.0.0.9''\<rparr>"

lemma request0_covered:
  "rule_covers (=) (http_match_rule (http_route_match (hd (hrg_Matches api0)))) (request0 identity)"
  "hm_Path (http_route_match (hd (hrg_Matches api0))) \<noteq> ''''"
  by (simp_all add: request0_def api0_def http_route_match_def http_match_rule_def rule_covers_def rule_matches_def
      matchPath_def headerRules_def allowedMethods_def addMethodMatch_def new_HTTPMatchRule_def matchType_def
      URIMatchRegex_def Let_def)

lemma mesh0_services: "getUpstreamServicesIncludeApex (mesh0 ts) [web0] = [web0]"
  by (simp add: getUpstreamServicesIncludeApex_def mesh0_def NewMeshCatalog_def smi0_def ListTrafficSplits_def set_add_def)

lemma web0_host: "''web'' \<in> set (service_hosts (workload0 ts) web0)"
proof -
  have strict: "\<not> cfg_Permissive (mc_cfg (mesh0 ts))" by (simp add: mesh0_def NewMeshCatalog_def cfg0_def)
  have sa: "ToK8sServiceAccount ''seller.shop'' = Some seller" by (simp add: ToK8sServiceAccount_def)
  obtain pol where pol: "GetInboundMeshTrafficPolicy (mesh0 ts) ''seller.shop'' [web0] = Some pol"
    by (auto simp: GetInboundMeshTrafficPolicy_def Let_def sa strict)
  have "imp_HTTPRouteConfigsPerPort pol 8080 = Some [getInboundTrafficPoliciesForUpstream (mesh0 ts) web0 False
      (inbound_targets (mesh0 ts) seller) (service_setting (mesh0 ts) web0)]"
    using GetInboundMeshTrafficPolicy_Some(3) [OF pol impI [OF sa], of 8080] strict
    by (simp add: mesh0_services Let_def)
  moreover have "''web'' \<in> set (GetHostnamesForService (mc_td (mesh0 ts)) web0 (cfg_ServiceAccessNames (mc_cfg (mesh0 ts))) True)"
    by (simp add: mesh0_def NewMeshCatalog_def cfg0_def web0_def plain_service_def GetHostnamesForService_def host_pair_def Let_def)
  ultimately show ?thesis
    by (simp add: service_hosts_def workload0_def pol getInboundHTTPRouteConfigs_def getInboundTrafficPoliciesForUpstream_def
        buildInboundHTTPPolicyFromTrafficTarget_def NewInboundTrafficPolicy_def Let_def)
qed

lemma web0_http: "ToLower (ms_Protocol web0) = ProtocolHTTP"
  by (simp add: web0_def ProtocolHTTP_def ToLower_def lower_char_def)

lemma request0_sel: "rq_serviceidentity (request0 i) = i" "rq_host (request0 i) = ''web''"
  by (simp_all add: request0_def)

lemma account0_identity: "ToServiceIdentity (trafficTargetIdentityToSvcAccount (account0 ''buyer'')) = ''buyer.shop''"
  by (simp add: ToServiceIdentity_def New_def trafficTargetIdentityToSvcAccount_def account0_def)

end
