(* ===== verification/PipyOutbound.thy ===== *)
theory PipyOutbound
  imports PipyInbound
begin

text \<open>
  The generators of the outbound, egress and forward parts of a sidecar configuration
  (\<open>pkg/sidecar/v1/providers/pipy/repo/util.go\<close>).  A route generator returns the clusters that the
  routes depend on; the balance generator then fills in their endpoints and reports whether every
  cluster has some.  The source secrets of egress clusters are read from the Kubernetes API and are
  the argument \<open>secrets\<close>.
\<close>

section \<open>Configuration and helpers\<close>

text \<open>The parts of the mesh configuration that only the sidecar repo reads.\<close>

record ConnectorGatewaySpec =
  cgs_ClusterIP :: string
  cgs_ExternalIP :: string
  cgs_IngressAddr :: string
  cgs_IngressHTTPPort :: nat
  cgs_IngressGRPCPort :: nat
  cgs_EgressAddr :: string
  cgs_EgressHTTPPort :: nat
  cgs_EgressGRPCPort :: nat

record RepoConfig =
  rc_WildcardDNSProxy :: bool
  rc_WildcardIPs :: "string list"
  rc_ClusterSet :: "string \<times> string \<times> string \<times> string"
  rc_ViaGateway :: ConnectorGatewaySpec

record DependCluster = WeightedCluster +
  dc_RetryPolicy :: "RetryPolicySpec option"

type_synonym DependClusters = "string \<rightharpoonup> DependCluster"

definition depend_cluster :: "RetryPolicySpec option \<Rightarrow> WeightedCluster \<Rightarrow> DependClusters \<Rightarrow> DependClusters" where
  "depend_cluster retryPolicy serviceCluster dependClusters =
     (case dependClusters (wc_ClusterName serviceCluster) of
        Some _ \<Rightarrow> dependClusters
      | None \<Rightarrow> dependClusters(wc_ClusterName serviceCluster \<mapsto>
          \<lparr>wc_ClusterName = wc_ClusterName serviceCluster, wc_Weight = wc_Weight serviceCluster,
           dc_RetryPolicy = retryPolicy\<rparr>))"

definition generatePipyWildcardIPRanges :: "MeshConfig \<Rightarrow> RepoConfig \<Rightarrow> string list" where
  "generatePipyWildcardIPRanges cfg rc =
     (if cfg_LocalDNSProxy cfg \<and> rc_WildcardDNSProxy rc
      then map (\<lambda>ip. ip @ ''/32'') (filter (\<lambda>ip. length ip > 0) (rc_WildcardIPs rc)) else [])"

definition generatePipyOutboundDestinationIPRanges ::
  "TrafficMatch \<Rightarrow> string list \<Rightarrow> OutboundTrafficMatch \<Rightarrow> OutboundTrafficMatch" where
  "generatePipyOutboundDestinationIPRanges trafficMatch wildcardIPRange tm =
     fold (\<lambda>ipRange. addDestinationIPRange ipRange None) (tm_DestinationIPRanges trafficMatch @ wildcardIPRange) tm"

definition arrayEqual :: "SetOrder \<Rightarrow> WeightedCluster list \<Rightarrow> WeightedCluster set \<Rightarrow> bool" where
  "arrayEqual ord a A =
     (let b = so_Clusters ord A in
      length a = length b \<and> list_all (\<lambda>ca. list_ex (\<lambda>cb. ca = cb) b) a \<and> list_all (\<lambda>cb. list_ex (\<lambda>ca. cb = ca) a) b)"

definition getOutboundHTTPRouteConfigs ::
  "SetOrder \<Rightarrow> (int \<rightharpoonup> OutboundTrafficPolicy list) \<Rightarrow> int \<Rightarrow> string \<Rightarrow> WeightedCluster list \<Rightarrow> OutboundTrafficPolicy list" where
  "getOutboundHTTPRouteConfigs ord httpRouteConfigsPerPort targetPort upstreamPolicyName weightedClusters =
     (case httpRouteConfigsPerPort targetPort of
        None \<Rightarrow> []
      | Some trafficPolicies \<Rightarrow>
          filter (\<lambda>p. otp_Name p = upstreamPolicyName \<and>
              list_ex (\<lambda>route. arrayEqual ord weightedClusters (rwc_WeightedClusters route)) (otp_Routes p)) trafficPolicies)"

definition getEgressHTTPRouteConfigs ::
  "(int \<rightharpoonup> EgressHTTPRouteConfig list) \<Rightarrow> int \<Rightarrow> EgressHTTPRouteConfig list" where
  "getEgressHTTPRouteConfigs httpRouteConfigsPerPort targetPort =
     (case httpRouteConfigsPerPort targetPort of None \<Rightarrow> [] | Some cfgs \<Rightarrow> cfgs)"

definition getEgressClusterConfigs :: "EgressClusterConfig list \<Rightarrow> string \<Rightarrow> EgressClusterConfig option" where
  "getEgressClusterConfigs clustersConfigs clusterName = find (\<lambda>c. clusterName = ecc_Name c) clustersConfigs"

text \<open>The service a cluster name or a host stands for.  A name that does not have the expected form is
  an error; a host with fewer than two parts makes \<open>hostToMeshSvc\<close> index out of range.\<close>

definition clusterToMeshSvc :: "string \<Rightarrow> MeshService option" where
  "clusterToMeshSvc cluster =
     (let chunks = FieldsFunc (\<lambda>r. r = CHR ''/'' \<or> r = CHR ''|'') cluster in
      if length chunks \<noteq> 3 then None
      else map_option (\<lambda>port. (plain_service (chunks ! 0) (chunks ! 1))\<lparr>ms_TargetPort := port\<rparr>) (ParseUint16 (chunks ! 2)))"

definition hostToMeshSvc :: "string \<Rightarrow> (MeshService option) option" where
  "hostToMeshSvc cluster =
     (let chunks = FieldsFunc (\<lambda>r. r = CHR ''.'' \<or> r = CHR '':'') cluster in
      if length chunks > 4 \<and> EqualFold ''svc'' (chunks ! 3) then Some None
      else if chunks = [] then None
      else case ParseUint16 (last chunks) of
        None \<Rightarrow> Some None
      | Some port \<Rightarrow>
          if length chunks < 2 then None
          else Some (Some ((plain_service (chunks ! 1) (chunks ! 0))\<lparr>ms_TargetPort := port\<rparr>)))"

definition getUpstreamEndpoints :: "MeshCatalog \<Rightarrow> ServiceIdentity \<Rightarrow> string \<Rightarrow> Endpoint list option" where
  "getUpstreamEndpoints mc proxyIdentity clusterName =
     (case clusterToMeshSvc clusterName of
        None \<Rightarrow> Some []
      | Some dstSvc \<Rightarrow> ListAllowedUpstreamEndpointsForService mc proxyIdentity dstSvc)"

definition gateway_address :: "string \<Rightarrow> nat \<Rightarrow> nat \<Rightarrow> string \<Rightarrow> string" where
  "gateway_address addr httpPort grpcPort appProtocol =
     (if length addr > 0 \<and> grpcPort > 0 \<and> EqualFold ProtocolGRPC appProtocol then addr @ '':'' @ fmt_nat grpcPort
      else if length addr > 0 \<and> httpPort > 0 \<and> EqualFold ProtocolHTTP appProtocol then addr @ '':'' @ fmt_nat httpPort
      else '''')"

definition generatePipyViaGateway :: "string \<Rightarrow> string \<Rightarrow> string \<Rightarrow> ConnectorGatewaySpec \<Rightarrow> string" where
  "generatePipyViaGateway appProtocol endpointClusterID proxyClusterID viaGateway =
     (if length appProtocol > 0 \<and> \<not> EqualFold proxyClusterID endpointClusterID then
        if length proxyClusterID = 0 then
          gateway_address (cgs_ClusterIP viaGateway) (cgs_EgressHTTPPort viaGateway) (cgs_EgressGRPCPort viaGateway) appProtocol
        else if length endpointClusterID = 0 then
          gateway_address (cgs_IngressAddr viaGateway) (cgs_IngressHTTPPort viaGateway) (cgs_IngressGRPCPort viaGateway) appProtocol
        else
          gateway_address (cgs_IngressAddr viaGateway) (cgs_EgressHTTPPort viaGateway) (cgs_EgressGRPCPort viaGateway) appProtocol
      else '''')"

section \<open>Outbound routes\<close>

text \<open>The match that \<open>newTrafficMatch\<close> returned, and storing it again.\<close>

definition named_match :: "string \<Rightarrow> PipyOutboundTrafficPolicy \<Rightarrow> OutboundTrafficMatch" where
  "named_match key otp = (case pop_namedTrafficMatches otp key of None \<Rightarrow> new_OutboundTrafficMatch | Some tm \<Rightarrow> tm)"

definition put_named_match :: "string \<Rightarrow> OutboundTrafficMatch \<Rightarrow> PipyOutboundTrafficPolicy \<Rightarrow> PipyOutboundTrafficPolicy" where
  "put_named_match key tm otp = otp\<lparr>pop_namedTrafficMatches := (pop_namedTrafficMatches otp)(key \<mapsto> tm)\<rparr>"

definition outbound_match_start ::
  "int \<Rightarrow> string \<Rightarrow> string \<Rightarrow> PipyOutboundTrafficPolicy \<Rightarrow> PipyOutboundTrafficPolicy \<times> OutboundTrafficMatch" where
  "outbound_match_start destinationPort name protocol otp =
     (let port = u16 destinationPort;
          (otp, exist) = outbound_newTrafficMatch port name otp;
          tm = named_match (namedPort port name) otp
      in (otp, if exist then tm else outbound_setPort port (outbound_setProtocol protocol tm)))"

definition outbound_route ::
  "SetOrder \<Rightarrow> RouteWeightedClusters \<Rightarrow> OutboundHTTPRouteRules \<times> DependClusters \<Rightarrow> OutboundHTTPRouteRules \<times> DependClusters" where
  "outbound_route ord route = (\<lambda>(hsrrs, dependClusters).
     (let (hsrrs, i, _) = outbound_newHTTPServiceRouteRule (http_match_rule (rwc_HTTPRouteMatch route)) hsrrs;
          clusters = so_Clusters ord (rwc_WeightedClusters route)
      in (at_outbound_rule i (\<lambda>hsrr. fold (\<lambda>c. addWeightedCluster (wc_ClusterName c) (word_of_int (wc_Weight c)))
            clusters hsrr) hsrrs,
          fold (depend_cluster (rwc_RetryPolicy route)) clusters dependClusters)))"

definition outbound_http_config ::
  "SetOrder \<Rightarrow> PipyConf \<Rightarrow> string \<Rightarrow> string \<Rightarrow> OutboundTrafficPolicy \<Rightarrow> OutboundTrafficMatch \<times> DependClusters \<Rightarrow>
   (OutboundTrafficMatch \<times> DependClusters) option" where
  "outbound_http_config ord pipyConf matchName desiredSuffix httpRouteConfig = (\<lambda>(tm, dependClusters).
     (let ruleRef = \<lparr>pref_RuleName = otp_Name httpRouteConfig, pref_Service = ''''\<rparr> in
      case (outbound_newHTTPServiceRouteRules ruleRef tm, getTrafficMatchPluginConfigs pipyConf matchName) of
        (Some hsrrs, Some plugins) \<Rightarrow>
          (let tm = fold (\<lambda>hostname. \<lambda>tm. outbound_addHTTPHostPort2Service hostname ruleRef desiredSuffix tm)
                      (otp_Hostnames httpRouteConfig) tm;
               (hsrrs, dependClusters) = fold (outbound_route ord) (otp_Routes httpRouteConfig)
                                           (hsrrs\<lparr>pos_Plugins := plugins\<rparr>, dependClusters)
           in Some (put_outbound_route_rules (otp_Name httpRouteConfig) hsrrs tm, dependClusters))
      | _ \<Rightarrow> None))"

definition tcp_clusters ::
  "RetryPolicySpec option \<Rightarrow> WeightedCluster list \<Rightarrow> OutboundTCPServiceRouteRules \<times> DependClusters \<Rightarrow>
   OutboundTCPServiceRouteRules \<times> DependClusters" where
  "tcp_clusters retryPolicy clusters = (\<lambda>(tsrr, dependClusters).
     (fold (\<lambda>c. outbound_tcp_addWeightedCluster (wc_ClusterName c) (word_of_int (wc_Weight c))) clusters tsrr,
      fold (depend_cluster retryPolicy) clusters dependClusters))"

definition outbound_match_body ::
  "SetOrder \<Rightarrow> PipyConf \<Rightarrow> OutboundMeshTrafficPolicy \<Rightarrow> string \<Rightarrow> TrafficMatch \<Rightarrow> OutboundTrafficMatch \<times> DependClusters \<Rightarrow>
   (OutboundTrafficMatch \<times> DependClusters) option" where
  "outbound_match_body ord pipyConf outboundPolicy desiredSuffix trafficMatch = (\<lambda>(tm, dependClusters).
     (let destinationProtocol = ToLower (tm_DestinationProtocol trafficMatch);
          configs = (\<lambda>upstreamSvc. getOutboundHTTPRouteConfigs ord (omp_HTTPRouteConfigsPerPort outboundPolicy)
            (int (unat (ms_TargetPort upstreamSvc))) (PolicyName upstreamSvc True) (tm_WeightedClusters trafficMatch))
      in if destinationProtocol = ProtocolHTTP \<or> destinationProtocol = ProtocolGRPC then
           (case trafficMatchToMeshSvc trafficMatch of
              None \<Rightarrow> None
            | Some upstreamSvc \<Rightarrow>
                fold_opt (outbound_http_config ord pipyConf (tm_Name trafficMatch) desiredSuffix) (configs upstreamSvc)
                  (tm, dependClusters))
         else if destinationProtocol = ProtocolTCP \<or> destinationProtocol = ProtocolTCPServerFirst then
           map_option (\<lambda>plugins.
             (let (tsrr, dependClusters) = tcp_clusters None (tm_WeightedClusters trafficMatch)
                    ((outbound_newTCPServiceRouteRules tm)\<lparr>pot_Plugins := plugins\<rparr>, dependClusters)
              in (tm\<lparr>pom_TCPServiceRouteRules := Some tsrr\<rparr>, dependClusters)))
             (getTrafficMatchPluginConfigs pipyConf (tm_Name trafficMatch))
         else if destinationProtocol = ProtocolHTTPS then
           (case trafficMatchToMeshSvc trafficMatch of
              None \<Rightarrow> None
            | Some upstreamSvc \<Rightarrow>
                if length (configs upstreamSvc) = 0 then Some (tm, dependClusters)
                else map_option (\<lambda>plugins.
                  (let (tsrr, dependClusters) = fold (\<lambda>route. tcp_clusters (rwc_RetryPolicy route)
                           (so_Clusters ord (rwc_WeightedClusters route)))
                         (concat (map otp_Routes (configs upstreamSvc)))
                         ((outbound_newTCPServiceRouteRules tm)\<lparr>pot_Plugins := plugins\<rparr>, dependClusters)
                   in (tm\<lparr>pom_TCPServiceRouteRules := Some tsrr\<rparr>, dependClusters)))
                  (getTrafficMatchPluginConfigs pipyConf (tm_Name trafficMatch)))
         else Some (tm, dependClusters)))"

definition outbound_match_step ::
  "SetOrder \<Rightarrow> PipyConf \<Rightarrow> OutboundMeshTrafficPolicy \<Rightarrow> string \<Rightarrow> string list \<Rightarrow> TrafficMatch \<Rightarrow>
   PipyOutboundTrafficPolicy \<times> DependClusters \<Rightarrow> (PipyOutboundTrafficPolicy \<times> DependClusters) option" where
  "outbound_match_step ord pipyConf outboundPolicy desiredSuffix wildcardIPRange trafficMatch = (\<lambda>(otp, dependClusters).
     (let destinationProtocol = ToLower (tm_DestinationProtocol trafficMatch);
          trafficMatchName = (if destinationProtocol = ProtocolHTTP \<or> destinationProtocol = ProtocolGRPC
                              then ProtocolHTTP else tm_Name trafficMatch);
          (otp, tm) = outbound_match_start (tm_DestinationPort trafficMatch) trafficMatchName destinationProtocol otp;
          tm = generatePipyOutboundDestinationIPRanges trafficMatch wildcardIPRange tm
      in map_option (\<lambda>(tm, dependClusters).
             (put_named_match (namedPort (u16 (tm_DestinationPort trafficMatch)) trafficMatchName) tm otp, dependClusters))
           (outbound_match_body ord pipyConf outboundPolicy desiredSuffix trafficMatch (tm, dependClusters))))"

definition generatePipyOutboundTrafficRoutePolicy ::
  "SetOrder \<Rightarrow> PipyConf \<Rightarrow> MeshConfig \<Rightarrow> RepoConfig \<Rightarrow> OutboundMeshTrafficPolicy \<Rightarrow> string \<Rightarrow> (PipyConf \<times> DependClusters) option" where
  "generatePipyOutboundTrafficRoutePolicy ord pipyConf cfg rc outboundPolicy desiredSuffix =
     (if length (omp_TrafficMatches outboundPolicy) = 0 then Some (pipyConf, Map.empty)
      else map_option (\<lambda>(otp, dependClusters). (pipyConf\<lparr>pc_Outbound := Some otp\<rparr>, dependClusters))
        (fold_opt (outbound_match_step ord pipyConf outboundPolicy desiredSuffix (generatePipyWildcardIPRanges cfg rc))
          (omp_TrafficMatches outboundPolicy) (newOutboundTrafficPolicy pipyConf, Map.empty)))"

section \<open>Endpoints of the outbound clusters\<close>

definition via_gateway :: "RepoConfig \<Rightarrow> PipyProxy \<Rightarrow> Endpoint \<Rightarrow> string" where
  "via_gateway rc proxy ep =
     (let (name, group, zone, region) = rc_ClusterSet rc;
          clusterSet = name @ ''.'' @ group @ ''.'' @ zone @ ''.'' @ region;
          viaGw = (if EqualFold ProtocolHTTP (ep_AppProtocol ep) then ep_ViaGatewayHTTP ep
                   else if EqualFold ProtocolGRPC (ep_AppProtocol ep) then ep_ViaGatewayGRPC ep else '''')
      in if length (ep_ViaGatewayMode ep) > 0 \<and> ep_WithGateway ep then
           if ppx_VM proxy then
             generatePipyViaGateway (ep_AppProtocol ep) (ep_ClusterID ep)
               (if EqualFold (ppx_ClusterID proxy) clusterSet then '''' else ppx_ClusterID proxy) (rc_ViaGateway rc)
           else if ep_WithMultiGateways ep then
             generatePipyViaGateway (ep_AppProtocol ep) (ep_ClusterID ep) (ppx_ClusterID proxy) (rc_ViaGateway rc)
           else viaGw
         else viaGw)"

definition upstream_port :: "MeshService \<Rightarrow> Endpoint \<Rightarrow> Port" where
  "upstream_port svc ep =
     (if length (ep_ViaGatewayMode ep) > 0 \<and> \<not> ep_WithGateway ep then ucast (ep_Port ep)
      else if length (ep_ClusterKey ep) > 0 \<and> ms_TargetPort svc > 0 then ms_TargetPort svc
      else ms_Port svc)"

definition add_upstream_endpoint :: "RepoConfig \<Rightarrow> PipyProxy \<Rightarrow> MeshService \<Rightarrow> Endpoint \<Rightarrow> ClusterConfig \<Rightarrow> ClusterConfig" where
  "add_upstream_endpoint rc proxy svc ep =
     addWeightedZoneEndpoint (IP_String (ep_IP ep)) (upstream_port svc ep) (ep_Weight ep) (ep_ClusterKey ep) (ep_LBType ep)
       (ep_Path ep) (via_gateway rc proxy ep)"

text \<open>The cluster configurations of a name, each listed under its sidecar name and its local name.\<close>

definition balance_config ::
  "MeshCatalog \<Rightarrow> RepoConfig \<Rightarrow> PipyProxy \<Rightarrow> DependCluster \<Rightarrow> MeshClusterConfig \<Rightarrow>
   PipyOutboundTrafficPolicy \<times> bool \<Rightarrow> (PipyOutboundTrafficPolicy \<times> bool) option" where
  "balance_config mc rc proxy cluster clusterConfig = (\<lambda>(otp, ready).
     (let clusterConfigs = outbound_newClusterConfigs otp (wc_ClusterName cluster) in
      case getUpstreamEndpoints mc (ppx_Identity proxy) (ClusterName (mcc_Service clusterConfig)) of
        None \<Rightarrow> None
      | Some upstreamEndpoints \<Rightarrow>
          if length upstreamEndpoints = 0 then Some (put_cluster (wc_ClusterName cluster) clusterConfigs otp, False)
          else
            (let c = fold (add_upstream_endpoint rc proxy (mcc_Service clusterConfig)) upstreamEndpoints clusterConfigs;
                 c = (case mcc_UpstreamTrafficSetting clusterConfig of
                        None \<Rightarrow> c
                      | Some uts \<Rightarrow>
                          if us_ConnectionSettings (ut_Spec uts) = None then c
                          else setConnectionSettings (us_ConnectionSettings (ut_Spec uts)) c)
             in map_option (\<lambda>c. (put_cluster (wc_ClusterName cluster) c otp, ready))
                  (if dc_RetryPolicy cluster = None then Some c else setRetryPolicy (dc_RetryPolicy cluster) c))))"

definition balance_cluster ::
  "MeshCatalog \<Rightarrow> RepoConfig \<Rightarrow> PipyProxy \<Rightarrow> OutboundMeshTrafficPolicy \<Rightarrow> DependClusters \<Rightarrow> string \<Rightarrow>
   PipyOutboundTrafficPolicy \<times> bool \<Rightarrow> (PipyOutboundTrafficPolicy \<times> bool) option" where
  "balance_cluster mc rc proxy outboundPolicy dependClusters name = (\<lambda>(otp, ready).
     (case dependClusters name of
        None \<Rightarrow> Some (otp, ready)
      | Some cluster \<Rightarrow>
          (let meshClusterConfigs = getMeshClusterConfigs (omp_ClustersConfigs outboundPolicy) (wc_ClusterName cluster) in
           if length meshClusterConfigs = 0 then Some (otp, False)
           else fold_opt (balance_config mc rc proxy cluster) meshClusterConfigs (otp, ready))))"

definition generatePipyOutboundTrafficBalancePolicy ::
  "SetOrder \<Rightarrow> MeshCatalog \<Rightarrow> RepoConfig \<Rightarrow> PipyProxy \<Rightarrow> PipyConf \<Rightarrow> OutboundMeshTrafficPolicy \<Rightarrow> DependClusters \<Rightarrow>
   (PipyConf \<times> bool) option" where
  "generatePipyOutboundTrafficBalancePolicy ord mc rc proxy pipyConf outboundPolicy dependClusters =
     map_option (\<lambda>(otp, ready). (pipyConf\<lparr>pc_Outbound := Some otp\<rparr>, ready))
       (fold_opt (balance_cluster mc rc proxy outboundPolicy dependClusters) (so_Keys ord (dom dependClusters))
         (newOutboundTrafficPolicy pipyConf, True))"

section \<open>Egress\<close>

text \<open>A secret is the map of its data; \<open>None\<close> stands for an error.\<close>

type_synonym Secrets = "SecretReference \<Rightarrow> (string \<rightharpoonup> string) option"

definition source_cert :: "Secrets \<Rightarrow> EgressSourceMTLSSpec \<Rightarrow> Certificate" where
  "source_cert secrets mtls =
     (let fsmIssued = EqualFold ''fsm'' (em_Issuer mtls);
          cert = new_Certificate\<lparr>pcert_FsmIssued := Some fsmIssued\<rparr>;
          data = (\<lambda>secret k. case secret k of None \<Rightarrow> '''' | Some v \<Rightarrow> v)
      in case em_Cert mtls of
           None \<Rightarrow> cert
         | Some c \<Rightarrow>
             if fsmIssued then cert
             else case secrets (ec_Secret c) of
               None \<Rightarrow> cert
             | Some secret \<Rightarrow> cert\<lparr>pcert_SubjectAltNames := ec_SubjectAltNames c, pcert_Expiration := ec_Expiration c,
                 pcert_IssuingCA := data secret ''ca.crt'', pcert_CertChain := data secret ''tls.crt'',
                 pcert_PrivateKey := data secret ''tls.key''\<rparr>)"

definition getEgressClusterDestinationSpec ::
  "Secrets \<Rightarrow> EgressTrafficPolicy \<Rightarrow> TrafficMatch \<Rightarrow> DestinationSecuritySpec option" where
  "getEgressClusterDestinationSpec secrets egressPolicy trafficMatch =
     (case getEgressClusterConfigs (etp_ClustersConfigs egressPolicy) (tm_Cluster trafficMatch) of
        None \<Rightarrow> None
      | Some clusterConfig \<Rightarrow>
          map_option (\<lambda>mtls. \<lparr>pdst_SourceCert = Some (source_cert secrets mtls)\<rparr>) (ecc_SourceMTLS clusterConfig))"

definition egress_http_config ::
  "SetOrder \<Rightarrow> string \<Rightarrow> DestinationSecuritySpec option \<Rightarrow> string option \<Rightarrow> EgressHTTPRouteConfig \<Rightarrow>
   OutboundTrafficMatch \<times> DependClusters \<Rightarrow> (OutboundTrafficMatch \<times> DependClusters) option" where
  "egress_http_config ord desiredSuffix destinationSpec gateway httpRouteConfig = (\<lambda>(tm, dependClusters).
     (let ruleRef = \<lparr>pref_RuleName = ehc_Name httpRouteConfig, pref_Service = ''''\<rparr> in
      map_option (\<lambda>hsrrs.
        (let tm = fold (\<lambda>hostname. \<lambda>tm. outbound_addHTTPHostPort2Service hostname ruleRef desiredSuffix tm)
                    (ehc_Hostnames httpRouteConfig) tm;
             (hsrrs, dependClusters) = fold (\<lambda>rule. outbound_route ord (err_Route rule)) (ehc_RoutingRules httpRouteConfig)
                                         (hsrrs\<lparr>pos_EgressForwardGateway := gateway\<rparr>, dependClusters);
             tm = fold (\<lambda>ipRange. addDestinationIPRange ipRange destinationSpec)
                    (concat (map err_AllowedDestinationIPRanges (ehc_RoutingRules httpRouteConfig))) tm
         in (put_outbound_route_rules (ehc_Name httpRouteConfig) hsrrs tm, dependClusters)))
        (outbound_newHTTPServiceRouteRules ruleRef tm)))"

definition egress_match_step ::
  "SetOrder \<Rightarrow> Secrets \<Rightarrow> EgressTrafficPolicy \<Rightarrow> string \<Rightarrow> TrafficMatch \<Rightarrow>
   PipyOutboundTrafficPolicy \<times> DependClusters \<Rightarrow> (PipyOutboundTrafficPolicy \<times> DependClusters) option" where
  "egress_match_step ord secrets egressPolicy desiredSuffix trafficMatch = (\<lambda>(otp, dependClusters).
     (let destinationProtocol = ToLower (tm_DestinationProtocol trafficMatch);
          key = namedPort (u16 (tm_DestinationPort trafficMatch)) (tm_Name trafficMatch);
          gateway = tm_EgressGateWay trafficMatch;
          (otp, tm) = outbound_match_start (tm_DestinationPort trafficMatch) (tm_Name trafficMatch) destinationProtocol otp;
          destinationSpec = getEgressClusterDestinationSpec secrets egressPolicy trafficMatch;
          tm = fold (\<lambda>ipRange. addDestinationIPRange ipRange destinationSpec) (tm_DestinationIPRanges trafficMatch) tm
      in if destinationProtocol = ProtocolHTTP \<or> destinationProtocol = ProtocolGRPC then
           map_option (\<lambda>(tm, dependClusters). (put_named_match key tm otp, dependClusters))
             (fold_opt (egress_http_config ord desiredSuffix destinationSpec gateway)
               (getEgressHTTPRouteConfigs (etp_HTTPRouteConfigsPerPort egressPolicy) (tm_DestinationPort trafficMatch))
               (tm, dependClusters))
         else if destinationProtocol = ProtocolHTTPS then
           (let tsrr = outbound_tcp_addWeightedCluster (tm_Cluster trafficMatch) (word_of_int ClusterWeightAcceptAll)
                  ((outbound_newTCPServiceRouteRules tm)\<lparr>pot_EgressForwardGateway := gateway\<rparr>);
                c = fold (\<lambda>serverName. addWeightedEndpoint serverName (u16 (tm_DestinationPort trafficMatch))
                      (word_of_int ClusterWeightAcceptAll)) (tm_ServerNames trafficMatch)
                      (outbound_newClusterConfigs otp (tm_Cluster trafficMatch))
            in Some (put_cluster (tm_Cluster trafficMatch) c
                 (put_named_match key (tm\<lparr>pom_TCPServiceRouteRules := Some tsrr\<rparr>) otp), dependClusters))
         else if destinationProtocol = ProtocolTCP \<or> destinationProtocol = ProtocolTCPServerFirst then
           Some (put_named_match key (tm\<lparr>pom_TCPServiceRouteRules := Some
               ((outbound_newTCPServiceRouteRules tm)\<lparr>pot_AllowedEgressTraffic := True, pot_EgressForwardGateway := gateway\<rparr>)\<rparr>)
             otp, dependClusters)
         else Some (put_named_match key tm otp, dependClusters)))"

definition generatePipyEgressTrafficRoutePolicy ::
  "SetOrder \<Rightarrow> Secrets \<Rightarrow> PipyConf \<Rightarrow> EgressTrafficPolicy \<Rightarrow> string \<Rightarrow> (PipyConf \<times> DependClusters) option" where
  "generatePipyEgressTrafficRoutePolicy ord secrets pipyConf egressPolicy desiredSuffix =
     (if length (etp_TrafficMatches egressPolicy) = 0 then Some (pipyConf, Map.empty)
      else map_option (\<lambda>(otp, dependClusters). (pipyConf\<lparr>pc_Outbound := Some otp\<rparr>, dependClusters))
        (fold_opt (egress_match_step ord secrets egressPolicy desiredSuffix) (etp_TrafficMatches egressPolicy)
          (newOutboundTrafficPolicy pipyConf, Map.empty)))"

definition egress_retry ::
  "MeshCatalog \<Rightarrow> PipyProxy \<Rightarrow> DependCluster \<Rightarrow> ClusterConfig \<Rightarrow> ClusterConfig option" where
  "egress_retry mc proxy cluster c =
     (if dc_RetryPolicy cluster \<noteq> None then setRetryPolicy (dc_RetryPolicy cluster) c
      else case hostToMeshSvc (wc_ClusterName cluster) of
        None \<Rightarrow> None
      | Some None \<Rightarrow> Some c
      | Some (Some upstreamSvc) \<Rightarrow>
          (case GetRetryPolicy mc (ppx_Identity proxy) upstreamSvc of
             None \<Rightarrow> None
           | Some retryPolicy \<Rightarrow> if retryPolicy = None then Some c else setRetryPolicy retryPolicy c))"

definition egress_balance_cluster ::
  "MeshCatalog \<Rightarrow> Secrets \<Rightarrow> PipyProxy \<Rightarrow> EgressTrafficPolicy \<Rightarrow> DependClusters \<Rightarrow> string \<Rightarrow>
   PipyOutboundTrafficPolicy \<times> bool \<Rightarrow> (PipyOutboundTrafficPolicy \<times> bool) option" where
  "egress_balance_cluster mc secrets proxy egressPolicy dependClusters name = (\<lambda>(otp, ready).
     (case dependClusters name of
        None \<Rightarrow> Some (otp, ready)
      | Some cluster \<Rightarrow>
          (case getEgressClusterConfigs (etp_ClustersConfigs egressPolicy) (wc_ClusterName cluster) of
             None \<Rightarrow> Some (otp, False)
           | Some clusterConfig \<Rightarrow>
               (let c = addWeightedEndpoint (ecc_Name clusterConfig) (u16 (ecc_Port clusterConfig))
                      (word_of_int ClusterWeightAcceptAll) (outbound_newClusterConfigs otp (wc_ClusterName cluster));
                    c = (case ecc_UpstreamTrafficSetting clusterConfig of
                           None \<Rightarrow> c
                         | Some uts \<Rightarrow> setConnectionSettings (us_ConnectionSettings (ut_Spec uts)) c);
                    c = (case ecc_SourceMTLS clusterConfig of
                           None \<Rightarrow> c
                         | Some mtls \<Rightarrow> c\<lparr>pcc_SourceCert := Some (source_cert secrets mtls)\<rparr>)
                in map_option (\<lambda>c. (put_cluster (wc_ClusterName cluster) c otp, ready)) (egress_retry mc proxy cluster c)))))"

definition generatePipyEgressTrafficBalancePolicy ::
  "SetOrder \<Rightarrow> MeshCatalog \<Rightarrow> Secrets \<Rightarrow> PipyProxy \<Rightarrow> PipyConf \<Rightarrow> EgressTrafficPolicy \<Rightarrow> DependClusters \<Rightarrow>
   (PipyConf \<times> bool) option" where
  "generatePipyEgressTrafficBalancePolicy ord mc secrets proxy pipyConf egressPolicy dependClusters =
     map_option (\<lambda>(otp, ready). (pipyConf\<lparr>pc_Outbound := Some otp\<rparr>, ready))
       (fold_opt (egress_balance_cluster mc secrets proxy egressPolicy dependClusters) (so_Keys ord (dom dependClusters))
         (newOutboundTrafficPolicy pipyConf, True))"

section \<open>Egress gateways\<close>

text \<open>A missing slice and an empty one cannot be told apart: a policy has global gateways if the list is
  not empty.  The catalog fills in global gateways only (see \<open>GetEgressGatewayPolicy\<close>).\<close>

record EgressGatewayRule =
  egr_Name :: string
  egr_Namespace :: string
  egr_EgressGateways :: "EgressGatewayConfig list"

definition forward_match :: "string \<Rightarrow> ForwardTrafficPolicy \<Rightarrow> ForwardTrafficPolicy" where
  "forward_match ruleName ftp =
     ftp\<lparr>pfw_ForwardMatches := (pfw_ForwardMatches ftp)(ruleName \<mapsto> newForwardMatch ftp ruleName)\<rparr>"

definition forward_gateway :: "string \<Rightarrow> Weight \<Rightarrow> EgressGatewayConfig \<Rightarrow> ForwardTrafficPolicy \<Rightarrow> ForwardTrafficPolicy" where
  "forward_gateway ruleName defaultWeight gateway ftp =
     (let clusterName = egc_Service gateway @ ''.'' @ egc_Namespace gateway;
          weight = (case egc_Weight gateway of None \<Rightarrow> defaultWeight | Some w \<Rightarrow> word_of_int w);
          ftp = ftp\<lparr>pfw_ForwardMatches :=
            (pfw_ForwardMatches ftp)(ruleName \<mapsto> (newForwardMatch ftp ruleName)(clusterName \<mapsto> weight))\<rparr>
      in if length (egc_Endpoints gateway) > 0 then
           ftp\<lparr>pfw_EgressGateways := (pfw_EgressGateways ftp)(clusterName \<mapsto>
             fold (\<lambda>ep. addWeightedEndpoint (IP_String (ep_IP ep)) (ucast (ep_Port ep)) 0) (egc_Endpoints gateway)
               (newEgressGateway ftp clusterName (egc_Mode gateway)))\<rparr>
         else ftp)"

definition forward_rule :: "nat \<times> EgressGatewayRule \<Rightarrow> ForwardTrafficPolicy \<Rightarrow> ForwardTrafficPolicy" where
  "forward_rule = (\<lambda>(index, rule) ftp.
     (let ruleName = egr_Namespace rule @ ''.'' @ egr_Name rule @ ''.'' @ fmt_nat index in
      fold (forward_gateway ruleName (word_of_int ClusterWeightAcceptAll)) (egr_EgressGateways rule) (forward_match ruleName ftp)))"

definition generatePipyEgressTrafficForwardPolicy ::
  "PipyConf \<Rightarrow> EgressGatewayConfig list \<Rightarrow> EgressGatewayRule list \<Rightarrow> PipyConf \<times> bool" where
  "generatePipyEgressTrafficForwardPolicy pipyConf global rules =
     (if global = [] \<and> rules = [] then (pipyConf, True)
      else
        (let ftp = newForwardTrafficPolicy pipyConf;
             ftp = (if global = [] then ftp else fold (forward_gateway ''*'' 0) global (forward_match ''*'' ftp))
         in (pipyConf\<lparr>pc_Forward := Some (fold forward_rule (enumerate 0 rules) ftp)\<rparr>,
             list_all (\<lambda>rule. list_all (\<lambda>gateway. length (egc_Endpoints gateway) > 0) (egr_EgressGateways rule)) rules)))"

section \<open>Cluster names\<close>

lemma clusterToMeshSvc_ClusterName:
  assumes "slash_free (ms_Namespace svc)" "bar_free (ms_Namespace svc)" "ms_Namespace svc \<noteq> ''''"
    and "slash_free (ms_Name svc)" "bar_free (ms_Name svc)" "ms_Name svc \<noteq> ''''"
  shows "clusterToMeshSvc (ClusterName svc) =
    Some ((plain_service (ms_Namespace svc) (ms_Name svc))\<lparr>ms_TargetPort := ms_TargetPort svc\<rparr>)"
proof -
  let ?sep = "\<lambda>r. r = CHR ''/'' \<or> r = CHR ''|''"
  have port: "\<forall>c\<in>set (fmt_u16 (ms_TargetPort svc)). \<not> ?sep c" "fmt_u16 (ms_TargetPort svc) \<noteq> []"
    using fmt_u16_no_sep [of "CHR ''/''"] fmt_u16_no_sep [of "CHR ''|''"] by (auto simp: fmt_u16_def)
  have "\<forall>c\<in>set (ms_Namespace svc). \<not> ?sep c" "\<forall>c\<in>set (ms_Name svc). \<not> ?sep c"
    using assms by (auto simp: slash_free_def bar_free_def)
  then have "FieldsFunc ?sep (ClusterName svc) = [ms_Namespace svc, ms_Name svc, fmt_u16 (ms_TargetPort svc)]"
    using assms(3,6) port by (simp add: ClusterName_def FieldsFunc_field FieldsFunc_last)
  then show ?thesis by (simp add: clusterToMeshSvc_def)
qed

section \<open>The endpoints of outbound clusters\<close>

definition endpoint_key :: "MeshService \<Rightarrow> Endpoint \<Rightarrow> string" where
  "endpoint_key svc ep = host_port (IP_String (ep_IP ep)) (upstream_port svc ep)"

definition cluster_hosts :: "PipyOutboundTrafficPolicy \<Rightarrow> string \<Rightarrow> string set" where
  "cluster_hosts otp name = (case pop_ClustersConfigs otp name of None \<Rightarrow> {} | Some c \<Rightarrow> dom (pcc_Endpoints c))"

text \<open>The hosts a client may reach in one cluster configuration.\<close>

definition upstream_hosts :: "MeshCatalog \<Rightarrow> PipyProxy \<Rightarrow> MeshClusterConfig \<Rightarrow> string set" where
  "upstream_hosts mc proxy cc =
     (case getUpstreamEndpoints mc (ppx_Identity proxy) (ClusterName (mcc_Service cc)) of
        None \<Rightarrow> {} | Some eps \<Rightarrow> endpoint_key (mcc_Service cc) ` set eps)"

lemma cluster_hosts_put [simp]:
  "cluster_hosts (put_cluster name c otp) name' = (if name' = name then dom (pcc_Endpoints c) else cluster_hosts otp name')"
  by (simp add: cluster_hosts_def put_cluster_def)

lemma put_cluster_matches [simp]:
  "pop_namedTrafficMatches (put_cluster name c otp) = pop_namedTrafficMatches otp"
  "pop_TrafficMatches (put_cluster name c otp) = pop_TrafficMatches otp"
  by (simp_all add: put_cluster_def)

lemma newClusterConfigs_hosts [simp]: "dom (pcc_Endpoints (outbound_newClusterConfigs otp name)) = cluster_hosts otp name"
  by (simp add: outbound_newClusterConfigs_def cluster_hosts_def new_ClusterConfig_def split: option.split)

lemma add_upstream_endpoints_hosts:
  "dom (pcc_Endpoints (fold (add_upstream_endpoint rc proxy svc) eps c)) = dom (pcc_Endpoints c) \<union> endpoint_key svc ` set eps"
  by (induction eps arbitrary: c) (auto simp: add_upstream_endpoint_def addWeightedZoneEndpoint_def endpoint_key_def)

lemma settings_keep_endpoints [simp]:
  "pcc_Endpoints (setConnectionSettings cs c) = pcc_Endpoints c"
  by (simp add: setConnectionSettings_def)

lemma setRetryPolicy_endpoints: "setRetryPolicy r c = Some c' \<Longrightarrow> pcc_Endpoints c' = pcc_Endpoints c"
  by (auto simp: setRetryPolicy_def split: option.splits)

lemma balance_config_hosts:
  assumes "balance_config mc rc proxy cluster cc (otp, ready) = Some (otp', ready')"
  shows "cluster_hosts otp' name = cluster_hosts otp name \<union> (if name = wc_ClusterName cluster then upstream_hosts mc proxy cc else {})"
    and "ready' \<longleftrightarrow> ready \<and> upstream_hosts mc proxy cc \<noteq> {}"
    and "pop_namedTrafficMatches otp' = pop_namedTrafficMatches otp" "pop_TrafficMatches otp' = pop_TrafficMatches otp"
proof -
  from assms obtain eps where eps: "getUpstreamEndpoints mc (ppx_Identity proxy) (ClusterName (mcc_Service cc)) = Some eps"
    by (auto simp: balance_config_def Let_def split: option.splits)
  have "\<exists>c. otp' = put_cluster (wc_ClusterName cluster) c otp \<and> (ready' \<longleftrightarrow> ready \<and> eps \<noteq> []) \<and>
      dom (pcc_Endpoints c) = cluster_hosts otp (wc_ClusterName cluster) \<union> endpoint_key (mcc_Service cc) ` set eps"
  proof (cases "eps = []")
    case True
    with assms eps show ?thesis
      by (intro exI [of _ "outbound_newClusterConfigs otp (wc_ClusterName cluster)"]) (simp add: balance_config_def Let_def)
  next
    case False
    from assms eps False obtain c where "otp' = put_cluster (wc_ClusterName cluster) c otp" "ready' = ready"
      "pcc_Endpoints c = pcc_Endpoints (fold (add_upstream_endpoint rc proxy (mcc_Service cc)) eps
         (outbound_newClusterConfigs otp (wc_ClusterName cluster)))"
      by (auto simp: balance_config_def Let_def setRetryPolicy_endpoints split: option.splits if_splits)
    with False show ?thesis by (intro exI [of _ c]) (simp add: add_upstream_endpoints_hosts)
  qed
  then show "cluster_hosts otp' name = cluster_hosts otp name \<union> (if name = wc_ClusterName cluster then upstream_hosts mc proxy cc else {})"
    "ready' \<longleftrightarrow> ready \<and> upstream_hosts mc proxy cc \<noteq> {}"
    "pop_namedTrafficMatches otp' = pop_namedTrafficMatches otp" "pop_TrafficMatches otp' = pop_TrafficMatches otp"
    using eps by (auto simp: upstream_hosts_def)
qed

lemma balance_configs_hosts:
  assumes "fold_opt (balance_config mc rc proxy cluster) ccs (otp, ready) = Some (otp', ready')"
  shows "cluster_hosts otp' name = cluster_hosts otp name \<union>
      (if name = wc_ClusterName cluster then (\<Union>cc\<in>set ccs. upstream_hosts mc proxy cc) else {})"
    and "ready' \<longleftrightarrow> ready \<and> (\<forall>cc\<in>set ccs. upstream_hosts mc proxy cc \<noteq> {})"
    and "pop_namedTrafficMatches otp' = pop_namedTrafficMatches otp" "pop_TrafficMatches otp' = pop_TrafficMatches otp"
proof -
  have "cluster_hosts otp' name = cluster_hosts otp name \<union>
      (if name = wc_ClusterName cluster then (\<Union>cc\<in>set ccs. upstream_hosts mc proxy cc) else {}) \<and>
    (ready' \<longleftrightarrow> ready \<and> (\<forall>cc\<in>set ccs. upstream_hosts mc proxy cc \<noteq> {})) \<and>
    pop_namedTrafficMatches otp' = pop_namedTrafficMatches otp \<and> pop_TrafficMatches otp' = pop_TrafficMatches otp"
    using assms
  proof (induction ccs arbitrary: otp ready)
    case (Cons cc ccs)
    then obtain otp1 ready1 where 1: "balance_config mc rc proxy cluster cc (otp, ready) = Some (otp1, ready1)"
        "fold_opt (balance_config mc rc proxy cluster) ccs (otp1, ready1) = Some (otp', ready')"
      by (auto split: option.splits)
    from Cons.IH [OF 1(2)] balance_config_hosts [OF 1(1)] show ?case by auto
  qed simp
  then show "cluster_hosts otp' name = cluster_hosts otp name \<union>
      (if name = wc_ClusterName cluster then (\<Union>cc\<in>set ccs. upstream_hosts mc proxy cc) else {})"
    "ready' \<longleftrightarrow> ready \<and> (\<forall>cc\<in>set ccs. upstream_hosts mc proxy cc \<noteq> {})"
    "pop_namedTrafficMatches otp' = pop_namedTrafficMatches otp" "pop_TrafficMatches otp' = pop_TrafficMatches otp"
    by blast+
qed

definition dep_named :: "DependClusters \<Rightarrow> bool" where
  "dep_named deps \<longleftrightarrow> (\<forall>n d. deps n = Some d \<longrightarrow> wc_ClusterName d = n)"

text \<open>What the balance policy must find for a cluster: configurations, all with reachable endpoints.\<close>

definition cluster_ready :: "MeshCatalog \<Rightarrow> PipyProxy \<Rightarrow> OutboundMeshTrafficPolicy \<Rightarrow> string \<Rightarrow> bool" where
  "cluster_ready mc proxy pol name \<longleftrightarrow> getMeshClusterConfigs (omp_ClustersConfigs pol) name \<noteq> [] \<and>
     (\<forall>cc\<in>set (getMeshClusterConfigs (omp_ClustersConfigs pol) name). upstream_hosts mc proxy cc \<noteq> {})"

definition reachable_hosts :: "MeshCatalog \<Rightarrow> PipyProxy \<Rightarrow> OutboundMeshTrafficPolicy \<Rightarrow> string \<Rightarrow> string set" where
  "reachable_hosts mc proxy pol name =
     (\<Union>cc\<in>set (getMeshClusterConfigs (omp_ClustersConfigs pol) name). upstream_hosts mc proxy cc)"

lemma balance_cluster_hosts:
  assumes "balance_cluster mc rc proxy pol deps n (otp, ready) = Some (otp', ready')" "dep_named deps"
  shows "cluster_hosts otp' name = cluster_hosts otp name \<union> (if name = n \<and> n \<in> dom deps then reachable_hosts mc proxy pol n else {})"
    and "ready' \<longleftrightarrow> ready \<and> (n \<in> dom deps \<longrightarrow> cluster_ready mc proxy pol n)"
    and "pop_namedTrafficMatches otp' = pop_namedTrafficMatches otp" "pop_TrafficMatches otp' = pop_TrafficMatches otp"
proof -
  have "cluster_hosts otp' name = cluster_hosts otp name \<union> (if name = n \<and> n \<in> dom deps then reachable_hosts mc proxy pol n else {}) \<and>
    (ready' \<longleftrightarrow> ready \<and> (n \<in> dom deps \<longrightarrow> cluster_ready mc proxy pol n)) \<and>
    pop_namedTrafficMatches otp' = pop_namedTrafficMatches otp \<and> pop_TrafficMatches otp' = pop_TrafficMatches otp"
  proof (cases "deps n")
    case None
    with assms(1) show ?thesis by (auto simp: balance_cluster_def)
  next
    case (Some d)
    then have d: "wc_ClusterName d = n" using assms(2) by (simp add: dep_named_def)
    show ?thesis
    proof (cases "getMeshClusterConfigs (omp_ClustersConfigs pol) n = []")
      case True
      with assms(1) Some d show ?thesis by (auto simp: balance_cluster_def cluster_ready_def reachable_hosts_def)
    next
      case False
      with assms(1) Some d have "fold_opt (balance_config mc rc proxy d)
          (getMeshClusterConfigs (omp_ClustersConfigs pol) n) (otp, ready) = Some (otp', ready')"
        by (simp add: balance_cluster_def)
      from balance_configs_hosts [OF this] False Some d show ?thesis
        by (auto simp: cluster_ready_def reachable_hosts_def)
    qed
  qed
  then show "cluster_hosts otp' name = cluster_hosts otp name \<union> (if name = n \<and> n \<in> dom deps then reachable_hosts mc proxy pol n else {})"
    "ready' \<longleftrightarrow> ready \<and> (n \<in> dom deps \<longrightarrow> cluster_ready mc proxy pol n)"
    "pop_namedTrafficMatches otp' = pop_namedTrafficMatches otp" "pop_TrafficMatches otp' = pop_TrafficMatches otp"
    by blast+
qed

lemma balance_clusters_hosts:
  assumes "fold_opt (balance_cluster mc rc proxy pol deps) ns (otp, ready) = Some (otp', ready')" "dep_named deps"
  shows "cluster_hosts otp' name = cluster_hosts otp name \<union>
      (if name \<in> set ns \<inter> dom deps then reachable_hosts mc proxy pol name else {}) \<and>
    (ready' \<longleftrightarrow> ready \<and> (\<forall>n\<in>set ns \<inter> dom deps. cluster_ready mc proxy pol n)) \<and>
    pop_namedTrafficMatches otp' = pop_namedTrafficMatches otp \<and> pop_TrafficMatches otp' = pop_TrafficMatches otp"
  using assms(1)
proof (induction ns arbitrary: otp ready)
  case (Cons n ns)
  then obtain otp1 ready1 where 1: "balance_cluster mc rc proxy pol deps n (otp, ready) = Some (otp1, ready1)"
      "fold_opt (balance_cluster mc rc proxy pol deps) ns (otp1, ready1) = Some (otp', ready')"
    by (auto split: option.splits)
  from Cons.IH [OF 1(2)] balance_cluster_hosts [OF 1(1) assms(2)] show ?case by auto
qed simp

lemma balance_policy_hosts:
  assumes "generatePipyOutboundTrafficBalancePolicy ord mc rc proxy conf pol deps = Some (conf', ready)"
    and "fair_order ord" "finite (dom deps)" "dep_named deps" "pc_Outbound conf = Some otp"
  obtains otp' where "pc_Outbound conf' = Some otp'" "pop_namedTrafficMatches otp' = pop_namedTrafficMatches otp"
    "pop_TrafficMatches otp' = pop_TrafficMatches otp"
    "\<forall>name. cluster_hosts otp' name = cluster_hosts otp name \<union> (if name \<in> dom deps then reachable_hosts mc proxy pol name else {})"
    "ready \<longleftrightarrow> (\<forall>n\<in>dom deps. cluster_ready mc proxy pol n)"
proof -
  from assms(1,5) obtain otp' where otp': "fold_opt (balance_cluster mc rc proxy pol deps) (so_Keys ord (dom deps)) (otp, True) =
      Some (otp', ready)" "conf' = conf\<lparr>pc_Outbound := Some otp'\<rparr>"
    by (auto simp: generatePipyOutboundTrafficBalancePolicy_def newOutboundTrafficPolicy_def)
  have "set (so_Keys ord (dom deps)) = dom deps"
    using assms(2,3) lists_elementsD by (auto simp: fair_order_def)
  with balance_clusters_hosts [OF otp'(1) assms(4)] otp'(2) that [of otp'] show ?thesis by simp
qed

section \<open>The clusters outbound routes lead to\<close>

definition rules_targets :: "OutboundHTTPRouteRules \<Rightarrow> string set" where
  "rules_targets h = (\<Union>r\<in>set (pos_RouteRules h). dom (prr_TargetClusters r))"

definition match_targets :: "OutboundTrafficMatch \<Rightarrow> string set" where
  "match_targets tm = (\<Union>h\<in>ran (pom_HTTPServiceRouteRules tm). rules_targets h) \<union>
     (case pom_TCPServiceRouteRules tm of None \<Rightarrow> {} | Some t \<Rightarrow> dom (pot_TargetClusters t))"

definition policy_targets :: "PipyOutboundTrafficPolicy \<Rightarrow> string set" where
  "policy_targets otp = (\<Union>tm\<in>ran (pop_namedTrafficMatches otp). match_targets tm)"

text \<open>A part of the generation adds targets only together with a dependency on them.\<close>

definition grows :: "string set \<Rightarrow> DependClusters \<Rightarrow> string set \<Rightarrow> DependClusters \<Rightarrow> bool" where
  "grows T deps T' deps' \<longleftrightarrow> T' \<subseteq> T \<union> dom deps' \<and> dom deps \<subseteq> dom deps' \<and> (dep_named deps \<longrightarrow> dep_named deps') \<and>
     (finite (dom deps) \<longrightarrow> finite (dom deps'))"

lemma grows_refl: "T' \<subseteq> T \<Longrightarrow> grows T deps T' deps"
  by (auto simp: grows_def)

lemma grows_trans: "grows T d T' d' \<Longrightarrow> grows T' d' T'' d'' \<Longrightarrow> grows T d T'' d''"
  unfolding grows_def by blast

lemma depend_cluster_dom [simp]: "dom (depend_cluster r c deps) = insert (wc_ClusterName c) (dom deps)"
  by (auto simp: depend_cluster_def split: option.splits)

lemma depend_cluster_named [simp]: "dep_named deps \<Longrightarrow> dep_named (depend_cluster r c deps)"
  by (auto simp: depend_cluster_def dep_named_def split: option.splits)

lemma depend_clusters:
  "dom (fold (depend_cluster r) cs deps) = wc_ClusterName ` set cs \<union> dom deps"
  "dep_named deps \<Longrightarrow> dep_named (fold (depend_cluster r) cs deps)"
  by (induction cs arbitrary: deps) auto

lemma depend_clusters_grow: "T' \<subseteq> T \<union> wc_ClusterName ` set cs \<Longrightarrow> grows T deps T' (fold (depend_cluster r) cs deps)"
  by (auto simp: grows_def depend_clusters)

lemma weighted_clusters_targets:
  "dom (prr_TargetClusters (fold (\<lambda>c. addWeightedCluster (wc_ClusterName c) (f c)) cs r)) =
     dom (prr_TargetClusters r) \<union> wc_ClusterName ` set cs"
  by (induction cs arbitrary: r) (auto simp: addWeightedCluster_def)

lemma outbound_route_grows:
  assumes "outbound_route ord route (h, deps) = (h', deps')"
  shows "grows (rules_targets h) deps (rules_targets h') deps'"
proof -
  let ?cs = "so_Clusters ord (rwc_WeightedClusters route)"
  obtain h1 i d where new: "outbound_newHTTPServiceRouteRule (http_match_rule (rwc_HTTPRouteMatch route)) h = (h1, i, d)"
    by (metis prod_cases3)
  let ?f = "\<lambda>hsrr. fold (\<lambda>c. addWeightedCluster (wc_ClusterName c) (word_of_int (wc_Weight c))) ?cs hsrr"
  have fresh: "prr_TargetClusters (new_OutboundHTTPRouteRule\<lparr>prr_HTTPMatchRule := m\<rparr>) = Map.empty" for m
    by (simp add: new_OutboundHTTPRouteRule_def)
  have h1: "rules_targets h1 = rules_targets h \<and> i < length (pos_RouteRules h1)"
  proof (cases "rule_index (http_match_rule (rwc_HTTPRouteMatch route)) (pos_RouteRules h)")
    case None
    with new have "h1 = h\<lparr>pos_RouteRules := pos_RouteRules h @
        [new_OutboundHTTPRouteRule\<lparr>prr_HTTPMatchRule := http_match_rule (rwc_HTTPRouteMatch route)\<rparr>]\<rparr>"
      "i = length (pos_RouteRules h)"
      by (simp_all add: outbound_newHTTPServiceRouteRule_def)
    then show ?thesis by (simp add: rules_targets_def fresh del: HTTPRouteRule.simps)
  next
    case (Some j)
    with new show ?thesis by (auto simp: outbound_newHTTPServiceRouteRule_def dest: rule_index_Some)
  qed
  have "rules_targets (at_outbound_rule i ?f h1) \<subseteq> rules_targets h1 \<union> wc_ClusterName ` set ?cs"
  proof
    fix x assume "x \<in> rules_targets (at_outbound_rule i ?f h1)"
    then obtain r where r: "r \<in> set ((pos_RouteRules h1)[i := ?f (pos_RouteRules h1 ! i)])" "x \<in> dom (prr_TargetClusters r)"
      by (auto simp: rules_targets_def at_outbound_rule_def)
    from set_update_subset_insert r(1) have "r = ?f (pos_RouteRules h1 ! i) \<or> r \<in> set (pos_RouteRules h1)" by fast
    then show "x \<in> rules_targets h1 \<union> wc_ClusterName ` set ?cs"
    proof
      assume "r = ?f (pos_RouteRules h1 ! i)"
      with r(2) have "x \<in> dom (prr_TargetClusters (pos_RouteRules h1 ! i)) \<union> wc_ClusterName ` set ?cs"
        by (simp only: weighted_clusters_targets)
      with nth_mem [OF conjunct2 [OF h1]] show ?thesis unfolding rules_targets_def by blast
    qed (use r(2) in \<open>auto simp: rules_targets_def\<close>)
  qed
  moreover from assms new have "h' = at_outbound_rule i ?f h1" "deps' = fold (depend_cluster (rwc_RetryPolicy route)) ?cs deps"
    by (auto simp: outbound_route_def Let_def)
  ultimately show ?thesis using h1 by (auto intro: depend_clusters_grow)
qed

lemma outbound_routes_grow:
  "fold (\<lambda>x. outbound_route ord (g x)) xs (h, deps) = (h', deps') \<Longrightarrow> grows (rules_targets h) deps (rules_targets h') deps'"
proof (induction xs arbitrary: h deps)
  case (Cons x xs)
  obtain h1 deps1 where 1: "outbound_route ord (g x) (h, deps) = (h1, deps1)" by (cases "outbound_route ord (g x) (h, deps)")
  with Cons.prems have "grows (rules_targets h1) deps1 (rules_targets h') deps'" by (intro Cons.IH) simp
  with outbound_route_grows [OF 1] show ?case by (rule grows_trans)
qed (simp add: grows_refl)

lemma fold_hosts_targets [simp]:
  "match_targets (fold (\<lambda>hostname tm. outbound_addHTTPHostPort2Service hostname ref sfx tm) hs tm) = match_targets tm"
  "pom_HTTPServiceRouteRules (fold (\<lambda>hostname tm. outbound_addHTTPHostPort2Service hostname ref sfx tm) hs tm) =
     pom_HTTPServiceRouteRules tm"
  by (induction hs arbitrary: tm) (auto simp: outbound_addHTTPHostPort2Service_def match_targets_def)

lemma fold_ranges_targets [simp]: "match_targets (fold (\<lambda>r. addDestinationIPRange r spec) rs tm) = match_targets tm"
  by (induction rs arbitrary: tm) (auto simp: addDestinationIPRange_def match_targets_def split: option.splits)

lemma put_outbound_route_rules_targets:
  "match_targets (put_outbound_route_rules name h tm) \<subseteq> match_targets tm \<union> rules_targets h"
  by (auto simp: match_targets_def put_outbound_route_rules_def ran_def split: if_splits)

lemma newHTTPServiceRouteRules_targets:
  "outbound_newHTTPServiceRouteRules ref tm = Some h \<Longrightarrow> rules_targets h \<subseteq> match_targets tm"
  by (auto simp: outbound_newHTTPServiceRouteRules_def match_targets_def rules_targets_def new_OutboundHTTPRouteRules_def
      ran_def split: if_splits option.splits)

text \<open>The common part of both HTTP configurations.\<close>

lemma http_config_grows:
  assumes "outbound_newHTTPServiceRouteRules ref tm = Some h" "rules_targets h1 = rules_targets h"
    "fold (\<lambda>x. outbound_route ord (g x)) xs (h1, deps) = (h', deps')" "match_targets tm1 = match_targets tm"
  shows "grows (match_targets tm) deps (match_targets (put_outbound_route_rules name h' tm1)) deps'"
  using outbound_routes_grow [OF assms(3)] newHTTPServiceRouteRules_targets [OF assms(1)]
    put_outbound_route_rules_targets [of name h' tm1] assms(2,4)
  unfolding grows_def by blast

lemma outbound_http_config_grows:
  assumes "outbound_http_config ord conf matchName sfx cfg (tm, deps) = Some (tm', deps')"
  shows "grows (match_targets tm) deps (match_targets tm') deps'"
proof -
  let ?ref = "\<lparr>pref_RuleName = otp_Name cfg, pref_Service = ''''\<rparr>"
  from assms obtain h plugins h' where h: "outbound_newHTTPServiceRouteRules ?ref tm = Some h"
      "fold (outbound_route ord) (otp_Routes cfg) (h\<lparr>pos_Plugins := plugins\<rparr>, deps) = (h', deps')"
      "tm' = put_outbound_route_rules (otp_Name cfg) h'
         (fold (\<lambda>hostname tm. outbound_addHTTPHostPort2Service hostname ?ref sfx tm) (otp_Hostnames cfg) tm)"
    by (auto simp: outbound_http_config_def Let_def split: option.splits prod.splits)
  show ?thesis
    unfolding h(3) by (rule http_config_grows [OF h(1), where g = id]) (use h(2) in \<open>simp_all add: rules_targets_def\<close>)
qed

lemma egress_http_config_grows:
  assumes "egress_http_config ord sfx spec gateway cfg (tm, deps) = Some (tm', deps')"
  shows "grows (match_targets tm) deps (match_targets tm') deps'"
proof -
  let ?ref = "\<lparr>pref_RuleName = ehc_Name cfg, pref_Service = ''''\<rparr>"
  let ?tm = "fold (\<lambda>hostname tm. outbound_addHTTPHostPort2Service hostname ?ref sfx tm) (ehc_Hostnames cfg) tm"
  from assms obtain h where new: "outbound_newHTTPServiceRouteRules ?ref tm = Some h"
    by (auto simp: egress_http_config_def Let_def)
  obtain h' deps1 where run: "fold (\<lambda>rule. outbound_route ord (err_Route rule)) (ehc_RoutingRules cfg)
      (h\<lparr>pos_EgressForwardGateway := gateway\<rparr>, deps) = (h', deps1)"
    by (metis surj_pair)
  with assms new have tm': "tm' = put_outbound_route_rules (ehc_Name cfg) h' (fold (\<lambda>ipRange. addDestinationIPRange ipRange spec)
      (concat (map err_AllowedDestinationIPRanges (ehc_RoutingRules cfg))) ?tm)" "deps' = deps1"
    by (auto simp: egress_http_config_def Let_def)
  show ?thesis
    unfolding tm' by (rule http_config_grows [OF new _ run]) (simp_all add: rules_targets_def)
qed

lemma fold_opt_grows:
  assumes "fold_opt f xs (s, deps) = Some (s', deps')"
    "\<And>x s deps s' deps'. f x (s, deps) = Some (s', deps') \<Longrightarrow> grows (T s) deps (T s') deps'"
  shows "grows (T s) deps (T s') deps'"
  using assms(1)
proof (induction xs arbitrary: s deps)
  case (Cons x xs)
  then obtain s1 deps1 where 1: "f x (s, deps) = Some (s1, deps1)" "fold_opt f xs (s1, deps1) = Some (s', deps')"
    by (auto split: option.splits)
  from assms(2) [OF 1(1)] Cons.IH [OF 1(2)] show ?case by (rule grows_trans)
qed (simp add: grows_refl)

lemma tcp_clusters_grow:
  assumes "tcp_clusters r cs (t, deps) = (t', deps')"
  shows "grows (dom (pot_TargetClusters t)) deps (dom (pot_TargetClusters t')) deps'"
proof -
  have "dom (pot_TargetClusters (fold (\<lambda>c. outbound_tcp_addWeightedCluster (wc_ClusterName c) (f c)) cs t)) =
      dom (pot_TargetClusters t) \<union> wc_ClusterName ` set cs" for f t
    by (induction cs arbitrary: t) (auto simp: outbound_tcp_addWeightedCluster_def)
  moreover have "t' = fold (\<lambda>c. outbound_tcp_addWeightedCluster (wc_ClusterName c) (word_of_int (wc_Weight c))) cs t"
    "deps' = fold (depend_cluster r) cs deps"
    using assms by (simp_all add: tcp_clusters_def)
  ultimately show ?thesis by (simp only:) (rule depend_clusters_grow, simp)
qed

lemma tcp_routes_grow:
  "fold (\<lambda>route. tcp_clusters (f route) (g route)) routes (t, deps) = (t', deps') \<Longrightarrow>
     grows (dom (pot_TargetClusters t)) deps (dom (pot_TargetClusters t')) deps'"
proof (induction routes arbitrary: t deps)
  case (Cons x xs)
  obtain t1 deps1 where 1: "tcp_clusters (f x) (g x) (t, deps) = (t1, deps1)" by (cases "tcp_clusters (f x) (g x) (t, deps)")
  with Cons.prems have "grows (dom (pot_TargetClusters t1)) deps1 (dom (pot_TargetClusters t')) deps'"
    by (intro Cons.IH) simp
  with tcp_clusters_grow [OF 1] show ?case by (rule grows_trans)
qed (simp add: grows_refl)

lemma newTCPServiceRouteRules_targets: "dom (pot_TargetClusters (outbound_newTCPServiceRouteRules tm)) \<subseteq> match_targets tm"
  by (auto simp: outbound_newTCPServiceRouteRules_def match_targets_def split: option.splits)

lemma tcp_match_grows:
  assumes "grows (dom (pot_TargetClusters ((outbound_newTCPServiceRouteRules tm)\<lparr>pot_Plugins := plugins\<rparr>))) deps
    (dom (pot_TargetClusters t')) deps'"
  shows "grows (match_targets tm) deps (match_targets (tm\<lparr>pom_TCPServiceRouteRules := Some t'\<rparr>)) deps'"
proof -
  have "match_targets (tm\<lparr>pom_TCPServiceRouteRules := Some t'\<rparr>) \<subseteq> match_targets tm \<union> dom (pot_TargetClusters t')"
    unfolding match_targets_def by (simp add: le_supI1)
  with assms newTCPServiceRouteRules_targets [of tm] show ?thesis unfolding grows_def by simp blast
qed

lemma outbound_match_body_grows:
  assumes "outbound_match_body ord conf pol sfx trafficMatch (tm, deps) = Some (tm', deps')"
  shows "grows (match_targets tm) deps (match_targets tm') deps'"
proof -
  let ?p = "ToLower (tm_DestinationProtocol trafficMatch)" and ?plugins = "getTrafficMatchPluginConfigs conf (tm_Name trafficMatch)"
  let ?configs = "\<lambda>svc. getOutboundHTTPRouteConfigs ord (omp_HTTPRouteConfigsPerPort pol)
      (int (unat (ms_TargetPort svc))) (PolicyName svc True) (tm_WeightedClusters trafficMatch)"
  let ?new = "\<lambda>plugins. (outbound_newTCPServiceRouteRules tm)\<lparr>pot_Plugins := plugins\<rparr>"
  have tcp_case: "grows (match_targets tm) deps (match_targets tm') deps'"
    if "\<exists>plugins. ?plugins = Some plugins \<and>
        (case F plugins of (tsrr, d) \<Rightarrow> (tm\<lparr>pom_TCPServiceRouteRules := Some tsrr\<rparr>, d)) = (tm', deps')"
      and grow: "\<And>plugins t d. F plugins = (t, d) \<Longrightarrow> grows (dom (pot_TargetClusters (?new plugins))) deps (dom (pot_TargetClusters t)) d"
    for F
  proof -
    from that(1) obtain plugins where
      "(case F plugins of (tsrr, d) \<Rightarrow> (tm\<lparr>pom_TCPServiceRouteRules := Some tsrr\<rparr>, d)) = (tm', deps')"
      by blast
    moreover obtain t d where F: "F plugins = (t, d)" by (metis surj_pair)
    ultimately show ?thesis using tcp_match_grows [OF grow [OF F]] by simp
  qed
  show ?thesis
  proof (cases "?p = ProtocolHTTP \<or> ?p = ProtocolGRPC")
    case True
    with assms obtain cfgs where
      "fold_opt (outbound_http_config ord conf (tm_Name trafficMatch) sfx) cfgs (tm, deps) = Some (tm', deps')"
      by (simp add: outbound_match_body_def Let_def split: option.splits)
    then show ?thesis by (rule fold_opt_grows) (rule outbound_http_config_grows)
  next
    case http: False
    show ?thesis
    proof (cases "?p = ProtocolTCP \<or> ?p = ProtocolTCPServerFirst")
      case True
      with assms http show ?thesis
        unfolding outbound_match_body_def Let_def by simp (erule tcp_case, erule tcp_clusters_grow)
    next
      case tcp: False
      show ?thesis
      proof (cases "?p = ProtocolHTTPS")
        case True
        with assms http tcp obtain svc where "trafficMatchToMeshSvc trafficMatch = Some svc"
          by (auto simp: outbound_match_body_def Let_def split: option.splits)
        with assms True http tcp show ?thesis
          unfolding outbound_match_body_def Let_def
          by (simp add: grows_refl split: if_splits) (erule tcp_case, erule tcp_routes_grow)
      next
        case False
        with assms http tcp show ?thesis by (simp add: outbound_match_body_def Let_def grows_refl)
      qed
    qed
  qed
qed

lemma outbound_match_start_targets:
  assumes "outbound_match_start port name protocol otp = (otp', tm)"
  shows "policy_targets otp' = policy_targets otp" "match_targets tm \<subseteq> policy_targets otp"
proof -
  have new: "match_targets new_OutboundTrafficMatch = {}" "match_targets (outbound_setPort p (outbound_setProtocol q t)) = match_targets t"
    for p q t
    by (auto simp: match_targets_def new_OutboundTrafficMatch_def outbound_setPort_def outbound_setProtocol_def)
  let ?key = "namedPort (u16 port) name"
  have "policy_targets otp' = policy_targets otp \<and> match_targets tm \<subseteq> policy_targets otp"
  proof (cases "pop_namedTrafficMatches otp ?key")
    case None
    then have "ran ((pop_namedTrafficMatches otp)(?key \<mapsto> new_OutboundTrafficMatch)) =
        insert new_OutboundTrafficMatch (ran (pop_namedTrafficMatches otp))" by (rule ran_map_upd)
    with assms None show ?thesis
      by (auto simp: outbound_match_start_def outbound_newTrafficMatch_def named_match_def policy_targets_def new Let_def)
  next
    case (Some t)
    then have "t \<in> ran (pop_namedTrafficMatches otp)" by (rule ranI)
    with assms Some show ?thesis
      by (auto simp: outbound_match_start_def outbound_newTrafficMatch_def named_match_def policy_targets_def Let_def)
  qed
  then show "policy_targets otp' = policy_targets otp" "match_targets tm \<subseteq> policy_targets otp" by blast+
qed

lemma put_named_match_targets: "policy_targets (put_named_match key tm otp) \<subseteq> policy_targets otp \<union> match_targets tm"
  by (auto simp: policy_targets_def put_named_match_def ran_def split: if_splits)

lemma outbound_match_step_grows:
  assumes "outbound_match_step ord conf pol sfx wildcard trafficMatch (otp, deps) = Some (otp', deps')"
  shows "grows (policy_targets otp) deps (policy_targets otp') deps'"
proof -
  let ?protocol = "ToLower (tm_DestinationProtocol trafficMatch)"
  let ?name = "if ?protocol = ProtocolHTTP \<or> ?protocol = ProtocolGRPC then ProtocolHTTP else tm_Name trafficMatch"
  obtain otp1 tm where start: "outbound_match_start (tm_DestinationPort trafficMatch) ?name ?protocol otp = (otp1, tm)"
    by (metis surj_pair)
  let ?tm = "generatePipyOutboundDestinationIPRanges trafficMatch wildcard tm"
  from assms start obtain tm' where body: "outbound_match_body ord conf pol sfx trafficMatch (?tm, deps) = Some (tm', deps')"
      "otp' = put_named_match (namedPort (u16 (tm_DestinationPort trafficMatch)) ?name) tm' otp1"
    by (auto simp: outbound_match_step_def Let_def)
  have "match_targets ?tm = match_targets tm" by (simp add: generatePipyOutboundDestinationIPRanges_def)
  with outbound_match_body_grows [OF body(1)] outbound_match_start_targets [OF start]
    put_named_match_targets [of "namedPort (u16 (tm_DestinationPort trafficMatch)) ?name" tm' otp1]
  show ?thesis unfolding body(2) grows_def by blast
qed

lemma outbound_match_start_hosts:
  "outbound_match_start port name protocol otp = (otp', tm) \<Longrightarrow> cluster_hosts otp' = cluster_hosts otp"
  by (auto simp: outbound_match_start_def outbound_newTrafficMatch_def cluster_hosts_def Let_def fun_eq_iff
      split: option.splits prod.splits)

lemma outbound_match_step_hosts:
  "outbound_match_step ord conf pol sfx wildcard trafficMatch (otp, deps) = Some (otp', deps') \<Longrightarrow>
     cluster_hosts otp' = cluster_hosts otp"
  using outbound_match_start_hosts
  by (fastforce simp: outbound_match_step_def Let_def put_named_match_def cluster_hosts_def fun_eq_iff split: prod.splits)

text \<open>Every cluster a route of a fresh outbound configuration leads to is a dependency, and no cluster is
  configured yet.\<close>

lemma outbound_route_policy:
  assumes "generatePipyOutboundTrafficRoutePolicy ord conf cfg rc pol sfx = Some (conf', deps)" "pc_Outbound conf = None"
    "omp_TrafficMatches pol \<noteq> []"
  obtains otp where "pc_Outbound conf' = Some otp" "policy_targets otp \<subseteq> dom deps" "finite (dom deps)" "dep_named deps"
    "\<forall>name. cluster_hosts otp name = {}"
proof -
  let ?step = "outbound_match_step ord conf pol sfx (generatePipyWildcardIPRanges cfg rc)"
  from assms obtain otp where run: "fold_opt ?step (omp_TrafficMatches pol) (new_OutboundTrafficPolicy, Map.empty) = Some (otp, deps)"
      "conf' = conf\<lparr>pc_Outbound := Some otp\<rparr>"
    by (auto simp: generatePipyOutboundTrafficRoutePolicy_def newOutboundTrafficPolicy_def)
  have "grows (policy_targets new_OutboundTrafficPolicy) Map.empty (policy_targets otp) deps"
    by (rule fold_opt_grows [OF run(1)]) (rule outbound_match_step_grows)
  then have "policy_targets otp \<subseteq> dom deps" "finite (dom deps)" "dep_named deps"
    by (auto simp: grows_def policy_targets_def new_OutboundTrafficPolicy_def dep_named_def)
  moreover have "cluster_hosts otp name = {}" for name
  proof -
    have "fold_opt ?step ms (o1, d) = Some (o2, d') \<Longrightarrow> cluster_hosts o2 = cluster_hosts o1" for ms o1 d o2 d'
    proof (induction ms arbitrary: o1 d)
      case (Cons m ms)
      then obtain o3 d3 where "?step m (o1, d) = Some (o3, d3)" "fold_opt ?step ms (o3, d3) = Some (o2, d')"
        by (auto split: option.splits)
      with Cons.IH outbound_match_step_hosts show ?case by metis
    qed simp
    from this [OF run(1)] show ?thesis by (simp add: cluster_hosts_def new_OutboundTrafficPolicy_def)
  qed
  ultimately show ?thesis using run(2) that by simp
qed

section \<open>Generation succeeds\<close>

definition well_named :: "OutboundMeshTrafficPolicy \<Rightarrow> bool" where
  "well_named pol \<longleftrightarrow> (\<forall>t\<in>set (omp_TrafficMatches pol). trafficMatchToMeshSvc t \<noteq> None) \<and>
     (\<forall>port ps. omp_HTTPRouteConfigsPerPort pol port = Some ps \<longrightarrow> (\<forall>p\<in>set ps. otp_Name p \<noteq> ''''))"

definition complete_retry :: "DependCluster \<Rightarrow> bool" where
  "complete_retry d \<longleftrightarrow> (case dc_RetryPolicy d of
     None \<Rightarrow> True | Some r \<Rightarrow> rp_PerTryTimeout r \<noteq> None \<and> rp_RetryBackoffBaseInterval r \<noteq> None)"

lemma fold_opt_not_None:
  assumes "\<And>x s. x \<in> set xs \<Longrightarrow> f x s \<noteq> None"
  shows "fold_opt f xs s \<noteq> None"
  using fold_opt_total [where J = "\<lambda>_. True" and f = f and xs = xs and s = s] assms by auto

lemma plugin_configs_exist:
  assumes "trafficMatchToMeshSvc t \<noteq> None"
  shows "getTrafficMatchPluginConfigs conf (tm_Name t) \<noteq> None"
proof -
  from assms have "length (Split CHR ''_'' (tm_Name t)) = 5"
    by (auto simp: trafficMatchToMeshSvc_def Let_def split: if_splits)
  then show ?thesis by (simp add: getTrafficMatchPluginConfigs_def Let_def)
qed

lemma outbound_http_config_total:
  "otp_Name cfg \<noteq> '''' \<Longrightarrow> getTrafficMatchPluginConfigs conf matchName \<noteq> None \<Longrightarrow>
     outbound_http_config ord conf matchName sfx cfg s \<noteq> None"
  by (cases s) (auto simp: outbound_http_config_def outbound_newHTTPServiceRouteRules_def Let_def split: prod.split)

lemma configs_named:
  "well_named pol \<Longrightarrow> p \<in> set (getOutboundHTTPRouteConfigs ord (omp_HTTPRouteConfigsPerPort pol) port name wcs) \<Longrightarrow> otp_Name p \<noteq> ''''"
  unfolding getOutboundHTTPRouteConfigs_def well_named_def by (auto split: option.splits) (metis list.distinct(1))

lemma outbound_match_body_total:
  assumes "well_named pol" "t \<in> set (omp_TrafficMatches pol)"
  shows "outbound_match_body ord conf pol sfx t s \<noteq> None"
proof -
  obtain svc where svc: "trafficMatchToMeshSvc t = Some svc" using assms by (auto simp: well_named_def)
  then obtain plugins where plugins: "getTrafficMatchPluginConfigs conf (tm_Name t) = Some plugins"
    using plugin_configs_exist by blast
  have "fold_opt (outbound_http_config ord conf (tm_Name t) sfx) (getOutboundHTTPRouteConfigs ord (omp_HTTPRouteConfigsPerPort pol)
      (int (unat (ms_TargetPort svc))) (PolicyName svc True) (tm_WeightedClusters t)) s \<noteq> None"
    by (rule fold_opt_not_None) (use configs_named [OF assms(1)] outbound_http_config_total plugins in blast)
  with svc plugins show ?thesis by (cases s) (simp add: outbound_match_body_def Let_def del: not_None_eq)
qed

lemma outbound_routes_total:
  assumes "well_named pol"
  shows "generatePipyOutboundTrafficRoutePolicy ord conf cfg rc pol sfx \<noteq> None"
proof -
  have "outbound_match_step ord conf pol sfx w t s \<noteq> None" if "t \<in> set (omp_TrafficMatches pol)" for w t s
    using outbound_match_body_total [OF assms that]
    by (cases s) (simp add: outbound_match_step_def Let_def del: not_None_eq split: prod.split)
  then have "fold_opt (outbound_match_step ord conf pol sfx (generatePipyWildcardIPRanges cfg rc)) (omp_TrafficMatches pol)
      (newOutboundTrafficPolicy conf, Map.empty) \<noteq> None"
    by (intro fold_opt_not_None)
  then show ?thesis by (simp add: generatePipyOutboundTrafficRoutePolicy_def del: not_None_eq)
qed

lemma balance_total:
  assumes "\<And>svc. ListAllowedUpstreamEndpointsForService mc (ppx_Identity proxy) svc \<noteq> None"
    and "\<And>n d. deps n = Some d \<Longrightarrow> complete_retry d"
  shows "generatePipyOutboundTrafficBalancePolicy ord mc rc proxy conf pol deps \<noteq> None"
proof -
  have eps: "getUpstreamEndpoints mc (ppx_Identity proxy) c \<noteq> None" for c
    using assms(1) by (simp add: getUpstreamEndpoints_def split: option.split)
  have retry: "setRetryPolicy (dc_RetryPolicy d) c \<noteq> None" if "complete_retry d" for d c
    using that by (auto simp: setRetryPolicy_def complete_retry_def split: option.splits)
  have "balance_config mc rc proxy d cc s \<noteq> None" if "complete_retry d" for d cc s
    using eps [of "ClusterName (mcc_Service cc)"] retry [OF that]
    by (cases s) (auto simp: balance_config_def Let_def simp del: not_None_eq split: option.splits)
  then have "fold_opt (balance_config mc rc proxy d) ccs s \<noteq> None" if "complete_retry d" for d ccs s
    using that by (intro fold_opt_not_None)
  then have "balance_cluster mc rc proxy pol deps n s \<noteq> None" for n s
    using assms(2) [of n] by (cases s) (auto simp: balance_cluster_def Let_def simp del: not_None_eq split: option.split)
  then have "fold_opt (balance_cluster mc rc proxy pol deps) ns s \<noteq> None" for ns s by (intro fold_opt_not_None)
  then show ?thesis by (simp add: generatePipyOutboundTrafficBalancePolicy_def del: not_None_eq)
qed

section \<open>Who a client may reach\<close>

definition cluster_plain :: "MeshService \<Rightarrow> bool" where
  "cluster_plain svc \<longleftrightarrow> slash_free (ms_Namespace svc) \<and> bar_free (ms_Namespace svc) \<and> ms_Namespace svc \<noteq> '''' \<and>
     slash_free (ms_Name svc) \<and> bar_free (ms_Name svc) \<and> ms_Name svc \<noteq> ''''"

text \<open>The service whose endpoints are looked up for a cluster configuration: namespace, name and target
  port, nothing else.\<close>

definition endpoint_service :: "MeshService \<Rightarrow> MeshService" where
  "endpoint_service svc = (plain_service (ms_Namespace svc) (ms_Name svc))\<lparr>ms_TargetPort := ms_TargetPort svc\<rparr>"

lemma mem_getMeshClusterConfigs:
  "cc \<in> set (getMeshClusterConfigs ccs name) \<longleftrightarrow>
     cc \<in> set ccs \<and> name \<in> {SidecarClusterName (mcc_Service cc), SidecarLocalClusterName (mcc_Service cc)}"
  by (auto simp: getMeshClusterConfigs_def)

lemma upstream_hosts_granted:
  assumes "mc = NewMeshCatalog tp st smi pols mcs cfg multi td certTd" "\<not> cfg_Permissive cfg"
    "ToK8sServiceAccount (ppx_Identity proxy) = Some src" "cluster_plain (mcc_Service cc)"
  shows "host \<in> upstream_hosts mc proxy cc \<longleftrightarrow>
    (\<exists>ep dst own. ep \<in> set (listEndpointsForService mc (endpoint_service (mcc_Service cc))) \<and>
       host = endpoint_key (mcc_Service cc) ep \<and> granted mc src dst \<and>
       listEndpointsForServiceIdentity mc (ToServiceIdentity dst) = Some own \<and>
       IP_String (ep_IP ep) \<in> (\<lambda>e. IP_String (ep_IP e)) ` set own)"
proof -
  have "\<not> dot_free (ppx_Identity proxy)" using assms(3) ToK8sServiceAccount_None_iff [of "ppx_Identity proxy"] by auto
  then obtain eps where eps: "ListAllowedUpstreamEndpointsForService mc (ppx_Identity proxy) (endpoint_service (mcc_Service cc)) = Some eps"
    using wired.allowed_endpoints_total unfolding assms(1) by fast
  have "clusterToMeshSvc (ClusterName (mcc_Service cc)) = Some (endpoint_service (mcc_Service cc))"
    using assms(4) by (simp add: cluster_plain_def clusterToMeshSvc_ClusterName endpoint_service_def)
  with eps have hosts: "upstream_hosts mc proxy cc = endpoint_key (mcc_Service cc) ` set eps"
    by (simp add: upstream_hosts_def getUpstreamEndpoints_def)
  have strict: "\<not> cfg_Permissive (mc_cfg mc)" using assms(1,2) by (simp add: NewMeshCatalog_def)
  show ?thesis unfolding hosts image_iff Bex_def mem_allowed_endpoints [OF strict assms(3) eps] by blast
qed

section \<open>Examples\<close>

text \<open>A policy of the shop's client: the web service on port 80, over TCP.\<close>

definition match1 :: TrafficMatch where
  "match1 = zero_match\<lparr>tm_Name := ''outbound_shop/web_80_tcp_'', tm_DestinationPort := 80, tm_DestinationProtocol := ProtocolTCP,
     tm_WeightedClusters := [\<lparr>wc_ClusterName = ''shop/web|8080'', wc_Weight = 100\<rparr>]\<rparr>"

definition policy1 :: OutboundMeshTrafficPolicy where
  "policy1 = \<lparr>omp_TrafficMatches = [match1], omp_HTTPRouteConfigsPerPort = Map.empty,
     omp_ClustersConfigs = [outbound_cluster cat0 web0], omp_ServicesResolvableSet = Map.empty\<rparr>"

definition repo_config0 :: RepoConfig where
  "repo_config0 = \<lparr>rc_WildcardDNSProxy = False, rc_WildcardIPs = [], rc_ClusterSet = ('''', '''', '''', ''''),
     rc_ViaGateway = \<lparr>cgs_ClusterIP = '''', cgs_ExternalIP = '''', cgs_IngressAddr = '''', cgs_IngressHTTPPort = 0, cgs_IngressGRPCPort = 0,
       cgs_EgressAddr = '''', cgs_EgressHTTPPort = 0, cgs_EgressGRPCPort = 0\<rparr>\<rparr>"

abbreviation "depend1 \<equiv> \<lparr>wc_ClusterName = ''shop/web|8080'', wc_Weight = 100, dc_RetryPolicy = None\<rparr>"

lemma lower_tcp: "ToLower ProtocolTCP = ProtocolTCP" "ProtocolTCP \<noteq> ProtocolHTTP" "ProtocolTCP \<noteq> ProtocolGRPC"
  by (simp_all add: ProtocolTCP_def ProtocolHTTP_def ProtocolGRPC_def ToLower_def lower_char_def)

lemma policy1_named: "well_named policy1" "omp_TrafficMatches policy1 \<noteq> []"
  by (simp_all add: well_named_def policy1_def match1_def trafficMatchToMeshSvc_def NamespacedNameFrom_def zero_match_def)

lemma policy1_plain: "\<forall>cc\<in>set (omp_ClustersConfigs policy1). cluster_plain (mcc_Service cc)"
  by (simp add: policy1_def outbound_cluster_def web0_def plain_service_def cluster_plain_def slash_free_def bar_free_def)

lemma policy1_routes:
  "\<exists>conf1. generatePipyOutboundTrafficRoutePolicy order0 new_PipyConf cfg0 repo_config0 policy1 '''' = Some (conf1, [''shop/web|8080'' \<mapsto> depend1])"
  by (simp add: generatePipyOutboundTrafficRoutePolicy_def policy1_def match1_def zero_match_def outbound_match_step_def
      outbound_match_body_def lower_tcp getTrafficMatchPluginConfigs_def tcp_clusters_def depend_cluster_def
      Let_def split: prod.split)

lemma cat0_endpoints_total: "ListAllowedUpstreamEndpointsForService cat0 ''buyer.shop'' svc \<noteq> None"
  unfolding cat0_def by (rule wired.allowed_endpoints_total) (simp add: dot_free_def)

section \<open>Properties\<close>



text \<open>
  C5.  A client's sidecar knows exactly the hosts its account is granted.  Outside permissive mode a host
  is configured for a cluster if and only if a route depends on the cluster and a cluster
  configuration of that name has an endpoint with that host, no isolated one, whose address belongs
  to a workload of an account that a traffic target in force lets the client's account reach.
\<close>

theorem client_hosts_granted:
  assumes "mc = NewMeshCatalog tp st smi pols mcs cfg multi td certTd" "\<not> cfg_Permissive cfg"
    and "ToK8sServiceAccount (ppx_Identity proxy) = Some src" "fair_order ord"
    and "omp_TrafficMatches pol \<noteq> []" "\<forall>cc\<in>set (omp_ClustersConfigs pol). cluster_plain (mcc_Service cc)"
    and "pc_Outbound conf = None" "generatePipyOutboundTrafficRoutePolicy ord conf cfg' rc pol sfx = Some (conf1, deps)"
    and "generatePipyOutboundTrafficBalancePolicy ord mc rc proxy conf1 pol deps = Some (conf2, ready)"
      "pc_Outbound conf2 = Some otp"
  shows "host \<in> cluster_hosts otp name \<longleftrightarrow> name \<in> dom deps \<and>
    (\<exists>cc\<in>set (omp_ClustersConfigs pol). name \<in> {SidecarClusterName (mcc_Service cc), SidecarLocalClusterName (mcc_Service cc)} \<and>
      (\<exists>ep dst own. ep \<in> set (listEndpointsForService mc (endpoint_service (mcc_Service cc))) \<and>
         \<not> isolated mc (ep_IP ep) \<and> host = endpoint_key (mcc_Service cc) ep \<and> granted mc src dst \<and>
         listEndpointsForServiceIdentity mc (ToServiceIdentity dst) = Some own \<and>
         IP_String (ep_IP ep) \<in> (\<lambda>e. IP_String (ep_IP e)) ` set own))"
proof -
  obtain otp1 where otp1: "pc_Outbound conf1 = Some otp1" "finite (dom deps)" "dep_named deps" "\<forall>name. cluster_hosts otp1 name = {}"
    by (rule outbound_route_policy [OF assms(8,7,5)])
  obtain otp2 where "pc_Outbound conf2 = Some otp2"
      "\<forall>name. cluster_hosts otp2 name = cluster_hosts otp1 name \<union> (if name \<in> dom deps then reachable_hosts mc proxy pol name else {})"
    by (rule balance_policy_hosts [OF assms(9,4) otp1(2,3,1)])
  then have hosts: "cluster_hosts otp name = (if name \<in> dom deps then reachable_hosts mc proxy pol name else {})"
    using assms(10) otp1(4) by simp
  have "host \<in> upstream_hosts mc proxy cc \<longleftrightarrow>
      (\<exists>ep dst own. ep \<in> set (listEndpointsForService mc (endpoint_service (mcc_Service cc))) \<and>
         \<not> isolated mc (ep_IP ep) \<and> host = endpoint_key (mcc_Service cc) ep \<and> granted mc src dst \<and>
         listEndpointsForServiceIdentity mc (ToServiceIdentity dst) = Some own \<and>
         IP_String (ep_IP ep) \<in> (\<lambda>e. IP_String (ep_IP e)) ` set own)" if "cc \<in> set (omp_ClustersConfigs pol)" for cc
    unfolding upstream_hosts_granted [OF assms(1-3) bspec [OF assms(6) that]] mem_listEndpointsForService by blast
  moreover have "host \<in> reachable_hosts mc proxy pol name \<longleftrightarrow> (\<exists>cc\<in>set (omp_ClustersConfigs pol).
      name \<in> {SidecarClusterName (mcc_Service cc), SidecarLocalClusterName (mcc_Service cc)} \<and> host \<in> upstream_hosts mc proxy cc)"
    unfolding reachable_hosts_def UN_iff Bex_def mem_getMeshClusterConfigs by blast
  ultimately show ?thesis unfolding hosts by (cases "name \<in> dom deps") (simp_all cong: bex_cong)
qed

theorem client_hosts_granted_witness:
  "\<exists>conf1 conf2 ready otp. generatePipyOutboundTrafficRoutePolicy order0 new_PipyConf cfg0 repo_config0 policy1 '''' =
       Some (conf1, [''shop/web|8080'' \<mapsto> depend1]) \<and>
     generatePipyOutboundTrafficBalancePolicy order0 cat0 repo_config0 (sidecar0 ''buyer.shop'') conf1 policy1 [''shop/web|8080'' \<mapsto> depend1] =
       Some (conf2, ready) \<and> pc_Outbound conf2 = Some otp \<and>
     (''10.0.0.1:80'' \<in> cluster_hosts otp ''shop/web|8080'' \<longleftrightarrow>
       (\<exists>ep dst own. ep \<in> set (listEndpointsForService cat0 (endpoint_service web0)) \<and> \<not> isolated cat0 (ep_IP ep) \<and>
          ''10.0.0.1:80'' = endpoint_key web0 ep \<and> granted cat0 buyer dst \<and>
          listEndpointsForServiceIdentity cat0 (ToServiceIdentity dst) = Some own \<and>
          IP_String (ep_IP ep) \<in> (\<lambda>e. IP_String (ep_IP e)) ` set own))"
proof -
  have total: "ListAllowedUpstreamEndpointsForService cat0 (ppx_Identity (sidecar0 ''buyer.shop'')) svc \<noteq> None" for svc
    using cat0_endpoints_total by (simp add: sidecar0_def)
  have new: "pc_Outbound new_PipyConf = None" by (simp add: new_PipyConf_def)
  have src: "ToK8sServiceAccount (ppx_Identity (sidecar0 ''buyer.shop'')) = Some buyer"
    by (simp add: sidecar0_def ToK8sServiceAccount_def)
  obtain conf1 where routes: "generatePipyOutboundTrafficRoutePolicy order0 new_PipyConf cfg0 repo_config0 policy1 '''' =
      Some (conf1, [''shop/web|8080'' \<mapsto> depend1])"
    using policy1_routes by blast
  have "generatePipyOutboundTrafficBalancePolicy order0 cat0 repo_config0 (sidecar0 ''buyer.shop'')
      conf1 policy1 [''shop/web|8080'' \<mapsto> depend1] \<noteq> None"
    by (rule balance_total [OF total]) (auto simp: complete_retry_def split: if_splits)
  then obtain conf2 ready otp where balance: "generatePipyOutboundTrafficBalancePolicy order0 cat0 repo_config0 (sidecar0 ''buyer.shop'')
      conf1 policy1 [''shop/web|8080'' \<mapsto> depend1] = Some (conf2, ready)" "pc_Outbound conf2 = Some otp"
    by (auto simp: generatePipyOutboundTrafficBalancePolicy_def)
  have strict: "\<not> cfg_Permissive cfg0" by (simp add: cfg0_def)
  have "digit_char 8 = CHR ''8''" "digit_char 0 = CHR ''0''" by code_simp+
  then have port: "fmt_u16 8080 = ''8080''"
    by (simp add: fmt_u16_def fmt_nat.simps [of 8080] fmt_nat.simps [of 808] fmt_nat.simps [of 80] fmt_nat.simps [of 8])
  have names: "omp_ClustersConfigs policy1 = [outbound_cluster cat0 web0]" "mcc_Service (outbound_cluster cat0 web0) = web0"
      "SidecarClusterName web0 = ''shop/web|8080''"
    by (simp_all add: policy1_def outbound_cluster_def) (simp add: web0_def plain_service_def SidecarClusterName_def port)
  show ?thesis
    using client_hosts_granted [OF cat0_def strict src order0_fair policy1_named(2) policy1_plain new routes balance,
        of "''10.0.0.1:80''" "''shop/web|8080''"] routes balance
    by (intro exI [of _ conf1] exI [of _ conf2] exI [of _ ready] exI [of _ otp]) (simp add: names)
qed

end
