(* ===== verification/PipyBalance.thy ===== *)
theory PipyBalance
  imports PipyOutbound
begin

text \<open>
  The weights of a generated configuration: \<open>rebalancedTargetClusters\<close>, \<open>rebalancedOutboundClusters\<close> and
  \<open>rebalancedForwardClusters\<close> of \<open>pkg/sidecar/v1/providers/pipy/repo/policy.go\<close> with the warm-up of
  fresh endpoints (\<open>TrafficWarmupSpec.Weight\<close>, and the choice of the warm-up policy of a service in
  \<open>pkg/catalog/trafficwarmup.go\<close>).  Weights are computed over the reals.  The parsers
  \<open>time.ParseDuration\<close> and \<open>strconv.ParseFloat\<close> of namespace annotations and the clock readings are
  arguments.
\<close>

section \<open>The warm-up policy of a service\<close>

definition ParseUint32 :: "string \<Rightarrow> uint64 option" where
  "ParseUint32 s = (if s \<noteq> [] \<and> list_all is_digit s \<and> dec_val s < 2 ^ 32 then Some (of_nat (dec_val s)) else None)"

record Parsers =
  ps_ParseDuration :: "string \<Rightarrow> duration option"
  ps_ParseFloat :: "string \<Rightarrow> real option"

text \<open>An absent annotation leaves the field as it is, an annotation that does not parse gives no
  policy.\<close>

definition parsed :: "(string \<Rightarrow> 'a option) \<Rightarrow> 'a option \<Rightarrow> string option \<Rightarrow> 'a option option" where
  "parsed parse absent anno = (case anno of None \<Rightarrow> Some absent | Some s \<Rightarrow> map_option Some (parse s))"

definition ns_warmup_policy :: "Parsers \<Rightarrow> (string \<rightharpoonup> string) \<Rightarrow> TrafficWarmupSpec option" where
  "ns_warmup_policy ps annos =
     (case (parsed (ps_ParseDuration ps) (Some 90000000000) (annos ''flomesh.io/traffic-warmup-duration''),
            parsed ParseUint32 None (annos ''flomesh.io/traffic-warmup-minweight''),
            parsed ParseUint32 None (annos ''flomesh.io/traffic-warmup-maxweight''),
            parsed (ps_ParseFloat ps) None (annos ''flomesh.io/traffic-warmup-aggression'')) of
        (Some (Some d), Some mn, Some mx, Some ag) \<Rightarrow>
          Some \<lparr>tw_Enable = False, tw_Duration = d, tw_MinWeight = mn, tw_MaxWeight = mx, tw_Aggression = ag\<rparr>
      | _ \<Rightarrow> None)"

definition catalog_GetTrafficWarmupPolicy :: "Parsers \<Rightarrow> MeshCatalog \<Rightarrow> MeshService \<Rightarrow> TrafficWarmupSpec option" where
  "catalog_GetTrafficWarmupPolicy ps mc svc =
     (let global = (case cfg_Warmup (mc_cfg mc) of None \<Rightarrow> None | Some w \<Rightarrow> if tw_Enable w then Some w else None);
          namespaced = (case GetNamespace (mc_kube mc) (ms_Namespace svc) of
            None \<Rightarrow> global
          | Some ns \<Rightarrow>
              (case om_Annotations ns ''flomesh.io/traffic-warmup-enable'' of
                 None \<Rightarrow> global
               | Some enableAnno \<Rightarrow>
                   if ToLower enableAnno \<in> {''enabled'', ''yes'', ''true''} then ns_warmup_policy ps (om_Annotations ns) else global))
      in if \<not> cfg_EnableTrafficWarmupPolicy (mc_cfg mc) then None
         else case policy_GetTrafficWarmupPolicy (mc_kube mc) (mc_policy mc) svc of
           None \<Rightarrow> namespaced
         | Some svcWarmupPolicy \<Rightarrow> if tw_Enable svcWarmupPolicy then Some svcWarmupPolicy else namespaced)"

section \<open>The weight of a fresh endpoint\<close>

definition tw_max :: "TrafficWarmupSpec \<Rightarrow> real" where
  "tw_max tw = (case tw_MaxWeight tw of None \<Rightarrow> 100 | Some w \<Rightarrow> real (unat w))"

definition tw_min :: "TrafficWarmupSpec \<Rightarrow> real" where
  "tw_min tw = (case tw_MinWeight tw of None \<Rightarrow> 10 | Some w \<Rightarrow> real (unat w))"

definition tw_aggression :: "TrafficWarmupSpec \<Rightarrow> real" where
  "tw_aggression tw = (case tw_Aggression tw of None \<Rightarrow> 1 | Some a \<Rightarrow> a)"

text \<open>A window, a maximum or an aggression that is not positive leads to the infinities and
  not-a-numbers of the floating point type; they are the value \<open>None\<close>.\<close>

definition warmup_Weight :: "TrafficWarmupSpec \<Rightarrow> int \<Rightarrow> int \<Rightarrow> real option" where
  "warmup_Weight tw startTimestampSeconds currTimestampSeconds =
     (let maxWeight = tw_max tw; minWeight = tw_min tw; aggression = tw_aggression tw;
          slowStartWindowSeconds = Seconds (tw_Duration tw)
      in if currTimestampSeconds \<le> startTimestampSeconds then Some minWeight
         else if slowStartWindowSeconds \<le> 0 \<or> maxWeight \<le> 0 \<or> aggression \<le> 0 then None
         else let timeFactor = of_int (currTimestampSeconds - startTimestampSeconds) / slowStartWindowSeconds;
                  newWeight = maxWeight * max (minWeight / maxWeight) (timeFactor powr (1 / aggression))
              in Some (min newWeight maxWeight))"

section \<open>Target clusters\<close>

text \<open>A route all of whose clusters have weight 0 gives all of them full weight.\<close>

definition balanced_targets :: "(string \<rightharpoonup> Weight) \<Rightarrow> (string \<rightharpoonup> Weight)" where
  "balanced_targets targets =
     (let isAllFailover = (\<forall>w\<in>ran targets. \<not> w > 0) in
      if isAllFailover then map_option (\<lambda>_. word_of_int ClusterWeightAcceptAll) \<circ> targets else targets)"

definition map_route_rules ::
  "(OutboundHTTPRouteRule list \<Rightarrow> OutboundHTTPRouteRule list) \<Rightarrow> OutboundTrafficMatch \<Rightarrow> OutboundTrafficMatch" where
  "map_route_rules f tm = tm\<lparr>pom_HTTPServiceRouteRules :=
     map_option (\<lambda>h. h\<lparr>pos_RouteRules := f (pos_RouteRules h)\<rparr>) \<circ> pom_HTTPServiceRouteRules tm\<rparr>"

text \<open>The loops over \<open>TrafficMatches\<close> visit the matches that are listed under some port.\<close>

definition listed :: "PipyOutboundTrafficPolicy \<Rightarrow> string \<Rightarrow> bool" where
  "listed otp key \<longleftrightarrow> (\<exists>keys\<in>ran (pop_TrafficMatches otp). key \<in> set keys)"

definition map_listed ::
  "(OutboundTrafficMatch \<Rightarrow> OutboundTrafficMatch) \<Rightarrow> PipyOutboundTrafficPolicy \<Rightarrow> PipyOutboundTrafficPolicy" where
  "map_listed f otp = otp\<lparr>pop_namedTrafficMatches :=
     (\<lambda>key. map_option (\<lambda>tm. if listed otp key then f tm else tm) (pop_namedTrafficMatches otp key))\<rparr>"

definition rebalancedTargetClusters :: "PipyConf \<Rightarrow> PipyConf" where
  "rebalancedTargetClusters p = p\<lparr>pc_Outbound := map_option (map_listed (map_route_rules
     (map (\<lambda>r. r\<lparr>prr_TargetClusters := balanced_targets (prr_TargetClusters r)\<rparr>)))) (pc_Outbound p)\<rparr>"

section \<open>Endpoints\<close>

definition has_local_endpoints :: "(string \<rightharpoonup> WeightedZoneEndpoint) \<Rightarrow> bool" where
  "has_local_endpoints eps \<longleftrightarrow> (\<exists>wze\<in>ran eps. length (pze_Cluster wze) = 0)"

definition zone_weight :: "bool \<Rightarrow> WeightedZoneEndpoint \<Rightarrow> Weight" where
  "zone_weight hasLocalEndpoints wze =
     (let full = word_of_int ClusterWeightAcceptAll; own = (if pze_Weight wze = 0 then full else pze_Weight wze) in
      if length (pze_Cluster wze) > 0 then
        if FailOverLbType = pze_LBType wze then
          if hasLocalEndpoints then word_of_int ClusterWeightFailOver else full
        else if ActiveActiveLbType = pze_LBType wze then own else pze_Weight wze
      else own)"

definition pod_uptimes :: "Pod list \<Rightarrow> (string \<rightharpoonup> int)" where
  "pod_uptimes pods =
     fold (\<lambda>pod. fold (\<lambda>podIP m. m(podIP \<mapsto> pod_CreationTimestamp pod)) (pod_PodIPs pod)) pods Map.empty"

text \<open>The maximal weight is an optional pointer that the code dereferences.\<close>

definition warm_endpoint ::
  "TrafficWarmupSpec \<Rightarrow> (string \<rightharpoonup> int) \<Rightarrow> int \<Rightarrow> string \<Rightarrow> WeightedZoneEndpoint \<Rightarrow> bool \<Rightarrow>
   (WeightedZoneEndpoint \<times> bool) option" where
  "warm_endpoint warmupPolicy uptimes now hostport wze warmUpping =
     (case Option.bind (host_of hostport) uptimes of
        None \<Rightarrow> Some (wze, warmUpping)
      | Some startTimestampSeconds \<Rightarrow>
          (case warmup_Weight warmupPolicy startTimestampSeconds now of
             None \<Rightarrow> None
           | Some weight \<Rightarrow>
               (let wze = wze\<lparr>pze_Weight := word_of_int \<lfloor>min weight (real (unat (pze_Weight wze)))\<rfloor>\<rparr> in
                if warmUpping then Some (wze, True)
                else case tw_MaxWeight warmupPolicy of
                  None \<Rightarrow> None
                | Some maxWeight \<Rightarrow> Some (wze, \<lfloor>weight\<rfloor> < int (unat maxWeight)))))"

definition rebalanced_endpoint ::
  "TrafficWarmupSpec option \<Rightarrow> (string \<rightharpoonup> int) \<Rightarrow> (string \<Rightarrow> int) \<Rightarrow> (string \<rightharpoonup> WeightedZoneEndpoint) \<Rightarrow> string \<Rightarrow>
   (string \<rightharpoonup> WeightedZoneEndpoint) \<times> bool \<Rightarrow> ((string \<rightharpoonup> WeightedZoneEndpoint) \<times> bool) option" where
  "rebalanced_endpoint warmupPolicy uptimes now weightedEndpoints hostport = (\<lambda>(eps, warmUpping).
     (case weightedEndpoints hostport of
        None \<Rightarrow> Some (eps, warmUpping)
      | Some wze \<Rightarrow>
          (let wze = wze\<lparr>pze_Weight := zone_weight (has_local_endpoints weightedEndpoints) wze\<rparr> in
           map_option (\<lambda>(wze, warmUpping). (eps(hostport \<mapsto> wze), warmUpping))
             (case warmupPolicy of
                None \<Rightarrow> Some (wze, warmUpping)
              | Some policy \<Rightarrow> warm_endpoint policy uptimes (now hostport) hostport wze warmUpping))))"

definition rebalanced_cluster ::
  "SetOrder \<Rightarrow> (MeshService \<Rightarrow> TrafficWarmupSpec option) \<Rightarrow> (string \<rightharpoonup> int) \<Rightarrow> (string \<Rightarrow> string \<Rightarrow> int) \<Rightarrow>
   (string \<rightharpoonup> ClusterConfig) \<Rightarrow> string \<Rightarrow> (string \<rightharpoonup> ClusterConfig) \<times> bool \<Rightarrow> ((string \<rightharpoonup> ClusterConfig) \<times> bool) option" where
  "rebalanced_cluster ord warmup uptimes now configs clusterName = (\<lambda>(new, warmUpping).
     (case configs clusterName of
        None \<Rightarrow> Some (new, warmUpping)
      | Some c \<Rightarrow>
          (let warmupPolicy = Option.bind (cluster_MeshService clusterName) warmup in
           map_option (\<lambda>(eps, warmUpping). (new(clusterName \<mapsto> c\<lparr>pcc_Endpoints := eps\<rparr>), warmUpping))
             (fold_opt (rebalanced_endpoint warmupPolicy uptimes (now clusterName) (pcc_Endpoints c))
               (so_Keys ord (dom (pcc_Endpoints c))) (pcc_Endpoints c, warmUpping)))))"

definition rebalancedOutboundClusters ::
  "SetOrder \<Rightarrow> Parsers \<Rightarrow> (string \<Rightarrow> string \<Rightarrow> int) \<Rightarrow> MeshCatalog \<Rightarrow> PipyConf \<Rightarrow> (PipyConf \<times> bool) option" where
  "rebalancedOutboundClusters ord ps now mc p =
     (case pc_Outbound p of
        None \<Rightarrow> Some (p, False)
      | Some otp \<Rightarrow>
          map_option (\<lambda>(configs, warmUpping). (p\<lparr>pc_Outbound := Some (otp\<lparr>pop_ClustersConfigs := configs\<rparr>)\<rparr>, warmUpping))
            (fold_opt (rebalanced_cluster ord (catalog_GetTrafficWarmupPolicy ps mc) (pod_uptimes (ListPods (mc_kube mc))) now
                (pop_ClustersConfigs otp))
              (so_Keys ord (dom (pop_ClustersConfigs otp))) (pop_ClustersConfigs otp, False)))"

definition full_weight :: "Weight \<Rightarrow> Weight" where
  "full_weight w = (if w = 0 then word_of_int ClusterWeightAcceptAll else w)"

definition rebalancedForwardClusters :: "PipyConf \<Rightarrow> PipyConf" where
  "rebalancedForwardClusters p = p\<lparr>pc_Forward := map_option (\<lambda>f. f\<lparr>
     pfw_ForwardMatches := map_option (\<lambda>m. map_option full_weight \<circ> m) \<circ> pfw_ForwardMatches f,
     pfw_EgressGateways := map_option (\<lambda>c. c\<lparr>pcc_Endpoints := map_option (\<lambda>wze. wze\<lparr>pze_Weight := full_weight (pze_Weight wze)\<rparr>)
       \<circ> pcc_Endpoints c\<rparr>) \<circ> pfw_EgressGateways f\<rparr>) (pc_Forward p)\<rparr>"

definition balance :: "SetOrder \<Rightarrow> Parsers \<Rightarrow> (string \<Rightarrow> string \<Rightarrow> int) \<Rightarrow> MeshCatalog \<Rightarrow> PipyConf \<Rightarrow> (PipyConf \<times> bool) option" where
  "balance ord ps now mc p =
     map_option (\<lambda>(p, warmUpping). (rebalancedForwardClusters p, warmUpping))
       (rebalancedOutboundClusters ord ps now mc (rebalancedTargetClusters p))"

section \<open>Rebalancing touches weights only\<close>

text \<open>A loop that replaces the values of a map one key at a time, threading a flag.\<close>

lemma fold_opt_each:
  assumes "\<And>k m b. f k (m, b) =
      (case orig k of None \<Rightarrow> Some (m, b) | Some v \<Rightarrow> map_option (\<lambda>(v', b'). (m(k \<mapsto> v'), b')) (g k v b))"
    and "fold_opt f ks (m, b) = Some (m', b')"
  shows "(\<forall>v. k \<in> set ks \<longrightarrow> orig k = Some v \<longrightarrow> (\<exists>v' b1 b2. m' k = Some v' \<and> g k v b1 = Some (v', b2))) \<and>
    (k \<notin> set ks \<or> orig k = None \<longrightarrow> m' k = m k)"
  using assms(2)
proof (induction ks arbitrary: m b)
  case Nil
  then show ?case by simp
next
  case (Cons x ks)
  from Cons.prems obtain m1 b1 where step: "f x (m, b) = Some (m1, b1)" and rest: "fold_opt f ks (m1, b1) = Some (m', b')"
    by (auto split: option.splits)
  note IH = Cons.IH [OF rest]
  show ?case
  proof (cases "orig x")
    case None
    with step assms(1) have "m1 = m" by simp
    with IH None show ?thesis by auto
  next
    case (Some v)
    with step assms(1) [of x m b] obtain v' where v': "m1 = m(x \<mapsto> v')" "g x v b = Some (v', b1)" by auto
    show ?thesis using IH v' Some by (cases "k = x"; cases "k \<in> set ks") auto
  qed
qed

lemma warmup_Weight_Some:
  assumes "0 < Seconds (tw_Duration tw)" "0 < tw_max tw" "0 < tw_aggression tw" "s < c"
  shows "warmup_Weight tw s c =
    Some (min (tw_max tw * max (tw_min tw / tw_max tw) ((of_int (c - s) / Seconds (tw_Duration tw)) powr (1 / tw_aggression tw))) (tw_max tw))"
  using assms by (simp add: warmup_Weight_def Let_def not_le)

lemma unsigned_real_nonneg [simp]: "0 \<le> (unsigned (u :: 'a :: len word) :: real)"
  using of_nat_0_le_iff [of "unat u", where 'a = real] unfolding of_nat_unat .

lemma tw_nonneg [simp]: "0 \<le> tw_min tw" "0 \<le> tw_max tw"
  by (simp_all add: tw_min_def tw_max_def split: option.split)

lemma warmup_Weight_nonneg:
  assumes "warmup_Weight tw s c = Some w"
  shows "0 \<le> w"
proof -
  have "0 \<le> min (tw_max tw * max (tw_min tw / tw_max tw) x) (tw_max tw)" for x
    by (intro min.boundedI mult_nonneg_nonneg max.coboundedI1 divide_nonneg_nonneg) simp_all
  then show ?thesis using assms by (auto simp: warmup_Weight_def Let_def split: if_splits)
qed

lemma word_of_int_le_word:
  assumes "0 \<le> z" "z \<le> uint (u :: 'a :: len word)"
  shows "word_of_int z \<le> u"
proof -
  have "z < 2 ^ LENGTH('a)" by (rule le_less_trans [OF assms(2) uint_bounded])
  with assms show ?thesis by (simp add: word_le_def uint_word_of_int_eq take_bit_int_eq_self)
qed

lemma floor_weight_le:
  assumes "0 \<le> w"
  shows "word_of_int \<lfloor>min w (real (unat u))\<rfloor> \<le> (u :: Weight)"
proof (rule word_of_int_le_word)
  show "0 \<le> \<lfloor>min w (real (unat u))\<rfloor>" using assms by simp
  have "of_int \<lfloor>min w (real (unat u))\<rfloor> \<le> real (unat u)" by (rule order_trans [OF of_int_floor_le]) simp
  then have "of_int \<lfloor>min w (real (unat u))\<rfloor> \<le> (of_int (uint u) :: real)" by simp
  then show "\<lfloor>min w (real (unat u))\<rfloor> \<le> uint u" by (simp only: of_int_le_iff)
qed

lemma warm_endpoint_weight:
  assumes "warm_endpoint policy uptimes now hostport wze b = Some (wze', b')"
  shows "pze_Weight wze' \<le> pze_Weight wze \<and> wze' = wze\<lparr>pze_Weight := pze_Weight wze'\<rparr>"
proof (cases "Option.bind (host_of hostport) uptimes")
  case None
  with assms show ?thesis by (simp add: warm_endpoint_def)
next
  case (Some start)
  with assms obtain w where w: "warmup_Weight policy start now = Some w"
    by (auto simp: warm_endpoint_def split: option.splits)
  with Some assms have "wze' = wze\<lparr>pze_Weight := word_of_int \<lfloor>min w (real (unat (pze_Weight wze)))\<rfloor>\<rparr>"
    by (simp add: warm_endpoint_def Let_def split: option.splits if_splits)
  with floor_weight_le [OF warmup_Weight_nonneg [OF w]] show ?thesis by simp
qed

definition endpoint_rebalanced ::
  "TrafficWarmupSpec option \<Rightarrow> (string \<rightharpoonup> WeightedZoneEndpoint) \<Rightarrow> WeightedZoneEndpoint \<Rightarrow> WeightedZoneEndpoint \<Rightarrow> bool" where
  "endpoint_rebalanced policy eps wze wze' \<longleftrightarrow> wze' = wze\<lparr>pze_Weight := pze_Weight wze'\<rparr> \<and>
     pze_Weight wze' \<le> zone_weight (has_local_endpoints eps) wze \<and>
     (policy = None \<longrightarrow> pze_Weight wze' = zone_weight (has_local_endpoints eps) wze)"

lemma rebalanced_endpoints:
  assumes "fold_opt (rebalanced_endpoint policy uptimes now eps) ks (eps, b) = Some (eps', b')" "dom eps \<subseteq> set ks"
  shows "dom eps' = dom eps" "eps host = Some wze \<Longrightarrow> \<exists>wze'. eps' host = Some wze' \<and> endpoint_rebalanced policy eps wze wze'"
proof -
  let ?g = "\<lambda>hostport wze warm. case policy of
      None \<Rightarrow> Some (wze\<lparr>pze_Weight := zone_weight (has_local_endpoints eps) wze\<rparr>, warm)
    | Some pl \<Rightarrow> warm_endpoint pl uptimes (now hostport) hostport (wze\<lparr>pze_Weight := zone_weight (has_local_endpoints eps) wze\<rparr>) warm"
  have each: "(\<forall>v. k \<in> set ks \<longrightarrow> eps k = Some v \<longrightarrow> (\<exists>v' b1 b2. eps' k = Some v' \<and> ?g k v b1 = Some (v', b2))) \<and>
      (k \<notin> set ks \<or> eps k = None \<longrightarrow> eps' k = eps k)" for k
    by (rule fold_opt_each [OF _ assms(1)]) (simp add: rebalanced_endpoint_def Let_def split: option.split)
  have mapped: "\<exists>v'. eps' k = Some v' \<and> endpoint_rebalanced policy eps v v'" if "eps k = Some v" for k v
  proof -
    from that assms(2) have "k \<in> set ks" by blast
    with each that obtain v' b1 b2 where v': "eps' k = Some v'" "?g k v b1 = Some (v', b2)" by blast
    show ?thesis
    proof (cases policy)
      case None
      with v' show ?thesis by (auto simp: endpoint_rebalanced_def)
    next
      case (Some pl)
      with v'(2) have "warm_endpoint pl uptimes (now k) k (v\<lparr>pze_Weight := zone_weight (has_local_endpoints eps) v\<rparr>) b1 = Some (v', b2)"
        by simp
      from warm_endpoint_weight [OF this] v'(1) Some show ?thesis by (auto simp: endpoint_rebalanced_def)
    qed
  qed
  have "eps' k = None \<longleftrightarrow> eps k = None" for k using each [of k] mapped [of k] by (cases "eps k") auto
  then show "dom eps' = dom eps" by (simp add: dom_def)
  show "eps host = Some wze \<Longrightarrow> \<exists>wze'. eps' host = Some wze' \<and> endpoint_rebalanced policy eps wze wze'" by (rule mapped)
qed

definition cluster_rebalanced :: "TrafficWarmupSpec option \<Rightarrow> ClusterConfig \<Rightarrow> ClusterConfig \<Rightarrow> bool" where
  "cluster_rebalanced policy c c' \<longleftrightarrow> c' = c\<lparr>pcc_Endpoints := pcc_Endpoints c'\<rparr> \<and> dom (pcc_Endpoints c') = dom (pcc_Endpoints c) \<and>
     (\<forall>host wze. pcc_Endpoints c host = Some wze \<longrightarrow>
       (\<exists>wze'. pcc_Endpoints c' host = Some wze' \<and> endpoint_rebalanced policy (pcc_Endpoints c) wze wze'))"

lemma rebalanced_clusters:
  assumes "fold_opt (rebalanced_cluster ord warmup uptimes now cs) ks (cs, b) = Some (cs', b')" "dom cs \<subseteq> set ks" "fair_order ord"
    and "\<And>name c. cs name = Some c \<Longrightarrow> finite (dom (pcc_Endpoints c))" "cs name = Some c"
  shows "\<exists>c'. cs' name = Some c' \<and> cluster_rebalanced (Option.bind (cluster_MeshService name) warmup) c c'"
proof -
  let ?g = "\<lambda>n c warm. map_option (\<lambda>(eps, warm). (c\<lparr>pcc_Endpoints := eps\<rparr>, warm))
      (fold_opt (rebalanced_endpoint (Option.bind (cluster_MeshService n) warmup) uptimes (now n) (pcc_Endpoints c))
               (so_Keys ord (dom (pcc_Endpoints c))) (pcc_Endpoints c, warm))"
  have each: "(\<forall>v. k \<in> set ks \<longrightarrow> cs k = Some v \<longrightarrow> (\<exists>v' b1 b2. cs' k = Some v' \<and> ?g k v b1 = Some (v', b2))) \<and>
      (k \<notin> set ks \<or> cs k = None \<longrightarrow> cs' k = cs k)" for k
    by (rule fold_opt_each [OF _ assms(1)])
      (simp add: rebalanced_cluster_def Let_def option.map_comp comp_def split_def split: option.split)
  from assms(2,5) have "name \<in> set ks" by blast
  with each assms(5) obtain c' b1 b2 where c': "cs' name = Some c'" "?g name c b1 = Some (c', b2)" by blast
  then obtain eps where eps: "fold_opt (rebalanced_endpoint (Option.bind (cluster_MeshService name) warmup) uptimes (now name) (pcc_Endpoints c))
               (so_Keys ord (dom (pcc_Endpoints c))) (pcc_Endpoints c, b1) = Some (eps, b2)" "c' = c\<lparr>pcc_Endpoints := eps\<rparr>"
    by auto
  have keys: "dom (pcc_Endpoints c) \<subseteq> set (so_Keys ord (dom (pcc_Endpoints c)))"
    using assms(3) assms(4) [OF assms(5)] by (simp add: fair_order_def lists_elementsD)
  from rebalanced_endpoints [OF eps(1) keys] have "cluster_rebalanced (Option.bind (cluster_MeshService name) warmup) c c'"
    by (auto simp: cluster_rebalanced_def eps(2))
  with c'(1) show ?thesis by blast
qed

lemma balanced_targets_dom [simp]: "dom (balanced_targets t) = dom t"
  by (auto simp: balanced_targets_def dom_def)

lemma balanced_targets_reached: "t name = Some w \<Longrightarrow> \<exists>w\<in>ran (balanced_targets t). w > 0"
  by (auto simp: balanced_targets_def ran_def ClusterWeightAcceptAll_def)

lemma unwarmed_endpoints:
  "\<exists>eps'. fold_opt (rebalanced_endpoint None uptimes now eps) ks (m, b) = Some (eps', b)"
  by (induction ks arbitrary: m) (auto simp: rebalanced_endpoint_def Let_def split: option.split)

lemma balance_unwarmed:
  assumes "\<And>svc. catalog_GetTrafficWarmupPolicy ps mc svc = None"
  shows "\<exists>p'. balance ord ps now mc p = Some (p', False)"
proof -
  have bind: "Option.bind o' (catalog_GetTrafficWarmupPolicy ps mc) = None" for o' using assms by (cases o') simp_all
  have step: "\<exists>m'. rebalanced_cluster ord (catalog_GetTrafficWarmupPolicy ps mc) uptimes now cs k (m, False) = Some (m', False)"
    for uptimes cs k m
    using unwarmed_endpoints [of uptimes "now k"] by (auto simp: rebalanced_cluster_def Let_def bind split: option.split) blast
  have "\<exists>m'. fold_opt (rebalanced_cluster ord (catalog_GetTrafficWarmupPolicy ps mc) uptimes now cs) ks (m, False) = Some (m', False)"
    for uptimes cs ks m
  proof (induction ks arbitrary: m)
    case (Cons k ks)
    obtain m1 where "rebalanced_cluster ord (catalog_GetTrafficWarmupPolicy ps mc) uptimes now cs k (m, False) = Some (m1, False)"
      using step by blast
    with Cons.IH [of m1] show ?case by simp
  qed simp
  then show ?thesis
    by (auto simp: balance_def rebalancedOutboundClusters_def split: option.split) blast
qed

section \<open>Examples\<close>

text \<open>A cluster with an endpoint of its own and a fail-over endpoint of another cluster.\<close>

definition zone2 :: "string \<Rightarrow> WeightedZoneEndpoint" where
  "zone2 cluster = \<lparr>pze_Weight = 50, pze_Cluster = cluster, pze_LBType = FailOverLbType, pze_ContextPath = '''', pze_ViaGateway = ''''\<rparr>"

definition cluster2 :: ClusterConfig where
  "cluster2 = \<lparr>pcc_Endpoints = [''10.0.0.1:80'' \<mapsto> zone2 '''', ''10.1.0.1:80'' \<mapsto> zone2 ''east''], pcc_ConnectionSettings = None,
     pcc_RetryPolicy = None, pcc_SourceCert = None, pcc_Hash = 0\<rparr>"

definition outbound2 :: PipyOutboundTrafficPolicy where
  "outbound2 = \<lparr>pop_namedTrafficMatches = Map.empty, pop_TrafficMatches = Map.empty,
     pop_ClustersConfigs = [''shop/web|8080'' \<mapsto> cluster2]\<rparr>"

lemma cat0_unwarmed: "catalog_GetTrafficWarmupPolicy ps cat0 svc = None"
  by (simp add: catalog_GetTrafficWarmupPolicy_def policy_GetTrafficWarmupPolicy_def cat0_simps pol0_def GetByKey_def GetNamespace_def)

section \<open>Properties\<close>



text \<open>
  C16.  Balancing a configuration leaves no HTTP route without a cluster to send requests to, and it
  changes nothing of a cluster but the weights of its endpoints.  Without a warm-up policy the
  weight of an endpoint is its zone weight, with one it is at most that.  In particular a fail-over
  endpoint of another cluster gets no traffic while the cluster has an endpoint of its own.
\<close>

theorem balance_spreads_traffic:
  assumes "fair_order ord" "balance ord ps now mc p = Some (p', warmUpping)" "pc_Outbound p = Some otp"
    and "finite (dom (pop_ClustersConfigs otp))" "\<forall>c\<in>ran (pop_ClustersConfigs otp). finite (dom (pcc_Endpoints c))"
  shows "\<exists>otp'. pc_Outbound p' = Some otp' \<and>
    (\<forall>key tm rules r. listed otp' key \<and> pop_namedTrafficMatches otp' key = Some tm \<and> rules \<in> ran (pom_HTTPServiceRouteRules tm) \<and>
       r \<in> set (pos_RouteRules rules) \<and> dom (prr_TargetClusters r) \<noteq> {} \<longrightarrow> (\<exists>w\<in>ran (prr_TargetClusters r). w > 0)) \<and>
    (\<forall>name c host wze. pop_ClustersConfigs otp name = Some c \<and> pcc_Endpoints c host = Some wze \<longrightarrow>
       (\<exists>c' wze'. pop_ClustersConfigs otp' name = Some c' \<and> pcc_Endpoints c' host = Some wze' \<and>
          c' = c\<lparr>pcc_Endpoints := pcc_Endpoints c'\<rparr> \<and> wze' = wze\<lparr>pze_Weight := pze_Weight wze'\<rparr> \<and>
          pze_Weight wze' \<le> zone_weight (has_local_endpoints (pcc_Endpoints c)) wze \<and>
          (Option.bind (cluster_MeshService name) (catalog_GetTrafficWarmupPolicy ps mc) = None \<longrightarrow>
            pze_Weight wze' = zone_weight (has_local_endpoints (pcc_Endpoints c)) wze) \<and>
          (pze_Cluster wze \<noteq> '''' \<and> pze_LBType wze = FailOverLbType \<and> has_local_endpoints (pcc_Endpoints c) \<longrightarrow> pze_Weight wze' = 0)))"
proof -
  let ?bal = "map_route_rules (map (\<lambda>r. r\<lparr>prr_TargetClusters := balanced_targets (prr_TargetClusters r)\<rparr>))"
  let ?otp1 = "map_listed ?bal otp" and ?policy = "\<lambda>name. Option.bind (cluster_MeshService name) (catalog_GetTrafficWarmupPolicy ps mc)"
  have listed1: "listed ?otp1 key = listed otp key" for key by (simp add: listed_def map_listed_def)
  from assms(2,3) obtain cs where cs: "fold_opt (rebalanced_cluster ord (catalog_GetTrafficWarmupPolicy ps mc)
        (pod_uptimes (ListPods (mc_kube mc))) now (pop_ClustersConfigs otp)) (so_Keys ord (dom (pop_ClustersConfigs otp)))
        (pop_ClustersConfigs otp, False) = Some (cs, warmUpping)" "pc_Outbound p' = Some (?otp1\<lparr>pop_ClustersConfigs := cs\<rparr>)"
    by (auto simp: balance_def rebalancedOutboundClusters_def rebalancedTargetClusters_def rebalancedForwardClusters_def map_listed_def)
  have reached: "\<exists>w\<in>ran (prr_TargetClusters r). w > 0"
    if "listed otp key" "pop_namedTrafficMatches ?otp1 key = Some tm" "rules \<in> ran (pom_HTTPServiceRouteRules tm)"
      "r \<in> set (pos_RouteRules rules)" "dom (prr_TargetClusters r) \<noteq> {}" for key tm rules r
  proof -
    from that(1,2) obtain tm0 where "tm = ?bal tm0" by (auto simp: map_listed_def)
    with that(3,4) obtain t where "prr_TargetClusters r = balanced_targets t"
      by (auto simp: map_route_rules_def ran_def)
    with that(5) show ?thesis using balanced_targets_reached by (metis balanced_targets_dom domIff ex_in_conv not_None_eq)
  qed
  have keys: "dom (pop_ClustersConfigs otp) \<subseteq> set (so_Keys ord (dom (pop_ClustersConfigs otp)))"
    using assms(1,4) by (simp add: fair_order_def lists_elementsD)
  have clusters: "\<exists>c'. cs name = Some c' \<and> cluster_rebalanced (?policy name) c c'" if "pop_ClustersConfigs otp name = Some c" for name c
    by (rule rebalanced_clusters [OF cs(1) keys assms(1) _ that]) (use assms(5) in \<open>auto intro: ranI\<close>)
  have failover: "zone_weight b wze = 0" if "pze_Cluster wze \<noteq> ''''" "pze_LBType wze = FailOverLbType" "b" for b wze
    using that by (simp add: zone_weight_def ClusterWeightFailOver_def)
  have endpoints: "\<exists>c' wze'. cs name = Some c' \<and> pcc_Endpoints c' host = Some wze' \<and>
          c' = c\<lparr>pcc_Endpoints := pcc_Endpoints c'\<rparr> \<and> wze' = wze\<lparr>pze_Weight := pze_Weight wze'\<rparr> \<and>
          pze_Weight wze' \<le> zone_weight (has_local_endpoints (pcc_Endpoints c)) wze \<and>
          (?policy name = None \<longrightarrow> pze_Weight wze' = zone_weight (has_local_endpoints (pcc_Endpoints c)) wze) \<and>
          (pze_Cluster wze \<noteq> '''' \<and> pze_LBType wze = FailOverLbType \<and> has_local_endpoints (pcc_Endpoints c) \<longrightarrow> pze_Weight wze' = 0)"
    if cluster: "pop_ClustersConfigs otp name = Some c" and endpoint: "pcc_Endpoints c host = Some wze" for name c host wze
  proof -
    from clusters [OF cluster] obtain c' where c': "cs name = Some c'" "cluster_rebalanced (?policy name) c c'" by blast
    with endpoint obtain wze' where wze': "pcc_Endpoints c' host = Some wze'" "endpoint_rebalanced (?policy name) (pcc_Endpoints c) wze wze'"
      unfolding cluster_rebalanced_def by blast
    have "pze_Weight wze' = 0" if "pze_Cluster wze \<noteq> ''''" "pze_LBType wze = FailOverLbType" "has_local_endpoints (pcc_Endpoints c)"
      using wze'(2) failover [OF that] by (simp add: endpoint_rebalanced_def)
    with c' wze' show ?thesis by (intro exI [of _ c'] exI [of _ wze']) (simp add: cluster_rebalanced_def endpoint_rebalanced_def)
  qed
  have "listed (?otp1\<lparr>pop_ClustersConfigs := cs\<rparr>) key = listed otp key" for key by (simp add: listed_def map_listed_def)
  then show ?thesis using cs(2) reached endpoints
    by (intro exI [of _ "?otp1\<lparr>pop_ClustersConfigs := cs\<rparr>"] conjI allI impI) (simp_all, blast+)
qed

theorem balance_spreads_traffic_witness:
  "\<exists>p' otp' c' wze'. balance order0 \<lparr>ps_ParseDuration = (\<lambda>_. None), ps_ParseFloat = (\<lambda>_. None)\<rparr> (\<lambda>_ _. 0) cat0
       (new_PipyConf\<lparr>pc_Outbound := Some outbound2\<rparr>) = Some (p', False) \<and> pc_Outbound p' = Some otp' \<and>
     pop_ClustersConfigs otp' ''shop/web|8080'' = Some c' \<and> pcc_Endpoints c' ''10.1.0.1:80'' = Some wze' \<and> pze_Weight wze' = 0"
proof -
  let ?ps = "\<lparr>ps_ParseDuration = (\<lambda>_. None), ps_ParseFloat = (\<lambda>_. None)\<rparr>" and ?p = "new_PipyConf\<lparr>pc_Outbound := Some outbound2\<rparr>"
  obtain p' where p': "balance order0 ?ps (\<lambda>_ _. 0) cat0 ?p = Some (p', False)"
    using balance_unwarmed [OF cat0_unwarmed, of order0 ?ps "\<lambda>_ _. 0" ?p] by blast
  have outbound: "pc_Outbound ?p = Some outbound2" by simp
  have clusters: "finite (dom (pop_ClustersConfigs outbound2))" "\<forall>c\<in>ran (pop_ClustersConfigs outbound2). finite (dom (pcc_Endpoints c))"
    by (simp_all add: outbound2_def cluster2_def)
  have remote: "pop_ClustersConfigs outbound2 ''shop/web|8080'' = Some cluster2" "pcc_Endpoints cluster2 ''10.1.0.1:80'' = Some (zone2 ''east'')"
      "pze_Cluster (zone2 ''east'') \<noteq> ''''" "pze_LBType (zone2 ''east'') = FailOverLbType"
    by (simp_all add: outbound2_def cluster2_def zone2_def)
  have "has_local_endpoints (pcc_Endpoints cluster2)"
    unfolding has_local_endpoints_def by (rule bexI [of _ "zone2 ''''"]) (simp_all add: cluster2_def zone2_def ran_def)
  with balance_spreads_traffic [OF order0_fair p' outbound clusters] remote p' show ?thesis by blast
qed

end
