(* ===== verification/Spec2Isabelle.thy ===== *)
theory Spec2Isabelle
  imports Validator Broker MeshAccess PipyBalance
begin

text \<open>
  Verification of the control plane of the FSM service mesh (\<open>src/\<close>, written in Go).

  \<^bold>\<open>The program.\<close>  The controller watches Kubernetes objects, SMI resources (traffic targets,
  traffic splits, route groups) and its own policy resources.  A message broker batches change
  events; for every connected sidecar the mesh catalog then computes the traffic policies of the
  workload's identity from the cached objects, the sidecar repo turns them into the configuration
  that the sidecar's script interprets for every request, and a validating webhook rejects malformed
  policy resources.

  \<^bold>\<open>Theories and sources.\<close>
  \<^item> \<open>Prelude\<close>: strings, numerals, duplicate-free appending and conversions of Go.
  \<^item> \<open>Identity\<close> (\<open>pkg/identity\<close>), \<open>Service\<close> (\<open>pkg/service\<close>, \<open>pkg/endpoint\<close>), \<open>Hostnames\<close>
    (\<open>pkg/k8s/util.go\<close>): names and the conversions between them.
  \<^item> \<open>GoNet\<close> (the parts of Go's package \<open>net\<close> in use), \<open>Cidr\<close> (\<open>pkg/utils/cidr\<close>): addresses as byte
    lists, networks, iteration and ordering.
  \<^item> \<open>PolicyTypes\<close>, \<open>TrafficPolicy\<close> (\<open>pkg/apis/policy\<close>, \<open>pkg/trafficpolicy\<close>): resource and policy
    records; merging of rules, routes and policies.
  \<^item> \<open>KubeClient\<close> (\<open>pkg/k8s/client.go\<close>), \<open>Smi\<close> (\<open>pkg/smi\<close>), \<open>PolicyClient\<close> (\<open>pkg/policy\<close>),
    \<open>Multicluster\<close> (\<open>pkg/multicluster\<close>): lookups over the cached objects.  The informer caches are the
    fields of one record per client; the locale \<open>object_cache\<close> states what a cached lookup returns and
    is interpreted for each object kind.
  \<^item> \<open>Providers\<close> (\<open>pkg/providers\<close>): the Kubernetes and the multi-cluster provider; the locale
    \<open>provider_contract\<close> holds the laws the catalog relies on and both providers are interpretations.
  \<^item> \<open>Catalog\<close>, \<open>CatalogInbound\<close>, \<open>CatalogEgress\<close>, \<open>CatalogOutbound\<close>, \<open>CatalogIngress\<close>
    (\<open>pkg/catalog\<close>): the policy computations, one definition per method.
  \<^item> \<open>Validator\<close> (\<open>pkg/validator\<close>): the admission checks and their dispatch.
  \<^item> \<open>Dispatcher\<close>, \<open>Broker\<close> (\<open>pkg/messaging\<close>): the six update dispatchers as step relations over a
    clock with Go's timers, and the classification and processing of events.
  \<^item> \<open>PipyConf\<close> (\<open>types.go\<close>, \<open>ratelimit.go\<close> and the operations of \<open>policy.go\<close> under
    \<open>pkg/sidecar/v1/providers/pipy/repo\<close>): the configuration of a sidecar, one record per Go type.
  \<^item> \<open>PipyInbound\<close>, \<open>PipyOutbound\<close> (\<open>util.go\<close> there): the generators of the inbound, ingress, access
    control and export parts and of the outbound, egress and forward parts.
  \<^item> \<open>PipyBalance\<close> (\<open>rebalanced...\<close> in \<open>policy.go\<close>, \<open>pkg/catalog/trafficwarmup.go\<close>, the method \<open>Weight\<close>
    of \<open>pkg/apis/config\<close>): the weights of routes and endpoints, with warm-up.
  \<^item> \<open>PipyRouting\<close> (\<open>codebase/modules/inbound-http-routing.js\<close>): how the sidecar selects a rule for a
    request.
  \<^item> \<open>MeshAccess\<close>: catalog, generator and script put together for a server's workload.

  \<^bold>\<open>Conventions.\<close>  A pointer is an option; a panic (nil dereference, index out of range) is the
  outer value \<open>None\<close>; an error is the left side of a sum.  Unsigned integers are words of their
  width.  Maps are partial functions; where the iteration order of a Go map can be observed it is an
  argument (\<open>Runtime\<close>), constrained to list the keys once.  Third-party functions (hashing, LRU
  caches, label selectors, annotation decoding, UUID parsing) are arguments collected in records such
  as \<open>ThirdParty\<close>.  The time a dispatcher reads is part of its state.  In the sidecar theories the
  iteration orders of sets and maps are the record \<open>SetOrder\<close>, regular expressions and address masks
  of the script are the arguments \<open>re\<close> and \<open>inMask\<close>, and a \<open>float64\<close> is a real number.

  \<^bold>\<open>What is shown.\<close>  Access control: inbound routes, upstream endpoints, outbound services, ingress,
  access control, export and egress policies admit exactly what the resources in force declare.
  Functional behaviour: every operation on every branch that matters, including errors and panics.
  Merging, weight division, address arithmetic and names: invariants, bounds and round trips.
  Batching: refinement to an abstract batcher, bounded delay and publication of pending events.
  Sidecars: a server's sidecar routes exactly the requests that traffic targets grant (this theory), a
  client's sidecar knows exactly the hosts it may reach, every routed cluster is configured, and
  balancing keeps every route reachable.

  \<^bold>\<open>Loops.\<close>  Loops over slices are folds or structural recursion.  Iteration over the addresses of a
  network is a partial function with a theorem that says for which networks it returns; dispatchers
  run forever and are step relations, with liveness stated over their steps.

  \<^bold>\<open>Not modelled.\<close>  Informer set-up, HTTP servers, logging, metrics and status writing (API calls);
  certificates (external issuers and crypto); the gateway controllers, connectors, ingress controller,
  injector and command line, which are programs of their own over third-party frameworks; the jobs of
  the sidecar repo beyond the balancing step (scheduling, certificates, publication over HTTP), the
  packing of a configuration before publication and the plugin discovery; the load balancers and
  protocol pipelines of the sidecar runtime; generated code and tests.
\<close>

section \<open>From traffic targets to routed requests\<close>





text \<open>
  C3.  A traffic target without sources opens its routes.  It grants nothing to anybody, yet the sidecar
  routes any request one of its routes covers when the request carries an identity that no target
  for the account names: a rule with no allowed service is published without the field, and the
  script files it under the empty identity, which every client falls back to.
\<close>

theorem sourceless_target_opens_route:
  assumes "configured w" "svc \<in> set (wl_services w)" "plain_names svc"
    "ToLower (ms_Protocol svc) = ProtocolHTTP \<or> ms_Protocol svc = ProtocolGRPC"
    and "target_for (wl_mc w) (wl_account w) t" "target_route (wl_mc w) t m" "hm_Path m \<noteq> ''''"
    and "\<And>t' m'. target_for (wl_mc w) (wl_account w) t' \<Longrightarrow> target_route (wl_mc w) t' m' \<Longrightarrow>
      http_match_rule m' = http_match_rule m \<Longrightarrow> tt_Sources t' = []"
    and "\<And>t' s. target_for (wl_mc w) (wl_account w) t' \<Longrightarrow> s \<in> set (tt_Sources t') \<Longrightarrow>
      rq_serviceidentity rq \<noteq> ToServiceIdentity (trafficTargetIdentityToSvcAccount s)"
    and "rule_covers re (http_match_rule m) rq" "rq_host rq \<in> set (service_hosts w svc)"
  shows "\<exists>tm r. pip_TrafficMatches (wl_inbound w) (ms_Port svc) = Some tm \<and>
    makeServiceHandler re (host_rules tm (rq_host rq)) rq = Some r"
proof -
  obtain tm cfg where host: "pip_TrafficMatches (wl_inbound w) (ms_Port svc) = Some tm" "selects_policy w (ms_Port svc) cfg"
      "host_rules tm (rq_host rq) = stored_rules tm (itp_Name cfg)"
    by (rule service_host_rules [OF assms(1-4,11)])
  obtain h r where r: "pim_HTTPServiceRouteRules tm (itp_Name cfg) = Some h" "r \<in> set (pis_RouteRules h)"
      "match_key r = http_match_rule m"
    using selected_route_present [OF assms(1) host(2) assms(5-7)] host(1)
    by (auto simp: inbound_has_route_def has_route_def)
  have rules: "host_rules tm (rq_host rq) = pis_RouteRules h" using r(1) by (simp add: host(3) stored_rules_def)
  have source: "\<exists>t s m. target_for (wl_mc w) (wl_account w) t \<and> s \<in> set (tt_Sources t) \<and>
      si = ToServiceIdentity (trafficTargetIdentityToSvcAccount s) \<and> target_route (wl_mc w) t m \<and>
      match_key r' = http_match_rule m" if "r' \<in> set (pis_RouteRules h)" "si \<in> set (prr_AllowedServices r')" for r' si
  proof -
    have "inbound_grants (wl_inbound w) (ms_Port svc) (itp_Name cfg) (match_key r') si"
      using host(1) r(1) that by (auto simp: inbound_grants_def rules_grant_def rule_allows_def)
    then show ?thesis using workload_grants_justified [OF assms(1)] by metis
  qed
  have "prr_AllowedServices r = []"
  proof (rule ccontr)
    assume "prr_AllowedServices r \<noteq> []"
    then have "hd (prr_AllowedServices r) \<in> set (prr_AllowedServices r)" by simp
    from source [OF r(2) this] assms(8) r(3) show False by (metis empty_iff list.set(1))
  qed
  moreover have "rule_covers re (prr_HTTPMatchRule r) rq"
    using assms(10) unfolding r(3) [symmetric] by (simp add: match_key_def)
  moreover have "rq_serviceidentity rq \<notin> set (prr_AllowedServices r')" if "r' \<in> set (pis_RouteRules h)" for r'
    using source [OF that] assms(9) by metis
  ultimately have "\<exists>r'. makeServiceHandler re (pis_RouteRules h) rq = Some r'"
    by (intro makeServiceHandler_open [OF r(2)]) auto
  with host(1) rules show ?thesis by auto
qed

theorem sourceless_target_opens_route_witness:
  "\<exists>w tm r. configured w \<and> pip_TrafficMatches (wl_inbound w) (ms_Port web0) = Some tm \<and>
    makeServiceHandler (=) (host_rules tm ''web'') (request0 ''thief.elsewhere'') = Some r"
proof -
  let ?t = "target0\<lparr>tt_Sources := []\<rparr>" and ?m = "http_route_match (hd (hrg_Matches api0))"
  obtain itp where conf: "configured ((workload0 [?t])\<lparr>wl_inbound := itp\<rparr>)"
    using configured_exists [OF workload0_prepared] by blast
  let ?w = "(workload0 [?t])\<lparr>wl_inbound := itp\<rparr>"
  have only: "target_for (mesh0 [?t]) seller t \<longleftrightarrow> t = ?t" for t by (simp add: mesh0_target)
  have host: "rq_host (request0 ''thief.elsewhere'') \<in> set (service_hosts ?w web0)"
    using web0_host by (simp add: service_hosts_def request0_sel)
  have "\<exists>tm r. pip_TrafficMatches (wl_inbound ?w) (ms_Port web0) = Some tm \<and>
      makeServiceHandler (=) (host_rules tm (rq_host (request0 ''thief.elsewhere''))) (request0 ''thief.elsewhere'') = Some r"
    by (rule sourceless_target_opens_route [OF conf _ web0_plain _ _ _ _ _ _ _ host, of ?t ?m])
      (simp_all add: only web0_http mesh0_route request0_covered)
  with conf show ?thesis unfolding request0_sel by blast
qed

end
